(* ===== verification/AGID_Prelude.thy ===== *)
theory AGID_Prelude
  imports Main "HOL-Library.AList" "HOL-Library.List_Lexorder" "HOL-Library.Char_ord"
    "HOL-Library.Multiset"
begin

section \<open>Prelude: the JavaScript values, strings and containers the models share\<close>

text \<open>
  The TypeScript sources are modelled over these types.

  \<^item> A JavaScript string is a \<open>string\<close> (a \<open>char list\<close>). The models of \<open>trim\<close>,
    \<open>toUpperCase\<close>, \<open>toLowerCase\<close> and \<open>normalize('NFKC')\<close> are exact on ASCII text, where
    NFKC is the identity; text outside ASCII is not modelled.
  \<^item> An instant is an \<open>int\<close>: the epoch milliseconds that an ISO string denotes (what
    \<open>Date.parse\<close> returns). Where a function receives text that may fail to parse, its
    argument is the result of \<open>Date.parse\<close> as an option.
  \<^item> A plain object used as a dictionary and a JavaScript \<open>Map\<close> are association lists, written
    with \<open>AList.update\<close>, which overwrites in place and appends a new key at the end.
  \<^item> A thrown error is the left side of a sum.
\<close>

named_theorems js_simps \<open>unfolding rules of the JavaScript helpers\<close>

subsection \<open>Errors\<close>

datatype js_error =
    JsError string
  | JsTypeError string

type_synonym 'a result = "js_error + 'a"

definition sbind :: "'e + 'a \<Rightarrow> ('a \<Rightarrow> 'e + 'b) \<Rightarrow> 'e + 'b" where
  "sbind m f = (case m of Inl e \<Rightarrow> Inl e | Inr x \<Rightarrow> f x)"

lemma sbind_simps [simp]:
  "sbind (Inl e) f = Inl e"
  "sbind (Inr x) f = f x"
  by (simp_all add: sbind_def)

lemma sbind_Inr_iff: "sbind m f = Inr y \<longleftrightarrow> (\<exists>x. m = Inr x \<and> f x = Inr y)"
  by (cases m) simp_all

lemma sbind_Inl_iff:
  "sbind m f = Inl e \<longleftrightarrow> m = Inl e \<or> (\<exists>x. m = Inr x \<and> f x = Inl e)"
  by (cases m) simp_all

lemma sbind_split:
  "P (sbind m f) = ((\<forall>e. m = Inl e \<longrightarrow> P (Inl e)) \<and> (\<forall>x. m = Inr x \<longrightarrow> P (f x)))"
  by (cases m) simp_all

lemma sbind_split_asm:
  "P (sbind m f) = (\<not> ((\<exists>e. m = Inl e \<and> \<not> P (Inl e)) \<or> (\<exists>x. m = Inr x \<and> \<not> P (f x))))"
  by (cases m) simp_all

lemmas sbind_splits = sbind_split sbind_split_asm

subsection \<open>Numbers\<close>

text \<open>\<open>Math.max(lo, Math.min(hi, x))\<close>, the clamp idiom of the sources.\<close>

definition clamp :: "int \<Rightarrow> int \<Rightarrow> int \<Rightarrow> int" where
  "clamp lo hi x = max lo (min hi x)"

lemma clamp_bounds: "lo \<le> hi \<Longrightarrow> lo \<le> clamp lo hi x \<and> clamp lo hi x \<le> hi"
  by (simp add: clamp_def)

lemma clamp_ge [simp]: "lo \<le> clamp lo hi x"
  by (simp add: clamp_def)

lemma clamp_le: "lo \<le> hi \<Longrightarrow> clamp lo hi x \<le> hi"
  by (simp add: clamp_def)

lemma clamp_id: "lo \<le> x \<Longrightarrow> x \<le> hi \<Longrightarrow> clamp lo hi x = x"
  by (simp add: clamp_def)

subsection \<open>Characters and strings\<close>

definition char_in_range :: "char \<Rightarrow> char \<Rightarrow> char \<Rightarrow> bool" where
  "char_in_range lo hi c \<longleftrightarrow> of_char lo \<le> (of_char c :: nat) \<and> (of_char c :: nat) \<le> of_char hi"

definition is_digit_char :: "char \<Rightarrow> bool" where
  "is_digit_char c \<longleftrightarrow> char_in_range (CHR ''0'') (CHR ''9'') c"

definition is_upper_char :: "char \<Rightarrow> bool" where
  "is_upper_char c \<longleftrightarrow> char_in_range (CHR ''A'') (CHR ''Z'') c"

definition is_lower_char :: "char \<Rightarrow> bool" where
  "is_lower_char c \<longleftrightarrow> char_in_range (CHR ''a'') (CHR ''z'') c"

text \<open>White space of \<open>String.prototype.trim\<close> and of the class \<open>\s\<close>: tab, line feed,
  vertical tab, form feed, carriage return, space and the no-break space.\<close>

definition js_ws :: "char \<Rightarrow> bool" where
  "js_ws c \<longleftrightarrow> (of_char c :: nat) \<in> {9, 10, 11, 12, 13, 32, 160}"

definition js_trim :: "string \<Rightarrow> string" where
  "js_trim s = rev (dropWhile js_ws (rev (dropWhile js_ws s)))"

definition upper_char :: "char \<Rightarrow> char" where
  "upper_char c = (if is_lower_char c then char_of ((of_char c :: nat) - 32) else c)"

definition lower_char :: "char \<Rightarrow> char" where
  "lower_char c = (if is_upper_char c then char_of ((of_char c :: nat) + 32) else c)"

definition js_upper :: "string \<Rightarrow> string" where
  "js_upper = map upper_char"

definition js_lower :: "string \<Rightarrow> string" where
  "js_lower = map lower_char"

text \<open>\<open>s.replace(/[p]+/g, r)\<close>: every maximal run of characters satisfying \<open>p\<close> becomes \<open>r\<close>.\<close>

fun collapse_runs :: "(char \<Rightarrow> bool) \<Rightarrow> string \<Rightarrow> bool \<Rightarrow> string \<Rightarrow> string" where
  "collapse_runs p r inrun [] = []"
| "collapse_runs p r inrun (c # cs) =
     (if p c then (if inrun then [] else r) @ collapse_runs p r True cs
      else c # collapse_runs p r False cs)"

definition replace_runs :: "(char \<Rightarrow> bool) \<Rightarrow> string \<Rightarrow> string \<Rightarrow> string" where
  "replace_runs p r s = collapse_runs p r False s"

text \<open>\<open>s.slice(-n)\<close>.\<close>

definition js_tail :: "nat \<Rightarrow> string \<Rightarrow> string" where
  "js_tail n s = drop (length s - n) s"

definition js_starts_with :: "string \<Rightarrow> string \<Rightarrow> bool" where
  "js_starts_with p s \<longleftrightarrow> take (length p) s = p"

fun js_includes :: "string \<Rightarrow> string \<Rightarrow> bool" where
  "js_includes p [] = (p = [])"
| "js_includes p (c # cs) = (js_starts_with p (c # cs) \<or> js_includes p cs)"

text \<open>\<open>indexOf\<close> on a string of distinct characters; the miss value -1 is \<open>None\<close>.\<close>

fun index_of :: "'a \<Rightarrow> 'a list \<Rightarrow> nat option" where
  "index_of c [] = None"
| "index_of c (x # xs) = (if c = x then Some 0 else map_option Suc (index_of c xs))"

text \<open>Decimal text of a number, as a template literal prints it.\<close>

fun nat_digits :: "nat \<Rightarrow> nat list" where
  "nat_digits n = (if n < 10 then [n] else nat_digits (n div 10) @ [n mod 10])"

declare nat_digits.simps [simp del]

definition nat_str :: "nat \<Rightarrow> string" where
  "nat_str n = map (\<lambda>d. char_of (48 + d)) (nat_digits n)"

definition int_str :: "int \<Rightarrow> string" where
  "int_str i = (if i < 0 then CHR ''-'' # nat_str (nat (- i)) else nat_str (nat i))"

lemma nat_digits_small: "d \<in> set (nat_digits n) \<Longrightarrow> d < 10"
proof (induction n rule: nat_digits.induct)
  case (1 n)
  show ?case
  proof (cases "n < 10")
    case True
    with "1.prems" show ?thesis by (simp add: nat_digits.simps [of n])
  next
    case False
    with "1.prems" have "d \<in> set (nat_digits (n div 10)) \<or> d = n mod 10"
      by (auto simp: nat_digits.simps [of n])
    with "1.IH" False show ?thesis by auto
  qed
qed

lemma foldl_nat_digits: "foldl (\<lambda>a d. 10 * a + d) 0 (nat_digits n) = n"
proof (induction n rule: nat_digits.induct)
  case (1 n)
  show ?case
  proof (cases "n < 10")
    case True
    then show ?thesis by (simp add: nat_digits.simps [of n])
  next
    case False
    with 1 show ?thesis by (simp add: nat_digits.simps [of n])
  qed
qed

lemma nat_digits_inj: "nat_digits m = nat_digits n \<Longrightarrow> m = n"
  by (metis foldl_nat_digits)

lemma nat_str_inj: "nat_str m = nat_str n \<Longrightarrow> m = n"
proof -
  assume eq: "nat_str m = nat_str n"
  have "inj_on (\<lambda>d. char_of (48 + d :: nat) :: char) {..< 10}"
  proof (rule inj_onI)
    fix x y :: nat
    assume xy: "x \<in> {..< 10}" "y \<in> {..< 10}"
      and "(char_of (48 + x) :: char) = char_of (48 + y)"
    then have "(of_char (char_of (48 + x) :: char) :: nat) = of_char (char_of (48 + y) :: char)"
      by simp
    with xy show "x = y" by simp
  qed
  moreover have "set (nat_digits m) \<union> set (nat_digits n) \<subseteq> {..< 10}"
    using nat_digits_small by auto
  ultimately have "nat_digits m = nat_digits n"
    using eq by (auto simp: nat_str_def intro: map_inj_on inj_on_subset)
  then show "m = n" by (rule nat_digits_inj)
qed

lemma upper_char_idem [simp]: "upper_char (upper_char c) = upper_char c"
  by (cases "is_lower_char c")
    (auto simp: upper_char_def is_lower_char_def char_in_range_def)

lemma js_upper_idem [simp]: "js_upper (js_upper s) = js_upper s"
  by (simp add: js_upper_def)

lemma length_js_upper [simp]: "length (js_upper s) = length s"
  by (simp add: js_upper_def)

lemma dropWhile_idem_last:
  "dropWhile p (rev (dropWhile p (rev (dropWhile p s)))) = rev (dropWhile p (rev (dropWhile p s)))"
proof (cases "dropWhile p s")
  case Nil
  then show ?thesis by (simp only: Nil rev.simps dropWhile.simps)
next
  case (Cons x xs)
  then have "\<not> p x"
    by (metis hd_dropWhile list.sel(1) list.simps(3))
  then have "dropWhile p (rev xs @ [x]) = dropWhile p (rev xs) @ [x]"
    by (induction "rev xs") (auto simp: dropWhile_append)
  then show ?thesis
    by (simp only: Cons rev.simps) (simp add: \<open>\<not> p x\<close>)
qed

lemma js_trim_idem [simp]: "js_trim (js_trim s) = js_trim s"
  by (simp add: js_trim_def dropWhile_idem_last dropWhile_idem)

lemma js_trim_id: "\<forall>c \<in> set s. \<not> js_ws c \<Longrightarrow> js_trim s = s"
proof -
  assume s: "\<forall>c \<in> set s. \<not> js_ws c"
  then have "dropWhile js_ws s = s" by (cases s) simp_all
  moreover from s have "\<forall>c \<in> set (rev s). \<not> js_ws c" by simp
  then have "dropWhile js_ws (rev s) = rev s" by (cases "rev s") simp_all
  ultimately show ?thesis by (simp add: js_trim_def)
qed

lemma js_upper_id: "\<forall>c \<in> set s. \<not> is_lower_char c \<Longrightarrow> js_upper s = s"
  by (simp add: js_upper_def upper_char_def map_idI)

text \<open>A text that starts with something else than white space survives trimming.\<close>

definition starts_text :: "string \<Rightarrow> bool" where
  "starts_text s \<longleftrightarrow> s \<noteq> [] \<and> \<not> js_ws (hd s)"

lemma dropWhile_rev_Cons:
  "\<not> p c \<Longrightarrow> rev (dropWhile p (rev (c # s))) = c # rev (dropWhile p (rev s))"
  by (cases "\<forall>x \<in> set (rev s). p x") (auto simp: dropWhile_append3 dropWhile_append1 dropWhile_append2)

lemma starts_text_trim: "starts_text s \<Longrightarrow> starts_text (js_trim s) \<and> hd (js_trim s) = hd s"
proof -
  assume "starts_text s"
  then obtain c t where s: "s = c # t" "\<not> js_ws c" by (cases s) (auto simp: starts_text_def)
  then have "js_trim s = c # rev (dropWhile js_ws (rev t))"
    using dropWhile_rev_Cons [of js_ws c t] by (simp add: js_trim_def)
  with s show ?thesis by (simp add: starts_text_def)
qed

lemma trim_starts_text: "js_trim s \<noteq> [] \<Longrightarrow> starts_text (js_trim s)"
proof -
  assume ne: "js_trim s \<noteq> []"
  then have "dropWhile js_ws s \<noteq> []" unfolding js_trim_def by (metis dropWhile.simps(1) rev.simps(1))
  then have "starts_text (dropWhile js_ws s)" by (simp add: starts_text_def hd_dropWhile)
  moreover have "js_trim (dropWhile js_ws s) = js_trim s"
    by (simp add: js_trim_def dropWhile_idem)
  ultimately show ?thesis using starts_text_trim by metis
qed

lemma starts_text_runs:
  "starts_text s \<Longrightarrow> (\<And>c. p c \<Longrightarrow> js_ws c) \<Longrightarrow> starts_text (replace_runs p r s)"
  by (cases s) (auto simp: starts_text_def replace_runs_def)

lemma starts_text_take: "starts_text s \<Longrightarrow> 0 < n \<Longrightarrow> starts_text (take n s)"
  by (cases s; cases n) (auto simp: starts_text_def)

lemma js_ws_upper [simp]: "js_ws (upper_char c) = js_ws c"
  by (cases "is_lower_char c")
    (auto simp: upper_char_def is_lower_char_def char_in_range_def js_ws_def)

lemma js_trim_upper: "js_trim (js_upper s) = js_upper (js_trim s)"
  by (simp add: js_trim_def js_upper_def dropWhile_map rev_map o_def)

lemma index_of_Some: "index_of c xs = Some i \<Longrightarrow> i < length xs \<and> xs ! i = c"
  by (induction xs arbitrary: i) (auto split: if_splits)

lemma index_of_None: "index_of c xs = None \<longleftrightarrow> c \<notin> set xs"
  by (induction xs) auto

lemma index_of_nth: "distinct xs \<Longrightarrow> i < length xs \<Longrightarrow> index_of (xs ! i) xs = Some i"
proof (induction xs arbitrary: i)
  case Nil
  then show ?case by simp
next
  case (Cons x xs)
  then show ?case by (cases i) auto
qed

lemma index_of_mem: "c \<in> set xs \<Longrightarrow> \<exists>i < length xs. index_of c xs = Some i \<and> xs ! i = c"
  using index_of_None index_of_Some by (metis not_Some_eq)

subsection \<open>Arrays, sets and dictionaries\<close>

text \<open>\<open>Array.from(new Set(xs))\<close> keeps the first occurrence of each element, in order.\<close>

definition js_uniq :: "'a list \<Rightarrow> 'a list" where
  "js_uniq xs = rev (remdups (rev xs))"

lemma set_js_uniq [simp]: "set (js_uniq xs) = set xs"
  by (simp add: js_uniq_def)

lemma distinct_js_uniq [simp]: "distinct (js_uniq xs)"
  by (simp add: js_uniq_def)

lemma js_uniq_Nil [simp]: "js_uniq [] = []"
  by (simp add: js_uniq_def)

lemma js_uniq_distinct: "distinct xs \<Longrightarrow> js_uniq xs = xs"
  by (simp add: js_uniq_def distinct_remdups_id)

lemmas alist_update_simps [js_simps] = update_conv' dom_update

lemma map_of_update [simp]: "map_of (AList.update k v al) = (map_of al)(k \<mapsto> v)"
  by (simp add: update_conv')

lemma distinct_keys_update [simp]:
  "distinct (map fst al) \<Longrightarrow> distinct (map fst (AList.update k v al))"
  by (rule distinct_update)

lemma set_update_values:
  "x \<in> snd ` set (AList.update k v al) \<Longrightarrow> x = v \<or> x \<in> snd ` set al"
  by (induction al) (auto split: if_splits)

lemma set_update_entries:
  "(a, x) \<in> set (AList.update k v al) \<Longrightarrow> (a = k \<and> x = v) \<or> (a, x) \<in> set al"
  by (induction al) (auto split: if_splits)

lemma update_new: "k \<notin> fst ` set al \<Longrightarrow> AList.update k v al = al @ [(k, v)]"
  by (induction al) auto

lemma foldl_update_map:
  "distinct as \<Longrightarrow> set as \<inter> fst ` set acc = {} \<Longrightarrow>
    foldl (\<lambda>result a. AList.update a (f a) result) acc as = acc @ map (\<lambda>a. (a, f a)) as"
proof (induction as arbitrary: acc)
  case (Cons a as)
  then have "AList.update a (f a) acc = acc @ [(a, f a)]" by (auto intro: update_new)
  with Cons show ?case by auto
qed simp

lemma distinct_keys_sort_key:
  assumes "distinct (map fst al)"
  shows "distinct (map fst (sort_key fst al))"
proof -
  have "mset (map fst (sort_key fst al)) = mset (map fst al)"
    by simp
  then show ?thesis
    using assms mset_eq_imp_distinct_iff by blast
qed

lemma map_of_sort_key:
  "distinct (map fst al) \<Longrightarrow> map_of (sort_key fst al) = map_of al"
  by (simp add: map_of_inject_set distinct_keys_sort_key)

end
