(* ===== verification/Js_Value.thy ===== *)
theory Js_Value
  imports AGID_Prelude
begin

section \<open>Untyped JavaScript values\<close>

text \<open>
  The type \<open>unknown\<close> of the sources: what a payload, a stored record or a request body can be.
  Numbers are the integral finite ones (\<open>JNum\<close>) and the non-finite ones (\<open>JNonFinite\<close>: NaN and
  the infinities); other fractions do not occur in the fields the modelled code reads. An object is
  the list of its own enumerable properties in order, as \<open>Object.entries\<close> gives them.
\<close>

datatype js_value =
    JUndefined
  | JNull
  | JBool bool
  | JNum int
  | JNonFinite
  | JStr string
  | JArr "js_value list"
  | JObj "(string \<times> js_value) list"

definition truthy :: "js_value \<Rightarrow> bool" where
  "truthy v = (case v of JUndefined \<Rightarrow> False | JNull \<Rightarrow> False | JBool b \<Rightarrow> b | JNum n \<Rightarrow> n \<noteq> 0
     | JNonFinite \<Rightarrow> True | JStr s \<Rightarrow> s \<noteq> [] | JArr _ \<Rightarrow> True | JObj _ \<Rightarrow> True)"

text \<open>\<open>v && typeof v === 'object'\<close>: arrays and objects.\<close>

definition is_object :: "js_value \<Rightarrow> bool" where
  "is_object v = (case v of JArr _ \<Rightarrow> True | JObj _ \<Rightarrow> True | _ \<Rightarrow> False)"

text \<open>Property access \<open>v?.k\<close>; a missing property is \<open>undefined\<close>.\<close>

definition get_prop :: "js_value \<Rightarrow> string \<Rightarrow> js_value" where
  "get_prop v k = (case v of
     JObj ps \<Rightarrow> (case map_of ps k of None \<Rightarrow> JUndefined | Some w \<Rightarrow> w)
   | _ \<Rightarrow> JUndefined)"

text \<open>\<open>a ?? b\<close>.\<close>

definition nullish_or :: "js_value \<Rightarrow> js_value \<Rightarrow> js_value" where
  "nullish_or a b = (case a of JUndefined \<Rightarrow> b | JNull \<Rightarrow> b | _ \<Rightarrow> a)"

definition js_opt :: "string option \<Rightarrow> js_value" where
  "js_opt o' = (case o' of None \<Rightarrow> JUndefined | Some s \<Rightarrow> JStr s)"

text \<open>A property that is spread only when the value is there, \<open>...(v ? { k: v } : {})\<close>.\<close>

definition prop_when :: "string \<Rightarrow> string option \<Rightarrow> (string \<times> js_value) list" where
  "prop_when k v = (case v of None \<Rightarrow> [] | Some s \<Rightarrow> [(k, JStr s)])"

text \<open>\<open>v || undefined\<close> of a string: the empty string counts as missing.\<close>

definition truthy_opt :: "string option \<Rightarrow> string option" where
  "truthy_opt o' = (case o' of Some s \<Rightarrow> if s = [] then None else Some s | None \<Rightarrow> None)"

lemma truthy_opt_Some: "truthy_opt x = Some y \<longleftrightarrow> x = Some y \<and> y \<noteq> []"
  by (auto simp: truthy_opt_def split: option.split)

lemma get_prop_JObj: "get_prop (JObj ps) k = (case map_of ps k of None \<Rightarrow> JUndefined | Some w \<Rightarrow> w)"
  by (simp add: get_prop_def)

lemma is_object_simps [simp]:
  "is_object (JObj ps)" "is_object (JArr vs)" "\<not> is_object (JStr s)" "\<not> is_object JNull"
  "\<not> is_object JUndefined" "\<not> is_object (JNum n)" "\<not> is_object (JBool b)" "\<not> is_object JNonFinite"
  by (simp_all add: is_object_def)

subsection \<open>Searching a value for private field names\<close>

text \<open>
  Two source files hold the same recursive search over different key sets; both are instances of
  \<open>find_keys\<close>. A hit is reported by its path and the search does not descend below it.
\<close>

definition normalizeFieldKey :: "string \<Rightarrow> string" where
  "normalizeFieldKey key =
     filter (\<lambda>c. is_lower_char c \<or> is_digit_char c) (js_lower key)"

fun find_keys :: "(string \<Rightarrow> bool) \<Rightarrow> js_value \<Rightarrow> string \<Rightarrow> string list"
  and find_keys_array :: "(string \<Rightarrow> bool) \<Rightarrow> js_value list \<Rightarrow> string \<Rightarrow> nat \<Rightarrow> string list"
  and find_keys_object :: "(string \<Rightarrow> bool) \<Rightarrow> (string \<times> js_value) list \<Rightarrow> string \<Rightarrow> string list" where
  "find_keys P (JArr vs) path = find_keys_array P vs path 0"
| "find_keys P (JObj ps) path = find_keys_object P ps path"
| "find_keys P _ path = []"
| "find_keys_array P [] path i = []"
| "find_keys_array P (v # vs) path i =
     find_keys P v (path @ ''['' @ nat_str i @ '']'') @ find_keys_array P vs path (Suc i)"
| "find_keys_object P [] path = []"
| "find_keys_object P ((k, v) # ps) path =
     (if P (normalizeFieldKey k) then [path @ ''.'' @ k] else find_keys P v (path @ ''.'' @ k))
     @ find_keys_object P ps path"

text \<open>\<open>has_key v k\<close>: some object inside \<open>v\<close>, at any depth, has the property \<open>k\<close>.\<close>

inductive has_key :: "js_value \<Rightarrow> string \<Rightarrow> bool" where
  here: "(k, w) \<in> set ps \<Longrightarrow> has_key (JObj ps) k"
| in_object: "(a, w) \<in> set ps \<Longrightarrow> has_key w k \<Longrightarrow> has_key (JObj ps) k"
| in_array: "w \<in> set vs \<Longrightarrow> has_key w k \<Longrightarrow> has_key (JArr vs) k"

inductive_simps has_key_simps [simp]:
  "has_key (JObj ps) k"
  "has_key (JArr vs) k"
  "has_key (JStr s) k"
  "has_key (JNum n) k"
  "has_key (JBool b) k"
  "has_key JNonFinite k"
  "has_key JNull k"
  "has_key JUndefined k"

lemma find_keys_empty_iff:
  "find_keys P v path = [] \<longleftrightarrow> (\<forall>k. has_key v k \<longrightarrow> \<not> P (normalizeFieldKey k))"
  "find_keys_array P vs path i = []
     \<longleftrightarrow> (\<forall>w \<in> set vs. \<forall>k. has_key w k \<longrightarrow> \<not> P (normalizeFieldKey k))"
  "find_keys_object P ps path = []
     \<longleftrightarrow> (\<forall>(a, w) \<in> set ps. \<not> P (normalizeFieldKey a)
           \<and> (\<forall>k. has_key w k \<longrightarrow> \<not> P (normalizeFieldKey k)))"
  by (induction P v path and P vs path i and P ps path
      rule: find_keys_find_keys_array_find_keys_object.induct) auto

subsection \<open>Object literals, spread and conversion to text\<close>

text \<open>\<open>{ ...ps, ...qs }\<close>: later properties overwrite earlier ones in place.\<close>

definition obj_assign :: "(string \<times> js_value) list \<Rightarrow> (string \<times> js_value) list \<Rightarrow> (string \<times> js_value) list" where
  "obj_assign ps qs = foldl (\<lambda>acc (k, v). AList.update k v acc) ps qs"

definition obj_delete :: "string list \<Rightarrow> (string \<times> js_value) list \<Rightarrow> (string \<times> js_value) list" where
  "obj_delete ks ps = filter (\<lambda>(k, _). k \<notin> set ks) ps"

text \<open>The properties of a value that is an object and not an array; \<open>{}\<close> otherwise.\<close>

definition obj_props :: "js_value \<Rightarrow> (string \<times> js_value) list" where
  "obj_props v = (case v of JObj ps \<Rightarrow> ps | _ \<Rightarrow> [])"

fun string_join :: "string \<Rightarrow> string list \<Rightarrow> string" where
  "string_join sep [] = []"
| "string_join sep [s] = s"
| "string_join sep (s # t # ts) = s @ sep @ string_join sep (t # ts)"

text \<open>\<open>String(v)\<close>.\<close>

fun js_String :: "js_value \<Rightarrow> string"
  and js_String_items :: "js_value list \<Rightarrow> string list" where
  "js_String JUndefined = ''undefined''"
| "js_String JNull = ''null''"
| "js_String (JBool b) = (if b then ''true'' else ''false'')"
| "js_String (JNum n) = int_str n"
| "js_String JNonFinite = ''NaN''"
| "js_String (JStr s) = s"
| "js_String (JArr vs) = string_join '','' (js_String_items vs)"
| "js_String (JObj ps) = ''[object Object]''"
| "js_String_items [] = []"
| "js_String_items (v # vs) =
     (if v = JUndefined \<or> v = JNull then [] else js_String v) # js_String_items vs"

lemma map_of_obj_assign: "map_of (obj_assign ps qs) k = (case map_of (rev qs) k of None \<Rightarrow> map_of ps k | Some v \<Rightarrow> Some v)"
  by (induction qs arbitrary: ps) (auto simp: obj_assign_def map_add_Some_iff map_add_def split: option.splits)

text \<open>Every hit of the search lies below the path it started from.\<close>

lemma find_keys_paths:
  "p \<in> set (find_keys P v path) \<Longrightarrow> \<exists>c r. p = path @ c # r \<and> (c = CHR ''.'' \<or> c = CHR ''['')"
  "p \<in> set (find_keys_array P vs path i) \<Longrightarrow> \<exists>r. p = path @ CHR ''['' # r"
  "p \<in> set (find_keys_object P ps path) \<Longrightarrow> \<exists>r. p = path @ CHR ''.'' # r"
  by (induction P v path and P vs path i and P ps path arbitrary: p and p and p
      rule: find_keys_find_keys_array_find_keys_object.induct) (fastforce split: if_splits)+

end
