(* ===== verification/Agid_Contract.thy ===== *)
theory Agid_Contract
  imports Js_Value
begin

section \<open>The AGID format contract and the public-payload policy\<close>

text \<open>
  \<open>src/src/lib/agidContract.ts\<close> and \<open>src/src/lib/agidSecurity.ts\<close>: the alphabet, lengths and
  limits of an AGID, the normalisation and format test of an identifier, the range test of a packed
  value, and the search of a public payload for private fields.
\<close>

subsection \<open>Constants\<close>

definition AGID_BASE32_ALPHABET :: string where
  "AGID_BASE32_ALPHABET = ''0123456789ABCDEFGHJKMNPQRSTVWXYZ''"

definition AGID_PREFIX_LENGTH :: nat where "AGID_PREFIX_LENGTH = 2"
definition AGID_HASH_LENGTH :: nat where "AGID_HASH_LENGTH = 10"
definition AGID_TOTAL_LENGTH :: nat where "AGID_TOTAL_LENGTH = 12"
definition AGID_FACE_COUNT :: int where "AGID_FACE_COUNT = 6"
definition AGID_FACE_AXIS_BITS :: nat where "AGID_FACE_AXIS_BITS = 21"
definition AGID_PACKED_BITS_USED :: nat where "AGID_PACKED_BITS_USED = 45"

definition AGID_MAX_PACKED_VALUE :: int where
  "AGID_MAX_PACKED_VALUE = push_bit AGID_PACKED_BITS_USED 1 - 1"

lemmas agid_constants =
  AGID_PREFIX_LENGTH_def AGID_HASH_LENGTH_def AGID_TOTAL_LENGTH_def AGID_FACE_COUNT_def
  AGID_FACE_AXIS_BITS_def AGID_PACKED_BITS_USED_def

lemma alphabet_length [simp]: "length AGID_BASE32_ALPHABET = 32"
  by (simp add: AGID_BASE32_ALPHABET_def)

lemma alphabet_distinct [simp]: "distinct AGID_BASE32_ALPHABET"
  by (simp add: AGID_BASE32_ALPHABET_def)

lemma AGID_MAX_PACKED_VALUE_eq: "AGID_MAX_PACKED_VALUE = 35184372088831"
  by (simp add: AGID_MAX_PACKED_VALUE_def AGID_PACKED_BITS_USED_def push_bit_eq_mult)

subsection \<open>Identifiers\<close>

text \<open>The regular expression \<open>^[A-Z0-9]{2}[alphabet]{10}$\<close>.\<close>

definition agid_format_pattern :: "string \<Rightarrow> bool" where
  "agid_format_pattern s \<longleftrightarrow>
     length s = AGID_PREFIX_LENGTH + AGID_HASH_LENGTH
     \<and> list_all (\<lambda>c. is_upper_char c \<or> is_digit_char c) (take AGID_PREFIX_LENGTH s)
     \<and> list_all (\<lambda>c. c \<in> set AGID_BASE32_ALPHABET) (drop AGID_PREFIX_LENGTH s)"

definition normalizeAGIDInput :: "js_value \<Rightarrow> string option" where
  "normalizeAGIDInput value = (case value of
     JStr s \<Rightarrow> (let normalized = js_upper (js_trim s)
                in if length normalized > 0 then Some normalized else None)
   | _ \<Rightarrow> None)"

definition isValidAGIDFormat :: "js_value \<Rightarrow> bool" where
  "isValidAGIDFormat value = (case normalizeAGIDInput value of
     None \<Rightarrow> False | Some normalized \<Rightarrow> agid_format_pattern normalized)"

definition isAgidPackedValueInRange :: "int \<Rightarrow> bool" where
  "isAgidPackedValueInRange packedValue =
     (if packedValue < 0 \<or> packedValue > AGID_MAX_PACKED_VALUE then False
      else let face = drop_bit 42 packedValue in face \<ge> 0 \<and> face < AGID_FACE_COUNT)"

lemma normalizeAGIDInput_idem:
  "normalizeAGIDInput v = Some s \<Longrightarrow> normalizeAGIDInput (JStr s) = Some s"
  by (auto simp: normalizeAGIDInput_def js_trim_upper Let_def split: js_value.splits if_splits)

lemma packed_in_range_iff: "isAgidPackedValueInRange p \<longleftrightarrow> 0 \<le> p \<and> p < 6 * 2 ^ 42"
  by (auto simp: isAgidPackedValueInRange_def AGID_MAX_PACKED_VALUE_eq Let_def drop_bit_eq_div
      AGID_FACE_COUNT_def)

subsection \<open>Private fields in public payloads\<close>

definition PUBLIC_AGID_FORBIDDEN_FIELD_KEYS :: "string list" where
  "PUBLIC_AGID_FORBIDDEN_FIELD_KEYS =
    [''recipient'', ''phone'', ''phonenumber'', ''room'', ''unit'', ''unitnumber'', ''apartment'',
     ''flat'', ''suite'', ''floor'', ''accesscode'', ''buildingaccess'', ''deliveryinstruction'',
     ''deliveryinstructions'', ''privatedeliveryinstruction'', ''privatebody'', ''deliveryoptions'',
     ''intercom'', ''intercomcode'', ''dropoffsetting'', ''dropoffpreference'', ''accesspolicy'',
     ''validity'', ''privateownershipproof'', ''ownerkeyid'', ''devicekeyid'',
     ''opaqueencryptedpayload'', ''encryptedpayload'']"

definition findForbiddenPublicAgidFields :: "js_value \<Rightarrow> string \<Rightarrow> string list" where
  "findForbiddenPublicAgidFields value path =
     find_keys (\<lambda>k. k \<in> set PUBLIC_AGID_FORBIDDEN_FIELD_KEYS) value path"

record public_payload_check =
  ppc_ok :: bool
  ppc_forbiddenFields :: "string list"

definition validatePublicAgidPayload :: "js_value \<Rightarrow> public_payload_check" where
  "validatePublicAgidPayload value =
     (let forbiddenFields = findForbiddenPublicAgidFields value ''record''
      in \<lparr>ppc_ok = (length forbiddenFields = 0), ppc_forbiddenFields = forbiddenFields\<rparr>)"

text \<open>A public payload is accepted exactly when no object inside it, at any depth and inside
  any array, has a property whose normalised name is on the forbidden list.\<close>

theorem public_payload_check_complete:
  "ppc_ok (validatePublicAgidPayload v)
     \<longleftrightarrow> (\<forall>k. normalizeFieldKey k \<in> set PUBLIC_AGID_FORBIDDEN_FIELD_KEYS \<longrightarrow> \<not> has_key v k)"
  by (auto simp: validatePublicAgidPayload_def findForbiddenPublicAgidFields_def
      find_keys_empty_iff Let_def)

lemma public_payload_check_complete_witness:
  "ppc_ok (validatePublicAgidPayload (JObj [(''agid'', JStr ''JP0123456789'')]))
    \<and> \<not> ppc_ok (validatePublicAgidPayload (JArr [JObj [(''Phone_Number'', JNull)]]))"
proof -
  have "normalizeFieldKey ''agid'' \<notin> set PUBLIC_AGID_FORBIDDEN_FIELD_KEYS"
    "normalizeFieldKey ''Phone_Number'' \<in> set PUBLIC_AGID_FORBIDDEN_FIELD_KEYS"
    by code_simp+
  then show ?thesis
    unfolding public_payload_check_complete by auto
qed

end
