(* ===== verification/Codec_Interface.thy ===== *)
theory Codec_Interface
  imports Main
begin

section \<open>Codecs: a pair of mutually inverse maps between two sets\<close>

text \<open>
  The AGID identifier is built in layers (Hilbert index, packed value, Base32 hash); each layer is a
  codec between the values it accepts and the values it produces. The laws are stated once and the
  facts clients need (injectivity, a bijection, the decoding of a composition) are derived from them.
\<close>

locale codec =
  fixes enc :: "'a \<Rightarrow> 'b"
    and dec :: "'b \<Rightarrow> 'a"
    and A :: "'a set"
    and B :: "'b set"
  assumes enc_in: "a \<in> A \<Longrightarrow> enc a \<in> B"
    and dec_in: "b \<in> B \<Longrightarrow> dec b \<in> A"
    and dec_enc: "a \<in> A \<Longrightarrow> dec (enc a) = a"
    and enc_dec: "b \<in> B \<Longrightarrow> enc (dec b) = b"
begin

lemma enc_inj: "inj_on enc A"
  by (rule inj_on_inverseI) (rule dec_enc)

lemma enc_eq_iff: "a \<in> A \<Longrightarrow> a' \<in> A \<Longrightarrow> enc a = enc a' \<longleftrightarrow> a = a'"
  using enc_inj by (auto dest: inj_onD)

lemma enc_image: "enc ` A = B"
  using enc_in enc_dec dec_in by (auto intro!: image_eqI)

lemma enc_bij: "bij_betw enc A B"
  by (simp add: bij_betw_def enc_inj enc_image)

lemma dec_eq_iff: "a \<in> A \<Longrightarrow> b \<in> B \<Longrightarrow> dec b = a \<longleftrightarrow> b = enc a"
  using dec_enc enc_dec by auto

end

text \<open>Two codecs that meet in the middle compose.\<close>

locale codec_compose =
  first: codec enc1 dec1 A B + second: codec enc2 dec2 B C
  for enc1 :: "'a \<Rightarrow> 'b" and dec1 :: "'b \<Rightarrow> 'a" and A :: "'a set" and B :: "'b set"
    and enc2 :: "'b \<Rightarrow> 'c" and dec2 :: "'c \<Rightarrow> 'b" and C :: "'c set"

sublocale codec_compose \<subseteq> composed: codec "\<lambda>a. enc2 (enc1 a)" "\<lambda>c. dec1 (dec2 c)" A C
  by unfold_locales
    (simp_all add: first.enc_in second.enc_in first.dec_in second.dec_in
      first.dec_enc second.dec_enc first.enc_dec second.enc_dec)

text \<open>A codec between finite sets of the same size needs only one of the two round trips.\<close>

lemma codec_by_card:
  assumes fin: "finite B" and card: "card A = card B" and finA: "finite A"
    and enc: "\<And>a. a \<in> A \<Longrightarrow> enc a \<in> B"
    and dec_enc: "\<And>a. a \<in> A \<Longrightarrow> dec (enc a) = a"
  shows "codec enc dec A B"
proof -
  have inj: "inj_on enc A"
    by (rule inj_on_inverseI) (rule dec_enc)
  have img: "enc ` A = B"
    using fin card inj enc by (intro card_subset_eq) (auto simp: card_image)
  show ?thesis
  proof
    fix b assume "b \<in> B"
    then obtain a where a: "a \<in> A" "b = enc a" using img by auto
    then show "dec b \<in> A" and "enc (dec b) = b" by (simp_all add: dec_enc)
  qed (use enc dec_enc in auto)
qed

end
