(* ===== verification/Agid_Hilbert.thy ===== *)
theory Agid_Hilbert
  imports Agid_Contract Codec_Interface
begin

unbundle bit_operations_syntax

section \<open>The Hilbert index of a grid cell\<close>

text \<open>
  \<open>rot\<close>, \<open>encodeHilbert\<close> and \<open>decodeHilbert\<close> of \<open>src/src/lib/agid.ts\<close>. The coordinates are \<open>int\<close>
  because the source rotates with the current square \<open>s\<close> instead of the whole side \<open>n\<close>: a coordinate
  whose higher bits are still set becomes negative, and only its low bits (read with \<open>&\<close>) stay
  meaningful. The optional Rust core of \<open>agidWasm.ts\<close> is an argument.
\<close>

definition AGID_GRID_AXIS_BITS :: nat where "AGID_GRID_AXIS_BITS = 21"

definition AGID_GRID_AXIS_CELLS :: int where
  "AGID_GRID_AXIS_CELLS = 2 ^ AGID_GRID_AXIS_BITS"

record wasm_core =
  agid_encode_hilbert_hi :: "int \<Rightarrow> int \<Rightarrow> int"
  agid_encode_hilbert_lo :: "int \<Rightarrow> int \<Rightarrow> int"
  agid_decode_hilbert_x :: "int \<Rightarrow> int \<Rightarrow> int"
  agid_decode_hilbert_y :: "int \<Rightarrow> int \<Rightarrow> int"

definition combineWasmU32Pair :: "int \<Rightarrow> int \<Rightarrow> int" where
  "combineWasmU32Pair hi lo = push_bit 32 (hi mod 2 ^ 32) OR (lo mod 2 ^ 32)"

fun rot :: "int \<Rightarrow> int \<Rightarrow> int \<Rightarrow> int \<Rightarrow> int \<Rightarrow> int \<times> int" where
  "rot n x y rx ry =
     (if ry = 0 then
        (if rx = 1 then (let x = n - 1 - x; y = n - 1 - y in (y, x)) else (y, x))
      else (x, y))"

function encode_loop :: "int \<Rightarrow> int \<Rightarrow> int \<Rightarrow> int \<Rightarrow> int" where
  "encode_loop s x y d =
     (if s > 0 then
        (let rx = (if x AND s > 0 then 1 else 0);
             ry = (if y AND s > 0 then 1 else 0);
             d = d + s * s * ((3 * rx) XOR ry);
             (x, y) = rot s x y rx ry
         in encode_loop (s div 2) x y d)
      else d)"
  by pat_completeness auto
termination
  by (relation "measure (\<lambda>(s, x, y, d). nat s)") auto

definition encodeHilbert :: "wasm_core option \<Rightarrow> int \<Rightarrow> int \<Rightarrow> int \<Rightarrow> int" where
  "encodeHilbert wasmCore n x y = (case wasmCore of
     Some w \<Rightarrow>
       (if n = AGID_GRID_AXIS_CELLS
        then combineWasmU32Pair (agid_encode_hilbert_hi w x y) (agid_encode_hilbert_lo w x y)
        else encode_loop (n div 2) x y 0)
   | None \<Rightarrow> encode_loop (n div 2) x y 0)"

text \<open>The loop variable \<open>s\<close> starts at 1 and doubles, so the guard \<open>0 < s\<close> is always true.\<close>

function decode_loop :: "int \<Rightarrow> int \<Rightarrow> int \<Rightarrow> int \<Rightarrow> int \<Rightarrow> int \<times> int" where
  "decode_loop n s t x y =
     (if 0 < s \<and> s < n then
        (let rx = 1 AND (t div 2);
             ry = 1 AND (t XOR rx);
             (x, y) = rot s x y rx ry;
             x = x + s * rx;
             y = y + s * ry
         in decode_loop n (s * 2) (t div 4) x y)
      else (x, y))"
  by pat_completeness auto
termination
  by (relation "measure (\<lambda>(n, s, t, x, y). nat (n - s))") auto

definition decodeHilbert :: "wasm_core option \<Rightarrow> int \<Rightarrow> int \<Rightarrow> int \<times> int" where
  "decodeHilbert wasmCore n d = (case wasmCore of
     Some w \<Rightarrow>
       (if n = AGID_GRID_AXIS_CELLS
        then (let hi = drop_bit 32 d AND 0xFFFFFFFF; lo = d AND 0xFFFFFFFF
              in (agid_decode_hilbert_x w hi lo, agid_decode_hilbert_y w hi lo))
        else decode_loop n 1 d 0 0)
   | None \<Rightarrow> decode_loop n 1 d 0 0)"

declare encode_loop.simps [simp del] decode_loop.simps [simp del] rot.simps [simp del]

subsection \<open>The curve by recursion on the number of bits\<close>

definition bit_flag :: "int \<Rightarrow> int \<Rightarrow> int" where
  "bit_flag x s = (if x AND s > 0 then 1 else 0)"

fun hilbert_enc :: "nat \<Rightarrow> int \<Rightarrow> int \<Rightarrow> int" where
  "hilbert_enc 0 x y = 0"
| "hilbert_enc (Suc k) x y =
     (let s = 2 ^ k; rx = bit_flag x s; ry = bit_flag y s
      in s * s * ((3 * rx) XOR ry)
         + hilbert_enc k (fst (rot s x y rx ry)) (snd (rot s x y rx ry)))"

fun hilbert_dec :: "nat \<Rightarrow> int \<Rightarrow> int \<times> int" where
  "hilbert_dec 0 t = (0, 0)"
| "hilbert_dec (Suc k) t =
     (let s = 2 ^ k; q = t div 4 ^ k; rx = 1 AND (q div 2); ry = 1 AND (q XOR rx);
          p = rot s (fst (hilbert_dec k t)) (snd (hilbert_dec k t)) rx ry
      in (fst p + s * rx, snd p + s * ry))"

lemma bit_flag_cases: "bit_flag x s = 0 \<or> bit_flag x s = 1"
  by (simp add: bit_flag_def)

lemma bit_flag_power: "bit_flag x (2 ^ k) = x div 2 ^ k mod 2"
proof -
  have "x AND 2 ^ k = (if bit x k then 2 ^ k else 0)"
    by (rule bit_eqI) (auto simp: bit_simps)
  then show ?thesis
    by (simp add: bit_flag_def bit_iff_odd mod_2_eq_odd)
qed

lemma encode_loop_zero: "encode_loop 0 x y d = d"
  by (subst encode_loop.simps) simp

lemma encode_loop_hilbert: "encode_loop (2 ^ k) x y d = d + hilbert_enc (Suc k) x y"
proof (induction k arbitrary: x y d)
  case 0
  show ?case
    by (subst encode_loop.simps) (simp add: Let_def bit_flag_def split_beta encode_loop_zero)
next
  case (Suc k)
  show ?case
    by (subst encode_loop.simps)
      (simp add: Let_def bit_flag_def split_beta Suc.IH del: hilbert_enc.simps,
       simp add: hilbert_enc.simps(2) [of "Suc k"] Let_def bit_flag_def del: hilbert_enc.simps)
qed

lemma decode_loop_hilbert:
  assumes "j \<le> k"
  shows "decode_loop (2 ^ k) (2 ^ j) (t div 4 ^ j) (fst (hilbert_dec j t)) (snd (hilbert_dec j t))
    = hilbert_dec k t"
  using assms
proof (induction "k - j" arbitrary: j)
  case 0
  then have "j = k" by simp
  then show ?case by (subst decode_loop.simps) simp
next
  case (Suc d)
  then have less: "j < k" and d: "d = k - Suc j" by auto
  have step: "decode_loop (2 ^ k) (2 ^ Suc j) (t div 4 ^ Suc j)
      (fst (hilbert_dec (Suc j) t)) (snd (hilbert_dec (Suc j) t)) = hilbert_dec k t"
    using Suc.hyps(1) [OF d] less by simp
  have quarter: "t div 4 ^ j div 4 = t div 4 ^ Suc j"
    by (simp flip: zdiv_zmult2_eq add: mult.commute)
  have "decode_loop (2 ^ k) (2 ^ j) (t div 4 ^ j) (fst (hilbert_dec j t)) (snd (hilbert_dec j t))
    = decode_loop (2 ^ k) (2 ^ j * 2) (t div 4 ^ j div 4)
        (fst (hilbert_dec (Suc j) t)) (snd (hilbert_dec (Suc j) t))"
    using less by (subst decode_loop.simps) (simp add: Let_def split_beta)
  then show ?case
    unfolding quarter using step by (simp add: mult.commute del: hilbert_dec.simps)
qed


lemma decodeHilbert_hilbert: "decodeHilbert None (2 ^ k) t = hilbert_dec k t"
  using decode_loop_hilbert [of 0 k t] by (simp add: decodeHilbert_def)

lemma encodeHilbert_hilbert: "0 < k \<Longrightarrow> encodeHilbert None (2 ^ k) x y = hilbert_enc k x y"
  by (cases k) (simp_all add: encodeHilbert_def encode_loop_hilbert del: hilbert_enc.simps)

text \<open>The quadrant digit written by the encoder and the two flags the decoder reads back.\<close>

lemma digit_cases:
  assumes "rx = 0 \<or> rx = 1" "ry = 0 \<or> ry = 1"
  shows "0 \<le> (3 * rx) XOR ry" "(3 * rx) XOR ry < (4 :: int)"
    "1 AND (((3 * rx) XOR ry) div 2) = rx" "1 AND (((3 * rx) XOR ry) XOR rx) = ry"
  using assms by auto

lemma hilbert_dec_low_bits: "hilbert_dec k (t + 4 ^ k * m) = hilbert_dec k t"
proof (induction k arbitrary: m)
  case 0
  show ?case by simp
next
  case (Suc k)
  have div: "(t + 4 ^ Suc k * m) div 4 ^ k = t div 4 ^ k + 4 * m"
    by (simp add: div_plus_div_distrib_dvd_right dvd_mult2 mult.assoc mult.left_commute)
  have low: "hilbert_dec k (t + 4 ^ Suc k * m) = hilbert_dec k t"
    using Suc.IH [of "4 * m"] by (simp add: mult.assoc mult.left_commute)
  have rx: "1 AND ((q + 4 * m) div 2) = 1 AND (q div 2)" for q :: int
    by (simp add: one_and_eq) presburger
  have ry: "1 AND ((q + 4 * m) XOR r) = 1 AND (q XOR r)" for q r :: int
    by (simp add: one_and_eq mod_2_eq_odd even_xor_iff)
  show ?case
    by (simp only: hilbert_dec.simps Let_def div low rx ry)
qed

lemma hilbert_enc_range: "0 \<le> hilbert_enc k x y \<and> hilbert_enc k x y < 4 ^ k"
proof (induction k arbitrary: x y)
  case 0
  show ?case by simp
next
  case (Suc k)
  let ?q = "(3 * bit_flag x (2 ^ k)) XOR bit_flag y (2 ^ k)"
  let ?p = "rot (2 ^ k) x y (bit_flag x (2 ^ k)) (bit_flag y (2 ^ k))"
  have q: "0 \<le> ?q" "?q < 4"
    by (rule digit_cases [OF bit_flag_cases bit_flag_cases])+
  have e: "0 \<le> hilbert_enc k (fst ?p) (snd ?p)" "hilbert_enc k (fst ?p) (snd ?p) < 4 ^ k"
    using Suc.IH by auto
  have sq: "(2 :: int) ^ k * 2 ^ k = 4 ^ k"
    using power_mult_distrib [of 2 "2 :: int" k] by simp
  have "4 ^ k * ?q \<le> 4 ^ k * 3" "0 \<le> 4 ^ k * ?q"
    using q by (auto intro: mult_left_mono)
  with e show ?case
    unfolding hilbert_enc.simps(2) Let_def sq power_Suc by linarith
qed

lemma hilbert_enc_Suc:
  fixes x y :: int and k :: nat
  defines "rx \<equiv> bit_flag x (2 ^ k)" and "ry \<equiv> bit_flag y (2 ^ k)"
  defines "e \<equiv> hilbert_enc k (fst (rot (2 ^ k) x y rx ry)) (snd (rot (2 ^ k) x y rx ry))"
  shows "hilbert_enc (Suc k) x y = e + 4 ^ k * ((3 * rx) XOR ry)"
    and "hilbert_enc (Suc k) x y div 4 ^ k = (3 * rx) XOR ry"
    and "hilbert_dec k (hilbert_enc (Suc k) x y) = hilbert_dec k e"
proof -
  have sq: "(2 :: int) ^ k * 2 ^ k = 4 ^ k"
    using power_mult_distrib [of 2 "2 :: int" k] by simp
  show eq: "hilbert_enc (Suc k) x y = e + 4 ^ k * ((3 * rx) XOR ry)"
    by (simp only: hilbert_enc.simps Let_def sq rx_def ry_def e_def add.commute)
  have "0 \<le> e" "e < 4 ^ k"
    using hilbert_enc_range by (simp_all add: e_def)
  then show "hilbert_enc (Suc k) x y div 4 ^ k = (3 * rx) XOR ry"
    unfolding eq by simp
  show "hilbert_dec k (hilbert_enc (Suc k) x y) = hilbert_dec k e"
    unfolding eq by (rule hilbert_dec_low_bits)
qed

lemma mod_double_power:
  fixes x :: int
  shows "x mod 2 ^ k + 2 ^ k * bit_flag x (2 ^ k) = x mod 2 ^ Suc k"
  using zmod_zmult2_eq [of 2 x "2 ^ k"] by (simp add: bit_flag_power mult.commute add.commute)

lemma reflect_mod: "0 < s \<Longrightarrow> (s - 1 - a) mod s = s - 1 - a mod (s :: int)"
  by (smt (verit) mod_pos_pos_trivial mod_diff_right_eq pos_mod_bound pos_mod_sign)

lemma hilbert_dec_enc: "hilbert_dec k (hilbert_enc k x y) = (x mod 2 ^ k, y mod 2 ^ k)"
proof (induction k arbitrary: x y)
  case 0
  show ?case by simp
next
  case (Suc k)
  define rx where "rx = bit_flag x (2 ^ k)"
  define ry where "ry = bit_flag y (2 ^ k)"
  define s :: int where "s = 2 ^ k"
  have s: "0 < s" by (simp add: s_def)
  have flags: "rx = 0 \<or> rx = 1" "ry = 0 \<or> ry = 1"
    by (simp_all add: rx_def ry_def bit_flag_cases)
  note digit = digit_cases [OF flags]
  let ?p = "rot s x y rx ry"
  have low: "hilbert_dec k (hilbert_enc (Suc k) x y) = (fst ?p mod s, snd ?p mod s)"
    using hilbert_enc_Suc(3) [of k x y] by (simp only: Suc.IH rx_def ry_def s_def)
  have restored: "rot s (fst ?p mod s) (snd ?p mod s) rx ry = (x mod s, y mod s)"
    using flags by (auto simp: reflect_mod [OF s] rot.simps Let_def)
  have quot: "hilbert_enc (Suc k) x y div 4 ^ k = (3 * rx) XOR ry"
    by (simp only: hilbert_enc_Suc(2) rx_def ry_def)
  have "hilbert_dec (Suc k) (hilbert_enc (Suc k) x y) = (x mod s + s * rx, y mod s + s * ry)"
    by (simp only: hilbert_dec.simps(2) Let_def quot low digit s_def [symmetric] restored
        fst_conv snd_conv)
  then show ?case
    using mod_double_power by (simp only: s_def rx_def ry_def)
qed


subsection \<open>A codec between cells and indices\<close>

abbreviation grid_cells :: "(int \<times> int) set" where
  "grid_cells \<equiv> {0 ..< AGID_GRID_AXIS_CELLS} \<times> {0 ..< AGID_GRID_AXIS_CELLS}"

lemma axis_cells_eq: "AGID_GRID_AXIS_CELLS = 2 ^ 21"
  by (simp add: AGID_GRID_AXIS_CELLS_def AGID_GRID_AXIS_BITS_def)

lemma hilbert_codec:
  assumes "0 < k"
  shows "codec (\<lambda>p. encodeHilbert None (2 ^ k) (fst p) (snd p)) (decodeHilbert None (2 ^ k))
    ({0 ..< 2 ^ k} \<times> {0 ..< 2 ^ k}) {0 ..< 4 ^ k}"
proof (rule codec_by_card)
  have "card ({0 ..< (2 :: int) ^ k} \<times> {0 ..< (2 :: int) ^ k}) = 2 ^ k * 2 ^ k"
    by (simp add: card_cartesian_product nat_power_eq)
  also have "\<dots> = (4 :: nat) ^ k"
    using power_mult_distrib [of 2 "2 :: nat" k] by simp
  finally show "card ({0 ..< (2 :: int) ^ k} \<times> {0 ..< (2 :: int) ^ k}) = card {0 ..< (4 :: int) ^ k}"
    by (simp add: nat_power_eq)
qed (use assms in \<open>auto simp: encodeHilbert_hilbert decodeHilbert_hilbert hilbert_enc_range
      hilbert_dec_enc\<close>)

interpretation hilbert: codec
  "\<lambda>p. encodeHilbert None AGID_GRID_AXIS_CELLS (fst p) (snd p)"
  "decodeHilbert None AGID_GRID_AXIS_CELLS" grid_cells "{0 ..< 2 ^ 42}"
proof -
  have "(4 :: int) ^ 21 = 2 ^ 42" by simp
  then show "codec (\<lambda>p. encodeHilbert None AGID_GRID_AXIS_CELLS (fst p) (snd p))
      (decodeHilbert None AGID_GRID_AXIS_CELLS) grid_cells {0 ..< 2 ^ 42}"
    using hilbert_codec [of 21] by (simp add: axis_cells_eq)
qed

subsection \<open>Neighbouring indices are neighbouring cells\<close>

definition manhattan :: "int \<times> int \<Rightarrow> int \<times> int \<Rightarrow> int" where
  "manhattan p q = \<bar>fst p - fst q\<bar> + \<bar>snd p - snd q\<bar>"

lemma manhattan_rot:
  "manhattan (rot s (fst p) (snd p) rx ry) (rot s (fst q) (snd q) rx ry) = manhattan p q"
  by (auto simp: manhattan_def rot.simps Let_def)

lemma manhattan_shift:
  "manhattan (fst p + a, snd p + b) (fst q + a, snd q + b) = manhattan p q"
  by (simp add: manhattan_def)

lemma hilbert_dec_zero: "hilbert_dec k 0 = (0, 0)"
  by (induction k) (simp_all add: Let_def rot.simps)

lemma hilbert_dec_last: "hilbert_dec k (4 ^ k - 1) = (2 ^ k - 1, 0)"
proof (induction k)
  case 0
  show ?case by simp
next
  case (Suc k)
  have split: "(4 :: int) ^ Suc k - 1 = (4 ^ k - 1) + 4 ^ k * 3" by simp
  have low: "hilbert_dec k (4 ^ Suc k - 1) = (2 ^ k - 1, 0)"
    unfolding split hilbert_dec_low_bits by (rule Suc.IH)
  have quot: "((4 :: int) ^ Suc k - 1) div 4 ^ k = 3"
    unfolding split by (subst div_mult_self2) simp_all
  show ?case
    unfolding hilbert_dec.simps(2) Let_def low quot by (simp add: rot.simps Let_def)
qed

lemma hilbert_dec_adjacent:
  "0 \<le> t \<Longrightarrow> t + 1 < 4 ^ k \<Longrightarrow> manhattan (hilbert_dec k t) (hilbert_dec k (t + 1)) = 1"
proof (induction k arbitrary: t)
  case 0
  then show ?case by simp
next
  case (Suc k)
  define e where "e = t mod 4 ^ k"
  define q where "q = t div 4 ^ k"
  have t: "t = e + 4 ^ k * q"
    by (simp add: e_def q_def)
  have e: "0 \<le> e" "e < 4 ^ k"
    by (simp_all add: e_def)
  have q: "0 \<le> q"
    using Suc.prems(1) by (simp add: q_def pos_imp_zdiv_nonneg_iff)
  have low: "hilbert_dec k t = hilbert_dec k e"
    unfolding t by (rule hilbert_dec_low_bits)
  show ?case
  proof (cases "e + 1 < 4 ^ k")
    case True
    have t1: "t + 1 = (e + 1) + 4 ^ k * q" by (simp add: t)
    have low1: "hilbert_dec k (t + 1) = hilbert_dec k (e + 1)"
      unfolding t1 by (rule hilbert_dec_low_bits)
    have quot1: "(t + 1) div 4 ^ k = q"
      unfolding t1 using True e by simp
    show ?thesis
      unfolding hilbert_dec.simps(2) Let_def low low1 quot1 q_def [symmetric]
      by (simp only: manhattan_shift manhattan_rot Suc.IH [OF e(1) True])
  next
    case False
    with e have last: "e = 4 ^ k - 1" by simp
    have t1: "t + 1 = 0 + 4 ^ k * (q + 1)" by (simp add: t last algebra_simps)
    have low1: "hilbert_dec k (t + 1) = (0, 0)"
      unfolding t1 hilbert_dec_low_bits by (rule hilbert_dec_zero)
    have quot1: "(t + 1) div 4 ^ k = q + 1"
      unfolding t1 by simp
    have "4 ^ k * (q + 1) < 4 ^ k * (4 :: int)"
      using Suc.prems(2) t1 by simp
    then have "q + 1 < 4" by simp
    with q consider "q = 0" | "q = 1" | "q = 2" by fastforce
    then show ?thesis
      unfolding hilbert_dec.simps(2) Let_def low low1 quot1 last hilbert_dec_last q_def [symmetric]
      by cases (simp_all add: rot.simps Let_def manhattan_def)
  qed
qed

text \<open>The Hilbert index is a bijection: decoding the index of any cell of the grid
  gives the cell back, and encoding the cell of any 42-bit index gives the index back.\<close>

theorem hilbert_roundtrip:
  "(0 \<le> x \<and> x < AGID_GRID_AXIS_CELLS \<and> 0 \<le> y \<and> y < AGID_GRID_AXIS_CELLS \<longrightarrow>
      decodeHilbert None AGID_GRID_AXIS_CELLS (encodeHilbert None AGID_GRID_AXIS_CELLS x y) = (x, y))
   \<and> (0 \<le> h \<and> h < 2 ^ 42 \<longrightarrow>
      (case decodeHilbert None AGID_GRID_AXIS_CELLS h of
         (a, b) \<Rightarrow> encodeHilbert None AGID_GRID_AXIS_CELLS a b = h
           \<and> 0 \<le> a \<and> a < AGID_GRID_AXIS_CELLS \<and> 0 \<le> b \<and> b < AGID_GRID_AXIS_CELLS))"
  using hilbert.dec_enc [of "(x, y)"] hilbert.enc_dec [of h] hilbert.dec_in [of h]
  by (auto simp: mem_Times_iff split: prod.splits)

text \<open>C31. The curve is continuous: cells with consecutive indices share an edge.\<close>

theorem hilbert_neighbours:
  assumes "0 \<le> h" and "h + 1 < 2 ^ 42"
  shows "manhattan (decodeHilbert None AGID_GRID_AXIS_CELLS h)
    (decodeHilbert None AGID_GRID_AXIS_CELLS (h + 1)) = 1"
proof -
  have "(4 :: int) ^ 21 = 2 ^ 42" by simp
  with assms show ?thesis
    unfolding axis_cells_eq decodeHilbert_hilbert by (intro hilbert_dec_adjacent) simp_all
qed

lemma hilbert_roundtrip_witness:
  "decodeHilbert None AGID_GRID_AXIS_CELLS (encodeHilbert None AGID_GRID_AXIS_CELLS 5 7) = (5, 7)
   \<and> (case decodeHilbert None AGID_GRID_AXIS_CELLS 99 of
         (a, b) \<Rightarrow> encodeHilbert None AGID_GRID_AXIS_CELLS a b = 99)"
  using hilbert_roundtrip [of 5 7 99] by (auto simp: axis_cells_eq split: prod.splits)

lemma hilbert_neighbours_witness:
  "manhattan (decodeHilbert None AGID_GRID_AXIS_CELLS 99) (decodeHilbert None AGID_GRID_AXIS_CELLS 100) = 1"
  using hilbert_neighbours [of 99] by simp

end
