(* ===== verification/Agid_Codec.thy ===== *)
theory Agid_Codec
  imports Agid_Hilbert
begin

unbundle bit_operations_syntax

section \<open>From a cell to the ten-character hash and back\<close>

text \<open>
  \<open>packAGID\<close>, \<open>unpackAGID\<close>, \<open>encodeBase32\<close>, \<open>decodeBase32\<close> of \<open>src/src/lib/agid.ts\<close>, and the two
  pipelines built from them inside \<open>encodeAGID\<close> and \<open>decodeAGID\<close>. Each layer is a codec, and the
  whole identifier is their composition.
\<close>

subsection \<open>The packed value\<close>

definition packAGID :: "int \<Rightarrow> int \<Rightarrow> int" where
  "packAGID face h = push_bit 42 face OR h"

definition unpackAGID :: "int \<Rightarrow> int \<times> int" where
  "unpackAGID packed =
     (let face = drop_bit 42 packed; h = packed AND (push_bit 42 1 - 1) in (face, h))"

lemma packAGID_sum: "0 \<le> h \<Longrightarrow> h < 2 ^ 42 \<Longrightarrow> packAGID face h = face * 2 ^ 42 + h"
proof -
  assume h: "0 \<le> h" "h < 2 ^ 42"
  then have "take_bit 42 h = h" by (simp add: take_bit_int_eq_self)
  then have "packAGID face h = concat_bit 42 h face"
    by (simp add: packAGID_def concat_bit_def or.commute)
  with h show ?thesis
    by (simp add: concat_bit_eq push_bit_eq_mult take_bit_int_eq_self)
qed

lemma unpackAGID_divmod: "unpackAGID p = (p div 2 ^ 42, p mod 2 ^ 42)"
proof -
  have "push_bit 42 1 - 1 = (mask 42 :: int)"
    by (simp add: mask_eq_exp_minus_1)
  then show ?thesis
    by (simp only: unpackAGID_def Let_def take_bit_eq_mask [symmetric] take_bit_eq_mod
        drop_bit_eq_div)
qed

lemma pack_codec:
  "codec (\<lambda>c. packAGID (fst c) (snd c)) unpackAGID ({0 ..< 6} \<times> {0 ..< 2 ^ 42}) {0 ..< 6 * 2 ^ 42}"
proof
  fix p :: int assume p: "p \<in> {0 ..< 6 * 2 ^ 42}"
  then show "unpackAGID p \<in> {0 ..< 6} \<times> {0 ..< 2 ^ 42}"
    by (auto simp: unpackAGID_divmod)
  show "packAGID (fst (unpackAGID p)) (snd (unpackAGID p)) = p"
    by (subst packAGID_sum) (simp_all add: unpackAGID_divmod)
qed (auto simp: packAGID_sum unpackAGID_divmod)

subsection \<open>Base32\<close>

text \<open>The values encoded are not negative, so \<open>%\<close> and \<open>/\<close> of \<open>BigInt\<close> are \<open>mod\<close> and \<open>div\<close>.\<close>

fun encodeBase32_loop :: "nat \<Rightarrow> int \<Rightarrow> string \<Rightarrow> string" where
  "encodeBase32_loop 0 temp result = result"
| "encodeBase32_loop (Suc i) temp result =
     (let index = nat (temp mod 32);
          result = (AGID_BASE32_ALPHABET ! index) # result
      in encodeBase32_loop i (temp div 32) result)"

definition encodeBase32 :: "int \<Rightarrow> nat \<Rightarrow> string" where
  "encodeBase32 value len = encodeBase32_loop len value []"

fun decodeBase32_loop :: "string \<Rightarrow> int \<Rightarrow> int result" where
  "decodeBase32_loop [] result = Inr result"
| "decodeBase32_loop (c # hash) result =
     (case index_of c AGID_BASE32_ALPHABET of
        None \<Rightarrow> Inl (JsError (''Invalid character in AGID: '' @ [c]))
      | Some index \<Rightarrow> decodeBase32_loop hash (result * 32 + int index))"

definition decodeBase32 :: "string \<Rightarrow> int result" where
  "decodeBase32 hash = decodeBase32_loop hash 0"

definition hash_chars :: "nat \<Rightarrow> string set" where
  "hash_chars n = {s. length s = n \<and> set s \<subseteq> set AGID_BASE32_ALPHABET}"

lemma decodeBase32_append:
  "decodeBase32_loop (s @ t) r = sbind (decodeBase32_loop s r) (decodeBase32_loop t)"
  by (induction s arbitrary: r) (auto split: option.splits)

lemma encodeBase32_loop_append: "encodeBase32_loop n v r = encodeBase32_loop n v [] @ r"
proof (induction n arbitrary: v r)
  case 0
  show ?case by simp
next
  case (Suc n)
  show ?case
    by (simp only: encodeBase32_loop.simps Let_def) (metis Suc append_Cons append_Nil append_assoc)
qed

lemma encodeBase32_Suc:
  "encodeBase32 v (Suc n) = encodeBase32 (v div 32) n @ [AGID_BASE32_ALPHABET ! nat (v mod 32)]"
  unfolding encodeBase32_def encodeBase32_loop.simps Let_def
  by (rule encodeBase32_loop_append)

lemma digit32 [simp]: "nat (v mod 32) < 32"
  by (simp add: nat_less_iff)

lemma encodeBase32_chars: "encodeBase32 v n \<in> hash_chars n"
proof (induction n arbitrary: v)
  case 0
  show ?case by (simp add: encodeBase32_def hash_chars_def)
next
  case (Suc n)
  then show ?case
    by (auto simp: encodeBase32_Suc hash_chars_def intro!: nth_mem)
qed

lemma decode_encodeBase32: "0 \<le> v \<Longrightarrow> v < 32 ^ n \<Longrightarrow> decodeBase32 (encodeBase32 v n) = Inr v"
proof (induction n arbitrary: v)
  case 0
  then show ?case by (simp add: encodeBase32_def decodeBase32_def)
next
  case (Suc n)
  then have "v div 32 < 32 ^ n" by (simp add: div_less_iff_less_mult mult.commute)
  with Suc have "decodeBase32_loop (encodeBase32 (v div 32) n) 0 = Inr (v div 32)"
    by (simp add: decodeBase32_def)
  then show ?case
    using digit32 [of v] by (simp add: encodeBase32_Suc decodeBase32_def decodeBase32_append index_of_nth)
qed

lemma decodeBase32_range:
  "set s \<subseteq> set AGID_BASE32_ALPHABET \<Longrightarrow>
    \<exists>v. decodeBase32 s = Inr v \<and> 0 \<le> v \<and> v < 32 ^ length s \<and> encodeBase32 v (length s) = s"
proof (induction s rule: rev_induct)
  case Nil
  show ?case by (simp add: decodeBase32_def encodeBase32_def)
next
  case (snoc c s)
  then obtain v where v: "decodeBase32 s = Inr v" "0 \<le> v" "v < 32 ^ length s"
      "encodeBase32 v (length s) = s"
    by auto
  from snoc.prems obtain i where i: "i < 32" "index_of c AGID_BASE32_ALPHABET = Some i"
      "AGID_BASE32_ALPHABET ! i = c"
    using index_of_mem [of c AGID_BASE32_ALPHABET] by auto
  have "decodeBase32 (s @ [c]) = Inr (v * 32 + int i)"
    using v(1) i(2) by (simp add: decodeBase32_def decodeBase32_append)
  moreover have "encodeBase32 (v * 32 + int i) (length (s @ [c])) = s @ [c]"
    using i v(4) by (simp add: encodeBase32_Suc)
  ultimately show ?case using v i by auto
qed

lemma base32_codec:
  "codec (\<lambda>v. encodeBase32 v n) (\<lambda>s. projr (decodeBase32 s)) {0 ..< 32 ^ n} (hash_chars n)"
proof
  fix s assume "s \<in> hash_chars n"
  then have "set s \<subseteq> set AGID_BASE32_ALPHABET" and len: "length s = n"
    by (simp_all add: hash_chars_def)
  from decodeBase32_range [OF this(1)] len
  show "projr (decodeBase32 s) \<in> {0 ..< 32 ^ n}" and "encodeBase32 (projr (decodeBase32 s)) n = s"
    by auto
qed (simp_all add: encodeBase32_chars decode_encodeBase32)

text \<open>A codec restricted to fewer values, and to the images of those.\<close>

lemma codec_restrict:
  assumes "codec enc dec A B" and "A' \<subseteq> A"
  shows "codec enc dec A' {b \<in> B. dec b \<in> A'}"
proof -
  have laws:
    "\<And>a. a \<in> A \<Longrightarrow> enc a \<in> B" "\<And>a. a \<in> A \<Longrightarrow> dec (enc a) = a" "\<And>b. b \<in> B \<Longrightarrow> enc (dec b) = b"
    using assms(1) by (simp_all add: codec_def)
  show ?thesis by unfold_locales (use laws assms(2) in auto)
qed


subsection \<open>The identifier pipeline\<close>

text \<open>
  The numeric part of \<open>encodeAGID\<close> (Hilbert index, packed value, hash) and the part of
  \<open>decodeAGID\<close> before the projection to latitude and longitude (normalisation, format and range
  tests, unpacking). \<open>None\<close> is the \<open>null\<close> of every early return and of the \<open>catch\<close>.
\<close>

definition agid_hash_of_cell :: "wasm_core option \<Rightarrow> int \<times> int \<times> int \<Rightarrow> string" where
  "agid_hash_of_cell wasm cell = (case cell of (face, qx, qy) \<Rightarrow>
     (let hilbert = encodeHilbert wasm AGID_GRID_AXIS_CELLS qx qy;
          packedValue = packAGID face hilbert
      in encodeBase32 packedValue 10))"

definition agid_cell_of_hash :: "wasm_core option \<Rightarrow> string \<Rightarrow> (int \<times> int \<times> int) option" where
  "agid_cell_of_hash wasm hash =
     (case decodeBase32 hash of
        Inl _ \<Rightarrow> None
      | Inr packedValue \<Rightarrow>
          (if \<not> isAgidPackedValueInRange packedValue then None
           else (case unpackAGID packedValue of (face, h) \<Rightarrow>
             (case decodeHilbert wasm AGID_GRID_AXIS_CELLS h of (quantX, quantY) \<Rightarrow>
                Some (face, quantX, quantY)))))"

definition agid_decode_cell :: "wasm_core option \<Rightarrow> js_value \<Rightarrow> (string \<times> int \<times> int \<times> int) option" where
  "agid_decode_cell wasm i =
     (case normalizeAGIDInput i of
        None \<Rightarrow> None
      | Some normalizedId \<Rightarrow>
          (if \<not> isValidAGIDFormat (JStr normalizedId) then None
           else (let prefix = take 2 normalizedId; hash = drop 2 normalizedId in
             (case agid_cell_of_hash wasm hash of
                None \<Rightarrow> None
              | Some (face, qx, qy) \<Rightarrow> Some (prefix, face, qx, qy)))))"

abbreviation agid_cells :: "(int \<times> int \<times> int) set" where
  "agid_cells \<equiv> {0 ..< 6} \<times> grid_cells"

definition cell_of_packed :: "int \<Rightarrow> int \<times> int \<times> int" where
  "cell_of_packed p =
     (fst (unpackAGID p), decodeHilbert None AGID_GRID_AXIS_CELLS (snd (unpackAGID p)))"

definition packed_of_cell :: "int \<times> int \<times> int \<Rightarrow> int" where
  "packed_of_cell c =
     packAGID (fst c) (encodeHilbert None AGID_GRID_AXIS_CELLS (fst (snd c)) (snd (snd c)))"

lemma cell_codec: "codec packed_of_cell cell_of_packed agid_cells {0 ..< 6 * 2 ^ 42}"
proof -
  have pack: "\<And>f h. f \<in> {0 ..< 6} \<Longrightarrow> h \<in> {0 ..< 2 ^ 42} \<Longrightarrow> unpackAGID (packAGID f h) = (f, h)"
    "\<And>f h. f \<in> {0 ..< 6} \<Longrightarrow> h \<in> {0 ..< 2 ^ 42} \<Longrightarrow> packAGID f h \<in> {0 ..< 6 * 2 ^ 42}"
    "\<And>p. p \<in> {0 ..< 6 * 2 ^ 42} \<Longrightarrow> packAGID (fst (unpackAGID p)) (snd (unpackAGID p)) = p"
    "\<And>p. p \<in> {0 ..< 6 * 2 ^ 42} \<Longrightarrow> unpackAGID p \<in> {0 ..< 6} \<times> {0 ..< 2 ^ 42}"
    using codec.dec_enc [OF pack_codec] codec.enc_in [OF pack_codec] codec.enc_dec [OF pack_codec]
      codec.dec_in [OF pack_codec] by fastforce+
  show ?thesis
  proof
    fix c assume "c \<in> agid_cells"
    then have c: "fst c \<in> {0 ..< 6}" "snd c \<in> grid_cells" by auto
    note h = hilbert.enc_in [OF c(2)]
    show "packed_of_cell c \<in> {0 ..< 6 * 2 ^ 42}"
      unfolding packed_of_cell_def by (rule pack(2) [OF c(1) h])
    show "cell_of_packed (packed_of_cell c) = c"
      by (simp add: packed_of_cell_def cell_of_packed_def pack(1) [OF c(1) h] hilbert.dec_enc [OF c(2)])
  next
    fix p :: int assume p: "p \<in> {0 ..< 6 * 2 ^ 42}"
    note u = pack(4) [OF p, unfolded mem_Times_iff]
    show "cell_of_packed p \<in> agid_cells"
      using u hilbert.dec_in [of "snd (unpackAGID p)"] by (simp add: cell_of_packed_def)
    show "packed_of_cell (cell_of_packed p) = p"
      using u hilbert.enc_dec [of "snd (unpackAGID p)"] pack(3) [OF p]
      by (simp add: cell_of_packed_def packed_of_cell_def)
  qed
qed

abbreviation agid_hashes :: "string set" where
  "agid_hashes \<equiv> {s \<in> hash_chars 10. projr (decodeBase32 s) \<in> {0 ..< 6 * 2 ^ 42}}"

interpretation agid_id: codec_compose packed_of_cell cell_of_packed agid_cells "{0 ..< 6 * 2 ^ 42}"
  "\<lambda>v. encodeBase32 v 10" "\<lambda>s. projr (decodeBase32 s)" agid_hashes
proof -
  have "{0 ..< 6 * 2 ^ 42} \<subseteq> {0 ..< (32 :: int) ^ 10}" by auto
  from codec_restrict [OF base32_codec this]
  show "codec_compose packed_of_cell cell_of_packed agid_cells {0 ..< 6 * 2 ^ 42}
      (\<lambda>v. encodeBase32 v 10) (\<lambda>s. projr (decodeBase32 s)) agid_hashes"
    by (intro codec_compose.intro cell_codec)
qed

lemma agid_hash_of_cell_enc: "agid_hash_of_cell None c = encodeBase32 (packed_of_cell c) 10"
  by (cases c) (simp add: agid_hash_of_cell_def packed_of_cell_def Let_def)

lemma agid_cell_of_hash_iff:
  assumes "s \<in> hash_chars 10"
  shows "agid_cell_of_hash None s = (if s \<in> agid_hashes
    then Some (cell_of_packed (projr (decodeBase32 s))) else None)"
proof -
  from assms decodeBase32_range [of s] obtain v where "decodeBase32 s = Inr v"
    by (auto simp: hash_chars_def)
  with assms show ?thesis
    by (auto simp: agid_cell_of_hash_def packed_in_range_iff cell_of_packed_def split: prod.splits)
qed

lemma agid_cell_of_hash_of_cell:
  "c \<in> agid_cells \<Longrightarrow> agid_cell_of_hash None (agid_hash_of_cell None c) = Some c"
  using agid_id.composed.enc_in [of c] agid_id.composed.dec_enc [of c] encodeBase32_chars
  by (simp add: agid_hash_of_cell_enc agid_cell_of_hash_iff)

lemma format_split:
  "agid_format_pattern s \<longleftrightarrow> length s = 12
     \<and> list_all (\<lambda>c. is_upper_char c \<or> is_digit_char c) (take 2 s) \<and> drop 2 s \<in> hash_chars 10"
  by (auto simp: agid_format_pattern_def agid_constants hash_chars_def list_all_iff)

lemma agid_decode_cell_unfold:
  assumes "normalizeAGIDInput v = Some s"
  shows "agid_decode_cell None v =
    (if agid_format_pattern s \<and> drop 2 s \<in> agid_hashes
     then Some (take 2 s, cell_of_packed (projr (decodeBase32 (drop 2 s)))) else None)"
proof -
  have "isValidAGIDFormat (JStr s) \<longleftrightarrow> agid_format_pattern s"
    using normalizeAGIDInput_idem [OF assms] by (simp add: isValidAGIDFormat_def)
  moreover have "agid_format_pattern s \<Longrightarrow> drop 2 s \<in> hash_chars 10"
    by (simp add: format_split)
  ultimately show ?thesis
    using assms by (simp add: agid_decode_cell_def Let_def agid_cell_of_hash_iff split: prod.splits)
qed

lemma agid_hash_iff:
  assumes "c \<in> agid_cells" and "s \<in> hash_chars 10"
  shows "s \<in> agid_hashes \<and> cell_of_packed (projr (decodeBase32 s)) = c
    \<longleftrightarrow> s = agid_hash_of_cell None c"
  using agid_id.composed.dec_eq_iff [OF assms(1), of s] agid_id.composed.enc_in [OF assms(1)]
  by (auto simp: agid_hash_of_cell_enc)

lemma decodeBase32_miss:
  "\<not> set s \<subseteq> set AGID_BASE32_ALPHABET \<Longrightarrow> decodeBase32_loop s r =
     Inl (JsError (''Invalid character in AGID: '' @ [hd (dropWhile (\<lambda>c. c \<in> set AGID_BASE32_ALPHABET) s)]))"
proof (induction s arbitrary: r)
  case Nil
  then show ?case by simp
next
  case (Cons a t)
  show ?case
  proof (cases "index_of a AGID_BASE32_ALPHABET")
    case None
    moreover from None have "a \<notin> set AGID_BASE32_ALPHABET" by (simp add: index_of_None)
    ultimately show ?thesis by simp
  next
    case (Some i)
    then have "a \<in> set AGID_BASE32_ALPHABET" using index_of_Some by fastforce
    with Some Cons show ?thesis by simp
  qed
qed

text \<open>The Base32 reader accepts exactly the words over the alphabet, the number it returns is
  written back as the same word, and the first foreign character is the one named in the error.\<close>

theorem base32_decode_complete:
  "if set s \<subseteq> set AGID_BASE32_ALPHABET
   then \<exists>v. decodeBase32 s = Inr v \<and> 0 \<le> v \<and> v < 32 ^ length s \<and> encodeBase32 v (length s) = s
   else decodeBase32 s = Inl (JsError (''Invalid character in AGID: ''
          @ [hd (dropWhile (\<lambda>c. c \<in> set AGID_BASE32_ALPHABET) s)]))"
  using decodeBase32_range [of s] decodeBase32_miss [of s 0] by (auto simp: decodeBase32_def)

text \<open>C1. Decoding an identifier gives a cell exactly when the cell lies on the grid and the
  normalised identifier is a two-character prefix followed by the hash the encoder computes for
  that cell: the decoder inverts the encoder, and there is no second spelling of a cell.\<close>

theorem agid_decode_iff:
  "agid_decode_cell None v = Some (p, c) \<longleftrightarrow>
     c \<in> {0 ..< AGID_FACE_COUNT} \<times> {0 ..< AGID_GRID_AXIS_CELLS} \<times> {0 ..< AGID_GRID_AXIS_CELLS}
     \<and> length p = 2 \<and> list_all (\<lambda>x. is_upper_char x \<or> is_digit_char x) p
     \<and> normalizeAGIDInput v = Some (p @ agid_hash_of_cell None c)"
  (is "_ \<longleftrightarrow> ?C \<and> _ \<and> _ \<and> _")
proof (cases "normalizeAGIDInput v")
  case None
  then show ?thesis by (simp add: agid_decode_cell_def)
next
  case (Some s)
  have face: "?C \<longleftrightarrow> c \<in> agid_cells" by (simp add: AGID_FACE_COUNT_def)
  have hash: "agid_hash_of_cell None c \<in> hash_chars 10"
    by (simp add: agid_hash_of_cell_enc encodeBase32_chars)
  show ?thesis
  proof
    assume dec: "agid_decode_cell None v = Some (p, c)"
    then have s: "agid_format_pattern s" "drop 2 s \<in> agid_hashes" and p: "p = take 2 s"
      and c: "c = cell_of_packed (projr (decodeBase32 (drop 2 s)))"
      unfolding agid_decode_cell_unfold [OF Some] by (metis (no_types, lifting) option.distinct(1) option.inject prod.inject)+
    have cell: "c \<in> agid_cells"
      unfolding c by (rule agid_id.composed.dec_in [OF s(2)])
    have "drop 2 s = agid_hash_of_cell None c"
      using agid_hash_iff [OF cell, of "drop 2 s"] s c by simp
    then have "s = p @ agid_hash_of_cell None c"
      using p append_take_drop_id [of 2 s] by simp
    moreover have "length p = 2" using s(1) p by (simp add: format_split)
    moreover have "list_all (\<lambda>x. is_upper_char x \<or> is_digit_char x) p" using s(1) p by (simp add: format_split)
    ultimately show "?C \<and> length p = 2 \<and> list_all (\<lambda>x. is_upper_char x \<or> is_digit_char x) p
     \<and> normalizeAGIDInput v = Some (p @ agid_hash_of_cell None c)"
      using cell unfolding face Some by blast
  next
    assume enc: "?C \<and> length p = 2 \<and> list_all (\<lambda>x. is_upper_char x \<or> is_digit_char x) p
     \<and> normalizeAGIDInput v = Some (p @ agid_hash_of_cell None c)"
    then have cell: "c \<in> agid_cells" and len: "length p = 2"
      and s: "s = p @ agid_hash_of_cell None c"
      unfolding face using Some by simp_all
    then have parts: "take 2 s = p" "drop 2 s = agid_hash_of_cell None c" by simp_all
    have "length s = 12" using s len hash by (simp add: hash_chars_def)
    with enc hash parts have "agid_format_pattern s" by (simp add: format_split)
    with agid_hash_iff [OF cell hash] parts show "agid_decode_cell None v = Some (p, c)"
      by (simp add: agid_decode_cell_unfold [OF Some])
  qed
qed

subsection \<open>The Rust core\<close>

text \<open>
  The compiled core of \<open>agidWasm.ts\<close> is not part of the TypeScript code. The hypotheses below are
  what the calling code relies on: the two halves of the index it returns are the 32-bit halves of
  the index of the cell, and its decoder inverts them.
\<close>

definition wasm_agrees :: "wasm_core \<Rightarrow> bool" where
  "wasm_agrees w \<longleftrightarrow>
     (\<forall>x y. (x, y) \<in> grid_cells \<longrightarrow>
        agid_encode_hilbert_hi w x y mod 2 ^ 32 = encodeHilbert None AGID_GRID_AXIS_CELLS x y div 2 ^ 32
      \<and> agid_encode_hilbert_lo w x y mod 2 ^ 32 = encodeHilbert None AGID_GRID_AXIS_CELLS x y mod 2 ^ 32)
     \<and> (\<forall>h. 0 \<le> h \<and> h < 2 ^ 42 \<longrightarrow>
        (agid_decode_hilbert_x w (h div 2 ^ 32) (h mod 2 ^ 32),
         agid_decode_hilbert_y w (h div 2 ^ 32) (h mod 2 ^ 32))
          = decodeHilbert None AGID_GRID_AXIS_CELLS h)"

lemma combine_halves: "0 \<le> h \<Longrightarrow> h < 2 ^ 64 \<Longrightarrow> a mod 2 ^ 32 = h div 2 ^ 32 \<Longrightarrow> b mod 2 ^ 32 = h mod 2 ^ 32
    \<Longrightarrow> combineWasmU32Pair a b = h"
proof -
  assume "a mod 2 ^ 32 = h div 2 ^ 32" "b mod 2 ^ 32 = h mod 2 ^ 32"
  then have "combineWasmU32Pair a b = concat_bit 32 (h mod 2 ^ 32) (h div 2 ^ 32)"
    by (simp add: combineWasmU32Pair_def concat_bit_def take_bit_eq_mod or.commute)
  then show ?thesis
    by (simp add: concat_bit_eq push_bit_eq_mult take_bit_eq_mod)
qed

lemma wasm_encode: "wasm_agrees w \<Longrightarrow> (x, y) \<in> grid_cells \<Longrightarrow>
   encodeHilbert (Some w) AGID_GRID_AXIS_CELLS x y = encodeHilbert None AGID_GRID_AXIS_CELLS x y"
proof -
  assume w: "wasm_agrees w" and c: "(x, y) \<in> grid_cells"
  have "encodeHilbert None AGID_GRID_AXIS_CELLS x y \<in> {0 ..< 2 ^ 42}"
    using hilbert.enc_in [OF c] by simp
  then have "combineWasmU32Pair (agid_encode_hilbert_hi w x y) (agid_encode_hilbert_lo w x y)
      = encodeHilbert None AGID_GRID_AXIS_CELLS x y"
    using w c unfolding wasm_agrees_def by (intro combine_halves) auto
  then show ?thesis by (simp add: encodeHilbert_def)
qed

lemma wasm_decode: "wasm_agrees w \<Longrightarrow> 0 \<le> h \<Longrightarrow> h < 2 ^ 42 \<Longrightarrow>
   decodeHilbert (Some w) AGID_GRID_AXIS_CELLS h = decodeHilbert None AGID_GRID_AXIS_CELLS h"
proof -
  assume w: "wasm_agrees w" and h: "0 \<le> h" "h < 2 ^ 42"
  have m: "(0xFFFFFFFF :: int) = mask 32" by (simp add: mask_eq_exp_minus_1)
  have hi: "drop_bit 32 h AND 0xFFFFFFFF = h div 2 ^ 32"
    using h unfolding m take_bit_eq_mask [symmetric] take_bit_eq_mod drop_bit_eq_div by simp
  have lo: "h AND 0xFFFFFFFF = h mod 2 ^ 32"
    unfolding m take_bit_eq_mask [symmetric] take_bit_eq_mod by simp
  show ?thesis
    using w h unfolding wasm_agrees_def
    by (simp only: decodeHilbert_def option.case if_True simp_thms Let_def hi lo)
qed

text \<open>Where the compiled core returns the halves of the index, encoding and decoding through it
  gives the same hashes and the same cells as the TypeScript path.\<close>

theorem wasm_path_agrees:
  assumes "wasm_agrees w"
  shows "(0 \<le> f \<and> f < AGID_FACE_COUNT \<and> 0 \<le> x \<and> x < AGID_GRID_AXIS_CELLS \<and> 0 \<le> y \<and> y < AGID_GRID_AXIS_CELLS
      \<longrightarrow> agid_hash_of_cell (Some w) (f, x, y) = agid_hash_of_cell None (f, x, y))
      \<and> agid_decode_cell (Some w) v = agid_decode_cell None v"
proof
  show "0 \<le> f \<and> f < AGID_FACE_COUNT \<and> 0 \<le> x \<and> x < AGID_GRID_AXIS_CELLS \<and> 0 \<le> y \<and> y < AGID_GRID_AXIS_CELLS
      \<longrightarrow> agid_hash_of_cell (Some w) (f, x, y) = agid_hash_of_cell None (f, x, y)"
    using wasm_encode [OF assms] by (simp add: agid_hash_of_cell_def)
  have "agid_cell_of_hash (Some w) s = agid_cell_of_hash None s" for s
  proof (cases "decodeBase32 s")
    case (Inr p)
    show ?thesis
    proof (cases "isAgidPackedValueInRange p")
      case True
      have "0 \<le> p mod 2 ^ 42" "p mod 2 ^ 42 < 2 ^ 42" by simp_all
      then show ?thesis
        using Inr True wasm_decode [OF assms, of "p mod 2 ^ 42"]
        by (simp add: agid_cell_of_hash_def unpackAGID_divmod)
    qed (simp add: agid_cell_of_hash_def Inr)
  qed (simp add: agid_cell_of_hash_def)
  then have "agid_cell_of_hash (Some w) = agid_cell_of_hash None" by (rule ext)
  then show "agid_decode_cell (Some w) v = agid_decode_cell None v"
    unfolding agid_decode_cell_def by (simp only:)
qed

text \<open>The hypothesis holds for a core that computes the same halves.\<close>

definition reference_core :: wasm_core where
  "reference_core = \<lparr>
     agid_encode_hilbert_hi = (\<lambda>x y. encodeHilbert None AGID_GRID_AXIS_CELLS x y div 2 ^ 32),
     agid_encode_hilbert_lo = (\<lambda>x y. encodeHilbert None AGID_GRID_AXIS_CELLS x y mod 2 ^ 32),
     agid_decode_hilbert_x = (\<lambda>hi lo. fst (decodeHilbert None AGID_GRID_AXIS_CELLS (hi * 2 ^ 32 + lo))),
     agid_decode_hilbert_y = (\<lambda>hi lo. snd (decodeHilbert None AGID_GRID_AXIS_CELLS (hi * 2 ^ 32 + lo)))\<rparr>"

lemma reference_core_agrees: "wasm_agrees reference_core"
proof -
  have "0 \<le> h div 2 ^ 32 \<and> h div 2 ^ 32 < 2 ^ 32" if "0 \<le> h \<and> h < 2 ^ 42" for h :: int
    using that by simp linarith
  then have "encodeHilbert None AGID_GRID_AXIS_CELLS x y div 2 ^ 32 mod 2 ^ 32
      = encodeHilbert None AGID_GRID_AXIS_CELLS x y div 2 ^ 32" if "(x, y) \<in> grid_cells" for x y
    using hilbert.enc_in [OF that] by (simp add: mod_pos_pos_trivial)
  then show ?thesis
    by (simp add: wasm_agrees_def reference_core_def mult.commute)
qed

theorem wasm_path_agrees_witness:
  "agid_hash_of_cell (Some reference_core) (2, 5, 7) = agid_hash_of_cell None (2, 5, 7)
   \<and> agid_decode_cell (Some reference_core) (JStr '' jp200000000k '')
      = agid_decode_cell None (JStr '' jp200000000k '')"
  using wasm_path_agrees [OF reference_core_agrees, of 2 5 7 "JStr '' jp200000000k ''"]
  by (simp add: AGID_FACE_COUNT_def axis_cells_eq)

end
