(* ===== verification/Agid_Prefix.thy ===== *)
theory Agid_Prefix
  imports AGID_Prelude "HOL-Library.Word"
begin

section \<open>The two-character prefix\<close>

text \<open>
  \<open>get2CharPrefix\<close> and \<open>generatePrefix\<close> of \<open>src/src/lib/agid.ts\<close>. The module-level object
  \<open>PREFIX_CACHE\<close> is the state: an association list that \<open>generatePrefix\<close> takes and returns. The list
  \<open>COUNTRIES\<close> of another module is the argument \<open>countries\<close>.
\<close>

subsection \<open>Alphabets and categories\<close>

definition NUMBERS :: string where "NUMBERS = ''0123456789''"
definition LETTERS :: string where "LETTERS = ''ABCDEFGHJKMNPQRSTVWXYZ''"

definition OPEN_OCEAN_CODES :: nat where "OPEN_OCEAN_CODES = 220"
definition COASTAL_SEA_CODES :: nat where "COASTAL_SEA_CODES = 220"
definition OTHER_CODES :: nat where "OTHER_CODES = 100"

datatype category = OPEN | COASTAL | OTHER

definition get2CharPrefix :: "nat \<Rightarrow> category \<Rightarrow> string" where
  "get2CharPrefix val category = (case category of
     OPEN \<Rightarrow> (let v = val mod OPEN_OCEAN_CODES; lIdx = v div 10; nIdx = v mod 10
             in [LETTERS ! lIdx, NUMBERS ! nIdx])
   | COASTAL \<Rightarrow> (let v = val mod COASTAL_SEA_CODES; nIdx = v div 22; lIdx = v mod 22
             in [NUMBERS ! nIdx, LETTERS ! lIdx])
   | OTHER \<Rightarrow> (let v = val mod OTHER_CODES; n1 = v div 10; n2 = v mod 10
             in [NUMBERS ! n1, NUMBERS ! n2]))"

subsection \<open>The state and its operation\<close>

type_synonym prefix_cache = "(string \<times> string) list"

definition seaCodeMap :: "(string \<times> string) list" where
  "seaCodeMap =
     [(''NPAC'', ''P1''), (''NEPC'', ''P0''), (''SPAC'', ''P3''), (''SEPC'', ''P2''),
      (''NATL'', ''A1''), (''SATL'', ''A2''), (''NIND'', ''I1''), (''SIND'', ''I2''),
      (''SOUT'', ''S0''), (''ARCT'', ''R0'')]"

definition prefix_cache_key :: "string \<Rightarrow> bool \<Rightarrow> string" where
  "prefix_cache_key code isSea = code @ ''_'' @ (if isSea then ''true'' else ''false'')"

text \<open>The string hash on 32-bit integers; \<open>hash |= 0\<close> is the wrap of \<open>32 word\<close>.\<close>

fun code_hash_loop :: "string \<Rightarrow> 32 word \<Rightarrow> 32 word" where
  "code_hash_loop [] hash = hash"
| "code_hash_loop (c # cs) hash =
     code_hash_loop cs ((push_bit 5 hash - hash) + word_of_nat (of_char c))"

definition code_hash :: "string \<Rightarrow> nat" where
  "code_hash code = nat \<bar>sint (code_hash_loop code 0)\<bar>"

definition two_upper :: "string \<Rightarrow> bool" where
  "two_upper s \<longleftrightarrow> length s = 2 \<and> list_all is_upper_char s"

definition two_digit :: "string \<Rightarrow> bool" where
  "two_digit s \<longleftrightarrow> length s = 2 \<and> list_all is_digit_char s"

text \<open>The collision loop: at most 50 attempts.\<close>

fun avoid_collision :: "nat \<Rightarrow> prefix_cache \<Rightarrow> nat \<Rightarrow> category \<Rightarrow> nat \<Rightarrow> string \<Rightarrow> string" where
  "avoid_collision 0 cache hash category attempts prefix = prefix"
| "avoid_collision (Suc fuel) cache hash category attempts prefix =
     (if prefix \<in> snd ` set cache
      then avoid_collision fuel cache hash category (attempts + 1)
             (get2CharPrefix (hash + attempts + 1) category)
      else prefix)"

definition sea_category :: "string \<Rightarrow> string \<Rightarrow> category" where
  "sea_category code name =
     (let isOpen = js_starts_with ''O_'' code \<or> list_ex (\<lambda>(k, _). js_includes k code) seaCodeMap
      in if isOpen then OPEN
         else (let isCoastalType = list_ex (\<lambda>w. js_includes w name)
                     [''Sea'', ''Coast'', ''Strait'', ''Bay'', ''Gulf'', ''Inlet'', ''Channel''];
                   isBig5Coastal = list_ex (\<lambda>w. js_includes w name)
                     [''Pacific'', ''Atlantic'', ''Indian'', ''Arctic'', ''Southern''] \<or> isCoastalType
               in if isBig5Coastal then COASTAL else OPEN))"

definition land_prefix :: "string list \<Rightarrow> string \<Rightarrow> string \<Rightarrow> string" where
  "land_prefix countries code name =
     (let upperCode = js_upper code;
          isIsoCountry = (upperCode \<in> set countries \<or> length code = 2)
      in if isIsoCountry \<and> two_upper upperCode then upperCode
         else (let hashData = sum_list (map of_char (name @ code) :: nat list);
                   n1 = NUMBERS ! (hashData mod 10);
                   n2 = NUMBERS ! (hashData div 10 mod 10)
               in [n1, n2]))"

definition sea_prefix :: "prefix_cache \<Rightarrow> string \<Rightarrow> string \<Rightarrow> string" where
  "sea_prefix cache code name =
     (let category = sea_category code name;
          hash = code_hash code;
          prefix = avoid_collision 50 cache hash category 0 (get2CharPrefix hash category)
      in if two_upper prefix then [NUMBERS ! (hash mod 10), LETTERS ! (hash mod 22)] else prefix)"

definition generatePrefix ::
  "string list \<Rightarrow> prefix_cache \<Rightarrow> string \<Rightarrow> bool \<Rightarrow> string \<Rightarrow> prefix_cache \<times> string" where
  "generatePrefix countries cache code isSea name =
     (let cacheKey = prefix_cache_key code isSea in
      case map_of cache cacheKey of
        Some cached \<Rightarrow> (cache, cached)
      | None \<Rightarrow>
          (let prefix =
             (if isSea then
                (case find (\<lambda>(longCode, _). js_includes longCode code) seaCodeMap of
                   Some (_, shortCode) \<Rightarrow> shortCode
                 | None \<Rightarrow> sea_prefix cache code name)
              else land_prefix countries code name)
           in (AList.update cacheKey prefix cache, prefix)))"

text \<open>A run of the generator over a list of requests.\<close>

fun generate_all :: "string list \<Rightarrow> prefix_cache \<Rightarrow> (string \<times> bool \<times> string) list
    \<Rightarrow> prefix_cache \<times> string list" where
  "generate_all countries cache [] = (cache, [])"
| "generate_all countries cache ((code, isSea, name) # reqs) =
     (let (cache1, p) = generatePrefix countries cache code isSea name;
          (cache2, ps) = generate_all countries cache1 reqs
      in (cache2, p # ps))"

subsection \<open>Shapes\<close>

definition sea_shape :: "string \<Rightarrow> bool" where
  "sea_shape p \<longleftrightarrow> (\<exists>a b. p = [a, b] \<and>
     (a \<in> set LETTERS \<union> {CHR ''I''} \<and> b \<in> set NUMBERS \<or> a \<in> set NUMBERS \<and> b \<in> set LETTERS))"

definition land_shape :: "string \<Rightarrow> bool" where
  "land_shape p \<longleftrightarrow> two_upper p \<or> two_digit p"

lemma NUMBERS_nth: "i < 10 \<Longrightarrow> NUMBERS ! i \<in> set NUMBERS"
  by (rule nth_mem) (simp add: NUMBERS_def)

lemma LETTERS_nth: "i < 22 \<Longrightarrow> LETTERS ! i \<in> set LETTERS"
  by (rule nth_mem) (simp add: LETTERS_def)

lemma NUMBERS_digits: "c \<in> set NUMBERS \<Longrightarrow> is_digit_char c \<and> \<not> is_upper_char c"
  by (auto simp: NUMBERS_def is_digit_char_def is_upper_char_def char_in_range_def)

lemma LETTERS_upper: "c \<in> set LETTERS \<Longrightarrow> is_upper_char c \<and> \<not> is_digit_char c"
  by (auto simp: LETTERS_def is_digit_char_def is_upper_char_def char_in_range_def)

lemma get2CharPrefix_sea: "c \<noteq> OTHER \<Longrightarrow> sea_shape (get2CharPrefix v c)"
  by (cases c) (auto simp: get2CharPrefix_def sea_shape_def Let_def OPEN_OCEAN_CODES_def
      COASTAL_SEA_CODES_def less_mult_imp_div_less NUMBERS_nth LETTERS_nth)

lemma sea_category_sea: "sea_category code name \<noteq> OTHER"
  by (simp add: sea_category_def Let_def)

lemma avoid_collision_shape:
  "c \<noteq> OTHER \<Longrightarrow> sea_shape p \<Longrightarrow> sea_shape (avoid_collision n cache h c a p)"
  by (induction n cache h c a p rule: avoid_collision.induct) (auto simp: get2CharPrefix_sea)

lemma sea_shape_chars:
  "sea_shape p \<Longrightarrow> \<exists>a b. p = [a, b] \<and> (is_upper_char a \<and> is_digit_char b \<or> is_digit_char a \<and> is_upper_char b)"
proof -
  have "is_upper_char (CHR ''I'')" by (simp add: is_upper_char_def char_in_range_def)
  then show "sea_shape p \<Longrightarrow> ?thesis"
    unfolding sea_shape_def using NUMBERS_digits LETTERS_upper by blast
qed

lemma upper_not_digit: "is_upper_char c \<Longrightarrow> \<not> is_digit_char c"
  by (simp add: is_upper_char_def is_digit_char_def char_in_range_def)

lemma sea_shape_not_land: "sea_shape p \<Longrightarrow> \<not> land_shape p"
proof -
  assume "sea_shape p"
  then obtain a b where p: "p = [a, b]"
    and ab: "is_upper_char a \<and> is_digit_char b \<or> is_digit_char a \<and> is_upper_char b"
    using sea_shape_chars by blast
  from ab show ?thesis
    using upper_not_digit [of a] upper_not_digit [of b]
    by (simp only: p land_shape_def two_upper_def two_digit_def list.pred_inject) blast
qed

lemma sea_prefix_shape: "sea_shape (sea_prefix cache code name)"
proof -
  let ?h = "code_hash code" and ?c = "sea_category code name"
  have shape: "sea_shape (avoid_collision 50 cache ?h ?c 0 (get2CharPrefix ?h ?c))"
    by (intro avoid_collision_shape get2CharPrefix_sea sea_category_sea)
  then have "\<not> two_upper (avoid_collision 50 cache ?h ?c 0 (get2CharPrefix ?h ?c))"
    using sea_shape_not_land by (auto simp: land_shape_def)
  with shape show ?thesis by (simp add: sea_prefix_def Let_def)
qed

lemma land_prefix_shape: "land_shape (land_prefix countries code name)"
  using NUMBERS_digits NUMBERS_nth
  by (auto simp: land_prefix_def land_shape_def two_digit_def Let_def)

lemma sea_shape_pair: "sea_shape [a, b] \<longleftrightarrow>
    a \<in> set LETTERS \<union> {CHR ''I''} \<and> b \<in> set NUMBERS \<or> a \<in> set NUMBERS \<and> b \<in> set LETTERS"
  by (simp add: sea_shape_def)

lemma seaCodeMap_shape: "find P seaCodeMap = Some (k, p) \<Longrightarrow> sea_shape p"
proof -
  assume "find P seaCodeMap = Some (k, p)"
  then have "(k, p) \<in> set seaCodeMap" by (metis find_Some_iff nth_mem)
  moreover have "list_all (\<lambda>(k, p). sea_shape p) seaCodeMap"
    by (simp add: seaCodeMap_def sea_shape_pair LETTERS_def NUMBERS_def)
  ultimately show ?thesis by (auto simp: list_all_iff)
qed

subsection \<open>The cache\<close>

text \<open>Every entry has the shape of its kind of key.\<close>

definition cache_ok :: "prefix_cache \<Rightarrow> bool" where
  "cache_ok cache \<longleftrightarrow> distinct (map fst cache)
     \<and> (\<forall>code isSea p. map_of cache (prefix_cache_key code isSea) = Some p
           \<longrightarrow> (if isSea then sea_shape p else land_shape p))"

lemma cache_key_inj:
  "prefix_cache_key a s = prefix_cache_key b t \<longleftrightarrow> a = b \<and> s = t"
proof
  assume eq: "prefix_cache_key a s = prefix_cache_key b t"
  then have "rev (prefix_cache_key a s) = rev (prefix_cache_key b t)" by simp
  then have "s = t" by (auto simp: prefix_cache_key_def split: if_splits)
  with eq show "a = b \<and> s = t" by (simp add: prefix_cache_key_def)
qed simp

lemma cache_ok_empty: "cache_ok []"
  by (simp add: cache_ok_def)

lemma cache_ok_update:
  "cache_ok cache \<Longrightarrow> (if isSea then sea_shape p else land_shape p)
    \<Longrightarrow> cache_ok (AList.update (prefix_cache_key code isSea) p cache)"
  by (auto simp: cache_ok_def cache_key_inj split: if_splits)

lemma generatePrefix_new_shape:
  assumes "map_of cache (prefix_cache_key code isSea) = None"
  shows "\<exists>p. generatePrefix countries cache code isSea name
      = (AList.update (prefix_cache_key code isSea) p cache, p)
    \<and> (if isSea then sea_shape p else land_shape p)"
  using assms sea_prefix_shape land_prefix_shape seaCodeMap_shape
  by (auto simp: generatePrefix_def Let_def split: option.splits)

lemma generatePrefix_ok:
  assumes "cache_ok cache"
    and "generatePrefix countries cache code isSea name = (cache', p)"
  shows "cache_ok cache'" and "if isSea then sea_shape p else land_shape p"
    and "map_of cache' (prefix_cache_key code isSea) = Some p"
    and "map_of cache \<subseteq>\<^sub>m map_of cache'"
proof -
  have "cache_ok cache' \<and> (if isSea then sea_shape p else land_shape p)
    \<and> map_of cache' (prefix_cache_key code isSea) = Some p \<and> map_of cache \<subseteq>\<^sub>m map_of cache'"
  proof (cases "map_of cache (prefix_cache_key code isSea)")
    case None
    from generatePrefix_new_shape [OF this, of countries name] assms show ?thesis
      using None by (auto simp: cache_ok_update map_le_def)
  next
    case (Some q)
    then have "cache' = cache \<and> p = q" using assms(2) by (simp add: generatePrefix_def)
    with Some assms(1) show ?thesis by (auto simp: cache_ok_def)
  qed
  then show "cache_ok cache'" and "if isSea then sea_shape p else land_shape p"
    and "map_of cache' (prefix_cache_key code isSea) = Some p"
    and "map_of cache \<subseteq>\<^sub>m map_of cache'" by auto
qed

lemma generate_all_ok:
  "cache_ok cache \<Longrightarrow> generate_all countries cache reqs = (cache', ps)
    \<Longrightarrow> cache_ok cache' \<and> map_of cache \<subseteq>\<^sub>m map_of cache' \<and> length ps = length reqs
      \<and> list_all2 (\<lambda>(code, isSea, _) p. map_of cache' (prefix_cache_key code isSea) = Some p) reqs ps"
proof (induction countries cache reqs arbitrary: cache' ps rule: generate_all.induct)
  case (1 countries cache)
  then show ?case by simp
next
  case (2 countries cache code isSea name reqs)
  obtain c1 p where one: "generatePrefix countries cache code isSea name = (c1, p)"
    by (metis surj_pair)
  obtain c2 qs where rest: "generate_all countries c1 reqs = (c2, qs)"
    by (metis surj_pair)
  have res: "cache' = c2" "ps = p # qs"
    using "2.prems"(2) one rest by simp_all
  note step = generatePrefix_ok [OF "2.prems"(1) one]
  have ih: "cache_ok c2 \<and> map_of c1 \<subseteq>\<^sub>m map_of c2 \<and> length qs = length reqs
      \<and> list_all2 (\<lambda>(code, isSea, _) p. map_of c2 (prefix_cache_key code isSea) = Some p) reqs qs"
    using "2.IH" one step(1) rest by simp
  have "map_of c2 (prefix_cache_key code isSea) = Some p"
    using ih step(3) by (metis domI map_le_def)
  with ih step(4) res show ?case by (auto intro: map_le_trans)
qed

subsection \<open>Evaluation on concrete requests\<close>

lemma avoid_collision_numeral [simp]:
  "avoid_collision (numeral k) cache hash category attempts prefix =
     (if prefix \<in> snd ` set cache
      then avoid_collision (pred_numeral k) cache hash category (attempts + 1)
             (get2CharPrefix (hash + attempts + 1) category)
      else prefix)"
  by (simp add: numeral_eq_Suc)

lemmas prefix_eval = generatePrefix_def Let_def prefix_cache_key_def seaCodeMap_def sea_prefix_def
  sea_category_def land_prefix_def code_hash_def push_bit_eq_mult get2CharPrefix_def js_starts_with_def
  OPEN_OCEAN_CODES_def COASTAL_SEA_CODES_def OTHER_CODES_def NUMBERS_def LETTERS_def two_upper_def
  js_upper_def upper_char_def is_upper_char_def is_lower_char_def char_in_range_def

definition sample_requests :: "(string \<times> bool \<times> string) list" where
  "sample_requests = [(''JP'', False, ''Japan''), (''SULU'', True, ''Sulu Sea''),
     (''TASM'', True, ''Tasman Sea'')]"

lemma sample_run:
  "generate_all [''JP''] [] sample_requests =
     ([(''JP_false'', ''JP''), (''SULU_true'', ''7F''), (''TASM_true'', ''7G'')], [''JP'', ''7F'', ''7G''])"
  unfolding sample_requests_def by (simp add: prefix_eval)

subsection \<open>Properties\<close>

text \<open>Whatever requests came before, a sea region gets a prefix of one letter and one digit, in
  either order, and a land region gets two capital letters or two digits; so no sea prefix is ever
  a land prefix, even though the collision loop gives up after 50 attempts.\<close>

theorem generated_prefix_shapes:
  assumes "generate_all countries [] reqs = (cache, ps)" and "i < length reqs"
    and "reqs ! i = (code, isSea, name)"
  shows "length ps = length reqs
    \<and> (if isSea then sea_shape (ps ! i) \<and> \<not> land_shape (ps ! i) else land_shape (ps ! i))"
proof -
  from generate_all_ok [OF cache_ok_empty assms(1)]
  have ok: "cache_ok cache" and len: "length ps = length reqs"
    and all: "list_all2 (\<lambda>(code, isSea, _) p. map_of cache (prefix_cache_key code isSea) = Some p) reqs ps"
    by auto
  have "map_of cache (prefix_cache_key code isSea) = Some (ps ! i)"
    using list_all2_nthD [OF all assms(2)] assms(3) by simp
  with ok have "if isSea then sea_shape (ps ! i) else land_shape (ps ! i)"
    by (auto simp: cache_ok_def)
  with len show ?thesis by (simp add: sea_shape_not_land split: if_splits)
qed

theorem generated_prefix_shapes_witness:
  "sea_shape ''7F'' \<and> \<not> land_shape ''7F'' \<and> land_shape ''JP''"
  using generated_prefix_shapes [OF sample_run, of 1 "''SULU''" True "''Sulu Sea''"]
    generated_prefix_shapes [OF sample_run, of 0 "''JP''" False "''Japan''"]
  by (simp add: sample_requests_def)

text \<open>A repeated request, with other requests in between, returns the prefix of the first one and
  does not depend on the name given the second time.\<close>

theorem generatePrefix_stable:
  assumes "generatePrefix countries [] code isSea name = (cache1, p)"
    and "generate_all countries cache1 reqs = (cache2, ps)"
  shows "generatePrefix countries cache2 code isSea name' = (cache2, p)"
proof -
  note step = generatePrefix_ok [OF cache_ok_empty assms(1)]
  have "map_of cache1 \<subseteq>\<^sub>m map_of cache2"
    using generate_all_ok [OF step(1) assms(2)] by simp
  with step(3) have "map_of cache2 (prefix_cache_key code isSea) = Some p"
    by (metis domI map_le_def)
  then show ?thesis by (simp add: generatePrefix_def)
qed

theorem generatePrefix_stable_witness:
  "\<exists>cache. generatePrefix [''JP''] cache ''SULU'' True ''Renamed'' = (cache, ''7F'')
     \<and> map_of cache ''TASM_true'' = Some ''7G''"
proof -
  have first: "generatePrefix [''JP''] [] ''SULU'' True ''Sulu Sea'' = ([(''SULU_true'', ''7F'')], ''7F'')"
    by (simp add: prefix_eval)
  have rest: "generate_all [''JP''] [(''SULU_true'', ''7F'')] [(''TASM'', True, ''Tasman Sea'')]
      = ([(''SULU_true'', ''7F''), (''TASM_true'', ''7G'')], [''7G''])"
    by (simp add: prefix_eval)
  from generatePrefix_stable [OF first rest, of "''Renamed''"] show ?thesis by auto
qed

text \<open>The prefix of a sea region is not a function of the region: two regions of the catalogue hash
  to the same code, so the one asked for second gets another prefix, and the order of the requests
  decides which.\<close>

theorem sea_prefix_depends_on_order:
  "map_of (fst (generate_all [''JP''] [] [(''TASM'', True, ''Tasman Sea''), (''SULU'', True, ''Sulu Sea'')]))
       ''SULU_true'' = Some ''7G''
   \<and> map_of (fst (generate_all [''JP''] [] [(''SULU'', True, ''Sulu Sea''), (''TASM'', True, ''Tasman Sea'')]))
       ''SULU_true'' = Some ''7F''"
  by (simp add: prefix_eval)

end
