(* ===== verification/Stable_Json.thy ===== *)
theory Stable_Json
  imports Js_Value
begin

section \<open>Canonical JSON and ISO instants\<close>

text \<open>
  \<open>stableJson\<close>, the same function in \<open>src/src/lib/addressOfflineSyncCrdt.ts\<close> and in other modules
  that hash or compare records: JSON text with the keys of every object sorted. \<open>JSON.parse\<close> of such a
  text, which the code uses to clone a value, is \<open>json_clone\<close>; \<open>iso_string\<close> is \<open>toISOString\<close>.
\<close>

subsection \<open>JSON text\<close>

definition hex4 :: "nat \<Rightarrow> string" where
  "hex4 n = ''00'' @ [''0123456789abcdef'' ! (n div 16), ''0123456789abcdef'' ! (n mod 16)]"

definition json_escape :: "char \<Rightarrow> string" where
  "json_escape c = (let n = (of_char c :: nat) in
     if n = 34 then [CHR 0x5C, CHR 0x22]
     else if n = 92 then [CHR 0x5C, CHR 0x5C]
     else if n = 8 then [CHR 0x5C, CHR ''b'']
     else if n = 9 then [CHR 0x5C, CHR ''t'']
     else if n = 10 then [CHR 0x5C, CHR ''n'']
     else if n = 12 then [CHR 0x5C, CHR ''f'']
     else if n = 13 then [CHR 0x5C, CHR ''r'']
     else if n < 32 then [CHR 0x5C, CHR ''u''] @ hex4 n
     else [c])"

definition json_string :: "string \<Rightarrow> string" where
  "json_string s = [CHR 0x22] @ concat (map json_escape s) @ [CHR 0x22]"

fun join_with :: "string \<Rightarrow> string list \<Rightarrow> string" where
  "join_with sep [] = []"
| "join_with sep [s] = s"
| "join_with sep (s # t # ts) = s @ sep @ join_with sep (t # ts)"

text \<open>In a template literal \<open>undefined\<close> prints as that word, in \<open>join\<close> as the empty string.\<close>

fun stableJson :: "js_value \<Rightarrow> string"
  and stableJson_items :: "js_value list \<Rightarrow> string list"
  and stableJson_props :: "(string \<times> js_value) list \<Rightarrow> (string \<times> string) list" where
  "stableJson (JArr vs) = ''['' @ join_with '','' (stableJson_items vs) @ '']''"
| "stableJson (JObj ps) =
     ''{'' @ join_with '','' (map (\<lambda>(key, text). json_string key @ '':'' @ text)
        (sort_key fst (stableJson_props ps))) @ ''}''"
| "stableJson (JStr s) = json_string s"
| "stableJson (JNum n) = int_str n"
| "stableJson JNonFinite = ''null''"
| "stableJson (JBool b) = (if b then ''true'' else ''false'')"
| "stableJson JNull = ''null''"
| "stableJson JUndefined = ''undefined''"
| "stableJson_items [] = []"
| "stableJson_items (v # vs) =
     (if v = JUndefined then [] else stableJson v) # stableJson_items vs"
| "stableJson_props [] = []"
| "stableJson_props ((k, v) # ps) = (k, stableJson v) # stableJson_props ps"

fun json_clone :: "js_value \<Rightarrow> js_value"
  and json_clone_items :: "js_value list \<Rightarrow> js_value list"
  and json_clone_props :: "(string \<times> js_value) list \<Rightarrow> (string \<times> js_value) list" where
  "json_clone (JArr vs) = JArr (json_clone_items vs)"
| "json_clone (JObj ps) = JObj (sort_key fst (json_clone_props ps))"
| "json_clone JNonFinite = JNull"
| "json_clone v = v"
| "json_clone_items [] = []"
| "json_clone_items (v # vs) = json_clone v # json_clone_items vs"
| "json_clone_props [] = []"
| "json_clone_props ((k, v) # ps) = (k, json_clone v) # json_clone_props ps"

lemma stableJson_props_map: "stableJson_props ps = map (map_prod id stableJson) ps"
  by (induction ps) auto

lemma json_clone_props_map: "json_clone_props ps = map (map_prod id json_clone) ps"
  by (induction ps) auto

lemma sort_key_fst_map_prod: fixes f :: "'a \<Rightarrow> 'b" and ps :: "(string \<times> 'a) list"
  shows "sort_key fst (map (map_prod id f) ps) = map (map_prod id f) (sort_key fst ps)"
proof -
  have ins: "insort_key fst (map_prod id f p) (map (map_prod id f) qs)
      = map (map_prod id f) (insort_key fst p qs)" for p :: "string \<times> 'a" and qs
    by (induction qs) auto
  show ?thesis unfolding id_def by (induction ps) (simp_all add: ins [unfolded id_def])
qed

lemma sort_key_idem: "sort_key f (sort_key f xs) = sort_key f xs"
  by (rule sort_key_id_if_sorted) (rule sorted_sort_key)

lemma json_clone_Undefined: "json_clone v = JUndefined \<longleftrightarrow> v = JUndefined"
  by (cases v) auto

lemma stableJson_clone:
  "stableJson (json_clone v) = stableJson v"
  "stableJson_items (json_clone_items vs) = stableJson_items vs"
  "stableJson_props (json_clone_props ps) = stableJson_props ps"
proof (induction v and vs and ps rule: json_clone_json_clone_items_json_clone_props.induct)
  case (2 ps)
  have "sort_key fst (stableJson_props (sort_key fst (json_clone_props ps)))
      = sort_key fst (stableJson_props (json_clone_props ps))"
    by (simp add: stableJson_props_map sort_key_fst_map_prod sort_key_idem)
  with 2 show ?case by simp
qed (auto simp: json_clone_Undefined)

text \<open>The text does not depend on the order in which the properties of an object were set.\<close>

lemma stableJson_permuted:
  assumes "mset ps = mset qs" and "distinct (map fst ps)"
  shows "stableJson (JObj ps) = stableJson (JObj qs)"
proof -
  have "inj_on fst (set ps)" using assms(2) by (simp add: distinct_map)
  then have "sort_key fst ps = sort_key fst qs"
    using assms(1) by (intro sort_key_inj_key_eq) simp_all
  then show ?thesis by (simp add: stableJson_props_map sort_key_fst_map_prod)
qed

text \<open>Canonical text: setting the properties of an object in another order, or cloning the value
  through its own text, does not change the text that is hashed and compared.\<close>

theorem stableJson_canonical:
  assumes "mset ps = mset qs" and "distinct (map fst ps)"
  shows "stableJson (JObj ps) = stableJson (JObj qs)
    \<and> stableJson (json_clone (JObj qs)) = stableJson (JObj ps)"
  using stableJson_permuted [OF assms] by (simp only: stableJson_clone simp_thms)

theorem stableJson_canonical_witness:
  "stableJson (JObj [(''b'', JNum 1), (''a'', JArr [JUndefined, JBool True])])
     = stableJson (JObj [(''a'', JArr [JUndefined, JBool True]), (''b'', JNum 1)])"
  by (rule stableJson_canonical [THEN conjunct1]) simp_all

subsection \<open>Instants\<close>

text \<open>\<open>new Date(ms).toISOString()\<close> for the years 0 to 9999, by the proleptic Gregorian calendar.\<close>

definition pad_left :: "nat \<Rightarrow> string \<Rightarrow> string" where
  "pad_left n s = replicate (n - length s) (CHR ''0'') @ s"

definition civil_of_days :: "int \<Rightarrow> int \<times> int \<times> int" where
  "civil_of_days z =
     (let z = z + 719468;
          era = z div 146097;
          doe = z mod 146097;
          yoe = (doe - doe div 1460 + doe div 36524 - doe div 146096) div 365;
          doy = doe - (365 * yoe + yoe div 4 - yoe div 100);
          mp = (5 * doy + 2) div 153;
          d = doy - (153 * mp + 2) div 5 + 1;
          m = (if mp < 10 then mp + 3 else mp - 9)
      in (yoe + era * 400 + (if m \<le> 2 then 1 else 0), m, d))"

definition iso_string :: "int \<Rightarrow> string" where
  "iso_string ms =
     (let days = ms div 86400000; r = ms mod 86400000;
          pad = (\<lambda>n i. pad_left n (int_str i))
      in case civil_of_days days of (y, m, d) \<Rightarrow>
         pad 4 y @ ''-'' @ pad 2 m @ ''-'' @ pad 2 d @ ''T''
         @ pad 2 (r div 3600000) @ '':'' @ pad 2 (r div 60000 mod 60) @ '':''
         @ pad 2 (r div 1000 mod 60) @ ''.'' @ pad 3 (r mod 1000) @ ''Z'')"

end
