(* ===== verification/Version_Clock.thy ===== *)
theory Version_Clock
  imports Main
begin

section \<open>Version clocks\<close>

text \<open>
  What the merge of replicated state relies on: a clock assigns a counter to every actor, the join
  takes the greater counter everywhere, and the comparison reports the pointwise order. The facts the
  merge needs (least upper bound, antisymmetry of the comparison, transitivity of causality) follow.
\<close>

datatype clock_order = Equal | Before | After | Concurrent

fun flip_order :: "clock_order \<Rightarrow> clock_order" where
  "flip_order Before = After"
| "flip_order After = Before"
| "flip_order o' = o'"

locale version_clock =
  fixes ok :: "'c \<Rightarrow> bool"
    and at :: "'c \<Rightarrow> 'a \<Rightarrow> int"
    and join :: "'c \<Rightarrow> 'c \<Rightarrow> 'c"
    and cmp :: "'c \<Rightarrow> 'c \<Rightarrow> clock_order"
  assumes ok_join: "ok c \<Longrightarrow> ok d \<Longrightarrow> ok (join c d)"
    and at_join: "ok c \<Longrightarrow> ok d \<Longrightarrow> at (join c d) a = max (at c a) (at d a)"
    and cmp_Equal: "cmp c d = Equal \<longleftrightarrow> (\<forall>a. at c a = at d a)"
    and cmp_Before: "cmp c d = Before \<longleftrightarrow> (\<forall>a. at c a \<le> at d a) \<and> (\<exists>a. at c a < at d a)"
    and cmp_After: "cmp c d = After \<longleftrightarrow> (\<forall>a. at d a \<le> at c a) \<and> (\<exists>a. at d a < at c a)"
begin

lemma cmp_Concurrent: "cmp c d = Concurrent \<longleftrightarrow> (\<exists>a. at c a < at d a) \<and> (\<exists>a. at d a < at c a)"
proof -
  have "cmp c d = Concurrent \<longleftrightarrow> cmp c d \<noteq> Equal \<and> cmp c d \<noteq> Before \<and> cmp c d \<noteq> After"
    by (cases "cmp c d") simp_all
  then show ?thesis
    unfolding cmp_Equal cmp_Before cmp_After by (metis linorder_not_less order_le_less)
qed

lemma cmp_flip: "cmp d c = flip_order (cmp c d)"
proof (cases "cmp c d")
  case Equal
  then show ?thesis using cmp_Equal [of c d] cmp_Equal [of d c] by simp
next
  case Before
  then show ?thesis using cmp_Before [of c d] cmp_After [of d c] by simp
next
  case After
  then show ?thesis using cmp_After [of c d] cmp_Before [of d c] by simp
next
  case Concurrent
  then show ?thesis using cmp_Concurrent [of c d] cmp_Concurrent [of d c] by simp
qed

lemma cmp_le: "cmp c d \<in> {Equal, Before} \<longleftrightarrow> (\<forall>a. at c a \<le> at d a)"
  unfolding insert_iff empty_iff cmp_Equal cmp_Before by (metis order_le_less)

lemma cmp_trans: "cmp c d = Before \<Longrightarrow> cmp d e \<in> {Equal, Before} \<Longrightarrow> cmp c e = Before"
  unfolding cmp_le cmp_Before by (meson order_less_le_trans order_trans)

lemma join_upper: "ok c \<Longrightarrow> ok d \<Longrightarrow> cmp c (join c d) \<in> {Equal, Before}"
  unfolding cmp_le by (simp add: at_join)

lemma join_least:
  "ok c \<Longrightarrow> ok d \<Longrightarrow> cmp c e \<in> {Equal, Before} \<Longrightarrow> cmp d e \<in> {Equal, Before}
    \<Longrightarrow> cmp (join c d) e \<in> {Equal, Before}"
  unfolding cmp_le by (simp add: at_join)

lemma join_comm: "ok c \<Longrightarrow> ok d \<Longrightarrow> cmp (join c d) (join d c) = Equal"
  unfolding cmp_Equal by (simp add: at_join max.commute)

lemma join_assoc:
  "ok c \<Longrightarrow> ok d \<Longrightarrow> ok e \<Longrightarrow> cmp (join (join c d) e) (join c (join d e)) = Equal"
  unfolding cmp_Equal by (simp add: at_join ok_join max.assoc)

lemma join_idem: "ok c \<Longrightarrow> cmp (join c c) c = Equal"
  unfolding cmp_Equal by (simp add: at_join)

lemma join_absorb: "ok c \<Longrightarrow> ok d \<Longrightarrow> cmp c d \<in> {Equal, Before} \<Longrightarrow> cmp (join c d) d = Equal"
  unfolding cmp_le cmp_Equal by (simp add: at_join max_absorb2)

end

end
