(* ===== verification/Crdt_Clock.thy ===== *)
theory Crdt_Clock
  imports Stable_Json Version_Clock
begin

section \<open>Offline sync: text cleaning and clocks\<close>

text \<open>
  The first part of \<open>src/src/lib/addressOfflineSyncCrdt.ts\<close>: the cleaning of identifiers and the
  operations on version clocks. A clock is the list of its properties; \<open>undefined\<close> is the empty list
  (\<open>clock || {}\<close>); the counters are integers.
\<close>

subsection \<open>Cleaning\<close>

definition cleanText :: "js_value \<Rightarrow> string \<Rightarrow> string" where
  "cleanText value fallback = (case value of
     JStr s \<Rightarrow> replace_runs (\<lambda>c. (of_char c :: nat) \<in> {9, 10, 13}) '' '' (js_trim s)
   | _ \<Rightarrow> fallback)"

definition key_char :: "char \<Rightarrow> bool" where
  "key_char c \<longleftrightarrow> is_upper_char c \<or> is_lower_char c \<or> is_digit_char c
     \<or> c \<in> {CHR '':'', CHR ''.'', CHR ''_'', CHR ''-''}"

definition strip_dashes :: "string \<Rightarrow> string" where
  "strip_dashes s = (let dash = (\<lambda>c. c = CHR ''-'') in rev (dropWhile dash (rev (dropWhile dash s))))"

definition clean_key_text :: "string \<Rightarrow> string" where
  "clean_key_text text = take 120 (strip_dashes (replace_runs (\<lambda>c. \<not> key_char c) ''-'' text))"

definition cleanKey :: "js_value \<Rightarrow> string \<Rightarrow> string" where
  "cleanKey value fallback =
     (let key = clean_key_text (cleanText value fallback) in if key = [] then fallback else key)"

text \<open>\<open>Date.parse\<close> of the text is the argument: \<open>None\<close> for missing or unreadable text.\<close>

definition cleanIso :: "int option \<Rightarrow> int \<Rightarrow> int" where
  "cleanIso parsed fallback = (case parsed of None \<Rightarrow> fallback | Some ms \<Rightarrow> ms)"

subsection \<open>Clocks\<close>

type_synonym clock = "(string \<times> int) list"

definition counter :: "clock \<Rightarrow> string \<Rightarrow> int" where
  "counter c actor = (case map_of c actor of None \<Rightarrow> 0 | Some n \<Rightarrow> n)"

definition normalizeClock :: "clock \<Rightarrow> clock" where
  "normalizeClock clock =
     foldl (\<lambda>result (actor, value).
        let key = cleanKey (JStr actor) []; numeric = max 0 value
        in if key \<noteq> [] then AList.update key numeric result else result) [] clock"

definition incrementAddressOfflineCrdtClock :: "clock \<Rightarrow> js_value \<Rightarrow> clock" where
  "incrementAddressOfflineCrdtClock clock actorId =
     (let next = normalizeClock clock;
          actor = cleanKey actorId ''local-actor''
      in AList.update actor (counter next actor + 1) next)"

definition clock_actors :: "clock \<Rightarrow> clock \<Rightarrow> string list" where
  "clock_actors l r = js_uniq (map fst l @ map fst r)"

definition joinAddressOfflineCrdtClocks :: "clock \<Rightarrow> clock \<Rightarrow> clock" where
  "joinAddressOfflineCrdtClocks left right =
     (let normalizedLeft = normalizeClock left; normalizedRight = normalizeClock right
      in foldl (\<lambda>result actor.
           AList.update actor (max (counter normalizedLeft actor) (counter normalizedRight actor)) result)
         [] (clock_actors normalizedLeft normalizedRight))"

definition compareAddressOfflineCrdtClocks :: "clock \<Rightarrow> clock \<Rightarrow> clock_order" where
  "compareAddressOfflineCrdtClocks left right =
     (let normalizedLeft = normalizeClock left; normalizedRight = normalizeClock right;
          (leftLess, leftGreater) =
            foldl (\<lambda>(leftLess, leftGreater) actor.
              let a = counter normalizedLeft actor; b = counter normalizedRight actor
              in (leftLess \<or> a < b, leftGreater \<or> a > b))
            (False, False) (clock_actors normalizedLeft normalizedRight)
      in if \<not> leftLess \<and> \<not> leftGreater then Equal
         else if leftLess \<and> \<not> leftGreater then Before
         else if \<not> leftLess \<and> leftGreater then After
         else Concurrent)"

subsection \<open>The counters of a clock\<close>

text \<open>A clock whose identifiers cleaning leaves alone: what the code's own operations produce from
  identifiers of that kind.\<close>

definition clock_ok :: "clock \<Rightarrow> bool" where
  "clock_ok c \<longleftrightarrow> distinct (map fst c)
     \<and> (\<forall>(k, v) \<in> set c. cleanKey (JStr k) [] = k \<and> k \<noteq> [] \<and> 0 \<le> v)"

definition clock_at :: "clock \<Rightarrow> string \<Rightarrow> int" where
  "clock_at c a = counter (normalizeClock c) a"

lemma normalize_fold:
  "distinct (map fst (acc @ c)) \<Longrightarrow> \<forall>(k, v) \<in> set c. cleanKey (JStr k) [] = k \<and> k \<noteq> [] \<and> 0 \<le> v \<Longrightarrow>
    foldl (\<lambda>result (actor, value).
        let key = cleanKey (JStr actor) []; numeric = max 0 value
        in if key \<noteq> [] then AList.update key numeric result else result) acc c = acc @ c"
proof (induction c arbitrary: acc)
  case (Cons p c)
  obtain k v where p: "p = (k, v)" by (cases p)
  with Cons.prems have "AList.update k (max 0 v) acc = acc @ [(k, v)]"
    by (auto simp: update_new max_def)
  with Cons p show ?case by (simp add: Let_def)
qed simp

lemma normalizeClock_ok: "clock_ok c \<Longrightarrow> normalizeClock c = c"
  using normalize_fold [of "[]" c] by (simp add: clock_ok_def normalizeClock_def)

lemma clock_at_ok: "clock_ok c \<Longrightarrow> clock_at c a = counter c a"
  by (simp add: clock_at_def normalizeClock_ok)

lemma join_eq_map:
  "joinAddressOfflineCrdtClocks l r = map (\<lambda>a. (a, max (clock_at l a) (clock_at r a)))
     (clock_actors (normalizeClock l) (normalizeClock r))"
  unfolding joinAddressOfflineCrdtClocks_def Let_def clock_at_def
  by (subst foldl_update_map) (simp_all add: clock_actors_def)

lemma counter_absent: "a \<notin> fst ` set c \<Longrightarrow> counter c a = 0"
  unfolding map_of_eq_None_iff [symmetric] by (simp add: counter_def)

lemma counter_join_map:
  "counter (map (\<lambda>a. (a, f a)) as) a = (if a \<in> set as then f a else 0)"
  by (simp add: counter_def map_of_map_restrict)

lemma join_counter: "counter (joinAddressOfflineCrdtClocks l r) a = max (clock_at l a) (clock_at r a)"
proof (cases "a \<in> set (clock_actors (normalizeClock l) (normalizeClock r))")
  case False
  then show ?thesis
    by (simp add: join_eq_map counter_join_map clock_actors_def clock_at_def counter_absent image_iff)
qed (simp add: join_eq_map counter_join_map)

lemma counter_nonneg: "clock_ok c \<Longrightarrow> 0 \<le> counter c a"
  by (auto simp: counter_def clock_ok_def split: option.split dest!: map_of_SomeD)

lemma join_ok:
  assumes "clock_ok c" "clock_ok d"
  shows "clock_ok (joinAddressOfflineCrdtClocks c d)"
proof -
  have "cleanKey (JStr k) [] = k \<and> k \<noteq> []" if "k \<in> fst ` set c \<union> fst ` set d" for k
    using that assms by (auto simp: clock_ok_def)
  moreover have "0 \<le> max (clock_at c k) (clock_at d k)" for k
    using assms counter_nonneg by (simp add: clock_at_ok max.coboundedI1)
  ultimately show ?thesis
    unfolding join_eq_map normalizeClock_ok [OF assms(1)] normalizeClock_ok [OF assms(2)] clock_ok_def
    by (auto simp: clock_actors_def o_def)
qed

lemma compare_flags:
  "foldl (\<lambda>(l, g) a. (l \<or> f a < h a, g \<or> f a > h a)) (l, g) as
    = (l \<or> (\<exists>a \<in> set as. f a < h a), g \<or> (\<exists>a \<in> set as. f a > (h a :: int)))"
  by (induction as arbitrary: l g) (auto simp: Let_def)

lemma compare_eq:
  "compareAddressOfflineCrdtClocks l r =
    (let less = (\<exists>a. clock_at l a < clock_at r a); greater = (\<exists>a. clock_at l a > clock_at r a)
     in if \<not> less \<and> \<not> greater then Equal else if less \<and> \<not> greater then Before
        else if \<not> less \<and> greater then After else Concurrent)"
proof -
  let ?A = "set (clock_actors (normalizeClock l) (normalizeClock r))"
  have out: "clock_at l a = 0 \<and> clock_at r a = 0" if "a \<notin> ?A" for a
    using that by (auto simp: clock_actors_def clock_at_def intro: counter_absent)
  have "(\<exists>a \<in> ?A. clock_at l a < clock_at r a) \<longleftrightarrow> (\<exists>a. clock_at l a < clock_at r a)"
    "(\<exists>a \<in> ?A. clock_at l a > clock_at r a) \<longleftrightarrow> (\<exists>a. clock_at l a > clock_at r a)"
    using out by (metis less_irrefl)+
  then show ?thesis
    unfolding compareAddressOfflineCrdtClocks_def clock_at_def Let_def compare_flags by simp
qed

interpretation crdt_clock: version_clock clock_ok clock_at joinAddressOfflineCrdtClocks
  compareAddressOfflineCrdtClocks
proof
  fix c d :: clock and a
  show "clock_ok c \<Longrightarrow> clock_ok d \<Longrightarrow> clock_ok (joinAddressOfflineCrdtClocks c d)" by (rule join_ok)
  show "clock_ok c \<Longrightarrow> clock_ok d \<Longrightarrow>
      clock_at (joinAddressOfflineCrdtClocks c d) a = max (clock_at c a) (clock_at d a)"
    using join_ok join_counter by (simp add: clock_at_ok)
  show "compareAddressOfflineCrdtClocks c d = Equal \<longleftrightarrow> (\<forall>a. clock_at c a = clock_at d a)"
    unfolding compare_eq Let_def by (simp split: if_split) (metis linorder_neqE less_irrefl)
  show "compareAddressOfflineCrdtClocks c d = Before
      \<longleftrightarrow> (\<forall>a. clock_at c a \<le> clock_at d a) \<and> (\<exists>a. clock_at c a < clock_at d a)"
    unfolding compare_eq Let_def by (auto simp: not_less)
  show "compareAddressOfflineCrdtClocks c d = After
      \<longleftrightarrow> (\<forall>a. clock_at d a \<le> clock_at c a) \<and> (\<exists>a. clock_at d a < clock_at c a)"
    unfolding compare_eq Let_def by (auto simp: not_less)
qed

subsection \<open>Properties of the clocks\<close>

text \<open>The comparison of two clocks is the causal order: equal when all counters agree, before or after
  when one is below the other everywhere and somewhere strictly, concurrent otherwise; exchanging the
  clocks reverses the answer. This holds for every pair of clocks, cleaned or not.\<close>

theorem clock_compare_causal:
  "compareAddressOfflineCrdtClocks c d =
     (if \<forall>a. clock_at c a = clock_at d a then Equal
      else if \<forall>a. clock_at c a \<le> clock_at d a then Before
      else if \<forall>a. clock_at d a \<le> clock_at c a then After else Concurrent)
   \<and> compareAddressOfflineCrdtClocks d c = flip_order (compareAddressOfflineCrdtClocks c d)"
proof
  show "compareAddressOfflineCrdtClocks d c = flip_order (compareAddressOfflineCrdtClocks c d)"
    by (rule crdt_clock.cmp_flip)
  show "compareAddressOfflineCrdtClocks c d =
     (if \<forall>a. clock_at c a = clock_at d a then Equal
      else if \<forall>a. clock_at c a \<le> clock_at d a then Before
      else if \<forall>a. clock_at d a \<le> clock_at c a then After else Concurrent)"
    using crdt_clock.cmp_Equal [of c d] crdt_clock.cmp_Before [of c d] crdt_clock.cmp_After [of c d]
      crdt_clock.cmp_Concurrent [of c d]
    by (cases "compareAddressOfflineCrdtClocks c d") (auto simp: order_le_less not_less)
qed

text \<open>The join of two clocks is their least upper bound in the causal order.\<close>

theorem clock_join_least_upper_bound:
  assumes "clock_ok c" and "clock_ok d"
  shows "compareAddressOfflineCrdtClocks c (joinAddressOfflineCrdtClocks c d) \<in> {Equal, Before}
    \<and> compareAddressOfflineCrdtClocks d (joinAddressOfflineCrdtClocks c d) \<in> {Equal, Before}
    \<and> (compareAddressOfflineCrdtClocks c e \<in> {Equal, Before}
        \<and> compareAddressOfflineCrdtClocks d e \<in> {Equal, Before}
       \<longrightarrow> compareAddressOfflineCrdtClocks (joinAddressOfflineCrdtClocks c d) e \<in> {Equal, Before})"
proof (intro conjI impI)
  show "compareAddressOfflineCrdtClocks c (joinAddressOfflineCrdtClocks c d) \<in> {Equal, Before}"
    by (rule crdt_clock.join_upper [OF assms])
  show "compareAddressOfflineCrdtClocks d (joinAddressOfflineCrdtClocks c d) \<in> {Equal, Before}"
    unfolding crdt_clock.cmp_le crdt_clock.at_join [OF assms] by simp
next
  assume "compareAddressOfflineCrdtClocks c e \<in> {Equal, Before}
    \<and> compareAddressOfflineCrdtClocks d e \<in> {Equal, Before}"
  then show "compareAddressOfflineCrdtClocks (joinAddressOfflineCrdtClocks c d) e \<in> {Equal, Before}"
    by (intro crdt_clock.join_least [OF assms]) (rule conjunct1, assumption, rule conjunct2, assumption)
qed

definition sample_left :: clock where "sample_left = [(''a1'', 2), (''b'', 1)]"
definition sample_right :: clock where "sample_right = [(''b'', 4)]"

lemma sample_clocks_ok: "clock_ok sample_left" "clock_ok sample_right"
  by code_simp+

theorem clock_join_least_upper_bound_witness:
  "compareAddressOfflineCrdtClocks sample_left (joinAddressOfflineCrdtClocks sample_left sample_right)
     \<in> {Equal, Before}"
  by (rule clock_join_least_upper_bound [OF sample_clocks_ok, THEN conjunct1])

lemma increment_counter:
  "counter (incrementAddressOfflineCrdtClock c i) a =
     (if a = cleanKey i ''local-actor'' then clock_at c a + 1 else clock_at c a)"
  by (simp add: incrementAddressOfflineCrdtClock_def Let_def counter_def clock_at_def)

lemma increment_ok:
  assumes "clock_ok c" and "cleanKey (JStr (cleanKey i ''local-actor'')) [] = cleanKey i ''local-actor''"
    and "cleanKey i ''local-actor'' \<noteq> []"
  shows "clock_ok (incrementAddressOfflineCrdtClock c i)"
  using assms counter_nonneg [OF assms(1)]
  by (auto simp: incrementAddressOfflineCrdtClock_def Let_def clock_ok_def normalizeClock_ok
      dest!: set_update_entries)

text \<open>A local operation advances the clock: the incremented clock is after the old one, provided
  cleaning the cleaned actor identifier again leaves it alone.\<close>

theorem clock_increment_after:
  assumes "clock_ok c"
    and "cleanKey (JStr (cleanKey i ''local-actor'')) [] = cleanKey i ''local-actor''"
    and "cleanKey i ''local-actor'' \<noteq> []"
  shows "compareAddressOfflineCrdtClocks c (incrementAddressOfflineCrdtClock c i) = Before"
  unfolding crdt_clock.cmp_Before clock_at_ok [OF increment_ok [OF assms]] increment_counter
  by (auto intro!: exI [of _ "cleanKey i ''local-actor''"])

theorem clock_increment_after_witness:
  "compareAddressOfflineCrdtClocks sample_left
     (incrementAddressOfflineCrdtClock sample_left (JStr '' pos/7 '')) = Before"
  by (rule clock_increment_after [OF sample_clocks_ok(1)]) code_simp+

definition long_actor :: js_value where
  "long_actor = JStr (replicate 119 (CHR ''a'') @ ''-b'')"

abbreviation long_a :: string where "long_a \<equiv> replicate 119 (CHR ''a'')"

lemma long_actor_keys:
  "cleanKey long_actor ''local-actor'' = long_a @ ''-''"
  "cleanKey (JStr (long_a @ ''-'')) [] = long_a"
  "cleanKey (JStr long_a) [] = long_a"
  by code_simp+

lemma long_actor_clocks:
  "normalizeClock [] = []"
  "normalizeClock [(long_a @ ''-'', 1)] = [(long_a, 1)]"
  "normalizeClock [(long_a, 1), (long_a @ ''-'', 1)] = [(long_a, 1)]"
  by (simp_all add: normalizeClock_def long_actor_keys Let_def del: replicate.simps)

text \<open>The proviso is needed: the cleaning cuts an identifier at 120 characters after it has stripped
  dashes, so cleaning is not idempotent. An actor whose identifier is cut at a dash stops advancing:
  its third operation has the clock of its second, and merging treats the two as the same write.\<close>

theorem clock_increment_stalls:
  "(let c1 = incrementAddressOfflineCrdtClock [] long_actor;
        c2 = incrementAddressOfflineCrdtClock c1 long_actor;
        c3 = incrementAddressOfflineCrdtClock c2 long_actor
    in c3 = c2 \<and> compareAddressOfflineCrdtClocks c2 c3 = Equal)"
proof -
  have c1: "incrementAddressOfflineCrdtClock [] long_actor = [(long_a @ ''-'', 1)]"
    by (simp add: incrementAddressOfflineCrdtClock_def long_actor_clocks long_actor_keys counter_def)
  have again: "AList.update (long_a @ ''-'') (counter [(long_a, 1)] (long_a @ ''-'') + 1) [(long_a, 1)]
      = [(long_a, 1), (long_a @ ''-'', 1)]"
    by (simp add: counter_def)
  have c2: "incrementAddressOfflineCrdtClock [(long_a @ ''-'', 1)] long_actor
      = [(long_a, 1), (long_a @ ''-'', 1)]"
    and c3: "incrementAddressOfflineCrdtClock [(long_a, 1), (long_a @ ''-'', 1)] long_actor
      = [(long_a, 1), (long_a @ ''-'', 1)]"
    unfolding incrementAddressOfflineCrdtClock_def Let_def long_actor_clocks long_actor_keys
    by (rule again)+
  show ?thesis
    unfolding Let_def c1 c2 c3 crdt_clock.cmp_Equal by simp
qed

end
