(* ===== verification/Sha256.thy ===== *)
theory Sha256
  imports AGID_Prelude "HOL-Library.Word"
begin

unbundle bit_operations_syntax

section \<open>SHA-256\<close>

text \<open>
  \<open>src/src/lib/sha256.ts\<close>: the hash used for commitments, tags and conflict identifiers. A number
  that the code reduces with \<open>>>> 0\<close> is a \<open>32 word\<close>, a byte an \<open>8 word\<close>; the message schedule is the
  array \<open>w\<close>, updated by index and shared by all blocks as in the source. The second part states the
  algorithm without the array and the loops and shows that the code computes it.
\<close>

subsection \<open>The code\<close>

text \<open>The table \<open>K\<close>, row by row as the source lays it out.\<close>

definition K_row1 :: "32 word list" where
  "K_row1 = [0x428a2f98, 0x71374491, 0xb5c0fbcf, 0xe9b5dba5, 0x3956c25b, 0x59f111f1, 0x923f82a4, 0xab1c5ed5]"

definition K_row2 :: "32 word list" where
  "K_row2 = [0xd807aa98, 0x12835b01, 0x243185be, 0x550c7dc3, 0x72be5d74, 0x80deb1fe, 0x9bdc06a7, 0xc19bf174]"

definition K_row3 :: "32 word list" where
  "K_row3 = [0xe49b69c1, 0xefbe4786, 0x0fc19dc6, 0x240ca1cc, 0x2de92c6f, 0x4a7484aa, 0x5cb0a9dc, 0x76f988da]"

definition K_row4 :: "32 word list" where
  "K_row4 = [0x983e5152, 0xa831c66d, 0xb00327c8, 0xbf597fc7, 0xc6e00bf3, 0xd5a79147, 0x06ca6351, 0x14292967]"

definition K_row5 :: "32 word list" where
  "K_row5 = [0x27b70a85, 0x2e1b2138, 0x4d2c6dfc, 0x53380d13, 0x650a7354, 0x766a0abb, 0x81c2c92e, 0x92722c85]"

definition K_row6 :: "32 word list" where
  "K_row6 = [0xa2bfe8a1, 0xa81a664b, 0xc24b8b70, 0xc76c51a3, 0xd192e819, 0xd6990624, 0xf40e3585, 0x106aa070]"

definition K_row7 :: "32 word list" where
  "K_row7 = [0x19a4c116, 0x1e376c08, 0x2748774c, 0x34b0bcb5, 0x391c0cb3, 0x4ed8aa4a, 0x5b9cca4f, 0x682e6ff3]"

definition K_row8 :: "32 word list" where
  "K_row8 = [0x748f82ee, 0x78a5636f, 0x84c87814, 0x8cc70208, 0x90befffa, 0xa4506ceb, 0xbef9a3f7, 0xc67178f2]"

definition K :: "32 word list" where
  "K = K_row1 @ K_row2 @ K_row3 @ K_row4 @ K_row5 @ K_row6 @ K_row7 @ K_row8"

lemmas K_defs = K_def K_row1_def K_row2_def K_row3_def K_row4_def K_row5_def K_row6_def K_row7_def K_row8_def

definition initial_h :: "32 word list" where
  "initial_h = [0x6a09e667, 0xbb67ae85, 0x3c6ef372, 0xa54ff53a,
     0x510e527f, 0x9b05688c, 0x1f83d9ab, 0x5be0cd19]"

definition rotr :: "32 word \<Rightarrow> nat \<Rightarrow> 32 word" where
  "rotr value shift = drop_bit shift value OR push_bit (32 - shift) value"

text \<open>UTF-8 of ASCII text.\<close>

definition bytesFromUtf8 :: "string \<Rightarrow> 8 word list" where
  "bytesFromUtf8 input = map (\<lambda>c. word_of_nat (of_char c)) input"

definition hex_digit :: "int \<Rightarrow> char" where
  "hex_digit d = ''0123456789abcdef'' ! nat d"

text \<open>\<open>toString(16).padStart(8, '0')\<close>: the digits without leading zeros, then padded.\<close>

function hex_digits :: "int \<Rightarrow> string" where
  "hex_digits n = (if n < 16 then [hex_digit n] else hex_digits (n div 16) @ [hex_digit (n mod 16)])"
  by pat_completeness auto
termination
  by (relation "measure nat") auto

declare hex_digits.simps [simp del]

definition padStart :: "nat \<Rightarrow> char \<Rightarrow> string \<Rightarrow> string" where
  "padStart n c s = replicate (n - length s) c @ s"

definition toHex :: "32 word \<Rightarrow> string" where
  "toHex value = padStart 8 (CHR ''0'') (hex_digits (uint value))"

function pad_zeros :: "8 word list \<Rightarrow> 8 word list" where
  "pad_zeros bytes = (if length bytes mod 64 \<noteq> 56 then pad_zeros (bytes @ [0]) else bytes)"
  by pat_completeness auto
termination
proof (relation "measure (\<lambda>bytes. if length bytes mod 64 \<le> 56 then 56 - length bytes mod 64
      else 120 - length bytes mod 64)")
  fix bytes :: "8 word list"
  define r where "r = length bytes mod 64"
  have r: "r < 64" by (simp add: r_def)
  assume "length bytes mod 64 \<noteq> 56"
  then have "r \<noteq> 56" by (simp add: r_def)
  moreover have "length (bytes @ [0 :: 8 word]) mod 64 = (if r = 63 then 0 else r + 1)"
    using r by (simp add: r_def mod_Suc)
  ultimately show "(bytes @ [0], bytes) \<in> measure (\<lambda>bytes. if length bytes mod 64 \<le> 56
      then 56 - length bytes mod 64 else 120 - length bytes mod 64)"
    using r by (simp add: r_def [symmetric]) arith
qed simp

declare pad_zeros.simps [simp del]

definition pad_message :: "8 word list \<Rightarrow> 8 word list" where
  "pad_message bytes =
     (let bitLength = int (length bytes) * 8;
          bytes = pad_zeros (bytes @ [0x80]);
          high = word_of_int (bitLength div 0x100000000) :: 32 word;
          low = word_of_int bitLength :: 32 word
      in bytes
         @ map (\<lambda>k. ucast (drop_bit k high AND 0xff)) [24, 16, 8, 0]
         @ map (\<lambda>k. ucast (drop_bit k low AND 0xff)) [24, 16, 8, 0])"

text \<open>The two loops that fill the schedule: indices 0 to 15 from the block, 16 to 63 from before.\<close>

fun load_loop :: "nat \<Rightarrow> nat \<Rightarrow> 8 word list \<Rightarrow> nat \<Rightarrow> 32 word list \<Rightarrow> 32 word list" where
  "load_loop 0 i bytes offset w = w"
| "load_loop (Suc n) i bytes offset w =
     (let j = offset + i * 4;
          v = (((push_bit 24 (ucast (bytes ! j)) OR push_bit 16 (ucast (bytes ! (j + 1))))
               OR push_bit 8 (ucast (bytes ! (j + 2)))) OR ucast (bytes ! (j + 3)))
      in load_loop n (i + 1) bytes offset (w[i := v]))"

fun extend_loop :: "nat \<Rightarrow> nat \<Rightarrow> 32 word list \<Rightarrow> 32 word list" where
  "extend_loop 0 i w = w"
| "extend_loop (Suc n) i w =
     (let s0 = (rotr (w ! (i - 15)) 7 XOR rotr (w ! (i - 15)) 18) XOR drop_bit 3 (w ! (i - 15));
          s1 = (rotr (w ! (i - 2)) 17 XOR rotr (w ! (i - 2)) 19) XOR drop_bit 10 (w ! (i - 2))
      in extend_loop n (i + 1) (w[i := ((w ! (i - 16) + s0) + w ! (i - 7)) + s1]))"

record vars =
  va :: "32 word"
  vb :: "32 word"
  vc :: "32 word"
  vd :: "32 word"
  ve :: "32 word"
  vf :: "32 word"
  vg :: "32 word"
  vh :: "32 word"

definition round_step :: "32 word \<Rightarrow> 32 word \<Rightarrow> vars \<Rightarrow> vars" where
  "round_step k w v =
     (let s1 = (rotr (ve v) 6 XOR rotr (ve v) 11) XOR rotr (ve v) 25;
          ch = (ve v AND vf v) XOR (NOT (ve v) AND vg v);
          temp1 = (((vh v + s1) + ch) + k) + w;
          s0 = (rotr (va v) 2 XOR rotr (va v) 13) XOR rotr (va v) 22;
          maj = ((va v AND vb v) XOR (va v AND vc v)) XOR (vb v AND vc v);
          temp2 = s0 + maj
      in \<lparr>va = temp1 + temp2, vb = va v, vc = vb v, vd = vc v, ve = vd v + temp1, vf = ve v,
          vg = vf v, vh = vg v\<rparr>)"

fun round_loop :: "nat \<Rightarrow> nat \<Rightarrow> 32 word list \<Rightarrow> vars \<Rightarrow> vars" where
  "round_loop 0 i w v = v"
| "round_loop (Suc n) i w v = round_loop n (i + 1) w (round_step (K ! i) (w ! i) v)"

definition process_block ::
  "8 word list \<Rightarrow> nat \<Rightarrow> 32 word list \<times> 32 word list \<Rightarrow> 32 word list \<times> 32 word list" where
  "process_block bytes offset = (\<lambda>(h, w).
     let w = extend_loop 48 16 (load_loop 16 0 bytes offset w);
         v = round_loop 64 0 w \<lparr>va = h ! 0, vb = h ! 1, vc = h ! 2, vd = h ! 3, ve = h ! 4,
                vf = h ! 5, vg = h ! 6, vh = h ! 7\<rparr>
     in ([h ! 0 + va v, h ! 1 + vb v, h ! 2 + vc v, h ! 3 + vd v, h ! 4 + ve v, h ! 5 + vf v,
          h ! 6 + vg v, h ! 7 + vh v], w))"

function block_loop ::
  "8 word list \<Rightarrow> nat \<Rightarrow> 32 word list \<times> 32 word list \<Rightarrow> 32 word list \<times> 32 word list" where
  "block_loop bytes offset hw =
     (if offset < length bytes then block_loop bytes (offset + 64) (process_block bytes offset hw)
      else hw)"
  by pat_completeness auto
termination
  by (relation "measure (\<lambda>(bytes, offset, hw). length bytes - offset)") auto

declare block_loop.simps [simp del]

text \<open>\<open>new Array(64)\<close> is filled before it is read; its initial content is the list \<open>w0\<close>.\<close>

definition sha256Hex_from :: "32 word list \<Rightarrow> string \<Rightarrow> string" where
  "sha256Hex_from w0 input =
     (let bytes = pad_message (bytesFromUtf8 input)
      in concat (map toHex (fst (block_loop bytes 0 (initial_h, w0)))))"

definition sha256Hex :: "string \<Rightarrow> string" where
  "sha256Hex input = sha256Hex_from (replicate 64 0) input"

subsection \<open>The algorithm\<close>

text \<open>
  The same hash without the array, the index loops and the mutable eight variables: the schedule is a
  recursive function of the block, rotation is \<open>word_rotr\<close>, padding adds the least number of zero
  bytes, and the digest is a fold over the blocks.
\<close>

definition ssig0 :: "32 word \<Rightarrow> 32 word" where
  "ssig0 x = word_rotr 7 x XOR word_rotr 18 x XOR drop_bit 3 x"

definition ssig1 :: "32 word \<Rightarrow> 32 word" where
  "ssig1 x = word_rotr 17 x XOR word_rotr 19 x XOR drop_bit 10 x"

definition bsig0 :: "32 word \<Rightarrow> 32 word" where
  "bsig0 x = word_rotr 2 x XOR word_rotr 13 x XOR word_rotr 22 x"

definition bsig1 :: "32 word \<Rightarrow> 32 word" where
  "bsig1 x = word_rotr 6 x XOR word_rotr 11 x XOR word_rotr 25 x"

definition Ch :: "32 word \<Rightarrow> 32 word \<Rightarrow> 32 word \<Rightarrow> 32 word" where
  "Ch x y z = (x AND y) XOR (NOT x AND z)"

definition Maj :: "32 word \<Rightarrow> 32 word \<Rightarrow> 32 word \<Rightarrow> 32 word" where
  "Maj x y z = (x AND y) XOR (x AND z) XOR (y AND z)"

definition block_word :: "8 word list \<Rightarrow> nat \<Rightarrow> 32 word" where
  "block_word b t = push_bit 24 (ucast (b ! (4 * t))) OR push_bit 16 (ucast (b ! (4 * t + 1)))
     OR push_bit 8 (ucast (b ! (4 * t + 2))) OR ucast (b ! (4 * t + 3))"

fun schedule :: "8 word list \<Rightarrow> nat \<Rightarrow> 32 word" where
  "schedule b t = (if t < 16 then block_word b t
     else ssig1 (schedule b (t - 2)) + schedule b (t - 7) + ssig0 (schedule b (t - 15))
          + schedule b (t - 16))"

declare schedule.simps [simp del]

definition sha_round :: "8 word list \<Rightarrow> vars \<Rightarrow> nat \<Rightarrow> vars" where
  "sha_round b v t =
     (let T1 = vh v + bsig1 (ve v) + Ch (ve v) (vf v) (vg v) + K ! t + schedule b t;
          T2 = bsig0 (va v) + Maj (va v) (vb v) (vc v)
      in \<lparr>va = T1 + T2, vb = va v, vc = vb v, vd = vc v, ve = vd v + T1, vf = ve v, vg = vf v,
          vh = vg v\<rparr>)"

definition vars_of :: "32 word list \<Rightarrow> vars" where
  "vars_of h = \<lparr>va = h ! 0, vb = h ! 1, vc = h ! 2, vd = h ! 3, ve = h ! 4, vf = h ! 5,
     vg = h ! 6, vh = h ! 7\<rparr>"

definition list_of_vars :: "vars \<Rightarrow> 32 word list" where
  "list_of_vars v = [va v, vb v, vc v, vd v, ve v, vf v, vg v, vh v]"

definition sha_block :: "32 word list \<Rightarrow> 8 word list \<Rightarrow> 32 word list" where
  "sha_block h b =
     map2 (+) h (list_of_vars (foldl (sha_round b) (vars_of h) [0 ..< 64]))"

definition be_bytes :: "nat \<Rightarrow> int \<Rightarrow> 8 word list" where
  "be_bytes n x = map (\<lambda>k. word_of_int (x div 256 ^ k)) (rev [0 ..< n])"

definition zero_count :: "nat \<Rightarrow> nat" where
  "zero_count len = (119 - len mod 64) mod 64"

definition sha_pad :: "8 word list \<Rightarrow> 8 word list" where
  "sha_pad bytes = bytes @ [0x80] @ replicate (zero_count (length bytes)) 0
     @ be_bytes 8 (8 * int (length bytes))"

definition blocks :: "8 word list \<Rightarrow> 8 word list list" where
  "blocks bytes = map (\<lambda>i. take 64 (drop (64 * i) bytes)) [0 ..< length bytes div 64]"

definition sha256_digest :: "8 word list \<Rightarrow> 32 word list" where
  "sha256_digest bytes = foldl sha_block initial_h (blocks (sha_pad bytes))"

subsection \<open>The code computes it\<close>

lemma rotr_word_rotr:
  assumes "s < 32"
  shows "rotr v s = word_rotr s v"
proof (rule bit_word_eqI)
  fix n assume n: "n < LENGTH(32)"
  show "bit (rotr v s) n = bit (word_rotr s v) n"
  proof (cases "n + s < 32")
    case True
    with n show ?thesis using bit_imp_le_length[of v]
      by (auto simp: rotr_def bit_simps bit_word_rotr_iff add.commute)
  next
    case False
    then have m: "(n + s) mod 32 = n + s - 32" using n assms by (simp add: mod_if)
    from False n assms show ?thesis
      by (auto simp: rotr_def bit_simps bit_word_rotr_iff m dest: bit_imp_le_length)
  qed
qed

lemma length_extend [simp]: "length (extend_loop n i w) = length w"
  by (induction n i w rule: extend_loop.induct) (simp_all add: Let_def)

lemma length_load [simp]: "length (load_loop n i bs off w) = length w"
  by (induction n i bs off w rule: load_loop.induct) (simp_all add: Let_def)

lemma load_loop_nth:
  "i + n \<le> 16 \<Longrightarrow> length w = 64 \<Longrightarrow> off + 64 \<le> length bs \<Longrightarrow> t < 64 \<Longrightarrow>
   load_loop n i bs off w ! t =
     (if i \<le> t \<and> t < i + n then block_word (take 64 (drop off bs)) t else w ! t)"
proof (induction n i bs off w rule: load_loop.induct)
  case (2 n i bs off w)
  have v: "((push_bit 24 (ucast (bs ! (off + i * 4))) OR push_bit 16 (ucast (bs ! (off + i * 4 + 1))))
     OR push_bit 8 (ucast (bs ! (off + i * 4 + 2)))) OR ucast (bs ! (off + i * 4 + 3))
     = block_word (take 64 (drop off bs)) i"
    using "2.prems" by (simp add: block_word_def or.assoc algebra_simps)
  show ?case
    unfolding load_loop.simps Let_def v
    using "2.prems" "2.IH" [OF refl refl, unfolded v] by (auto simp: nth_list_update less_Suc_eq)
qed auto

lemma extend_loop_nth:
  assumes "16 \<le> i" "i + n \<le> length w" "\<And>t. t < i \<Longrightarrow> w ! t = schedule b t"
  shows "t < i + n \<Longrightarrow> extend_loop n i w ! t = schedule b t"
  using assms
proof (induction n i w rule: extend_loop.induct)
  case (2 n i w)
  show ?case
    unfolding extend_loop.simps Let_def
  proof (rule "2.IH"[OF refl refl])
  qed (use 2 in \<open>auto simp: nth_list_update rotr_word_rotr ssig0_def ssig1_def schedule.simps[of b i] xor.assoc ac_simps less_Suc_eq\<close>)
qed simp


lemma schedule_array:
  assumes "length w = 64" "off + 64 \<le> length bs" "t < 64"
  shows "extend_loop 48 16 (load_loop 16 0 bs off w) ! t = schedule (take 64 (drop off bs)) t"
  using assms by (intro extend_loop_nth) (auto simp: load_loop_nth schedule.simps)

lemma round_step_sha: "w = schedule b t \<Longrightarrow> round_step (K ! t) w v = sha_round b v t"
  by (simp add: round_step_def sha_round_def Let_def rotr_word_rotr bsig0_def bsig1_def Ch_def Maj_def
      xor.assoc)

lemma round_loop_fold:
  "i + n \<le> 64 \<Longrightarrow> (\<And>t. t < 64 \<Longrightarrow> w ! t = schedule b t)
    \<Longrightarrow> round_loop n i w v = foldl (sha_round b) v [i ..< i + n]"
proof (induction n i w v rule: round_loop.induct)
  case (2 n i w v)
  then have "[i ..< i + Suc n] = i # [Suc i ..< Suc i + n]" by (simp add: upt_conv_Cons)
  with 2 show ?case by (simp add: round_step_sha del: upt.simps)
qed simp

lemma process_block_sha:
  assumes "length h = 8" "length w = 64" "off + 64 \<le> length bs"
  shows "fst (process_block bs off (h, w)) = sha_block h (take 64 (drop off bs))"
    and "length (snd (process_block bs off (h, w))) = 64"
proof -
  let ?w = "extend_loop 48 16 (load_loop 16 0 bs off w)"
  have rounds: "round_loop 64 0 ?w v = foldl (sha_round (take 64 (drop off bs))) v [0 ..< 64]" for v
    using round_loop_fold [of 0 64 ?w "take 64 (drop off bs)" v] schedule_array [OF assms(2,3)] by simp
  obtain h0 h1 h2 h3 h4 h5 h6 h7 where h: "h = [h0, h1, h2, h3, h4, h5, h6, h7]"
    using assms(1) by (auto simp: numeral_eq_Suc length_Suc_conv)
  show "fst (process_block bs off (h, w)) = sha_block h (take 64 (drop off bs))"
    unfolding process_block_def sha_block_def vars_of_def list_of_vars_def split Let_def rounds
    by (simp add: h)
  show "length (snd (process_block bs off (h, w))) = 64"
    using assms(2) by (simp add: process_block_def Let_def)
qed
lemma length_sha_block [simp]: "length h = 8 \<Longrightarrow> length (sha_block h b) = 8"
  by (simp add: sha_block_def list_of_vars_def)

lemma block_loop_fold:
  assumes "length bs = 64 * (i + n)" "length h = 8" "length w = 64"
  shows "fst (block_loop bs (64 * i) (h, w))
    = foldl sha_block h (map (\<lambda>i. take 64 (drop (64 * i) bs)) [i ..< i + n])"
  using assms
proof (induction n arbitrary: i h w)
  case 0
  then show ?case by (simp add: block_loop.simps)
next
  case (Suc n)
  obtain h' w' where p: "process_block bs (64 * i) (h, w) = (h', w')" by (metis surj_pair)
  have "64 * i + 64 \<le> length bs" using Suc.prems by simp
  note blk = process_block_sha [OF Suc.prems(2,3) this, unfolded p fst_conv snd_conv]
  have "block_loop bs (64 * i) (h, w) = block_loop bs (64 * Suc i) (h', w')"
    using Suc.prems by (subst block_loop.simps) (simp add: p add.commute)
  moreover have "[i ..< i + Suc n] = i # [Suc i ..< Suc i + n]" by (simp add: upt_conv_Cons)
  ultimately show ?case
    using Suc.IH [of "Suc i" h' w'] Suc.prems blk by (simp del: upt.simps)
qed

lemma pad_zeros_rep:
  assumes "length bytes mod 64 + z = 56 \<or> length bytes mod 64 + z = 120 \<and> z < 64"
  shows "pad_zeros bytes = bytes @ replicate z 0"
  using assms
proof (induction z arbitrary: bytes)
  case 0
  then have "length bytes mod 64 = 56" using mod_less_divisor[of 64 "length bytes"] by linarith
  then show ?case by (subst pad_zeros.simps) simp
next
  case (Suc z)
  let ?r = "length bytes mod 64"
  have r: "?r < 64" by simp
  have ne: "?r \<noteq> 56" using Suc.prems by auto
  have nx: "length (bytes @ [0 :: 8 word]) mod 64 = (if ?r = 63 then 0 else ?r + 1)"
    using r by (simp add: mod_Suc)
  have "pad_zeros (bytes @ [0]) = (bytes @ [0]) @ replicate z 0"
    using Suc.prems r unfolding nx by (intro Suc.IH) (unfold nx, auto split: if_splits)
  with ne show ?case by (subst pad_zeros.simps) simp
qed

lemma byte_of_word:
  "k \<le> 24 \<Longrightarrow> (ucast (drop_bit k (word_of_int x :: 32 word) AND 0xff) :: 8 word) = word_of_int (x div 2 ^ k)"
proof (rule bit_word_eqI)
  fix n assume k: "k \<le> 24" and n: "n < LENGTH(8)"
  have m: "(0xff :: 32 word) = mask 8" by (simp add: mask_eq_exp_minus_1)
  show "bit (ucast (drop_bit k (word_of_int x :: 32 word) AND 0xff) :: 8 word) n
      = bit (word_of_int (x div 2 ^ k) :: 8 word) n"
    unfolding m using k n by (simp add: bit_simps bit_word_of_int_iff flip: drop_bit_eq_div)
qed

lemma zero_count_eq: "zero_count n = (if n mod 64 \<le> 55 then 55 - n mod 64 else 119 - n mod 64)"
proof (cases "n mod 64 \<le> 55")
  case True
  then have "119 - n mod 64 = (55 - n mod 64) + 64" by simp
  then show ?thesis using True by (simp only: zero_count_def mod_add_self2) simp
qed (simp add: zero_count_def)

lemma length_bytes:
  "map (\<lambda>k. ucast (drop_bit k (word_of_int (x div 0x100000000) :: 32 word) AND 0xff)) [24, 16, 8, 0]
     @ map (\<lambda>k. ucast (drop_bit k (word_of_int x :: 32 word) AND 0xff)) [24, 16, 8, 0]
   = be_bytes 8 x"
proof -
  have up: "rev [0 ..< 8] = [7, 6, 5, 4, 3, 2, 1, 0 :: nat]" by (simp add: upt_rec)
  have "x div 0x100000000 div 2 ^ k = x div (2 ^ 32 * 2 ^ k)" for k
    by (simp add: zdiv_zmult2_eq)
  moreover have "(24 :: nat) \<le> 24" "(16 :: nat) \<le> 24" "(8 :: nat) \<le> 24" "(0 :: nat) \<le> 24" by simp_all
  note byte = this [THEN byte_of_word]
  ultimately show ?thesis
    by (simp only: be_bytes_def up list.map byte append.simps) simp
qed

lemma pad_message_sha: "pad_message bytes = sha_pad bytes"
proof -
  let ?L = "length bytes" and ?x = "int (length bytes) * 8"
  have len: "length (bytes @ [0x80 :: 8 word]) mod 64 = (if ?L mod 64 = 63 then 0 else ?L mod 64 + 1)"
    by (simp add: mod_Suc)
  have r: "?L mod 64 < 64" by simp
  have zeros: "pad_zeros (bytes @ [0x80]) = (bytes @ [0x80]) @ replicate (zero_count ?L) 0"
  proof (rule pad_zeros_rep)
    show "length (bytes @ [0x80 :: 8 word]) mod 64 + zero_count ?L = 56
      \<or> length (bytes @ [0x80 :: 8 word]) mod 64 + zero_count ?L = 120 \<and> zero_count ?L < 64"
      unfolding len zero_count_eq using r by (cases "?L mod 64 \<le> 55"; cases "?L mod 64 = 63") auto
  qed
  have "map (\<lambda>k. ucast (drop_bit k (word_of_int (?x div 0x100000000) :: 32 word) AND 0xff)) [24, 16, 8, 0]
     @ map (\<lambda>k. ucast (drop_bit k (word_of_int ?x :: 32 word) AND 0xff)) [24, 16, 8, 0]
     = be_bytes 8 (8 * int ?L)"
    by (simp only: length_bytes mult.commute)
  then show ?thesis
    unfolding pad_message_def Let_def zeros sha_pad_def by simp
qed

lemma length_sha_pad: "length (sha_pad bytes) mod 64 = 0"
proof -
  have r: "length bytes mod 64 < 64" by simp
  have "length (sha_pad bytes) mod 64 = (length bytes mod 64 + zero_count (length bytes) + 9) mod 64"
    unfolding sha_pad_def be_bytes_def by (simp add: add.assoc mod_add_left_eq) (simp add: ac_simps)
  then show ?thesis
    unfolding zero_count_eq using r by (cases "length bytes mod 64 \<le> 55") simp_all
qed

lemma hex_digits_length: "0 \<le> n \<Longrightarrow> n < 16 ^ Suc k \<Longrightarrow> length (hex_digits n) \<le> Suc k"
proof (induction k arbitrary: n)
  case 0
  then show ?case by (subst hex_digits.simps) simp
next
  case (Suc k)
  then show ?case by (subst hex_digits.simps) (auto simp: div_less_iff_less_mult mult.commute)
qed

lemma hex_digits_chars: "0 \<le> n \<Longrightarrow> set (hex_digits n) \<subseteq> set ''0123456789abcdef''"
proof (induction n rule: hex_digits.induct)
  case (1 n)
  have d: "hex_digit m \<in> set ''0123456789abcdef''" if "0 \<le> m" "m < 16" for m
    unfolding hex_digit_def using that by (intro nth_mem) simp
  show ?case
  proof (cases "n < 16")
    case True
    with 1 d [of n] show ?thesis by (subst hex_digits.simps) simp
  next
    case False
    have "hex_digit (n mod 16) \<in> set ''0123456789abcdef''" by (rule d) simp_all
    with False 1 show ?thesis by (subst hex_digits.simps) simp
  qed
qed

lemma toHex_shape: "length (toHex v) = 8 \<and> set (toHex v) \<subseteq> set ''0123456789abcdef''"
proof -
  have "uint v < 16 ^ Suc 7" using uint_lt2p [of v] by simp
  with hex_digits_length [of "uint v" 7] hex_digits_chars [of "uint v"] show ?thesis
    by (auto simp: toHex_def padStart_def)
qed

lemma sha256_fold:
  assumes "length w0 = 64"
  shows "sha256Hex_from w0 input = concat (map toHex (sha256_digest (bytesFromUtf8 input)))"
proof -
  let ?p = "sha_pad (bytesFromUtf8 input)"
  have "length ?p = 64 * (0 + length ?p div 64)"
    using length_sha_pad [of "bytesFromUtf8 input"] by (simp add: mod_eq_0_iff_dvd)
  from block_loop_fold [OF this, of initial_h w0] assms show ?thesis
    by (simp add: sha256Hex_from_def Let_def pad_message_sha sha256_digest_def blocks_def initial_h_def)
qed

text \<open>C18. The digest is the SHA-256 of the text: the loops, the shared schedule array (whatever it held
  before) and the padding loop compute the fold over the padded blocks, printed in hexadecimal.\<close>

theorem sha256_correct:
  assumes "length w0 = 64"
  shows "sha256Hex_from w0 input = concat (map toHex (sha256_digest (bytesFromUtf8 input)))"
  using assms by (rule sha256_fold)

theorem sha256_correct_witness:
  "sha256Hex_from (replicate 64 7) ''abc'' = concat (map toHex (sha256_digest (bytesFromUtf8 ''abc'')))"
  by (rule sha256_correct) simp

lemma length_sha256_digest: "length (sha256_digest bytes) = 8"
proof -
  have "length h = 8 \<Longrightarrow> length (foldl sha_block h bs) = 8" for h bs
    by (induction bs arbitrary: h) simp_all
  then show ?thesis by (simp add: sha256_digest_def initial_h_def)
qed

text \<open>A digest is 64 lower-case hexadecimal digits.\<close>

theorem sha256Hex_shape:
  "length (sha256Hex input) = 64 \<and> set (sha256Hex input) \<subseteq> set ''0123456789abcdef''"
proof -
  have "length (concat (map toHex ws)) = 8 * length ws
      \<and> set (concat (map toHex ws)) \<subseteq> set ''0123456789abcdef''" for ws
    by (induction ws) (use toHex_shape in auto)
  then show ?thesis
    unfolding sha256Hex_def using sha256_fold [of "replicate 64 0"] length_sha256_digest by simp
qed

end
