(* ===== verification/Crdt_State.thy ===== *)
theory Crdt_State
  imports Crdt_Clock Sha256
begin

section \<open>Offline sync: operations and replica state\<close>

text \<open>
  The types of \<open>src/src/lib/addressOfflineSyncCrdt.ts\<close>, the constructors of operations and states, the
  registers, the observed-remove sets and the conflict list. Instants are milliseconds; a missing
  optional property is \<open>None\<close> (for JSON values \<open>JUndefined\<close>). The privacy flags, constants of every
  record, appear where a record is hashed. The collation order of \<open>localeCompare\<close> is an argument: the
  sort key of a string.
\<close>

subsection \<open>Types\<close>

datatype entity_kind = AddressReference | AoidKind | CredentialKind | ShippingLabel | PosUsage | Settings

datatype crdt_action = UpsertField | RemoveField | AddSetMember | RemoveSetMember | TombstoneEntity

fun kind_text :: "entity_kind \<Rightarrow> string" where
  "kind_text AddressReference = ''address-reference''"
| "kind_text AoidKind = ''aoid''"
| "kind_text CredentialKind = ''credential''"
| "kind_text ShippingLabel = ''shipping-label''"
| "kind_text PosUsage = ''pos-usage''"
| "kind_text Settings = ''settings''"

fun action_text :: "crdt_action \<Rightarrow> string" where
  "action_text UpsertField = ''upsert-field''"
| "action_text RemoveField = ''remove-field''"
| "action_text AddSetMember = ''add-set-member''"
| "action_text RemoveSetMember = ''remove-set-member''"
| "action_text TombstoneEntity = ''tombstone-entity''"

record crdt_operation =
  op_operationId :: string
  op_actorId :: string
  op_deviceId :: "string option"
  op_entityId :: string
  op_entityKind :: entity_kind
  op_domain :: string
  op_action :: crdt_action
  op_clock :: clock
  op_createdAt :: int
  op_field :: "string option"
  op_setName :: "string option"
  op_memberId :: "string option"
  op_memberCommitment :: "string option"
  op_observedAddTags :: "string list option"
  op_publicValue :: js_value
  op_valueCommitment :: "string option"
  op_reason :: "string option"

record crdt_register =
  rg_field :: string
  rg_operationId :: string
  rg_actorId :: string
  rg_clock :: clock
  rg_updatedAt :: int
  rg_publicValue :: js_value
  rg_valueCommitment :: "string option"
  rg_tombstone :: bool

record crdt_member =
  sm_setName :: string
  sm_memberId :: string
  sm_memberCommitment :: string
  sm_addTags :: "string list"
  sm_removeTags :: "string list"
  sm_clock :: clock
  sm_updatedAt :: int

datatype conflict_type = ConcurrentFieldWrite | SetMemberCommitmentMismatch | EntityMetadataMismatch

fun conflict_text :: "conflict_type \<Rightarrow> string" where
  "conflict_text ConcurrentFieldWrite = ''concurrent-field-write''"
| "conflict_text SetMemberCommitmentMismatch = ''set-member-commitment-mismatch''"
| "conflict_text EntityMetadataMismatch = ''entity-metadata-mismatch''"

record conflict_input =
  ci_entityId :: string
  ci_conflictType :: conflict_type
  ci_detectedAt :: int
  ci_field :: "string option"
  ci_setName :: "string option"
  ci_memberId :: "string option"
  ci_leftOperationId :: "string option"
  ci_rightOperationId :: "string option"
  ci_winningOperationId :: "string option"

record crdt_conflict = conflict_input +
  cf_conflictId :: string

record crdt_state =
  st_entityId :: string
  st_entityKind :: entity_kind
  st_domain :: string
  st_clock :: clock
  st_fields :: "(string \<times> crdt_register) list"
  st_sets :: "(string \<times> (string \<times> crdt_member) list) list"
  st_tombstone :: "crdt_register option"
  st_conflicts :: "crdt_conflict list"
  st_createdAt :: int
  st_updatedAt :: int

record operation_input =
  in_actorId :: string
  in_deviceId :: "string option"
  in_entityId :: string
  in_entityKind :: entity_kind
  in_domain :: "string option"
  in_action :: crdt_action
  in_clock :: clock
  in_now :: "int option"
  in_field :: "string option"
  in_setName :: "string option"
  in_memberId :: "string option"
  in_memberCommitment :: "string option"
  in_observedAddTags :: "string list option"
  in_publicValue :: js_value
  in_valueCommitment :: "string option"
  in_reason :: "string option"

subsection \<open>JSON views of the records that are hashed\<close>

definition clock_json :: "clock \<Rightarrow> js_value" where
  "clock_json c = JObj (map (\<lambda>(k, n). (k, JNum n)) c)"

definition privacyFlags :: "(string \<times> js_value) list" where
  "privacyFlags =
     [(''rawAddressStored'', JBool False), (''rawAgidStored'', JBool False),
      (''rawAoidStored'', JBool False), (''rawRecipientStored'', JBool False),
      (''rawPhoneStored'', JBool False), (''rawProofStored'', JBool False)]"

definition ADDRESS_OFFLINE_SYNC_CRDT_VERSION :: string where
  "ADDRESS_OFFLINE_SYNC_CRDT_VERSION = ''address-offline-sync-crdt-v1''"

definition operation_json :: "crdt_operation \<Rightarrow> js_value" where
  "operation_json op = JObj (
     [(''modelVersion'', JStr ADDRESS_OFFLINE_SYNC_CRDT_VERSION), (''actorId'', JStr (op_actorId op))]
     @ prop_when ''deviceId'' (op_deviceId op)
     @ [(''entityId'', JStr (op_entityId op)), (''entityKind'', JStr (kind_text (op_entityKind op))),
        (''domain'', JStr (op_domain op)), (''action'', JStr (action_text (op_action op))),
        (''clock'', clock_json (op_clock op)), (''createdAt'', JStr (iso_string (op_createdAt op)))]
     @ prop_when ''field'' (op_field op)
     @ prop_when ''setName'' (op_setName op)
     @ prop_when ''memberId'' (op_memberId op)
     @ prop_when ''memberCommitment'' (op_memberCommitment op)
     @ (case op_observedAddTags op of None \<Rightarrow> []
        | Some tags \<Rightarrow> [(''observedAddTags'', JArr (map JStr tags))])
     @ (if op_publicValue op = JUndefined then [] else [(''publicValue'', op_publicValue op)])
     @ prop_when ''valueCommitment'' (op_valueCommitment op)
     @ prop_when ''reason'' (op_reason op)
     @ privacyFlags)"

text \<open>The properties each caller of \<open>buildConflict\<close> passes; a passed \<open>undefined\<close> is hashed as such.\<close>

definition conflict_json :: "('a) conflict_input_scheme \<Rightarrow> js_value" where
  "conflict_json c = JObj (
     [(''entityId'', JStr (ci_entityId c)), (''conflictType'', JStr (conflict_text (ci_conflictType c)))]
     @ (case ci_conflictType c of
          ConcurrentFieldWrite \<Rightarrow>
            [(''field'', js_opt (ci_field c)), (''leftOperationId'', js_opt (ci_leftOperationId c)),
             (''rightOperationId'', js_opt (ci_rightOperationId c)),
             (''winningOperationId'', js_opt (ci_winningOperationId c))]
        | SetMemberCommitmentMismatch \<Rightarrow>
            [(''setName'', js_opt (ci_setName c)), (''memberId'', js_opt (ci_memberId c)),
             (''leftOperationId'', js_opt (ci_leftOperationId c)),
             (''rightOperationId'', js_opt (ci_rightOperationId c))]
        | EntityMetadataMismatch \<Rightarrow> [])
     @ [(''detectedAt'', JStr (iso_string (ci_detectedAt c)))])"

subsection \<open>Creating operations and states\<close>

definition DEFAULT_DOMAIN :: string where "DEFAULT_DOMAIN = ''offline-sync:default''"

definition SENSITIVE_FIELD_PATTERNS :: "string list" where
  "SENSITIVE_FIELD_PATTERNS =
     [''address'', ''street'', ''room'', ''unit'', ''recipient'', ''phone'', ''email'', ''agid'', ''aoid'',
      ''lat'', ''lon'', ''proof'', ''secret'', ''waybill'', ''instruction'']"

definition isSensitiveField :: "string option \<Rightarrow> bool" where
  "isSensitiveField field =
     (let normalized = js_lower (cleanKey (js_opt field) [])
      in list_ex (\<lambda>pattern. js_includes pattern normalized) SENSITIVE_FIELD_PATTERNS)"

definition normalizeCommitment :: "string option \<Rightarrow> string" where
  "normalizeCommitment value =
     (let text = cleanText (js_opt value) []
      in if text = [] then [] else if js_starts_with ''0x'' text then ''0x'' @ js_lower (drop 2 text) else text)"

definition operationIdFrom :: "crdt_operation \<Rightarrow> string" where
  "operationIdFrom op = ''AOSC-'' @ js_upper (take 24 (sha256Hex (stableJson (operation_json op))))"

definition memberIdFrom :: "string \<Rightarrow> string \<Rightarrow> string \<Rightarrow> string \<Rightarrow> string" where
  "memberIdFrom domain entityId setName memberCommitment =
     ''MEM-'' @ js_upper (take 20 (sha256Hex (stableJson (JObj
        [(''domain'', JStr domain), (''entityId'', JStr entityId), (''setName'', JStr setName),
         (''memberCommitment'', JStr memberCommitment)]))))"

definition normalizePublicValue :: "js_value \<Rightarrow> js_value result" where
  "normalizePublicValue value =
     (if value = JUndefined then Inr JUndefined
      else if length (stableJson value) > 4096 then Inl (JsError ''offline CRDT publicValue is too large'')
      else Inr (json_clone value))"

definition operation_guard ::
  "crdt_action \<Rightarrow> string option \<Rightarrow> string option \<Rightarrow> js_value \<Rightarrow> string \<Rightarrow> string \<Rightarrow> unit result" where
  "operation_guard action field setName publicValue valueCommitment memberCommitment =
     (if (action = UpsertField \<or> action = RemoveField) \<and> truthy_opt field = None
      then Inl (JsError ''offline CRDT field operation requires field'')
      else if action = UpsertField \<and> isSensitiveField field \<and> publicValue \<noteq> JUndefined
      then Inl (JsError (''offline CRDT sensitive field '' @ [CHR 0x22]
             @ (case field of None \<Rightarrow> ''undefined'' | Some f \<Rightarrow> f)
             @ [CHR 0x22] @ '' must use a commitment, not publicValue''))
      else if action = UpsertField \<and> publicValue = JUndefined \<and> valueCommitment = []
      then Inl (JsError ''offline CRDT upsert-field requires publicValue or valueCommitment'')
      else if (action = AddSetMember \<or> action = RemoveSetMember) \<and> truthy_opt setName = None
      then Inl (JsError ''offline CRDT set operation requires setName'')
      else if (action = AddSetMember \<or> action = RemoveSetMember) \<and> memberCommitment = []
      then Inl (JsError ''offline CRDT set operation requires memberCommitment'')
      else Inr ())"

text \<open>\<open>now\<close> is the current time, the fallback of an unreadable \<open>input.now\<close>.\<close>

definition createAddressOfflineCrdtOperation ::
  "int \<Rightarrow> operation_input \<Rightarrow> crdt_operation result" where
  "createAddressOfflineCrdtOperation now i =
     (let actorId = cleanKey (JStr (in_actorId i)) ''local-actor'';
          entityId = cleanKey (JStr (in_entityId i)) [];
          domain = cleanKey (JStr (case truthy_opt (in_domain i) of None \<Rightarrow> DEFAULT_DOMAIN | Some d \<Rightarrow> d))
                     DEFAULT_DOMAIN;
          createdAt = cleanIso (in_now i) now;
          clock = incrementAddressOfflineCrdtClock (in_clock i) (JStr actorId);
          field = map_option (\<lambda>s. cleanKey (JStr s) []) (truthy_opt (in_field i));
          setName = map_option (\<lambda>s. cleanKey (JStr s) []) (truthy_opt (in_setName i));
          valueCommitment = normalizeCommitment (in_valueCommitment i);
          memberCommitment = normalizeCommitment (in_memberCommitment i)
      in if entityId = [] then Inl (JsError ''offline CRDT operation requires entityId'')
      else sbind (normalizePublicValue (in_publicValue i)) (\<lambda>publicValue.
        sbind (operation_guard (in_action i) field setName publicValue valueCommitment memberCommitment)
          (\<lambda>_.
          let memberId = (case truthy_opt (in_memberId i) of
                Some m \<Rightarrow> Some (cleanKey (JStr m) [])
              | None \<Rightarrow> (case truthy_opt setName of
                  Some s \<Rightarrow> (if memberCommitment \<noteq> []
                     then Some (memberIdFrom domain entityId s memberCommitment) else None)
                | None \<Rightarrow> None));
              operationWithoutId = \<lparr>
                op_operationId = [],
                op_actorId = actorId,
                op_deviceId = map_option (\<lambda>s. cleanKey (JStr s) []) (truthy_opt (in_deviceId i)),
                op_entityId = entityId,
                op_entityKind = in_entityKind i,
                op_domain = domain,
                op_action = in_action i,
                op_clock = clock,
                op_createdAt = createdAt,
                op_field = truthy_opt field,
                op_setName = truthy_opt setName,
                op_memberId = truthy_opt memberId,
                op_memberCommitment = truthy_opt (Some memberCommitment),
                op_observedAddTags = map_option
                   (\<lambda>tags. filter (\<lambda>t. t \<noteq> []) (map (\<lambda>t. cleanKey (JStr t) []) tags))
                   (in_observedAddTags i),
                op_publicValue = publicValue,
                op_valueCommitment = truthy_opt (Some valueCommitment),
                op_reason = map_option (\<lambda>r. take 160 (cleanText (JStr r) [])) (truthy_opt (in_reason i))\<rparr>
          in Inr (operationWithoutId\<lparr>op_operationId := operationIdFrom operationWithoutId\<rparr>))))"

definition createAddressOfflineCrdtState ::
  "int \<Rightarrow> string \<Rightarrow> entity_kind \<Rightarrow> string option \<Rightarrow> int option \<Rightarrow> crdt_state" where
  "createAddressOfflineCrdtState now0 entityId entityKind domain input_now =
     (let now = cleanIso input_now now0 in \<lparr>
       st_entityId = cleanKey (JStr entityId) [],
       st_entityKind = entityKind,
       st_domain = cleanKey (JStr (case truthy_opt domain of None \<Rightarrow> DEFAULT_DOMAIN | Some d \<Rightarrow> d)) DEFAULT_DOMAIN,
       st_clock = [], st_fields = [], st_sets = [], st_tombstone = None, st_conflicts = [],
       st_createdAt = now, st_updatedAt = now\<rparr>)"

text \<open>\<open>JSON.parse(stableJson(state))\<close>: the same content with the properties of every object sorted.\<close>

definition clone_register :: "crdt_register \<Rightarrow> crdt_register" where
  "clone_register r = r\<lparr>rg_clock := sort_key fst (rg_clock r),
     rg_publicValue := json_clone (rg_publicValue r)\<rparr>"

definition clone_member :: "crdt_member \<Rightarrow> crdt_member" where
  "clone_member m = m\<lparr>sm_clock := sort_key fst (sm_clock m)\<rparr>"

definition clone_props :: "('a \<Rightarrow> 'a) \<Rightarrow> (string \<times> 'a) list \<Rightarrow> (string \<times> 'a) list" where
  "clone_props f ps = sort_key fst (map (map_prod id f) ps)"

definition cloneState :: "crdt_state \<Rightarrow> crdt_state" where
  "cloneState s = s\<lparr>
     st_clock := sort_key fst (st_clock s),
     st_fields := clone_props clone_register (st_fields s),
     st_sets := clone_props (clone_props clone_member) (st_sets s),
     st_tombstone := map_option clone_register (st_tombstone s)\<rparr>"

subsection \<open>Conflicts and registers\<close>

definition buildConflict :: "conflict_input \<Rightarrow> crdt_conflict" where
  "buildConflict i = conflict_input.extend
     (i\<lparr>ci_field := truthy_opt (ci_field i), ci_setName := truthy_opt (ci_setName i),
        ci_memberId := truthy_opt (ci_memberId i),
        ci_leftOperationId := truthy_opt (ci_leftOperationId i),
        ci_rightOperationId := truthy_opt (ci_rightOperationId i),
        ci_winningOperationId := truthy_opt (ci_winningOperationId i)\<rparr>)
     \<lparr>cf_conflictId = ''AOSC-CONFLICT-'' @ js_upper (take 20 (sha256Hex (stableJson (conflict_json i))))\<rparr>"

definition mergeConflictLists :: "crdt_conflict list list \<Rightarrow> crdt_conflict list" where
  "mergeConflictLists conflictLists =
     (let byId = foldl (\<lambda>byId conflict. AList.update (cf_conflictId conflict) conflict byId) [] (concat conflictLists)
      in sort_key ci_detectedAt (map snd byId))"

definition registerDigest :: "crdt_register \<Rightarrow> string" where
  "registerDigest r = stableJson (JObj [(''publicValue'', rg_publicValue r),
     (''valueCommitment'', js_opt (rg_valueCommitment r)), (''tombstone'', JBool (rg_tombstone r))])"

definition winnerRegister :: "crdt_register \<Rightarrow> crdt_register \<Rightarrow> crdt_register" where
  "winnerRegister left right =
     (let leftTime = rg_updatedAt left; rightTime = rg_updatedAt right
      in if leftTime \<noteq> rightTime then (if leftTime > rightTime then left else right)
         else if rg_operationId left \<ge> rg_operationId right then left else right)"

definition mergeRegister ::
  "string \<Rightarrow> crdt_register option \<Rightarrow> crdt_register \<Rightarrow> crdt_register \<times> crdt_conflict list" where
  "mergeRegister entityId current incoming = (case current of
     None \<Rightarrow> (incoming, [])
   | Some current \<Rightarrow>
      (let order = compareAddressOfflineCrdtClocks (rg_clock current) (rg_clock incoming)
       in if order = Before then (incoming, [])
          else if order = After \<or> order = Equal then (current, [])
          else if registerDigest current = registerDigest incoming
          then ((winnerRegister current incoming)\<lparr>rg_clock :=
                  joinAddressOfflineCrdtClocks (rg_clock current) (rg_clock incoming)\<rparr>, [])
          else (let winner = winnerRegister current incoming
            in (winner\<lparr>rg_clock := joinAddressOfflineCrdtClocks (rg_clock current) (rg_clock incoming)\<rparr>,
                [buildConflict \<lparr>ci_entityId = entityId, ci_conflictType = ConcurrentFieldWrite,
                   ci_detectedAt = max (rg_updatedAt current) (rg_updatedAt incoming),
                   ci_field = Some (rg_field incoming), ci_setName = None, ci_memberId = None,
                   ci_leftOperationId = Some (rg_operationId current),
                   ci_rightOperationId = Some (rg_operationId incoming),
                   ci_winningOperationId = Some (rg_operationId winner)\<rparr>]))))"

subsection \<open>Applying an operation\<close>

definition setMemberVisible :: "crdt_member \<Rightarrow> bool" where
  "setMemberVisible m = list_ex (\<lambda>tag. tag \<notin> set (sm_removeTags m)) (sm_addTags m)"

definition getAddressOfflineCrdtVisibleSetMembers ::
  "(string \<Rightarrow> nat list) \<Rightarrow> crdt_state \<Rightarrow> string \<Rightarrow> crdt_member list" where
  "getAddressOfflineCrdtVisibleSetMembers collation state setName =
     (let members = (case map_of (st_sets state) (cleanKey (JStr setName) []) of None \<Rightarrow> [] | Some ms \<Rightarrow> ms)
      in sort_key (collation \<circ> sm_memberId) (filter setMemberVisible (map snd members)))"

definition applyRegisterOperation :: "crdt_state \<Rightarrow> crdt_operation \<Rightarrow> crdt_state" where
  "applyRegisterOperation state op =
     (let field = (case op_field op of None \<Rightarrow> [] | Some f \<Rightarrow> f);
          register = \<lparr>rg_field = field, rg_operationId = op_operationId op, rg_actorId = op_actorId op,
             rg_clock = op_clock op, rg_updatedAt = op_createdAt op, rg_publicValue = op_publicValue op,
             rg_valueCommitment = truthy_opt (op_valueCommitment op),
             rg_tombstone = (op_action op = RemoveField)\<rparr>;
          (merged, conflicts) = mergeRegister (st_entityId state) (map_of (st_fields state) field) register
      in state\<lparr>st_fields := AList.update field merged (st_fields state),
               st_conflicts := mergeConflictLists [st_conflicts state, conflicts]\<rparr>)"

definition first_tag :: "crdt_member \<Rightarrow> string option" where
  "first_tag m = (case sm_addTags m of [] \<Rightarrow> None | t # _ \<Rightarrow> Some t)"

definition set_members :: "crdt_state \<Rightarrow> string \<Rightarrow> (string \<times> crdt_member) list" where
  "set_members st setName = (case map_of (st_sets st) setName of None \<Rightarrow> [] | Some ms \<Rightarrow> ms)"

text \<open>The member that \<open>applySetOperation\<close> stores, from the one it found.\<close>

definition apply_set_member ::
  "string \<Rightarrow> string \<Rightarrow> crdt_member option \<Rightarrow> crdt_operation \<Rightarrow> crdt_member" where
  "apply_set_member setName memberId existing op =
     (let addTags0 = (case existing of None \<Rightarrow> [] | Some e \<Rightarrow> sm_addTags e);
          removeTags0 = (case existing of None \<Rightarrow> [] | Some e \<Rightarrow> sm_removeTags e);
          addTags = (if op_action op = AddSetMember then js_uniq (addTags0 @ [op_operationId op])
                     else js_uniq addTags0);
          removeTags = (if op_action op = AddSetMember then js_uniq removeTags0
             else (let observed = (case op_observedAddTags op of
                           None \<Rightarrow> addTags0
                         | Some tags \<Rightarrow> (if length tags \<noteq> 0 then tags else addTags0))
                   in js_uniq (removeTags0 @ observed)));
          commitment = (case op_memberCommitment op of None \<Rightarrow> [] | Some c \<Rightarrow> c)
      in \<lparr>sm_setName = setName, sm_memberId = memberId,
          sm_memberCommitment = (case existing of
              Some e \<Rightarrow> (if sm_memberCommitment e \<noteq> [] then sm_memberCommitment e else commitment)
            | None \<Rightarrow> commitment),
          sm_addTags = sort addTags, sm_removeTags = sort removeTags,
          sm_clock = joinAddressOfflineCrdtClocks
            (case existing of None \<Rightarrow> [] | Some e \<Rightarrow> sm_clock e) (op_clock op),
          sm_updatedAt = (case existing of
              Some e \<Rightarrow> (if sm_updatedAt e > op_createdAt op then sm_updatedAt e else op_createdAt op)
            | None \<Rightarrow> op_createdAt op)\<rparr>)"

definition applySetOperation :: "crdt_state \<Rightarrow> crdt_operation \<Rightarrow> crdt_state" where
  "applySetOperation state op =
     (let setName = (case op_setName op of None \<Rightarrow> [] | Some s \<Rightarrow> s);
          memberId = (case op_memberId op of None \<Rightarrow> [] | Some m \<Rightarrow> m);
          members = set_members state setName;
          existing = map_of members memberId;
          conflicts = (case existing of
              Some e \<Rightarrow> (if Some (sm_memberCommitment e) \<noteq> op_memberCommitment op
                 then mergeConflictLists [st_conflicts state, [buildConflict
                   \<lparr>ci_entityId = st_entityId state, ci_conflictType = SetMemberCommitmentMismatch,
                    ci_detectedAt = op_createdAt op, ci_field = None, ci_setName = Some setName,
                    ci_memberId = Some memberId, ci_leftOperationId = first_tag e,
                    ci_rightOperationId = Some (op_operationId op), ci_winningOperationId = None\<rparr>]]
                 else st_conflicts state)
            | None \<Rightarrow> st_conflicts state)
      in state\<lparr>st_conflicts := conflicts,
           st_sets := AList.update setName
             (AList.update memberId (apply_set_member setName memberId existing op) members)
             (st_sets state)\<rparr>)"

text \<open>The branch of \<open>applyAddressOfflineCrdtOperation\<close> for \<open>tombstone-entity\<close>.\<close>

definition applyTombstoneOperation :: "crdt_state \<Rightarrow> crdt_operation \<Rightarrow> crdt_state" where
  "applyTombstoneOperation next op =
     (let tombstoneRegister = \<lparr>rg_field = ''__entity__'', rg_operationId = op_operationId op,
            rg_actorId = op_actorId op, rg_clock = op_clock op, rg_updatedAt = op_createdAt op,
            rg_publicValue = JUndefined, rg_valueCommitment = truthy_opt (op_valueCommitment op),
            rg_tombstone = True\<rparr>;
          (merged, conflicts) = mergeRegister (st_entityId next) (st_tombstone next) tombstoneRegister
      in next\<lparr>st_tombstone := Some merged,
              st_conflicts := mergeConflictLists [st_conflicts next, conflicts]\<rparr>)"

definition assertSameEntity :: "crdt_state \<Rightarrow> crdt_operation \<Rightarrow> unit result" where
  "assertSameEntity state op =
     (if st_entityId state \<noteq> op_entityId op \<or> st_entityKind state \<noteq> op_entityKind op
         \<or> st_domain state \<noteq> op_domain op
      then Inl (JsError ''offline CRDT operation entity metadata does not match state'') else Inr ())"

definition applyAddressOfflineCrdtOperation ::
  "int \<Rightarrow> crdt_state option \<Rightarrow> crdt_operation \<Rightarrow> crdt_state result" where
  "applyAddressOfflineCrdtOperation now state op =
     (let next = (case state of
            Some s \<Rightarrow> cloneState s
          | None \<Rightarrow> createAddressOfflineCrdtState now (op_entityId op) (op_entityKind op)
              (Some (op_domain op)) (Some (op_createdAt op)))
      in sbind (assertSameEntity next op) (\<lambda>_.
        let next = next\<lparr>st_clock := joinAddressOfflineCrdtClocks (st_clock next) (op_clock op),
              st_updatedAt := (if st_updatedAt next > op_createdAt op then st_updatedAt next
                               else op_createdAt op)\<rparr>
        in if op_action op = UpsertField \<or> op_action op = RemoveField
           then Inr (applyRegisterOperation next op)
           else if op_action op = AddSetMember \<or> op_action op = RemoveSetMember
           then Inr (applySetOperation next op)
           else Inr (applyTombstoneOperation next op)))"

end
