(* ===== verification/Op_Replay.thy ===== *)
theory Op_Replay
  imports "HOL-Library.Multiset"
begin

section \<open>Replaying operations in any order\<close>

text \<open>
  A replica applies operations to its state; a view of the state follows a function that commutes for
  different operations. Then the view after a batch does not depend on the order of delivery.
\<close>

locale op_replay =
  fixes apply_op :: "'s \<Rightarrow> 'o \<Rightarrow> 's"
    and view :: "'s \<Rightarrow> 'v"
    and vstep :: "'o \<Rightarrow> 'v \<Rightarrow> 'v"
    and ok :: "'s \<Rightarrow> bool"
    and good :: "'o \<Rightarrow> bool"
  assumes ok_apply: "ok s \<Longrightarrow> good p \<Longrightarrow> ok (apply_op s p)"
    and view_apply: "ok s \<Longrightarrow> good p \<Longrightarrow> view (apply_op s p) = vstep p (view s)"
    and vstep_commute: "good p \<Longrightarrow> good q \<Longrightarrow> vstep p (vstep q v) = vstep q (vstep p v)"
begin

lemma replay_ok: "ok s \<Longrightarrow> list_all good ps \<Longrightarrow> ok (foldl apply_op s ps)"
  by (induction ps arbitrary: s) (simp_all add: ok_apply)

lemma replay_view: "ok s \<Longrightarrow> list_all good ps \<Longrightarrow> view (foldl apply_op s ps) = fold vstep ps (view s)"
  by (induction ps arbitrary: s) (simp_all add: ok_apply view_apply)

lemma replay_order:
  assumes "ok s" and "list_all good ps" and "mset qs = mset ps"
  shows "view (foldl apply_op s qs) = view (foldl apply_op s ps)"
proof -
  have good: "list_all good qs"
    using assms(2) mset_eq_setD [OF assms(3)] by (simp add: list_all_iff)
  have "fold vstep qs = fold vstep ps"
  proof (rule fold_multiset_equiv)
    fix p q assume "p \<in> set qs" "q \<in> set qs"
    with good show "vstep p \<circ> vstep q = vstep q \<circ> vstep p"
      by (auto simp: list_all_iff vstep_commute)
  qed (use assms(3) in simp)
  then show ?thesis
    by (simp add: replay_view assms good)
qed

end

end
