(* ===== verification/Crdt_Merge.thy ===== *)
theory Crdt_Merge
  imports Crdt_State Op_Replay
begin

section \<open>Offline sync: merging replicas\<close>

text \<open>
  \<open>mergeAddressOfflineCrdtStates\<close>, the envelope and the summary of
  \<open>src/src/lib/addressOfflineSyncCrdt.ts\<close>, and the refinement of the set part of a state to an abstract
  observed-remove set: two sets of tags per member.
\<close>

subsection \<open>The merge\<close>

definition merge_field_step :: "crdt_state \<Rightarrow> string \<times> crdt_register \<Rightarrow> crdt_state" where
  "merge_field_step merged = (\<lambda>(field, register).
     let (result, conflicts) = mergeRegister (st_entityId merged) (map_of (st_fields merged) field) register
     in merged\<lparr>st_fields := AList.update field result (st_fields merged),
               st_conflicts := mergeConflictLists [st_conflicts merged, conflicts]\<rparr>)"

definition merge_tombstone_step :: "crdt_state \<Rightarrow> crdt_register option \<Rightarrow> crdt_state" where
  "merge_tombstone_step merged tombstone = (case tombstone of
     None \<Rightarrow> merged
   | Some register \<Rightarrow>
      (let (result, conflicts) = mergeRegister (st_entityId merged) (st_tombstone merged) register
       in merged\<lparr>st_tombstone := Some result,
                 st_conflicts := mergeConflictLists [st_conflicts merged, conflicts]\<rparr>))"

definition merge_member :: "string \<Rightarrow> string \<Rightarrow> crdt_member option \<Rightarrow> crdt_member \<Rightarrow> crdt_member" where
  "merge_member setName memberId existing member = \<lparr>
     sm_setName = setName,
     sm_memberId = memberId,
     sm_memberCommitment = (case existing of
         Some e \<Rightarrow> (if sm_memberCommitment e \<noteq> [] then sm_memberCommitment e else sm_memberCommitment member)
       | None \<Rightarrow> sm_memberCommitment member),
     sm_addTags = sort (js_uniq ((case existing of None \<Rightarrow> [] | Some e \<Rightarrow> sm_addTags e) @ sm_addTags member)),
     sm_removeTags =
       sort (js_uniq ((case existing of None \<Rightarrow> [] | Some e \<Rightarrow> sm_removeTags e) @ sm_removeTags member)),
     sm_clock = joinAddressOfflineCrdtClocks
       (case existing of None \<Rightarrow> [] | Some e \<Rightarrow> sm_clock e) (sm_clock member),
     sm_updatedAt = (case existing of
         Some e \<Rightarrow> (if sm_updatedAt e > sm_updatedAt member then sm_updatedAt e else sm_updatedAt member)
       | None \<Rightarrow> sm_updatedAt member)\<rparr>"

definition merge_member_step :: "string \<Rightarrow> crdt_state \<Rightarrow> string \<times> crdt_member \<Rightarrow> crdt_state" where
  "merge_member_step setName merged = (\<lambda>(memberId, member).
     let members = set_members merged setName;
         existing = map_of members memberId;
         conflicts = (case existing of
             Some e \<Rightarrow> (if sm_memberCommitment e \<noteq> sm_memberCommitment member
                then mergeConflictLists [st_conflicts merged, [buildConflict
                  \<lparr>ci_entityId = st_entityId merged, ci_conflictType = SetMemberCommitmentMismatch,
                   ci_detectedAt = st_updatedAt merged, ci_field = None, ci_setName = Some setName,
                   ci_memberId = Some memberId, ci_leftOperationId = first_tag e,
                   ci_rightOperationId = first_tag member, ci_winningOperationId = None\<rparr>]]
                else st_conflicts merged)
           | None \<Rightarrow> st_conflicts merged)
     in merged\<lparr>st_conflicts := conflicts,
          st_sets := AList.update setName
            (AList.update memberId (merge_member setName memberId existing member) members)
            (st_sets merged)\<rparr>)"

definition merge_set_step ::
  "crdt_state \<Rightarrow> string \<times> (string \<times> crdt_member) list \<Rightarrow> crdt_state" where
  "merge_set_step merged = (\<lambda>(setName, members).
     let merged = (if map_of (st_sets merged) setName = None
           then merged\<lparr>st_sets := AList.update setName [] (st_sets merged)\<rparr> else merged)
     in foldl (merge_member_step setName) merged members)"

definition mergeAddressOfflineCrdtStates :: "crdt_state \<Rightarrow> crdt_state \<Rightarrow> crdt_state" where
  "mergeAddressOfflineCrdtStates left right =
     (if st_entityId left \<noteq> st_entityId right \<or> st_entityKind left \<noteq> st_entityKind right
         \<or> st_domain left \<noteq> st_domain right
      then (let base = cloneState left in base\<lparr>st_conflicts :=
              mergeConflictLists [st_conflicts base, st_conflicts right, [buildConflict
                \<lparr>ci_entityId = st_entityId left, ci_conflictType = EntityMetadataMismatch,
                 ci_detectedAt = max (st_updatedAt left) (st_updatedAt right), ci_field = None,
                 ci_setName = None, ci_memberId = None, ci_leftOperationId = None,
                 ci_rightOperationId = None, ci_winningOperationId = None\<rparr>]]\<rparr>)
      else (let merged = (cloneState left)\<lparr>
                  st_clock := joinAddressOfflineCrdtClocks (st_clock left) (st_clock right),
                  st_updatedAt := (if st_updatedAt left > st_updatedAt right
                     then st_updatedAt left else st_updatedAt right),
                  st_conflicts := mergeConflictLists [st_conflicts left, st_conflicts right]\<rparr>;
                merged = foldl merge_field_step merged (st_fields right);
                merged = merge_tombstone_step merged (st_tombstone right)
            in foldl merge_set_step merged (st_sets right)))"

subsection \<open>Envelope and summary\<close>

record sync_envelope =
  en_entityId :: string
  en_entityKind :: entity_kind
  en_domain :: string
  en_clock :: clock
  en_fields :: "(string \<times> crdt_register) list"
  en_sets :: "(string \<times> crdt_member list) list"
  en_conflicts :: "crdt_conflict list"
  en_updatedAt :: int

definition buildAddressOfflineSyncEnvelope :: "(string \<Rightarrow> nat list) \<Rightarrow> crdt_state \<Rightarrow> sync_envelope" where
  "buildAddressOfflineSyncEnvelope collation state = \<lparr>
     en_entityId = st_entityId state, en_entityKind = st_entityKind state, en_domain = st_domain state,
     en_clock = st_clock state, en_fields = st_fields state,
     en_sets = map (\<lambda>(setName, members).
       (setName, sort_key (collation \<circ> sm_memberId) (map snd members))) (st_sets state),
     en_conflicts = st_conflicts state, en_updatedAt = st_updatedAt state\<rparr>"

record crdt_summary =
  su_fieldCount :: nat
  su_tombstonedFieldCount :: nat
  su_setMemberCount :: "(string \<times> nat) list"
  su_conflictCount :: nat
  su_auditRequired :: bool
  su_clock :: clock
  su_updatedAt :: int

definition summarizeAddressOfflineCrdtState :: "(string \<Rightarrow> nat list) \<Rightarrow> crdt_state \<Rightarrow> crdt_summary" where
  "summarizeAddressOfflineCrdtState collation state =
     (let visibleMembers = map (\<lambda>(setName, _).
            (setName, length (getAddressOfflineCrdtVisibleSetMembers collation state setName))) (st_sets state)
      in \<lparr>su_fieldCount = length (filter (\<lambda>(_, f). \<not> rg_tombstone f) (st_fields state)),
          su_tombstonedFieldCount = length (filter (\<lambda>(_, f). rg_tombstone f) (st_fields state)),
          su_setMemberCount = visibleMembers,
          su_conflictCount = length (st_conflicts state),
          su_auditRequired = (length (st_conflicts state) > 0),
          su_clock = st_clock state, su_updatedAt = st_updatedAt state\<rparr>)"

subsection \<open>Looking up a member\<close>

definition member_of :: "crdt_state \<Rightarrow> string \<Rightarrow> string \<Rightarrow> crdt_member option" where
  "member_of st s m = map_of (set_members st s) m"

definition adds :: "crdt_state \<Rightarrow> string \<Rightarrow> string \<Rightarrow> string set" where
  "adds st s m = (case member_of st s m of None \<Rightarrow> {} | Some e \<Rightarrow> set (sm_addTags e))"

definition removes :: "crdt_state \<Rightarrow> string \<Rightarrow> string \<Rightarrow> string set" where
  "removes st s m = (case member_of st s m of None \<Rightarrow> {} | Some e \<Rightarrow> set (sm_removeTags e))"

text \<open>JavaScript objects have distinct keys.\<close>

definition sets_ok :: "crdt_state \<Rightarrow> bool" where
  "sets_ok st \<longleftrightarrow> distinct (map fst (st_sets st)) \<and> (\<forall>(s, ms) \<in> set (st_sets st). distinct (map fst ms))"

lemma set_members_distinct: "sets_ok st \<Longrightarrow> distinct (map fst (set_members st s))"
  by (auto simp: sets_ok_def set_members_def split: option.split dest!: map_of_SomeD)

lemma map_of_clone_props:
  assumes "distinct (map fst ps)"
  shows "map_of (clone_props f ps) k = map_option f (map_of ps k)"
proof -
  have "map fst (map (map_prod id f) ps) = map fst ps" by simp
  with assms have "map_of (clone_props f ps) k = map_of (map (map_prod id f) ps) k"
    unfolding clone_props_def by (simp add: map_of_sort_key del: map_map)
  also have "\<dots> = map_option f (map_of ps k)" by (induction ps) auto
  finally show ?thesis .
qed

lemma distinct_clone_props:
  assumes "distinct (map fst ps)"
  shows "distinct (map fst (clone_props f ps))"
proof -
  have "map fst (map (map_prod id f) ps) = map fst ps" by simp
  with assms show ?thesis
    unfolding clone_props_def by (intro distinct_keys_sort_key) simp
qed

lemma clone_props_Nil [simp]: "clone_props f [] = []"
  by (simp add: clone_props_def)

lemma cloneState_members:
  assumes "sets_ok st"
  shows "set_members (cloneState st) s = clone_props clone_member (set_members st s)"
  using assms by (simp add: set_members_def cloneState_def sets_ok_def map_of_clone_props split: option.split)

lemma cloneState_member:
  assumes "sets_ok st"
  shows "member_of (cloneState st) s m = map_option clone_member (member_of st s m)"
  using assms by (simp add: member_of_def cloneState_members map_of_clone_props set_members_distinct)

lemma cloneState_ok:
  assumes "sets_ok st"
  shows "sets_ok (cloneState st)"
proof -
  have "distinct (map fst ms)" if ms: "(s, ms) \<in> set (clone_props (clone_props clone_member) (st_sets st))"
    for s ms
  proof -
    from ms obtain ms' where "(s, ms') \<in> set (st_sets st)" "ms = clone_props clone_member ms'"
      by (auto simp: clone_props_def)
    with assms show ?thesis by (auto simp: sets_ok_def intro: distinct_clone_props)
  qed
  then show ?thesis
    using assms by (auto simp: sets_ok_def cloneState_def intro: distinct_clone_props)
qed

lemma clone_member_tags [simp]:
  "sm_addTags (clone_member m) = sm_addTags m" "sm_removeTags (clone_member m) = sm_removeTags m"
  by (simp_all add: clone_member_def)

lemma cloneState_tags:
  "sets_ok st \<Longrightarrow> adds (cloneState st) s m = adds st s m"
  "sets_ok st \<Longrightarrow> removes (cloneState st) s m = removes st s m"
  by (auto simp: adds_def removes_def cloneState_member split: option.split)

lemma member_upd:
  "member_of (st\<lparr>st_sets := AList.update s (AList.update m x (set_members st s)) (st_sets st)\<rparr>) s' m'
     = (if s' = s \<and> m' = m then Some x else member_of st s' m')"
  by (simp add: member_of_def set_members_def)

lemma sets_ok_upd:
  assumes "sets_ok st"
  shows "sets_ok (st\<lparr>st_sets := AList.update s (AList.update m x (set_members st s)) (st_sets st)\<rparr>)"
  using assms set_members_distinct [OF assms, of s]
  by (auto simp: sets_ok_def dest!: set_update_entries)

subsection \<open>The set part of an operation and of a merge\<close>

definition target_set :: "crdt_operation \<Rightarrow> string" where
  "target_set op = (case op_setName op of None \<Rightarrow> [] | Some s \<Rightarrow> s)"

definition target_member :: "crdt_operation \<Rightarrow> string" where
  "target_member op = (case op_memberId op of None \<Rightarrow> [] | Some m \<Rightarrow> m)"

text \<open>The tags a removal takes away from a member it finds with the tags \<open>A\<close>.\<close>

definition observed_tags :: "crdt_operation \<Rightarrow> string set \<Rightarrow> string set" where
  "observed_tags op A = (case op_observedAddTags op of
     None \<Rightarrow> A | Some tags \<Rightarrow> (if tags = [] then A else set tags))"

lemma applySet_member:
  "member_of (applySetOperation st op) s m =
     (if s = target_set op \<and> m = target_member op
      then Some (apply_set_member s m (member_of st s m) op) else member_of st s m)"
  by (simp add: applySetOperation_def Let_def member_of_def set_members_def target_set_def
      target_member_def)

lemma applySet_ok:
  assumes "sets_ok st"
  shows "sets_ok (applySetOperation st op)"
  using assms set_members_distinct [OF assms]
  by (auto simp: sets_ok_def applySetOperation_def Let_def dest!: set_update_entries)

lemma apply_set_member_tags:
  "set (sm_addTags (apply_set_member s m e op)) =
     (case e of None \<Rightarrow> {} | Some x \<Rightarrow> set (sm_addTags x))
     \<union> (if op_action op = AddSetMember then {op_operationId op} else {})"
  "set (sm_removeTags (apply_set_member s m e op)) =
     (case e of None \<Rightarrow> {} | Some x \<Rightarrow> set (sm_removeTags x))
     \<union> (if op_action op = AddSetMember then {}
        else observed_tags op (case e of None \<Rightarrow> {} | Some x \<Rightarrow> set (sm_addTags x)))"
  by (auto simp: apply_set_member_def Let_def observed_tags_def split: option.splits)

lemma applySet_tags:
  "adds (applySetOperation st op) s m = adds st s m \<union>
     (if op_action op = AddSetMember \<and> s = target_set op \<and> m = target_member op
      then {op_operationId op} else {})"
  "removes (applySetOperation st op) s m = removes st s m \<union>
     (if op_action op \<noteq> AddSetMember \<and> s = target_set op \<and> m = target_member op
      then observed_tags op (adds st s m) else {})"
  by (auto simp: adds_def removes_def applySet_member apply_set_member_tags)

lemma merge_member_tags:
  "set (sm_addTags (merge_member s m e x)) =
     (case e of None \<Rightarrow> {} | Some y \<Rightarrow> set (sm_addTags y)) \<union> set (sm_addTags x)"
  "set (sm_removeTags (merge_member s m e x)) =
     (case e of None \<Rightarrow> {} | Some y \<Rightarrow> set (sm_removeTags y)) \<union> set (sm_removeTags x)"
  by (auto simp: merge_member_def split: option.splits)

lemma merge_member_step_member:
  "member_of (merge_member_step s st (m, x)) s' m' =
     (if s' = s \<and> m' = m then Some (merge_member s m (member_of st s m) x) else member_of st s' m')"
  by (simp add: merge_member_step_def Let_def member_of_def set_members_def)

lemma merge_member_step_ok:
  assumes "sets_ok st"
  shows "sets_ok (merge_member_step s st mx)"
  using assms set_members_distinct [OF assms]
  by (cases mx) (auto simp: sets_ok_def merge_member_step_def Let_def dest!: set_update_entries)

lemma merge_members_fold:
  assumes "distinct (map fst ms)"
  shows "member_of (foldl (merge_member_step s) st ms) s' m' =
    (case (if s' = s then map_of ms m' else None) of
       None \<Rightarrow> member_of st s' m'
     | Some x \<Rightarrow> Some (merge_member s m' (member_of st s m') x))"
  using assms
proof (induction ms arbitrary: st)
  case (Cons p ms)
  obtain m x where p: "p = (m, x)" by (cases p)
  with Cons.prems have fresh: "map_of ms m = None" by (simp add: map_of_eq_None_iff)
  from Cons show ?case
    by (auto simp: p merge_member_step_member fresh split: option.splits)
qed simp

lemma merge_members_fold_ok: "sets_ok st \<Longrightarrow> sets_ok (foldl (merge_member_step s) st ms)"
  by (induction ms arbitrary: st) (simp_all add: merge_member_step_ok)

lemma member_of_new_set:
  "member_of (if map_of (st_sets st) s = None
     then st\<lparr>st_sets := AList.update s [] (st_sets st)\<rparr> else st) = member_of st"
  by (auto simp: fun_eq_iff member_of_def set_members_def)

lemma sets_ok_new_set: "sets_ok st \<Longrightarrow> sets_ok (st\<lparr>st_sets := AList.update s [] (st_sets st)\<rparr>)"
  by (auto simp: sets_ok_def dest!: set_update_entries)

lemma merge_set_step_member:
  assumes "distinct (map fst ms)"
  shows "member_of (merge_set_step st (s, ms)) s' m' =
    (case (if s' = s then map_of ms m' else None) of
       None \<Rightarrow> member_of st s' m'
     | Some x \<Rightarrow> Some (merge_member s m' (member_of st s m') x))"
  unfolding merge_set_step_def split Let_def merge_members_fold [OF assms] member_of_new_set ..

lemma merge_set_step_ok: "sets_ok st \<Longrightarrow> sets_ok (merge_set_step st sms)"
  by (cases sms) (auto simp: merge_set_step_def Let_def intro!: merge_members_fold_ok sets_ok_new_set)

lemma merge_sets_fold:
  assumes "distinct (map fst sets)" and "\<forall>(s, ms) \<in> set sets. distinct (map fst ms)"
  shows "member_of (foldl merge_set_step st sets) s m =
    (case (case map_of sets s of None \<Rightarrow> None | Some ms \<Rightarrow> map_of ms m) of
       None \<Rightarrow> member_of st s m
     | Some x \<Rightarrow> Some (merge_member s m (member_of st s m) x))"
  using assms
proof (induction sets arbitrary: st)
  case (Cons p sets)
  obtain t ms where p: "p = (t, ms)" by (cases p)
  with Cons.prems have fresh: "map_of sets t = None" and ms: "distinct (map fst ms)"
    by (auto simp: map_of_eq_None_iff)
  from Cons show ?case
    by (auto simp: p merge_set_step_member [OF ms] fresh split: option.splits)
qed simp

lemma merge_field_step_frame [simp]:
  "st_sets (merge_field_step st fr) = st_sets st"
  "st_entityId (merge_field_step st fr) = st_entityId st"
  "st_entityKind (merge_field_step st fr) = st_entityKind st"
  "st_domain (merge_field_step st fr) = st_domain st"
  by (auto simp: merge_field_step_def Let_def split: prod.splits)

lemma merge_fields_frame [simp]:
  "st_sets (foldl merge_field_step st frs) = st_sets st"
  "st_entityId (foldl merge_field_step st frs) = st_entityId st"
  "st_entityKind (foldl merge_field_step st frs) = st_entityKind st"
  "st_domain (foldl merge_field_step st frs) = st_domain st"
  by (induction frs arbitrary: st) simp_all

lemma merge_tombstone_frame [simp]:
  "st_sets (merge_tombstone_step st t) = st_sets st"
  "st_entityId (merge_tombstone_step st t) = st_entityId st"
  "st_entityKind (merge_tombstone_step st t) = st_entityKind st"
  "st_domain (merge_tombstone_step st t) = st_domain st"
  by (auto simp: merge_tombstone_step_def Let_def split: prod.splits option.splits)

lemma merge_member_step_frame [simp]:
  "st_entityId (merge_member_step s st p) = st_entityId st"
  "st_entityKind (merge_member_step s st p) = st_entityKind st"
  "st_domain (merge_member_step s st p) = st_domain st"
  by (auto simp: merge_member_step_def Let_def split: prod.splits)

lemma merge_members_frame [simp]:
  "st_entityId (foldl (merge_member_step s) st ps) = st_entityId st"
  "st_entityKind (foldl (merge_member_step s) st ps) = st_entityKind st"
  "st_domain (foldl (merge_member_step s) st ps) = st_domain st"
  by (induction ps arbitrary: st) simp_all

lemma merge_set_step_frame [simp]:
  "st_entityId (merge_set_step st p) = st_entityId st"
  "st_entityKind (merge_set_step st p) = st_entityKind st"
  "st_domain (merge_set_step st p) = st_domain st"
  by (auto simp: merge_set_step_def Let_def split: prod.splits)

lemma merge_sets_frame [simp]:
  "st_entityId (foldl merge_set_step st ps) = st_entityId st"
  "st_entityKind (foldl merge_set_step st ps) = st_entityKind st"
  "st_domain (foldl merge_set_step st ps) = st_domain st"
  by (induction ps arbitrary: st) simp_all

definition same_entity :: "crdt_state \<Rightarrow> crdt_state \<Rightarrow> bool" where
  "same_entity a b \<longleftrightarrow> st_entityId a = st_entityId b \<and> st_entityKind a = st_entityKind b
     \<and> st_domain a = st_domain b"

lemma same_entity_merge: "same_entity a (mergeAddressOfflineCrdtStates a b)"
  by (simp add: same_entity_def mergeAddressOfflineCrdtStates_def Let_def cloneState_def)

lemma member_of_cong: "st_sets a = st_sets b \<Longrightarrow> member_of a s m = member_of b s m"
  by (simp add: member_of_def set_members_def)

lemma merge_set_steps_ok: "sets_ok st \<Longrightarrow> sets_ok (foldl merge_set_step st ps)"
  by (induction ps arbitrary: st) (simp_all add: merge_set_step_ok)

lemma sets_ok_cong: "st_sets a = st_sets b \<Longrightarrow> sets_ok a = sets_ok b"
  by (simp add: sets_ok_def)

lemma merge_ok:
  assumes "sets_ok l" and "sets_ok r"
  shows "sets_ok (mergeAddressOfflineCrdtStates l r)"
proof -
  have "st_sets a = st_sets (cloneState l) \<Longrightarrow> sets_ok a" for a
    using cloneState_ok [OF assms(1)] sets_ok_cong by blast
  then show ?thesis
    unfolding mergeAddressOfflineCrdtStates_def Let_def by (auto intro!: merge_set_steps_ok)
qed

lemma merge_member_of:
  assumes "same_entity l r" and "sets_ok l" and "sets_ok r"
  shows "member_of (mergeAddressOfflineCrdtStates l r) s m =
    (case member_of r s m of
       None \<Rightarrow> map_option clone_member (member_of l s m)
     | Some x \<Rightarrow> Some (merge_member s m (map_option clone_member (member_of l s m)) x))"
proof -
  have r: "distinct (map fst (st_sets r))" "\<forall>(s, ms) \<in> set (st_sets r). distinct (map fst ms)"
    using assms(3) by (simp_all add: sets_ok_def)
  have l: "member_of a s m = map_option clone_member (member_of l s m)"
    if "st_sets a = st_sets (cloneState l)" for a
    using member_of_cong [OF that] cloneState_member [OF assms(2)] by simp
  have lookup: "(case map_of (st_sets r) s of None \<Rightarrow> None | Some ms \<Rightarrow> map_of ms m) = member_of r s m"
    by (auto simp: member_of_def set_members_def split: option.split)
  show ?thesis
  proof -
    obtain base where "mergeAddressOfflineCrdtStates l r = foldl merge_set_step base (st_sets r)"
      and "st_sets base = st_sets (cloneState l)"
      using assms(1) unfolding mergeAddressOfflineCrdtStates_def Let_def same_entity_def
      by (simp only: simp_thms if_False) fastforce
    with l show ?thesis by (simp only: merge_sets_fold [OF r] lookup)
  qed
qed

text \<open>The abstract observed-remove set.\<close>

definition or_view :: "crdt_state \<Rightarrow> string \<Rightarrow> string \<Rightarrow> string set \<times> string set" where
  "or_view st = (\<lambda>s m. (adds st s m, removes st s m))"

definition or_join :: "(string \<Rightarrow> string \<Rightarrow> string set \<times> string set) \<Rightarrow>
    (string \<Rightarrow> string \<Rightarrow> string set \<times> string set) \<Rightarrow> string \<Rightarrow> string \<Rightarrow> string set \<times> string set" where
  "or_join v w = (\<lambda>s m. (fst (v s m) \<union> fst (w s m), snd (v s m) \<union> snd (w s m)))"

definition or_visible :: "(string \<Rightarrow> string \<Rightarrow> string set \<times> string set) \<Rightarrow> string \<Rightarrow> string \<Rightarrow> bool" where
  "or_visible v s m \<longleftrightarrow> \<not> fst (v s m) \<subseteq> snd (v s m)"

definition or_step :: "crdt_operation \<Rightarrow> (string \<Rightarrow> string \<Rightarrow> string set \<times> string set) \<Rightarrow>
    string \<Rightarrow> string \<Rightarrow> string set \<times> string set" where
  "or_step op v = (\<lambda>s m. if s = target_set op \<and> m = target_member op
     then (if op_action op = AddSetMember then (fst (v s m) \<union> {op_operationId op}, snd (v s m))
           else if op_action op = RemoveSetMember
           then (fst (v s m), snd (v s m) \<union> observed_tags op (fst (v s m)))
           else v s m)
     else v s m)"

lemma merge_or_view:
  assumes "same_entity l r" and "sets_ok l" and "sets_ok r"
  shows "or_view (mergeAddressOfflineCrdtStates l r) = or_join (or_view l) (or_view r)"
proof (intro ext)
  fix s m
  show "or_view (mergeAddressOfflineCrdtStates l r) s m = or_join (or_view l) (or_view r) s m"
    by (cases "member_of r s m"; cases "member_of l s m")
      (simp_all add: or_view_def or_join_def adds_def removes_def merge_member_of [OF assms] merge_member_tags)
qed

lemma visible_or_view:
  "(case member_of st s m of None \<Rightarrow> False | Some x \<Rightarrow> setMemberVisible x) \<longleftrightarrow> or_visible (or_view st) s m"
  by (auto simp: or_visible_def or_view_def adds_def removes_def setMemberVisible_def list_ex_iff
      split: option.splits)

lemma or_join_laws:
  "or_join v w = or_join w v"
  "or_join (or_join u v) w = or_join u (or_join v w)"
  "or_join v v = v"
  "or_join (or_join v w) w = or_join v w"
  by (auto simp: or_join_def fun_eq_iff)

text \<open>C5. Merging two replicas of an entity merges their sets as observed-remove sets: the tags are united,
  and a member is listed as visible exactly when some add tag of either replica was not removed by
  either. So the order and the repetition of merges do not matter for the sets.\<close>

theorem merge_refines_or_set:
  assumes "same_entity l r" and "sets_ok l" and "sets_ok r"
  shows "or_view (mergeAddressOfflineCrdtStates l r) = or_join (or_view l) (or_view r)
    \<and> or_view (mergeAddressOfflineCrdtStates l r) = or_view (mergeAddressOfflineCrdtStates r l)
    \<and> or_view (mergeAddressOfflineCrdtStates (mergeAddressOfflineCrdtStates l r) r)
        = or_view (mergeAddressOfflineCrdtStates l r)
    \<and> (\<forall>x. x \<in> set (getAddressOfflineCrdtVisibleSetMembers collation (mergeAddressOfflineCrdtStates l r) n)
         \<longleftrightarrow> (\<exists>m. member_of (mergeAddressOfflineCrdtStates l r) (cleanKey (JStr n) []) m = Some x
              \<and> \<not> adds l (cleanKey (JStr n) []) m \<union> adds r (cleanKey (JStr n) []) m
                  \<subseteq> removes l (cleanKey (JStr n) []) m \<union> removes r (cleanKey (JStr n) []) m))"
proof (intro conjI allI)
  let ?M = "mergeAddressOfflineCrdtStates l r" and ?s = "cleanKey (JStr n) []"
  have sym: "same_entity r l" and again: "same_entity ?M r"
    using assms(1) same_entity_merge [of l r] by (auto simp: same_entity_def)
  note view = merge_or_view [OF assms]
  show "or_view ?M = or_join (or_view l) (or_view r)" by (rule view)
  show "or_view ?M = or_view (mergeAddressOfflineCrdtStates r l)"
    unfolding view merge_or_view [OF sym assms(3,2)] by (rule or_join_laws)
  show "or_view (mergeAddressOfflineCrdtStates ?M r) = or_view ?M"
    unfolding merge_or_view [OF again merge_ok [OF assms(2,3)] assms(3)] view
    by (rule or_join_laws)
  fix x
  have listed: "x \<in> set (getAddressOfflineCrdtVisibleSetMembers collation ?M n)
      \<longleftrightarrow> (\<exists>m. member_of ?M ?s m = Some x) \<and> setMemberVisible x"
    using set_members_distinct [OF merge_ok [OF assms(2,3)], of ?s]
    by (auto simp: getAddressOfflineCrdtVisibleSetMembers_def Let_def member_of_def set_members_def
        map_of_eq_Some_iff split: option.splits intro: rev_image_eqI)
  have "member_of ?M ?s m = Some x \<Longrightarrow> setMemberVisible x
      \<longleftrightarrow> \<not> adds l ?s m \<union> adds r ?s m \<subseteq> removes l ?s m \<union> removes r ?s m" for m
    using visible_or_view [of ?M ?s m] unfolding view by (simp add: or_visible_def or_join_def or_view_def)
  with listed show "x \<in> set (getAddressOfflineCrdtVisibleSetMembers collation ?M n)
      \<longleftrightarrow> (\<exists>m. member_of ?M ?s m = Some x
            \<and> \<not> adds l ?s m \<union> adds r ?s m \<subseteq> removes l ?s m \<union> removes r ?s m)"
    by auto
qed

subsection \<open>Delivery of operations in any order\<close>

definition apply_total :: "crdt_state \<Rightarrow> crdt_operation \<Rightarrow> crdt_state" where
  "apply_total st op = (case applyAddressOfflineCrdtOperation 0 (Some st) op of Inr st' \<Rightarrow> st' | Inl _ \<Rightarrow> st)"

fun apply_batch :: "int \<Rightarrow> crdt_state \<Rightarrow> crdt_operation list \<Rightarrow> crdt_state result" where
  "apply_batch now st [] = Inr st"
| "apply_batch now st (op # ops) =
     sbind (applyAddressOfflineCrdtOperation now (Some st) op) (\<lambda>st'. apply_batch now st' ops)"

definition op_matches :: "crdt_state \<Rightarrow> crdt_operation \<Rightarrow> bool" where
  "op_matches st op \<longleftrightarrow> op_entityId op = st_entityId st \<and> op_entityKind op = st_entityKind st
     \<and> op_domain op = st_domain st"

text \<open>A removal names the tags it removes.\<close>

definition names_tags :: "crdt_operation \<Rightarrow> bool" where
  "names_tags op \<longleftrightarrow> (op_action op = RemoveSetMember \<longrightarrow> op_observedAddTags op \<noteq> None \<and> op_observedAddTags op \<noteq> Some [])"

lemma applySet_frame [simp]:
  "st_entityId (applySetOperation st op) = st_entityId st"
  "st_entityKind (applySetOperation st op) = st_entityKind st"
  "st_domain (applySetOperation st op) = st_domain st"
  by (simp_all add: applySetOperation_def Let_def)

lemma applyRegister_frame [simp]:
  "st_entityId (applyRegisterOperation st op) = st_entityId st"
  "st_entityKind (applyRegisterOperation st op) = st_entityKind st"
  "st_domain (applyRegisterOperation st op) = st_domain st"
  "st_sets (applyRegisterOperation st op) = st_sets st"
  by (simp_all add: applyRegisterOperation_def Let_def split: prod.split)

lemma applyTombstone_frame [simp]:
  "st_entityId (applyTombstoneOperation st op) = st_entityId st"
  "st_entityKind (applyTombstoneOperation st op) = st_entityKind st"
  "st_domain (applyTombstoneOperation st op) = st_domain st"
  "st_sets (applyTombstoneOperation st op) = st_sets st"
  by (simp_all add: applyTombstoneOperation_def Let_def split: prod.split)

lemma cloneState_frame [simp]:
  "st_entityId (cloneState st) = st_entityId st"
  "st_entityKind (cloneState st) = st_entityKind st"
  "st_domain (cloneState st) = st_domain st"
  by (simp_all add: cloneState_def)

lemma or_view_cong: "st_sets a = st_sets b \<Longrightarrow> or_view a = or_view b"
  by (simp add: or_view_def adds_def removes_def member_of_def set_members_def fun_eq_iff)

lemma cloneState_or_view: "sets_ok st \<Longrightarrow> or_view (cloneState st) = or_view st"
  by (simp add: or_view_def cloneState_tags)

lemma applySet_or_view:
  assumes "op_action op = AddSetMember \<or> op_action op = RemoveSetMember"
  shows "or_view (applySetOperation st op) = or_step op (or_view st)"
  using assms by (intro ext) (auto simp: or_view_def or_step_def applySet_tags)

text \<open>What one operation does to a state of its entity, whatever the operation is.\<close>

lemma apply_operation:
  assumes "op_matches st op" and "sets_ok st"
  shows "\<exists>st'. applyAddressOfflineCrdtOperation now (Some st) op = Inr st' \<and> sets_ok st'
    \<and> same_entity st st' \<and> or_view st' = or_step op (or_view st)"
proof -
  define base where "base = (cloneState st)\<lparr>
    st_clock := joinAddressOfflineCrdtClocks (st_clock (cloneState st)) (op_clock op),
    st_updatedAt := (if st_updatedAt (cloneState st) > op_createdAt op
       then st_updatedAt (cloneState st) else op_createdAt op)\<rparr>"
  have sets: "st_sets base = st_sets (cloneState st)" by (simp add: base_def)
  have ok: "sets_ok base"
    using cloneState_ok [OF assms(2)] sets_ok_cong [OF sets] by simp
  have view: "or_view base = or_view st"
    using or_view_cong [OF sets] cloneState_or_view [OF assms(2)] by simp
  have ent: "same_entity st base" by (simp add: same_entity_def base_def)
  have assert: "assertSameEntity (cloneState st) op = Inr ()"
    using assms(1) by (simp add: assertSameEntity_def op_matches_def)
  consider (field) "op_action op = UpsertField \<or> op_action op = RemoveField"
    | (set) "op_action op = AddSetMember \<or> op_action op = RemoveSetMember"
    | (tomb) "op_action op = TombstoneEntity"
    by (cases "op_action op") auto
  then show ?thesis
  proof cases
    case field
    then have "applyAddressOfflineCrdtOperation now (Some st) op = Inr (applyRegisterOperation base op)"
      by (simp add: applyAddressOfflineCrdtOperation_def Let_def assert base_def)
    moreover have "sets_ok (applyRegisterOperation base op)" using ok by (simp add: sets_ok_def)
    moreover have "or_view (applyRegisterOperation base op) = or_step op (or_view st)"
      using or_view_cong [of "applyRegisterOperation base op" base] field
      by (auto simp: view or_step_def fun_eq_iff)
    ultimately show ?thesis using ent by (simp add: same_entity_def)
  next
    case set
    then have "applyAddressOfflineCrdtOperation now (Some st) op = Inr (applySetOperation base op)"
      by (auto simp: applyAddressOfflineCrdtOperation_def Let_def assert base_def)
    then show ?thesis
      using applySet_ok [OF ok] ent applySet_or_view [OF set] by (simp add: same_entity_def view)
  next
    case tomb
    then have "applyAddressOfflineCrdtOperation now (Some st) op = Inr (applyTombstoneOperation base op)"
      by (simp add: applyAddressOfflineCrdtOperation_def Let_def assert base_def)
    moreover have "sets_ok (applyTombstoneOperation base op)" using ok by (simp add: sets_ok_def)
    moreover have "or_view (applyTombstoneOperation base op) = or_step op (or_view st)"
      using or_view_cong [of "applyTombstoneOperation base op" base] tomb
      by (auto simp: view or_step_def fun_eq_iff)
    ultimately show ?thesis using ent by (simp add: same_entity_def)
  qed
qed

lemma or_step_commute:
  assumes "names_tags p" and "names_tags q"
  shows "or_step p (or_step q v) = or_step q (or_step p v)"
  using assms by (intro ext) (auto simp: or_step_def observed_tags_def names_tags_def split: option.split)

interpretation or_replay: op_replay apply_total or_view or_step
  "\<lambda>st. sets_ok st \<and> st_entityId st = i \<and> st_entityKind st = k \<and> st_domain st = d"
  "\<lambda>op. names_tags op \<and> op_entityId op = i \<and> op_entityKind op = k \<and> op_domain op = d"
  for i k d
proof
  fix st op
  assume st: "sets_ok st \<and> st_entityId st = i \<and> st_entityKind st = k \<and> st_domain st = d"
    and op: "names_tags op \<and> op_entityId op = i \<and> op_entityKind op = k \<and> op_domain op = d"
  then have "op_matches st op" by (simp add: op_matches_def)
  from apply_operation [OF this, of 0] st obtain st' where st':
    "applyAddressOfflineCrdtOperation 0 (Some st) op = Inr st'" "sets_ok st'"
    "same_entity st st'" "or_view st' = or_step op (or_view st)" by blast
  then show "sets_ok (apply_total st op) \<and> st_entityId (apply_total st op) = i
      \<and> st_entityKind (apply_total st op) = k \<and> st_domain (apply_total st op) = d"
    and "or_view (apply_total st op) = or_step op (or_view st)"
    using st by (auto simp: apply_total_def same_entity_def)
qed (simp add: or_step_commute)

lemma apply_now: "applyAddressOfflineCrdtOperation now (Some st) op = applyAddressOfflineCrdtOperation 0 (Some st) op"
  by (simp add: applyAddressOfflineCrdtOperation_def)

lemma apply_batch_total:
  "sets_ok st \<Longrightarrow> list_all (op_matches st) ops \<Longrightarrow> apply_batch now st ops = Inr (foldl apply_total st ops)"
proof (induction ops arbitrary: st)
  case (Cons op ops)
  then obtain st' where st': "applyAddressOfflineCrdtOperation 0 (Some st) op = Inr st'" "sets_ok st'"
    "same_entity st st'"
    using apply_operation [of st op 0] by auto
  with Cons.prems have "list_all (op_matches st') ops"
    by (auto simp: list_all_iff op_matches_def same_entity_def)
  with Cons.IH [OF st'(2)] st' show ?case
    by (simp add: apply_now [of now] apply_total_def)
qed simp

text \<open>C34. Operations delivered to two replicas in different orders leave them with the same sets and the
  same visible members, provided each removal names the tags it observed.\<close>

theorem set_operations_commute:
  assumes "sets_ok st" and "list_all (\<lambda>op. names_tags op \<and> op_matches st op) ops"
    and "mset ops' = mset ops"
  shows "\<exists>a b. apply_batch now st ops = Inr a \<and> apply_batch now' st ops' = Inr b
    \<and> or_view a = or_view b
    \<and> (\<forall>s m. (case member_of a s m of None \<Rightarrow> False | Some x \<Rightarrow> setMemberVisible x)
            = (case member_of b s m of None \<Rightarrow> False | Some x \<Rightarrow> setMemberVisible x))"
proof -
  have ops: "list_all (op_matches st) ops" using assms(2) by (auto simp: list_all_iff)
  then have ops': "list_all (op_matches st) ops'"
    using mset_eq_setD [OF assms(3)] by (simp add: list_all_iff)
  have "or_view (foldl apply_total st ops') = or_view (foldl apply_total st ops)"
    using assms by (intro or_replay.replay_order [where s = st and i = "st_entityId st"
        and k = "st_entityKind st" and d = "st_domain st"])
      (auto simp: op_matches_def list_all_iff)
  then show ?thesis
    unfolding apply_batch_total [OF assms(1) ops] apply_batch_total [OF assms(1) ops'] visible_or_view
    by auto
qed

end
