(* ===== verification/Crdt_Reach.thy ===== *)
theory Crdt_Reach
  imports Crdt_Merge
begin

section \<open>Offline sync: reachable states, conflicts and the privacy guard\<close>

text \<open>
  The states a replica can reach by creating, applying and merging, the invariant they keep, what a
  concurrent write leaves behind, and where the two halves of the design fall short: the register
  merge depends on the order of merges, and a removal may carry the plain value of a private field.
\<close>

subsection \<open>Reachable states\<close>

inductive crdt_reachable :: "crdt_state \<Rightarrow> bool" where
  created: "crdt_reachable (createAddressOfflineCrdtState now entityId entityKind domain input_now)"
| applied_first: "applyAddressOfflineCrdtOperation now None op = Inr st \<Longrightarrow> crdt_reachable st"
| applied: "crdt_reachable st \<Longrightarrow> applyAddressOfflineCrdtOperation now (Some st) op = Inr st'
    \<Longrightarrow> crdt_reachable st'"
| merged: "crdt_reachable l \<Longrightarrow> crdt_reachable r \<Longrightarrow> crdt_reachable (mergeAddressOfflineCrdtStates l r)"

definition tags_ok :: "string list \<Rightarrow> bool" where
  "tags_ok ts \<longleftrightarrow> sorted ts \<and> distinct ts"

definition members_ok :: "crdt_state \<Rightarrow> bool" where
  "members_ok st \<longleftrightarrow> (\<forall>s m x. member_of st s m = Some x \<longrightarrow>
     sm_setName x = s \<and> sm_memberId x = m \<and> tags_ok (sm_addTags x) \<and> tags_ok (sm_removeTags x))"

definition conflicts_ok :: "crdt_conflict list \<Rightarrow> bool" where
  "conflicts_ok cs \<longleftrightarrow> sorted (map ci_detectedAt cs) \<and> distinct (map cf_conflictId cs)"

definition crdt_inv :: "crdt_state \<Rightarrow> bool" where
  "crdt_inv st \<longleftrightarrow> sets_ok st \<and> members_ok st \<and> conflicts_ok (st_conflicts st)
     \<and> distinct (map fst (st_fields st))"

definition conflict_index :: "crdt_conflict list \<Rightarrow> (string \<times> crdt_conflict) list" where
  "conflict_index cs = foldl (\<lambda>byId conflict. AList.update (cf_conflictId conflict) conflict byId) [] cs"

lemma conflict_index_keys:
  "distinct (map fst (conflict_index cs)) \<and> (\<forall>(k, c) \<in> set (conflict_index cs). k = cf_conflictId c)"
proof (induction cs rule: rev_induct)
  case (snoc c cs)
  then show ?case by (auto simp: conflict_index_def dest!: set_update_entries)
qed (simp add: conflict_index_def)

lemma conflict_index_last:
  "map_of (conflict_index (cs @ [c])) k = (if k = cf_conflictId c then Some c else map_of (conflict_index cs) k)"
  by (simp add: conflict_index_def)

lemma mergeConflictLists_index:
  "mergeConflictLists lss = sort_key ci_detectedAt (map snd (conflict_index (concat lss)))"
  by (simp add: mergeConflictLists_def conflict_index_def)

lemma mergeConflictLists_ok: "conflicts_ok (mergeConflictLists lss)"
proof -
  let ?i = "conflict_index (concat lss)"
  have "map cf_conflictId (map snd ?i) = map fst ?i"
    unfolding map_map using conflict_index_keys [of "concat lss"] by (intro map_cong) auto
  then have "distinct (map cf_conflictId (map snd ?i))"
    using conflict_index_keys [of "concat lss"] by (simp only:)
  moreover have same: "mset (map cf_conflictId (sort_key ci_detectedAt (map snd ?i)))
      = mset (map cf_conflictId (map snd ?i))" by (simp del: map_map)
  ultimately show ?thesis
    unfolding conflicts_ok_def mergeConflictLists_index
    using mset_eq_imp_distinct_iff [OF same] by (simp del: map_map)
qed

lemma mergeConflictLists_last: "c \<in> set (mergeConflictLists [cs, [c]])"
  using conflict_index_last [of cs c "cf_conflictId c"]
  by (force simp: mergeConflictLists_index dest: map_of_SomeD)

lemma apply_set_member_ok:
  "tags_ok (sm_addTags (apply_set_member s m e op)) \<and> tags_ok (sm_removeTags (apply_set_member s m e op))
   \<and> sm_setName (apply_set_member s m e op) = s \<and> sm_memberId (apply_set_member s m e op) = m"
  by (simp add: apply_set_member_def Let_def tags_ok_def)

lemma merge_member_ok:
  "tags_ok (sm_addTags (merge_member s m e x)) \<and> tags_ok (sm_removeTags (merge_member s m e x))
   \<and> sm_setName (merge_member s m e x) = s \<and> sm_memberId (merge_member s m e x) = m"
  by (simp add: merge_member_def tags_ok_def)

lemma members_ok_cong: "st_sets a = st_sets b \<Longrightarrow> members_ok a = members_ok b"
  by (simp add: members_ok_def member_of_def set_members_def)

lemma cloneState_inv:
  assumes "crdt_inv st"
  shows "crdt_inv (cloneState st)"
proof -
  have "members_ok (cloneState st)"
    using assms by (auto simp: members_ok_def crdt_inv_def cloneState_member clone_member_def)
  moreover have "distinct (map fst (st_fields (cloneState st)))"
    using assms by (simp add: crdt_inv_def cloneState_def distinct_clone_props)
  moreover have "st_conflicts (cloneState st) = st_conflicts st" by (simp add: cloneState_def)
  ultimately show ?thesis using assms cloneState_ok by (simp add: crdt_inv_def)
qed

lemma applySet_inv:
  assumes "crdt_inv st"
  shows "crdt_inv (applySetOperation st op)"
proof -
  have "members_ok (applySetOperation st op)"
    using assms apply_set_member_ok by (auto simp: members_ok_def crdt_inv_def applySet_member)
  moreover have "conflicts_ok (st_conflicts (applySetOperation st op))"
    using assms mergeConflictLists_ok
    by (auto simp: applySetOperation_def Let_def crdt_inv_def split: option.split)
  moreover have "st_fields (applySetOperation st op) = st_fields st"
    by (simp add: applySetOperation_def Let_def)
  ultimately show ?thesis using assms applySet_ok by (simp add: crdt_inv_def)
qed

lemma applyRegister_inv: "crdt_inv st \<Longrightarrow> crdt_inv (applyRegisterOperation st op)"
  by (auto simp: crdt_inv_def applyRegisterOperation_def Let_def sets_ok_def members_ok_def
      member_of_def set_members_def mergeConflictLists_ok split: prod.split)

lemma applyTombstone_inv: "crdt_inv st \<Longrightarrow> crdt_inv (applyTombstoneOperation st op)"
  by (auto simp: crdt_inv_def applyTombstoneOperation_def Let_def sets_ok_def members_ok_def
      member_of_def set_members_def mergeConflictLists_ok split: prod.split)

lemma crdt_inv_stamp [simp]:
  "crdt_inv (st\<lparr>st_clock := c\<rparr>) = crdt_inv st"
  "crdt_inv (st\<lparr>st_updatedAt := t\<rparr>) = crdt_inv st"
  by (auto simp: crdt_inv_def sets_ok_def members_ok_def member_of_def set_members_def)

lemma created_inv: "crdt_inv (createAddressOfflineCrdtState now e k d i)"
  by (simp add: crdt_inv_def createAddressOfflineCrdtState_def Let_def sets_ok_def members_ok_def
      member_of_def set_members_def conflicts_ok_def)

lemma apply_inv:
  assumes "\<forall>s. st = Some s \<longrightarrow> crdt_inv s"
    and "applyAddressOfflineCrdtOperation now st op = Inr st'"
  shows "crdt_inv st'"
proof -
  define base where "base = (case st of Some s \<Rightarrow> cloneState s
     | None \<Rightarrow> createAddressOfflineCrdtState now (op_entityId op) (op_entityKind op)
         (Some (op_domain op)) (Some (op_createdAt op)))"
  have "crdt_inv base"
    using assms(1) created_inv cloneState_inv by (auto simp: base_def split: option.split)
  then show ?thesis
    using assms(2) applySet_inv applyRegister_inv applyTombstone_inv
    unfolding applyAddressOfflineCrdtOperation_def base_def [symmetric] Let_def
    by (auto simp: sbind_Inr_iff split: if_splits)
qed

lemma merge_field_steps_inv: "crdt_inv st \<Longrightarrow> crdt_inv (foldl merge_field_step st frs)"
proof (induction frs arbitrary: st)
  case (Cons fr frs)
  have "crdt_inv (merge_field_step st fr)"
    using Cons.prems by (cases fr)
      (auto simp: crdt_inv_def merge_field_step_def Let_def sets_ok_def members_ok_def
        member_of_def set_members_def mergeConflictLists_ok split: prod.split)
  with Cons.IH show ?case by simp
qed simp

lemma merge_tombstone_step_inv: "crdt_inv st \<Longrightarrow> crdt_inv (merge_tombstone_step st t)"
  by (auto simp: crdt_inv_def merge_tombstone_step_def Let_def sets_ok_def members_ok_def
      member_of_def set_members_def mergeConflictLists_ok split: prod.split option.split)

lemma merge_member_step_inv:
  assumes "crdt_inv st"
  shows "crdt_inv (merge_member_step s st p)"
proof -
  have "members_ok (merge_member_step s st p)"
    using assms merge_member_ok
    by (cases p) (auto simp: members_ok_def crdt_inv_def merge_member_step_member)
  moreover have "conflicts_ok (st_conflicts (merge_member_step s st p))"
    using assms mergeConflictLists_ok
    by (cases p) (auto simp: merge_member_step_def Let_def crdt_inv_def split: option.split)
  moreover have "st_fields (merge_member_step s st p) = st_fields st"
    by (cases p) (simp add: merge_member_step_def Let_def)
  ultimately show ?thesis using assms merge_member_step_ok by (simp add: crdt_inv_def)
qed

lemma merge_members_inv: "crdt_inv st \<Longrightarrow> crdt_inv (foldl (merge_member_step s) st ps)"
  by (induction ps arbitrary: st) (simp_all add: merge_member_step_inv)

lemma new_set_inv: "crdt_inv st \<Longrightarrow> crdt_inv (if map_of (st_sets st) s = None
    then st\<lparr>st_sets := AList.update s [] (st_sets st)\<rparr> else st)"
  using sets_ok_new_set member_of_new_set [of st s] by (auto simp: crdt_inv_def members_ok_def)

lemma merge_set_steps_inv: "crdt_inv st \<Longrightarrow> crdt_inv (foldl merge_set_step st ps)"
proof (induction ps arbitrary: st)
  case (Cons p ps)
  have "crdt_inv (merge_set_step st p)"
    using merge_members_inv [OF new_set_inv [OF Cons.prems]] by (cases p) (simp add: merge_set_step_def Let_def)
  with Cons.IH show ?case by simp
qed simp

lemma crdt_inv_conflicts: "crdt_inv st \<Longrightarrow> crdt_inv (st\<lparr>st_conflicts := mergeConflictLists css\<rparr>)"
  by (auto simp: crdt_inv_def sets_ok_def members_ok_def member_of_def set_members_def mergeConflictLists_ok)

lemma merge_inv: "crdt_inv l \<Longrightarrow> crdt_inv (mergeAddressOfflineCrdtStates l r)"
  unfolding mergeAddressOfflineCrdtStates_def Let_def
  using cloneState_inv [of l]
  by (auto intro!: crdt_inv_conflicts merge_set_steps_inv merge_tombstone_step_inv merge_field_steps_inv)

text \<open>C9. In every state a replica can reach, objects have distinct keys, each member is stored under its own
  set and member name with strictly sorted tag lists, and the conflict list is sorted by time with one
  entry per conflict identifier.\<close>

theorem reachable_invariant:
  assumes "crdt_reachable st"
  shows "sets_ok st \<and> distinct (map fst (st_fields st)) \<and> conflicts_ok (st_conflicts st)
    \<and> (\<forall>s m x. member_of st s m = Some x \<longrightarrow> sm_setName x = s \<and> sm_memberId x = m
         \<and> sorted (sm_addTags x) \<and> distinct (sm_addTags x)
         \<and> sorted (sm_removeTags x) \<and> distinct (sm_removeTags x))"
proof -
  from assms have "crdt_inv st"
    by induction (auto intro: created_inv apply_inv merge_inv)
  then show ?thesis unfolding crdt_inv_def members_ok_def tags_ok_def by simp
qed

subsection \<open>Concurrent writes\<close>

definition concurrent_conflict :: "string \<Rightarrow> crdt_register \<Rightarrow> crdt_register \<Rightarrow> crdt_conflict" where
  "concurrent_conflict entityId current incoming = buildConflict
     \<lparr>ci_entityId = entityId, ci_conflictType = ConcurrentFieldWrite,
      ci_detectedAt = max (rg_updatedAt current) (rg_updatedAt incoming),
      ci_field = Some (rg_field incoming), ci_setName = None, ci_memberId = None,
      ci_leftOperationId = Some (rg_operationId current),
      ci_rightOperationId = Some (rg_operationId incoming),
      ci_winningOperationId = Some (rg_operationId (winnerRegister current incoming))\<rparr>"

lemma mergeRegister_cases:
  "mergeRegister e None y = (y, [])"
  "compareAddressOfflineCrdtClocks (rg_clock x) (rg_clock y) = Before \<Longrightarrow> mergeRegister e (Some x) y = (y, [])"
  "compareAddressOfflineCrdtClocks (rg_clock x) (rg_clock y) \<in> {After, Equal} \<Longrightarrow>
     mergeRegister e (Some x) y = (x, [])"
  "compareAddressOfflineCrdtClocks (rg_clock x) (rg_clock y) = Concurrent \<Longrightarrow>
     mergeRegister e (Some x) y =
       ((winnerRegister x y)\<lparr>rg_clock := joinAddressOfflineCrdtClocks (rg_clock x) (rg_clock y)\<rparr>,
        if registerDigest x = registerDigest y then [] else [concurrent_conflict e x y])"
  by (auto simp: mergeRegister_def Let_def concurrent_conflict_def)

text \<open>The register that an operation writes.\<close>

definition operation_register :: "crdt_operation \<Rightarrow> crdt_register" where
  "operation_register op = \<lparr>rg_field = (case op_field op of None \<Rightarrow> [] | Some f \<Rightarrow> f),
     rg_operationId = op_operationId op, rg_actorId = op_actorId op, rg_clock = op_clock op,
     rg_updatedAt = op_createdAt op, rg_publicValue = op_publicValue op,
     rg_valueCommitment = truthy_opt (op_valueCommitment op),
     rg_tombstone = (op_action op = RemoveField)\<rparr>"

lemma applyRegister_eq:
  "applyRegisterOperation st op =
    (let f = rg_field (operation_register op);
         res = mergeRegister (st_entityId st) (map_of (st_fields st) f) (operation_register op)
     in st\<lparr>st_fields := AList.update f (fst res) (st_fields st),
           st_conflicts := mergeConflictLists [st_conflicts st, snd res]\<rparr>)"
  by (simp add: applyRegisterOperation_def operation_register_def Let_def split: prod.split)

text \<open>A concurrent write to a field is never lost silently: when the stored value and the arriving one
  are concurrent and different, the later one (by time, then by operation identifier) is kept under
  the joined clock, and the state records a conflict that names the stored operation, the arriving
  operation and the winner.\<close>

theorem concurrent_write_recorded:
  assumes "map_of (st_fields st) (rg_field (operation_register op)) = Some current"
    and "compareAddressOfflineCrdtClocks (rg_clock current) (op_clock op) = Concurrent"
    and "registerDigest current \<noteq> registerDigest (operation_register op)"
    and "rg_operationId current \<noteq> []" and "op_operationId op \<noteq> []"
  shows "\<exists>c \<in> set (st_conflicts (applyRegisterOperation st op)).
      ci_conflictType c = ConcurrentFieldWrite
      \<and> ci_leftOperationId c = Some (rg_operationId current)
      \<and> ci_rightOperationId c = Some (op_operationId op)
      \<and> (\<exists>winner. map_of (st_fields (applyRegisterOperation st op)) (rg_field (operation_register op))
             = Some winner
           \<and> ci_winningOperationId c = Some (rg_operationId winner)
           \<and> rg_updatedAt winner = max (rg_updatedAt current) (op_createdAt op)
           \<and> (rg_operationId winner = rg_operationId current \<or> rg_operationId winner = op_operationId op)
           \<and> rg_clock winner = joinAddressOfflineCrdtClocks (rg_clock current) (op_clock op))"
proof -
  let ?y = "operation_register op"
  let ?c = "concurrent_conflict (st_entityId st) current ?y"
  have y: "rg_clock ?y = op_clock op" "rg_operationId ?y = op_operationId op" "rg_updatedAt ?y = op_createdAt op"
    by (simp_all add: operation_register_def)
  have merged: "mergeRegister (st_entityId st) (Some current) ?y =
      ((winnerRegister current ?y)\<lparr>rg_clock := joinAddressOfflineCrdtClocks (rg_clock current) (op_clock op)\<rparr>,
       [?c])"
    using mergeRegister_cases(4) [of current ?y] assms(2,3) by (simp add: y)
  have win: "winnerRegister current ?y \<in> {current, ?y}"
    "rg_updatedAt (winnerRegister current ?y) = max (rg_updatedAt current) (rg_updatedAt ?y)"
    by (auto simp: winnerRegister_def Let_def)
  then have id: "rg_operationId (winnerRegister current ?y) \<noteq> []"
    using assms(4,5) by (auto simp: y)
  show ?thesis
  proof (rule bexI [of _ ?c])
    show "?c \<in> set (st_conflicts (applyRegisterOperation st op))"
      by (simp add: applyRegister_eq Let_def assms(1) merged mergeConflictLists_last)
  qed (use win id assms(4,5) in \<open>auto simp: applyRegister_eq Let_def assms(1) merged concurrent_conflict_def
      buildConflict_def conflict_input.defs truthy_opt_def y\<close>)
qed

subsection \<open>Registers do not merge as a join\<close>

definition sample_register :: "string \<Rightarrow> clock \<Rightarrow> int \<Rightarrow> string \<Rightarrow> crdt_register" where
  "sample_register i c t v = \<lparr>rg_field = ''status'', rg_operationId = i, rg_actorId = ''x'', rg_clock = c,
     rg_updatedAt = t, rg_publicValue = JStr v, rg_valueCommitment = None, rg_tombstone = False\<rparr>"

definition reg_a :: crdt_register where "reg_a = sample_register ''A'' [(''a'', 1)] 5 ''old''"
definition reg_b :: crdt_register where "reg_b = sample_register ''B'' [(''b'', 1)] 3 ''other''"
definition reg_c :: crdt_register where "reg_c = sample_register ''C'' [(''a'', 1), (''c'', 1)] 1 ''new''"

lemma sample_orders:
  "compareAddressOfflineCrdtClocks (rg_clock reg_a) (rg_clock reg_b) = Concurrent"
  "compareAddressOfflineCrdtClocks (rg_clock reg_a) (rg_clock reg_c) = Before"
  "compareAddressOfflineCrdtClocks (rg_clock reg_c) (rg_clock reg_b) = Concurrent"
  "compareAddressOfflineCrdtClocks
     (joinAddressOfflineCrdtClocks (rg_clock reg_a) (rg_clock reg_b)) (rg_clock reg_c) = Concurrent"
  "winnerRegister reg_a reg_b = reg_a" "winnerRegister reg_c reg_b = reg_b"
  by code_simp+

text \<open>Outside the sets the merge is not a join: three registers where the third causally overwrites the
  first end with the first value when they arrive in one order and with the second value in the other,
  because a later wall-clock time wins against a write that has seen it.\<close>

theorem register_merge_depends_on_order:
  "compareAddressOfflineCrdtClocks (rg_clock reg_a) (rg_clock reg_c) = Before
   \<and> rg_publicValue (fst (mergeRegister e (Some (fst (mergeRegister e (Some reg_a) reg_b))) reg_c))
       = JStr ''old''
   \<and> rg_publicValue (fst (mergeRegister e (Some (fst (mergeRegister e (Some reg_a) reg_c))) reg_b))
       = JStr ''other''"
proof -
  have ab: "fst (mergeRegister e (Some reg_a) reg_b)
      = reg_a\<lparr>rg_clock := joinAddressOfflineCrdtClocks (rg_clock reg_a) (rg_clock reg_b)\<rparr>"
    by (simp add: mergeRegister_cases sample_orders)
  have "winnerRegister (reg_a\<lparr>rg_clock := k\<rparr>) reg_c = reg_a\<lparr>rg_clock := k\<rparr>" for k
    by (simp add: winnerRegister_def Let_def reg_a_def reg_c_def sample_register_def)
  then have "rg_publicValue (fst (mergeRegister e (Some (fst (mergeRegister e (Some reg_a) reg_b))) reg_c))
      = rg_publicValue reg_a"
    unfolding ab by (simp add: mergeRegister_cases sample_orders)
  moreover have "rg_publicValue (fst (mergeRegister e (Some (fst (mergeRegister e (Some reg_a) reg_c))) reg_b))
      = rg_publicValue reg_b"
    by (simp add: mergeRegister_cases sample_orders)
  ultimately show ?thesis
    using sample_orders(2) by (simp add: reg_a_def reg_b_def sample_register_def)
qed

subsection \<open>The guards of a new operation\<close>

lemma create_Inr:
  assumes "createAddressOfflineCrdtOperation now i = Inr op"
  shows "op_entityId op \<noteq> []" and "op_action op = in_action i"
    and "op_action op \<in> {UpsertField, RemoveField} \<Longrightarrow> op_field op \<noteq> None"
    and "op_action op = UpsertField \<Longrightarrow> isSensitiveField (op_field op) \<Longrightarrow> op_publicValue op = JUndefined"
    and "op_action op = UpsertField \<Longrightarrow> op_publicValue op \<noteq> JUndefined \<or> op_valueCommitment op \<noteq> None"
    and "op_action op \<in> {AddSetMember, RemoveSetMember} \<Longrightarrow> op_setName op \<noteq> None \<and> op_memberCommitment op \<noteq> None"
    and "op_publicValue op = JUndefined \<or> length (stableJson (op_publicValue op)) \<le> 4096"
proof -
  obtain f s v c p where op: "op_entityId op \<noteq> []" "op_action op = in_action i"
      "op_field op = truthy_opt f" "op_setName op = truthy_opt s" "op_publicValue op = p"
      "op_valueCommitment op = truthy_opt (Some v)" "op_memberCommitment op = truthy_opt (Some c)"
    and g: "operation_guard (in_action i) f s p v c = Inr ()"
    and p: "normalizePublicValue (in_publicValue i) = Inr p"
    using assms unfolding createAddressOfflineCrdtOperation_def Let_def
    by (auto simp: sbind_Inr_iff split: if_splits)
  have field: "truthy_opt f = Some x \<Longrightarrow> f = Some x" for x
    by (auto simp: truthy_opt_def split: option.splits if_splits)
  show "op_entityId op \<noteq> []" and "op_action op = in_action i" by (fact op)+
  show "op_action op \<in> {UpsertField, RemoveField} \<Longrightarrow> op_field op \<noteq> None"
    using g unfolding op by (auto simp: operation_guard_def split: if_splits)
  show "op_action op = UpsertField \<Longrightarrow> isSensitiveField (op_field op) \<Longrightarrow> op_publicValue op = JUndefined"
    using g field unfolding op by (cases "truthy_opt f") (auto simp: operation_guard_def split: if_splits)
  show "op_action op = UpsertField \<Longrightarrow> op_publicValue op \<noteq> JUndefined \<or> op_valueCommitment op \<noteq> None"
    using g unfolding op by (auto simp: operation_guard_def truthy_opt_def split: if_splits)
  show "op_action op \<in> {AddSetMember, RemoveSetMember} \<Longrightarrow> op_setName op \<noteq> None \<and> op_memberCommitment op \<noteq> None"
    using g unfolding op by (auto simp: operation_guard_def truthy_opt_def split: if_splits option.splits)
  show "op_publicValue op = JUndefined \<or> length (stableJson (op_publicValue op)) \<le> 4096"
    using p unfolding op by (auto simp: normalizePublicValue_def stableJson_clone split: if_splits)
qed

text \<open>An operation that is created passes every guard: it names an entity, a field or a set with a
  commitment as its action needs, its public value is at most 4096 characters of JSON, and an upsert of
  a private field carries no public value.\<close>

theorem created_operation_guarded:
  assumes "createAddressOfflineCrdtOperation now i = Inr op"
  shows "op_entityId op \<noteq> []
    \<and> (op_action op \<in> {UpsertField, RemoveField} \<longrightarrow> op_field op \<noteq> None)
    \<and> (op_action op = UpsertField \<longrightarrow>
         (isSensitiveField (op_field op) \<longrightarrow> op_publicValue op = JUndefined)
         \<and> (op_publicValue op \<noteq> JUndefined \<or> op_valueCommitment op \<noteq> None))
    \<and> (op_action op \<in> {AddSetMember, RemoveSetMember} \<longrightarrow>
         op_setName op \<noteq> None \<and> op_memberCommitment op \<noteq> None)
    \<and> (op_publicValue op = JUndefined \<or> length (stableJson (op_publicValue op)) \<le> 4096)"
  using create_Inr [OF assms] by blast

end
