(* ===== verification/Crdt_Samples.thy ===== *)
theory Crdt_Samples
  imports Crdt_Reach
begin

section \<open>Offline sync: concrete replicas\<close>

text \<open>Concrete operations and replicas at which the properties of the merge are applied, and two runs that
  show where the order of delivery and the privacy guard fall short.\<close>

definition replica0 :: crdt_state where
  "replica0 = createAddressOfflineCrdtState 0 ''entity-1'' Settings None None"

definition sample_operation :: "crdt_action \<Rightarrow> string \<Rightarrow> string list option \<Rightarrow> clock \<Rightarrow> crdt_operation" where
  "sample_operation action opid tags clock = \<lparr>
     op_operationId = opid, op_actorId = ''x'', op_deviceId = None, op_entityId = ''entity-1'',
     op_entityKind = Settings, op_domain = DEFAULT_DOMAIN, op_action = action, op_clock = clock,
     op_createdAt = 7, op_field = Some ''status'', op_setName = Some ''tags'', op_memberId = Some ''m1'',
     op_memberCommitment = Some ''0xab'', op_observedAddTags = tags, op_publicValue = JStr ''new'',
     op_valueCommitment = None, op_reason = None\<rparr>"

definition op_add :: crdt_operation where
  "op_add = sample_operation AddSetMember ''AOSC-1'' None [(''a'', 1)]"

definition op_remove :: crdt_operation where
  "op_remove = sample_operation RemoveSetMember ''AOSC-2'' (Some [''AOSC-1'']) [(''b'', 1)]"

definition op_remove_untagged :: crdt_operation where
  "op_remove_untagged = sample_operation RemoveSetMember ''AOSC-3'' None [(''b'', 1)]"

definition op_write :: crdt_operation where
  "op_write = sample_operation UpsertField ''AOSC-4'' None [(''b'', 1)]"

lemma replica0_eq: "replica0 = \<lparr>st_entityId = ''entity-1'', st_entityKind = Settings,
    st_domain = DEFAULT_DOMAIN, st_clock = [], st_fields = [], st_sets = [], st_tombstone = None,
    st_conflicts = [], st_createdAt = 0, st_updatedAt = 0\<rparr>"
proof -
  have "cleanKey (JStr ''entity-1'') [] = ''entity-1''" "cleanKey (JStr DEFAULT_DOMAIN) DEFAULT_DOMAIN = DEFAULT_DOMAIN"
    by code_simp+
  then show ?thesis
    by (simp add: replica0_def createAddressOfflineCrdtState_def Let_def truthy_opt_def cleanIso_def)
qed

lemma replica0_ok: "sets_ok replica0"
  by (simp add: replica0_eq sets_ok_def)

lemma ops_match:
  "op_matches replica0 op_add" "op_matches replica0 op_remove" "op_matches replica0 op_remove_untagged"
  "names_tags op_add" "names_tags op_remove"
  by (simp_all add: op_matches_def names_tags_def op_add_def op_remove_def op_remove_untagged_def
      sample_operation_def replica0_eq)

text \<open>One replica that has the member, one that has removed it.\<close>

definition replica1 :: crdt_state where "replica1 = apply_total replica0 op_add"
definition replica2 :: crdt_state where "replica2 = apply_total replica0 op_remove"

lemma apply_total_ok:
  assumes "op_matches st op" and "sets_ok st"
  shows "sets_ok (apply_total st op)" and "same_entity st (apply_total st op)"
    and "or_view (apply_total st op) = or_step op (or_view st)"
  using apply_operation [OF assms, of 0] by (auto simp: apply_total_def)

lemmas replica1_ok = apply_total_ok [OF ops_match(1) replica0_ok, folded replica1_def]
lemmas replica2_ok = apply_total_ok [OF ops_match(2) replica0_ok, folded replica2_def]

theorem merge_refines_or_set_witness:
  "or_view (mergeAddressOfflineCrdtStates replica1 replica2) = or_join (or_view replica1) (or_view replica2)"
proof -
  have "same_entity replica1 replica2" using replica1_ok(2) replica2_ok(2) by (simp add: same_entity_def)
  from merge_refines_or_set [OF this replica1_ok(1) replica2_ok(1)] show ?thesis by blast
qed

theorem set_operations_commute_witness:
  "\<exists>a b. apply_batch 0 replica0 [op_add, op_remove] = Inr a \<and> apply_batch 9 replica0 [op_remove, op_add] = Inr b
     \<and> or_view a = or_view b"
  using set_operations_commute [OF replica0_ok, of "[op_add, op_remove]" "[op_remove, op_add]" 0 9]
  by (auto simp: ops_match)

text \<open>A removal that names no tags removes the tags the replica happens to hold: delivered after the
  addition it hides the member, delivered before it does not, and the two replicas that saw the same
  two operations disagree.\<close>

theorem untagged_removal_diverges:
  "\<exists>a b. apply_batch 0 replica0 [op_add, op_remove_untagged] = Inr a
     \<and> apply_batch 0 replica0 [op_remove_untagged, op_add] = Inr b
     \<and> \<not> or_visible (or_view a) ''tags'' ''m1'' \<and> or_visible (or_view b) ''tags'' ''m1''"
proof -
  have empty: "or_view replica0 ''tags'' ''m1'' = ({}, {})"
    by (simp add: or_view_def adds_def removes_def member_of_def set_members_def replica0_eq)
  have all: "list_all (op_matches replica0) [op_add, op_remove_untagged]"
    "list_all (op_matches replica0) [op_remove_untagged, op_add]"
    by (simp_all add: ops_match)
  have step: "or_view (foldl apply_total replica0 [p, q]) = or_step q (or_step p (or_view replica0))"
    if "op_matches replica0 p" "op_matches replica0 q" for p q
  proof -
    have "op_matches (apply_total replica0 p) q"
      using that(2) apply_total_ok(2) [OF that(1) replica0_ok] by (simp add: op_matches_def same_entity_def)
    then show ?thesis
      using apply_total_ok [OF that(1) replica0_ok] by (simp add: apply_total_ok(3))
  qed
  have "apply_batch 0 replica0 [op_add, op_remove_untagged] = Inr (foldl apply_total replica0 [op_add, op_remove_untagged])"
    "apply_batch 0 replica0 [op_remove_untagged, op_add] = Inr (foldl apply_total replica0 [op_remove_untagged, op_add])"
    by (rule apply_batch_total [OF replica0_ok all(1)], rule apply_batch_total [OF replica0_ok all(2)])
  moreover have "\<not> or_visible (or_step op_remove_untagged (or_step op_add (or_view replica0))) ''tags'' ''m1''"
    "or_visible (or_step op_add (or_step op_remove_untagged (or_view replica0))) ''tags'' ''m1''"
    by (simp_all add: or_visible_def or_step_def empty target_set_def target_member_def observed_tags_def
        op_add_def op_remove_untagged_def sample_operation_def)
  ultimately show ?thesis
    using step [OF ops_match(1,3)] step [OF ops_match(3,1)] by metis
qed

theorem reachable_invariant_witness:
  "sets_ok replica0 \<and> conflicts_ok (st_conflicts replica0)"
  using reachable_invariant [OF crdt_reachable.created, of 0 "''entity-1''" Settings None None]
  by (simp add: replica0_def)

definition replica_a :: crdt_state where
  "replica_a = replica0\<lparr>st_fields := [(''status'', reg_a)]\<rparr>"

lemma digests_differ: "registerDigest reg_a \<noteq> registerDigest (operation_register op_write)"
  by code_simp

lemma write_concurrent: "compareAddressOfflineCrdtClocks (rg_clock reg_a) (op_clock op_write) = Concurrent"
  by code_simp

theorem concurrent_write_recorded_witness:
  "\<exists>c \<in> set (st_conflicts (applyRegisterOperation replica_a op_write)).
     ci_leftOperationId c = Some ''A'' \<and> ci_rightOperationId c = Some ''AOSC-4''"
proof -
  have "map_of (st_fields replica_a) (rg_field (operation_register op_write)) = Some reg_a"
    "rg_operationId reg_a = ''A''" "op_operationId op_write = ''AOSC-4''"
    by (simp_all add: replica_a_def operation_register_def op_write_def sample_operation_def reg_a_def
        sample_register_def)
  with concurrent_write_recorded [OF this(1) write_concurrent digests_differ] show ?thesis by auto
qed

subsection \<open>The privacy guard\<close>

definition field_input :: "crdt_action \<Rightarrow> operation_input" where
  "field_input action = \<lparr>in_actorId = ''pos'', in_deviceId = None, in_entityId = ''e'', in_entityKind = Settings,
     in_domain = None, in_action = action, in_clock = [], in_now = Some 0, in_field = Some ''phone'',
     in_setName = None, in_memberId = None, in_memberCommitment = None, in_observedAddTags = None,
     in_publicValue = JStr ''555'', in_valueCommitment = None, in_reason = None\<rparr>"

lemma phone_eval:
  "cleanKey (JStr ''phone'') [] = ''phone''" "cleanKey (JStr ''e'') [] = ''e''"
  "cleanText JUndefined [] = []" "normalizePublicValue (JStr ''555'') = Inr (JStr ''555'')" "isSensitiveField (Some ''phone'')"
  by code_simp+

lemma field_input_eval:
  "case operation_guard action (Some ''phone'') None (JStr ''555'') [] [] of
     Inl e \<Rightarrow> createAddressOfflineCrdtOperation 0 (field_input action) = Inl e
   | Inr _ \<Rightarrow> (\<exists>op. createAddressOfflineCrdtOperation 0 (field_input action) = Inr op
       \<and> op_action op = action \<and> op_field op = Some ''phone'' \<and> op_publicValue op = JStr ''555'')"
  unfolding createAddressOfflineCrdtOperation_def Let_def
  by (simp add: field_input_def truthy_opt_def phone_eval normalizeCommitment_def
      js_opt_def split: sum.split)

theorem created_operation_guarded_witness:
  "\<exists>op. createAddressOfflineCrdtOperation 0 (field_input RemoveField) = Inr op \<and> op_field op \<noteq> None"
proof -
  obtain op where op: "createAddressOfflineCrdtOperation 0 (field_input RemoveField) = Inr op"
      "op_action op = RemoveField"
    using field_input_eval [of RemoveField] by (auto simp: operation_guard_def truthy_opt_def split: sum.splits)
  with created_operation_guarded [OF op(1)] show ?thesis by auto
qed

text \<open>The guard covers upserts only: an upsert of the field "phone" with a plain value is refused, but a
  removal of the same field with the same plain value is created, and applying it stores the value in
  the replica.\<close>

theorem sensitive_value_in_removal:
  "(\<exists>message. createAddressOfflineCrdtOperation 0 (field_input UpsertField) = Inl (JsError message))
   \<and> (\<exists>op. createAddressOfflineCrdtOperation 0 (field_input RemoveField) = Inr op
        \<and> isSensitiveField (op_field op)
        \<and> (\<exists>r. map_of (st_fields (applyRegisterOperation replica0 op)) ''phone'' = Some r
             \<and> rg_publicValue r = JStr ''555''))"
proof
  show "\<exists>message. createAddressOfflineCrdtOperation 0 (field_input UpsertField) = Inl (JsError message)"
    using field_input_eval [of UpsertField]
    by (auto simp: operation_guard_def truthy_opt_def phone_eval split: sum.splits)
  obtain op where op: "createAddressOfflineCrdtOperation 0 (field_input RemoveField) = Inr op"
      "op_field op = Some ''phone''" "op_publicValue op = JStr ''555''"
    using field_input_eval [of RemoveField] by (auto simp: operation_guard_def truthy_opt_def split: sum.splits)
  then show "\<exists>op. createAddressOfflineCrdtOperation 0 (field_input RemoveField) = Inr op
        \<and> isSensitiveField (op_field op)
        \<and> (\<exists>r. map_of (st_fields (applyRegisterOperation replica0 op)) ''phone'' = Some r
             \<and> rg_publicValue r = JStr ''555'')"
    by (intro exI [of _ op]) (simp add: phone_eval applyRegister_eq Let_def operation_register_def
        replica0_eq mergeRegister_cases)
qed

end
