(* ===== verification/Pos_Ledger.thy ===== *)
theory Pos_Ledger
  imports Stable_Json Sha256
begin

section \<open>The offline usage ledger of a point-of-sale terminal\<close>

text \<open>
  \<open>src/src/lib/posOfflineUsageLedger.ts\<close>: which delivery-label nullifiers a terminal has accepted while
  offline, and how the server's answers are folded back. Records that come from storage are untrusted:
  \<open>pos_raw\<close> holds their properties as untyped values, timestamps as what \<open>Date.parse\<close> makes of
  them. Instants are milliseconds; the privacy flags are constants.
\<close>

subsection \<open>Types and cleaning\<close>

datatype sync_status = PendingSync | Synced | AuditRequired

fun status_text :: "sync_status \<Rightarrow> string" where
  "status_text PendingSync = ''pending-sync''"
| "status_text Synced = ''synced''"
| "status_text AuditRequired = ''audit-required''"

record pos_entry =
  pe_id :: string
  pe_nullifier :: string
  pe_receiptId :: string
  pe_waybillAlias :: "string option"
  pe_waybillCommitment :: "string option"
  pe_addressReferenceCommitment :: "string option"
  pe_jtiTail :: "string option"
  pe_terminalId :: string
  pe_operatorId :: "string option"
  pe_createdAt :: int
  pe_updatedAt :: int
  pe_syncStatus :: sync_status
  pe_conflictReason :: "string option"
  pe_conflictingReceiptId :: "string option"
  pe_conflictDetectedAt :: "int option"
  pe_serverEventId :: "string option"

record pos_raw =
  pr_id :: js_value
  pr_nullifier :: js_value
  pr_receiptId :: js_value
  pr_waybillAlias :: js_value
  pr_waybillCommitment :: js_value
  pr_addressReferenceCommitment :: js_value
  pr_jtiTail :: js_value
  pr_terminalId :: js_value
  pr_operatorId :: js_value
  pr_createdAt :: "int option"
  pr_updatedAt :: "int option"
  pr_syncStatus :: js_value
  pr_conflictReason :: js_value
  pr_conflictingReceiptId :: js_value
  pr_conflictDetectedAt :: "int option option"
  pr_serverEventId :: js_value

text \<open>A typed entry passed back to a function that normalises.\<close>

definition raw_of_entry :: "pos_entry \<Rightarrow> pos_raw" where
  "raw_of_entry e = \<lparr>
     pr_id = JStr (pe_id e), pr_nullifier = JStr (pe_nullifier e), pr_receiptId = JStr (pe_receiptId e),
     pr_waybillAlias = js_opt (pe_waybillAlias e), pr_waybillCommitment = js_opt (pe_waybillCommitment e),
     pr_addressReferenceCommitment = js_opt (pe_addressReferenceCommitment e),
     pr_jtiTail = js_opt (pe_jtiTail e), pr_terminalId = JStr (pe_terminalId e),
     pr_operatorId = js_opt (pe_operatorId e), pr_createdAt = Some (pe_createdAt e),
     pr_updatedAt = Some (pe_updatedAt e), pr_syncStatus = JStr (status_text (pe_syncStatus e)),
     pr_conflictReason = js_opt (pe_conflictReason e),
     pr_conflictingReceiptId = js_opt (pe_conflictingReceiptId e),
     pr_conflictDetectedAt = map_option Some (pe_conflictDetectedAt e),
     pr_serverEventId = js_opt (pe_serverEventId e)\<rparr>"

definition trimText :: "js_value \<Rightarrow> string" where
  "trimText value = (case value of JStr s \<Rightarrow> js_trim s | _ \<Rightarrow> [])"

definition boundedText :: "js_value \<Rightarrow> nat \<Rightarrow> string" where
  "boundedText value maxLength =
     take maxLength (replace_runs (\<lambda>c. (of_char c :: nat) \<in> {9, 10, 13}) '' '' (trimText value))"

text \<open>The pattern \<open>^SLN-[0-9A-F]{16,64}$\<close>.\<close>

definition nullifier_pattern :: "string \<Rightarrow> bool" where
  "nullifier_pattern s \<longleftrightarrow> js_starts_with ''SLN-'' s \<and> 20 \<le> length s \<and> length s \<le> 68
     \<and> list_all (\<lambda>c. is_digit_char c \<or> char_in_range (CHR ''A'') (CHR ''F'') c) (drop 4 s)"

definition cleanNullifier :: "js_value \<Rightarrow> string" where
  "cleanNullifier value =
     (let cleaned = js_upper (trimText value) in if nullifier_pattern cleaned then cleaned else [])"

definition cleanIsoTimestamp :: "int option \<Rightarrow> int \<Rightarrow> int" where
  "cleanIsoTimestamp parsed fallback = (case parsed of None \<Rightarrow> fallback | Some t \<Rightarrow> t)"

definition stableId :: "string \<Rightarrow> js_value \<Rightarrow> string" where
  "stableId prefix payload = prefix @ ''-'' @ js_upper (take 24 (sha256Hex (stableJson payload)))"

definition nullifierTail :: "string \<Rightarrow> string" where
  "nullifierTail nullifier = js_tail 10 nullifier"

definition bounded_opt :: "js_value \<Rightarrow> nat \<Rightarrow> string option" where
  "bounded_opt value maxLength = truthy_opt (Some (boundedText value maxLength))"

subsection \<open>Normalising the ledger\<close>

definition usage_id_payload :: "string \<Rightarrow> string \<Rightarrow> string \<Rightarrow> js_value" where
  "usage_id_payload nullifier receiptId terminalId =
     JObj [(''nullifier'', JStr nullifier), (''receiptId'', JStr receiptId), (''terminalId'', JStr terminalId)]"

definition normalize_record :: "pos_raw \<Rightarrow> pos_entry option" where
  "normalize_record value =
     (let nullifier = cleanNullifier (pr_nullifier value);
          receiptId = boundedText (pr_receiptId value) 80;
          terminalId = (let t = boundedText (pr_terminalId value) 80
                        in if t = [] then ''AGID-POS-LOCAL'' else t)
      in if nullifier = [] \<or> receiptId = [] then None
         else (let createdAt = cleanIsoTimestamp (pr_createdAt value) 0;
                   syncStatus = (if pr_syncStatus value = JStr ''synced'' then Synced
                      else if pr_syncStatus value = JStr ''audit-required'' then AuditRequired
                      else PendingSync)
          in Some \<lparr>
            pe_id = (let i = boundedText (pr_id value) 80
                     in if i = [] then stableId ''POU'' (usage_id_payload nullifier receiptId terminalId) else i),
            pe_nullifier = nullifier, pe_receiptId = receiptId,
            pe_waybillAlias = bounded_opt (pr_waybillAlias value) 80,
            pe_waybillCommitment = bounded_opt (pr_waybillCommitment value) 96,
            pe_addressReferenceCommitment = bounded_opt (pr_addressReferenceCommitment value) 96,
            pe_jtiTail = bounded_opt (pr_jtiTail value) 16,
            pe_terminalId = terminalId,
            pe_operatorId = bounded_opt (pr_operatorId value) 80,
            pe_createdAt = createdAt,
            pe_updatedAt = cleanIsoTimestamp (pr_updatedAt value) createdAt,
            pe_syncStatus = syncStatus,
            pe_conflictReason = bounded_opt (pr_conflictReason value) 96,
            pe_conflictingReceiptId = bounded_opt (pr_conflictingReceiptId value) 80,
            pe_conflictDetectedAt = map_option (\<lambda>t. cleanIsoTimestamp t createdAt) (pr_conflictDetectedAt value),
            pe_serverEventId = bounded_opt (pr_serverEventId value) 80\<rparr>))"

definition keep_latest :: "(string \<times> pos_entry) list \<Rightarrow> pos_entry \<Rightarrow> (string \<times> pos_entry) list" where
  "keep_latest byNullifier normalized =
     (case map_of byNullifier (pe_nullifier normalized) of
        None \<Rightarrow> AList.update (pe_nullifier normalized) normalized byNullifier
      | Some previous \<Rightarrow>
          (if pe_updatedAt normalized \<ge> pe_updatedAt previous
           then AList.update (pe_nullifier normalized) normalized byNullifier else byNullifier))"

text \<open>The array elements that are not plain objects are \<open>None\<close>.\<close>

definition normalizePosOfflineUsageEntries :: "pos_raw option list \<Rightarrow> pos_entry list" where
  "normalizePosOfflineUsageEntries records =
     (let byNullifier = foldl (\<lambda>acc r.
            (case r of None \<Rightarrow> acc
             | Some value \<Rightarrow> (case normalize_record value of None \<Rightarrow> acc | Some e \<Rightarrow> keep_latest acc e)))
          [] records
      in sort_key (\<lambda>e. - pe_updatedAt e) (map snd byNullifier))"

definition normalize_entries :: "pos_entry list \<Rightarrow> pos_entry list" where
  "normalize_entries es = normalizePosOfflineUsageEntries (map (Some \<circ> raw_of_entry) es)"

subsection \<open>Recording a receipt\<close>

record label_evidence =
  le_scanRole :: string
  le_recipientControlVerified :: bool
  le_nullifier :: js_value
  le_waybillId :: string
  le_waybillCommitment :: "string option"
  le_addressReferenceCommitment :: "string option"
  le_jti :: string

record pos_receipt =
  rc_accepted :: bool
  rc_shippingLabel :: "label_evidence option"
  rc_receiptId :: string
  rc_terminalId :: string
  rc_operatorId :: "string option"
  rc_createdAt :: int

definition createPosOfflineUsageEntryFromReceipt :: "pos_receipt \<Rightarrow> int option \<Rightarrow> pos_entry option" where
  "createPosOfflineUsageEntryFromReceipt receipt now = (case rc_shippingLabel receipt of
     None \<Rightarrow> None
   | Some shippingLabel \<Rightarrow>
      (if \<not> rc_accepted receipt then None
       else if le_scanRole shippingLabel \<noteq> ''recipient'' \<or> \<not> le_recipientControlVerified shippingLabel then None
       else (let nullifier = cleanNullifier (le_nullifier shippingLabel)
             in if nullifier = [] then None
                else (let createdAt = cleanIsoTimestamp now (rc_createdAt receipt) in Some \<lparr>
                  pe_id = stableId ''POU'' (usage_id_payload nullifier (rc_receiptId receipt) (rc_terminalId receipt)),
                  pe_nullifier = nullifier, pe_receiptId = rc_receiptId receipt,
                  pe_waybillAlias = Some (le_waybillId shippingLabel),
                  pe_waybillCommitment = truthy_opt (le_waybillCommitment shippingLabel),
                  pe_addressReferenceCommitment = truthy_opt (le_addressReferenceCommitment shippingLabel),
                  pe_jtiTail = Some (js_tail 8 (le_jti shippingLabel)),
                  pe_terminalId = rc_terminalId receipt,
                  pe_operatorId = truthy_opt (rc_operatorId receipt),
                  pe_createdAt = createdAt, pe_updatedAt = createdAt, pe_syncStatus = PendingSync,
                  pe_conflictReason = None, pe_conflictingReceiptId = None, pe_conflictDetectedAt = None,
                  pe_serverEventId = None\<rparr>))))"

definition getPosOfflineUsedNullifiers :: "pos_entry list \<Rightarrow> string list" where
  "getPosOfflineUsedNullifiers entries =
     js_uniq (filter (\<lambda>n. n \<noteq> []) (map (\<lambda>e. cleanNullifier (JStr (pe_nullifier e))) entries))"

record record_outcome =
  ro_entries :: "pos_entry list"
  ro_entry :: "pos_entry option"
  ro_recorded :: bool
  ro_conflict :: bool
  ro_auditRequired :: bool
  ro_warnings :: "string list"

definition audit_duplicate :: "int \<Rightarrow> string \<Rightarrow> pos_entry \<Rightarrow> pos_entry" where
  "audit_duplicate at receiptId existing = existing\<lparr>pe_syncStatus := AuditRequired,
     pe_conflictReason := Some ''local-nullifier-duplicate'',
     pe_conflictingReceiptId := Some receiptId,
     pe_conflictDetectedAt := Some at, pe_updatedAt := at\<rparr>"

definition recordPosOfflineUsage :: "pos_entry list \<Rightarrow> pos_receipt \<Rightarrow> int option \<Rightarrow> record_outcome" where
  "recordPosOfflineUsage entries receipt now =
     (let normalized = normalize_entries entries in
      case createPosOfflineUsageEntryFromReceipt receipt now of
        None \<Rightarrow> \<lparr>ro_entries = normalized, ro_entry = None, ro_recorded = False, ro_conflict = False,
           ro_auditRequired = False, ro_warnings = [''receipt-does-not-create-offline-used-nullifier'']\<rparr>
      | Some entry \<Rightarrow>
          (let existingIndex = index_of (pe_nullifier entry) (map pe_nullifier normalized) in
           case existingIndex of
             Some i \<Rightarrow>
               (let existing = normalized ! i in
                if pe_receiptId existing = pe_receiptId entry
                then \<lparr>ro_entries = normalized, ro_entry = Some existing, ro_recorded = False,
                       ro_conflict = False, ro_auditRequired = (pe_syncStatus existing = AuditRequired),
                       ro_warnings = [''offline-used-nullifier-already-recorded-locally'']\<rparr>
                else (let at = cleanIsoTimestamp now (pe_createdAt entry);
                          updated = audit_duplicate at (pe_receiptId entry) existing
                      in \<lparr>ro_entries = normalize_entries (normalized[i := updated]),
                          ro_entry = Some updated, ro_recorded = False, ro_conflict = True,
                          ro_auditRequired = True,
                          ro_warnings = [''offline-used-nullifier-local-conflict-requires-audit'']\<rparr>))
           | None \<Rightarrow>
               \<lparr>ro_entries = normalize_entries (entry # normalized), ro_entry = Some entry,
                ro_recorded = True, ro_conflict = False, ro_auditRequired = False, ro_warnings = []\<rparr>))"

subsection \<open>Synchronising with the server\<close>

definition POS_OFFLINE_USAGE_SYNC_ACTION :: string where
  "POS_OFFLINE_USAGE_SYNC_ACTION = ''mark-shipping-label-nullifier-used''"

record sync_item =
  si_nullifier :: string
  si_receiptId :: string
  si_terminalId :: "string option"
  si_operatorId :: "string option"
  si_waybillAlias :: "string option"
  si_waybillCommitment :: "string option"
  si_addressReferenceCommitment :: "string option"
  si_jtiTail :: "string option"
  si_createdAt :: "int option"

definition buildPosOfflineUsageSyncItems :: "pos_entry list \<Rightarrow> sync_item list" where
  "buildPosOfflineUsageSyncItems entries =
     map (\<lambda>e. \<lparr>si_nullifier = pe_nullifier e, si_receiptId = pe_receiptId e,
         si_terminalId = Some (pe_terminalId e), si_operatorId = truthy_opt (pe_operatorId e),
         si_waybillAlias = truthy_opt (pe_waybillAlias e),
         si_waybillCommitment = truthy_opt (pe_waybillCommitment e),
         si_addressReferenceCommitment = truthy_opt (pe_addressReferenceCommitment e),
         si_jtiTail = truthy_opt (pe_jtiTail e), si_createdAt = Some (pe_createdAt e)\<rparr>)
       (filter (\<lambda>e. pe_syncStatus e = PendingSync) (normalize_entries entries))"

text \<open>The untrusted form of a sync item: its action, its texts and its parsed timestamp.\<close>

definition normalizePosOfflineUsageSyncItem ::
  "(js_value \<times> pos_raw \<times> int option option) option \<Rightarrow> sync_item option" where
  "normalizePosOfflineUsageSyncItem value = (case value of
     None \<Rightarrow> None
   | Some (action, item, createdAt) \<Rightarrow>
      (if action \<noteq> JStr POS_OFFLINE_USAGE_SYNC_ACTION then None
       else (let nullifier = cleanNullifier (pr_nullifier item); receiptId = boundedText (pr_receiptId item) 80
             in if nullifier = [] \<or> receiptId = [] then None
                else Some \<lparr>si_nullifier = nullifier, si_receiptId = receiptId,
                  si_terminalId = bounded_opt (pr_terminalId item) 80,
                  si_operatorId = bounded_opt (pr_operatorId item) 80,
                  si_waybillAlias = bounded_opt (pr_waybillAlias item) 80,
                  si_waybillCommitment = bounded_opt (pr_waybillCommitment item) 96,
                  si_addressReferenceCommitment = bounded_opt (pr_addressReferenceCommitment item) 96,
                  si_jtiTail = bounded_opt (pr_jtiTail item) 16,
                  si_createdAt = map_option (\<lambda>t. cleanIsoTimestamp t 0) createdAt\<rparr>)))"

datatype sync_outcome = Accepted | Conflict | Rejected

fun outcome_text :: "sync_outcome \<Rightarrow> string" where
  "outcome_text Accepted = ''accepted''"
| "outcome_text Conflict = ''conflict''"
| "outcome_text Rejected = ''rejected''"

record sync_event =
  se_eventId :: string
  se_createdAt :: int
  se_nullifier :: js_value
  se_nullifierTail :: string
  se_receiptId :: "string option"
  se_terminalId :: "string option"
  se_operatorId :: "string option"
  se_outcome :: sync_outcome
  se_errors :: "string list"
  se_auditRequired :: bool

definition buildPosOfflineUsageSyncEvent ::
  "sync_item \<Rightarrow> sync_outcome \<Rightarrow> string list \<Rightarrow> int option \<Rightarrow> int \<Rightarrow> sync_event" where
  "buildPosOfflineUsageSyncEvent item outcome errors input_now clock_now =
     (let now = cleanIsoTimestamp input_now clock_now;
          nullifier = cleanNullifier (JStr (si_nullifier item))
      in \<lparr>se_eventId = stableId ''POUSE'' (JObj [(''nullifier'', JStr nullifier),
             (''receiptId'', JStr (si_receiptId item)), (''outcome'', JStr (outcome_text outcome)),
             (''now'', JStr (iso_string now))]),
          se_createdAt = now, se_nullifier = JStr nullifier, se_nullifierTail = nullifierTail nullifier,
          se_receiptId = Some (si_receiptId item), se_terminalId = truthy_opt (si_terminalId item),
          se_operatorId = truthy_opt (si_operatorId item), se_outcome = outcome,
          se_errors = js_uniq errors, se_auditRequired = (outcome \<noteq> Accepted)\<rparr>)"

definition apply_event :: "int \<Rightarrow> sync_event \<Rightarrow> pos_entry \<Rightarrow> pos_entry" where
  "apply_event now event existing =
     (let marked = existing\<lparr>
            pe_syncStatus := (if se_outcome event = Accepted then Synced else AuditRequired),
            pe_updatedAt := now, pe_serverEventId := Some (se_eventId event)\<rparr>
      in if se_outcome event \<noteq> Accepted
         then marked\<lparr>pe_conflictReason := Some (if se_outcome event = Conflict then ''server-nullifier-conflict''
                else (case se_errors event of e # _ \<Rightarrow> (if e = [] then ''server-sync-rejected'' else e)
                      | [] \<Rightarrow> ''server-sync-rejected'')),
              pe_conflictDetectedAt := Some now\<rparr>
         else marked)"

definition reconcile_step ::
  "int \<Rightarrow> (string \<times> pos_entry) list \<Rightarrow> sync_event \<Rightarrow> (string \<times> pos_entry) list" where
  "reconcile_step now byNullifier event =
     (let nullifier = cleanNullifier (se_nullifier event)
      in if nullifier = [] then byNullifier
         else (case map_of byNullifier nullifier of
           None \<Rightarrow> byNullifier
         | Some existing \<Rightarrow> AList.update nullifier (apply_event now event existing) byNullifier))"

definition reconcilePosOfflineUsageSync ::
  "pos_entry list \<Rightarrow> sync_event list \<Rightarrow> int option \<Rightarrow> int \<Rightarrow> pos_entry list" where
  "reconcilePosOfflineUsageSync entries events input_now clock_now =
     (let now = cleanIsoTimestamp input_now clock_now;
          byNullifier = foldl (\<lambda>acc e. AList.update (pe_nullifier e) e acc) [] (normalize_entries entries)
      in normalize_entries (map snd (foldl (reconcile_step now) byNullifier events)))"

record ledger_summary =
  ls_total :: nat
  ls_pendingSync :: nat
  ls_synced :: nat
  ls_auditRequired :: nat
  ls_conflictTails :: "string list"

definition summarizePosOfflineUsageLedger :: "pos_entry list \<Rightarrow> ledger_summary" where
  "summarizePosOfflineUsageLedger entries =
     (let normalized = normalize_entries entries in \<lparr>
        ls_total = length normalized,
        ls_pendingSync = length (filter (\<lambda>e. pe_syncStatus e = PendingSync) normalized),
        ls_synced = length (filter (\<lambda>e. pe_syncStatus e = Synced) normalized),
        ls_auditRequired = length (filter (\<lambda>e. pe_syncStatus e = AuditRequired) normalized),
        ls_conflictTails = map (nullifierTail \<circ> pe_nullifier)
          (filter (\<lambda>e. pe_syncStatus e = AuditRequired) normalized)\<rparr>)"

end
