(* ===== verification/Pos_Props.thy ===== *)
theory Pos_Props
  imports Pos_Ledger
begin

section \<open>Properties of the offline usage ledger\<close>

text \<open>
  The normal form of a ledger and what it keeps, recording of receipts, reconciliation with the server,
  and the life of a ledger over any sequence of scans and synchronisations.
\<close>

subsection \<open>Cleaning\<close>

lemma boundedText_starts: "boundedText v n \<noteq> [] \<Longrightarrow> starts_text (boundedText v n)"
proof -
  assume ne: "boundedText v n \<noteq> []"
  then have n: "0 < n" by (auto simp: boundedText_def)
  from ne have "trimText v \<noteq> []" by (auto simp: boundedText_def replace_runs_def)
  then have "starts_text (trimText v)"
    by (auto simp: trimText_def trim_starts_text split: js_value.splits)
  then show ?thesis
    unfolding boundedText_def by (intro starts_text_take [OF _ n] starts_text_runs) (auto simp: js_ws_def)
qed

lemma boundedText_text: "starts_text s \<Longrightarrow> 0 < n \<Longrightarrow> boundedText (JStr s) n \<noteq> []"
proof -
  assume s: "starts_text s" and n: "0 < n"
  have "starts_text (boundedText (JStr s) n)"
    unfolding boundedText_def trimText_def js_value.case
    by (intro starts_text_take [OF _ n] starts_text_runs) (use starts_text_trim [OF s] in \<open>auto simp: js_ws_def\<close>)
  then show ?thesis by (simp add: starts_text_def)
qed

lemma nullifier_chars: "nullifier_pattern s \<Longrightarrow> c \<in> set s \<Longrightarrow> \<not> js_ws c \<and> \<not> is_lower_char c"
proof -
  assume s: "nullifier_pattern s" and c: "c \<in> set s"
  have "s = take 4 s @ drop 4 s" by simp
  with c have "c \<in> set (take 4 s) \<or> c \<in> set (drop 4 s)" by (metis Un_iff set_append)
  moreover have "take 4 s = ''SLN-''" using s by (simp add: nullifier_pattern_def js_starts_with_def eval_nat_numeral)
  ultimately have "c \<in> set ''SLN-'' \<or> is_digit_char c \<or> char_in_range (CHR ''A'') (CHR ''F'') c"
    using s by (auto simp: nullifier_pattern_def list_all_iff)
  then show ?thesis
    by (auto simp: is_digit_char_def char_in_range_def is_lower_char_def js_ws_def)
qed

lemma cleanNullifier_pattern: "nullifier_pattern s \<Longrightarrow> cleanNullifier (JStr s) = s"
  using nullifier_chars by (simp add: cleanNullifier_def trimText_def js_trim_id js_upper_id)

lemma cleanNullifier_cases: "cleanNullifier v = [] \<or> nullifier_pattern (cleanNullifier v)"
  by (simp add: cleanNullifier_def Let_def)

lemma nullifier_cleaned: "cleanNullifier v \<noteq> [] \<Longrightarrow> nullifier_pattern (cleanNullifier v)"
  using cleanNullifier_cases by blast

lemma nullifier_not_Nil: "nullifier_pattern s \<Longrightarrow> s \<noteq> []"
  by (auto simp: nullifier_pattern_def)

definition valid_entry :: "pos_entry \<Rightarrow> bool" where
  "valid_entry e \<longleftrightarrow> nullifier_pattern (pe_nullifier e) \<and> starts_text (pe_receiptId e)"

lemma normalize_record_valid: "normalize_record r = Some e \<Longrightarrow> valid_entry e"
  using cleanNullifier_cases boundedText_starts
  by (fastforce simp: normalize_record_def Let_def valid_entry_def split: if_splits)

text \<open>An entry that was normalised before is reshaped: its texts may be cut again, but its nullifier,
  its status and its times stay.\<close>

definition reshape :: "pos_entry \<Rightarrow> pos_entry" where
  "reshape e = the (normalize_record (raw_of_entry e))"

lemma reshape_valid:
  assumes "valid_entry e"
  shows "normalize_record (raw_of_entry e) = Some (reshape e)" and "valid_entry (reshape e)"
    and "pe_nullifier (reshape e) = pe_nullifier e" and "pe_syncStatus (reshape e) = pe_syncStatus e"
    and "pe_updatedAt (reshape e) = pe_updatedAt e" and "pe_createdAt (reshape e) = pe_createdAt e"
    and "pe_receiptId (reshape e) = boundedText (JStr (pe_receiptId e)) 80"
proof -
  have n: "cleanNullifier (JStr (pe_nullifier e)) = pe_nullifier e" "pe_nullifier e \<noteq> []"
    and r: "boundedText (JStr (pe_receiptId e)) 80 \<noteq> []"
    using assms cleanNullifier_pattern nullifier_not_Nil boundedText_text by (auto simp: valid_entry_def)
  then obtain e' where e': "normalize_record (raw_of_entry e) = Some e'"
    "pe_nullifier e' = pe_nullifier e" "pe_updatedAt e' = pe_updatedAt e" "pe_createdAt e' = pe_createdAt e"
    "pe_receiptId e' = boundedText (JStr (pe_receiptId e)) 80" "pe_syncStatus e' = pe_syncStatus e"
    by (cases "pe_syncStatus e")
      (auto simp: normalize_record_def Let_def raw_of_entry_def cleanIsoTimestamp_def)
  then have "reshape e = e'" by (simp add: reshape_def)
  with e' normalize_record_valid [OF e'(1)] show
    "normalize_record (raw_of_entry e) = Some (reshape e)" "valid_entry (reshape e)"
    "pe_nullifier (reshape e) = pe_nullifier e" "pe_syncStatus (reshape e) = pe_syncStatus e"
    "pe_updatedAt (reshape e) = pe_updatedAt e" "pe_createdAt (reshape e) = pe_createdAt e"
    "pe_receiptId (reshape e) = boundedText (JStr (pe_receiptId e)) 80"
    by simp_all
qed

subsection \<open>The normal form\<close>

definition ledger_ok :: "pos_entry list \<Rightarrow> bool" where
  "ledger_ok es \<longleftrightarrow> distinct (map pe_nullifier es) \<and> sorted (map (\<lambda>e. - pe_updatedAt e) es)
     \<and> list_all valid_entry es"

definition kept :: "pos_raw option list \<Rightarrow> (string \<times> pos_entry) list" where
  "kept records = foldl (\<lambda>acc r. (case r of None \<Rightarrow> acc
     | Some value \<Rightarrow> (case normalize_record value of None \<Rightarrow> acc | Some e \<Rightarrow> keep_latest acc e))) [] records"

definition source_entries :: "pos_raw option list \<Rightarrow> pos_entry set" where
  "source_entries records = {e. \<exists>r. Some r \<in> set records \<and> normalize_record r = Some e}"

definition kept_inv :: "pos_entry set \<Rightarrow> (string \<times> pos_entry) list \<Rightarrow> bool" where
  "kept_inv S al \<longleftrightarrow> distinct (map fst al) \<and> (\<forall>(n, e) \<in> set al. n = pe_nullifier e \<and> e \<in> S)
     \<and> (\<forall>e \<in> S. \<exists>k. map_of al (pe_nullifier e) = Some k \<and> pe_updatedAt e \<le> pe_updatedAt k)"

lemma keep_latest_inv:
  assumes inv: "kept_inv S al"
  shows "kept_inv (insert e S) (keep_latest al e)"
proof (cases "\<exists>k. map_of al (pe_nullifier e) = Some k \<and> pe_updatedAt e < pe_updatedAt k")
  case True
  then have "keep_latest al e = al" by (auto simp: keep_latest_def)
  with inv True show ?thesis by (auto simp: kept_inv_def)
next
  case False
  then have eq: "keep_latest al e = AList.update (pe_nullifier e) e al"
    by (auto simp: keep_latest_def split: option.split)
  have "\<exists>k. map_of (AList.update (pe_nullifier e) e al) (pe_nullifier f) = Some k
      \<and> pe_updatedAt f \<le> pe_updatedAt k" if "f \<in> insert e S" for f
  proof (cases "pe_nullifier f = pe_nullifier e")
    case True
    have "pe_updatedAt f \<le> pe_updatedAt e"
      using that True False inv by (fastforce simp: kept_inv_def)
    with True show ?thesis by simp
  next
    case diff: False
    with that have "f \<in> S" by auto
    with inv diff show ?thesis unfolding kept_inv_def by (metis fun_upd_other map_of_update)
  qed
  moreover have "\<forall>(n, x) \<in> set (AList.update (pe_nullifier e) e al). n = pe_nullifier x \<and> x \<in> insert e S"
    using inv by (auto simp: kept_inv_def dest!: set_update_entries)
  ultimately show ?thesis
    using inv unfolding eq kept_inv_def by (intro conjI distinct_keys_update) auto
qed

lemma kept_invariant: "kept_inv (source_entries records) (kept records)"
proof (induction records rule: rev_induct)
  case Nil
  show ?case by (simp add: kept_def kept_inv_def source_entries_def)
next
  case (snoc r records)
  have none: "source_entries (records @ [r]) = source_entries records"
    if "\<And>v. r = Some v \<Longrightarrow> normalize_record v = None"
    using that by (auto simp: source_entries_def)
  have some: "source_entries (records @ [r]) = insert e (source_entries records)"
    if "r = Some v" "normalize_record v = Some e" for v e
    using that by (auto simp: source_entries_def)
  have step: "kept (records @ [r]) = (case r of None \<Rightarrow> kept records
     | Some value \<Rightarrow> (case normalize_record value of None \<Rightarrow> kept records | Some e \<Rightarrow> keep_latest (kept records) e))"
    unfolding kept_def foldl_append by simp
  show ?case
    using snoc.IH none some keep_latest_inv [OF snoc.IH] by (auto simp: step split: option.splits)
qed

lemma normalize_kept:
  "normalizePosOfflineUsageEntries records = sort_key (\<lambda>e. - pe_updatedAt e) (map snd (kept records))"
  by (simp add: normalizePosOfflineUsageEntries_def kept_def)

lemma kept_values:
  assumes "kept_inv S al"
  shows "map pe_nullifier (map snd al) = map fst al"
  using assms by (auto simp: kept_inv_def intro!: map_cong)

lemma normalize_ok: "ledger_ok (normalizePosOfflineUsageEntries records)"
proof -
  let ?k = "kept records" and ?s = "normalizePosOfflineUsageEntries records"
  note inv = kept_invariant [of records]
  have "mset (map pe_nullifier ?s) = mset (map fst ?k)"
    using kept_values [OF inv] unfolding normalize_kept by (metis mset_map mset_sort)
  from mset_eq_imp_distinct_iff [OF this] have "distinct (map pe_nullifier ?s)"
    using inv by (simp add: kept_inv_def)
  moreover have "list_all valid_entry ?s"
    using inv normalize_record_valid
    by (fastforce simp: normalize_kept list_all_iff kept_inv_def source_entries_def)
  ultimately show ?thesis by (simp add: ledger_ok_def normalize_kept)
qed

lemma normalize_latest:
  "e \<in> source_entries records \<Longrightarrow>
     \<exists>k \<in> set (normalizePosOfflineUsageEntries records).
       pe_nullifier k = pe_nullifier e \<and> pe_updatedAt e \<le> pe_updatedAt k"
  "set (normalizePosOfflineUsageEntries records) \<subseteq> source_entries records"
proof -
  note inv = kept_invariant [of records]
  show "set (normalizePosOfflineUsageEntries records) \<subseteq> source_entries records"
    using inv by (auto simp: normalize_kept kept_inv_def)
  assume "e \<in> source_entries records"
  with inv obtain k where k: "map_of (kept records) (pe_nullifier e) = Some k" "pe_updatedAt e \<le> pe_updatedAt k"
    by (auto simp: kept_inv_def)
  then have "(pe_nullifier e, k) \<in> set (kept records)" by (simp add: map_of_SomeD)
  with inv k(2) show "\<exists>k \<in> set (normalizePosOfflineUsageEntries records).
       pe_nullifier k = pe_nullifier e \<and> pe_updatedAt e \<le> pe_updatedAt k"
    by (force simp: normalize_kept kept_inv_def)
qed

lemma normalize_entries_set:
  assumes "list_all valid_entry es" and "distinct (map pe_nullifier es)"
  shows "set (normalize_entries es) = reshape ` set es"
proof -
  let ?rs = "map (Some \<circ> raw_of_entry) es"
  have src: "source_entries ?rs = reshape ` set es"
    using assms(1) reshape_valid(1) by (fastforce simp: source_entries_def list_all_iff)
  have inj: "e = f" if "e \<in> set es" "f \<in> set es" "pe_nullifier e = pe_nullifier f" for e f
    using assms(2) that by (auto simp: distinct_map dest: inj_onD)
  show ?thesis
  proof
    show "set (normalize_entries es) \<subseteq> reshape ` set es"
      using normalize_latest(2) [of ?rs] by (simp add: normalize_entries_def src)
    show "reshape ` set es \<subseteq> set (normalize_entries es)"
    proof
      fix x assume "x \<in> reshape ` set es"
      then obtain e where e: "e \<in> set es" "x = reshape e" by auto
      with normalize_latest(1) [of x ?rs] obtain k where
        k: "k \<in> set (normalize_entries es)" "pe_nullifier k = pe_nullifier (reshape e)"
        by (auto simp: src normalize_entries_def)
      with normalize_latest(2) [of ?rs] obtain f where f: "f \<in> set es" "k = reshape f"
        by (auto simp: src normalize_entries_def)
      have "valid_entry e" "valid_entry f" using assms(1) e f by (auto simp: list_all_iff)
      with k f e inj have "f = e" by (metis reshape_valid(3))
      with k(1) f(2) e(2) show "x \<in> set (normalize_entries es)" by simp
    qed
  qed
qed

subsection \<open>Recording\<close>

abbreviation used_nullifiers :: "pos_entry list \<Rightarrow> string set" where
  "used_nullifiers es \<equiv> pe_nullifier ` set es"

lemma normalize_entries_ok: "ledger_ok (normalize_entries es)"
  by (simp add: normalize_entries_def normalize_ok)

lemma normalize_entries_used:
  assumes "list_all valid_entry es" and "distinct (map pe_nullifier es)"
  shows "used_nullifiers (normalize_entries es) = used_nullifiers es"
proof -
  have "pe_nullifier ` reshape ` set es = pe_nullifier ` set es"
    unfolding image_image by (rule image_cong) (use assms(1) reshape_valid(3) in \<open>auto simp: list_all_iff\<close>)
  then show ?thesis by (simp add: normalize_entries_set [OF assms])
qed

lemma ledger_okD: "ledger_ok es \<Longrightarrow> list_all valid_entry es" "ledger_ok es \<Longrightarrow> distinct (map pe_nullifier es)"
  by (simp_all add: ledger_ok_def)

lemma create_valid:
  "createPosOfflineUsageEntryFromReceipt receipt now = Some e \<Longrightarrow>
     nullifier_pattern (pe_nullifier e) \<and> pe_receiptId e = rc_receiptId receipt \<and> pe_syncStatus e = PendingSync
     \<and> rc_accepted receipt"
  using nullifier_cleaned
  by (auto simp: createPosOfflineUsageEntryFromReceipt_def Let_def split: option.splits if_splits)

lemma audit_duplicate_key [simp]:
  "pe_nullifier (audit_duplicate t r e) = pe_nullifier e"
  "pe_receiptId (audit_duplicate t r e) = pe_receiptId e"
  "pe_syncStatus (audit_duplicate t r e) = AuditRequired"
  by (simp_all add: audit_duplicate_def)

text \<open>What recording does in each of its four cases, over the normalised ledger.\<close>

lemma record_new:
  assumes "createPosOfflineUsageEntryFromReceipt receipt now = Some e"
    and "pe_nullifier e \<notin> used_nullifiers (normalize_entries es)"
  shows "recordPosOfflineUsage es receipt now = \<lparr>ro_entries = normalize_entries (e # normalize_entries es),
    ro_entry = Some e, ro_recorded = True, ro_conflict = False, ro_auditRequired = False, ro_warnings = []\<rparr>"
proof -
  have "index_of (pe_nullifier e) (map pe_nullifier (normalize_entries es)) = None"
    using assms(2) by (simp add: index_of_None)
  with assms(1) show ?thesis by (simp add: recordPosOfflineUsage_def Let_def)
qed

lemma record_known:
  assumes "createPosOfflineUsageEntryFromReceipt receipt now = Some e"
    and "pe_nullifier e \<in> used_nullifiers (normalize_entries es)"
  obtains i where "i < length (normalize_entries es)"
    and "pe_nullifier (normalize_entries es ! i) = pe_nullifier e"
    and "pe_receiptId (normalize_entries es ! i) = rc_receiptId receipt \<Longrightarrow>
      ro_entries (recordPosOfflineUsage es receipt now) = normalize_entries es
      \<and> \<not> ro_recorded (recordPosOfflineUsage es receipt now)
      \<and> \<not> ro_conflict (recordPosOfflineUsage es receipt now)"
    and "pe_receiptId (normalize_entries es ! i) \<noteq> rc_receiptId receipt \<Longrightarrow>
      (\<exists>t. ro_entries (recordPosOfflineUsage es receipt now)
        = normalize_entries ((normalize_entries es)[i :=
            audit_duplicate t (rc_receiptId receipt) (normalize_entries es ! i)]))
      \<and> \<not> ro_recorded (recordPosOfflineUsage es receipt now)
      \<and> ro_conflict (recordPosOfflineUsage es receipt now)"
proof -
  from assms(2) have "pe_nullifier e \<in> set (map pe_nullifier (normalize_entries es))" by simp
  from index_of_mem [OF this] obtain i where i: "i < length (normalize_entries es)"
    "index_of (pe_nullifier e) (map pe_nullifier (normalize_entries es)) = Some i"
    "pe_nullifier (normalize_entries es ! i) = pe_nullifier e"
    by auto
  note rid = create_valid [OF assms(1)]
  show thesis
  proof (rule that [OF i(1,3)])
  qed (use assms(1) i(2) rid in \<open>auto simp: recordPosOfflineUsage_def Let_def\<close>)
qed

lemma update_audit_ok:
  assumes ok: "ledger_ok es" and i: "i < length es"
    and x: "pe_nullifier x = pe_nullifier (es ! i)" "pe_receiptId x = pe_receiptId (es ! i)"
  shows "list_all valid_entry (es[i := x])" and "distinct (map pe_nullifier (es[i := x]))"
    and "used_nullifiers (es[i := x]) = used_nullifiers es"
proof -
  have same: "map pe_nullifier (es[i := x]) = map pe_nullifier es"
    using i x(1) by (simp add: map_update list_update_same_conv)
  then show "distinct (map pe_nullifier (es[i := x]))" using ok by (simp add: ledger_ok_def)
  show "used_nullifiers (es[i := x]) = used_nullifiers es"
    by (metis same set_map)
  have "valid_entry x" using ok i x by (auto simp: ledger_ok_def list_all_length valid_entry_def)
  then show "list_all valid_entry (es[i := x])"
    using ok by (auto simp: ledger_ok_def list_all_iff dest: subsetD [OF set_update_subset_insert])
qed

lemma record_frame:
  "ledger_ok (ro_entries (recordPosOfflineUsage es receipt now))"
  "starts_text (rc_receiptId receipt) \<Longrightarrow> used_nullifiers (ro_entries (recordPosOfflineUsage es receipt now)) =
     used_nullifiers (normalize_entries es) \<union>
     (case createPosOfflineUsageEntryFromReceipt receipt now of None \<Rightarrow> {} | Some e \<Rightarrow> {pe_nullifier e})"
proof -
  let ?n = "normalize_entries es" and ?r = "recordPosOfflineUsage es receipt now"
  note ok = normalize_entries_ok [of es]
  have "ledger_ok (ro_entries ?r) \<and> (starts_text (rc_receiptId receipt) \<longrightarrow>
     used_nullifiers (ro_entries ?r) = used_nullifiers ?n \<union>
     (case createPosOfflineUsageEntryFromReceipt receipt now of None \<Rightarrow> {} | Some e \<Rightarrow> {pe_nullifier e}))"
  proof (cases "createPosOfflineUsageEntryFromReceipt receipt now")
    case None
    then show ?thesis using ok by (simp add: recordPosOfflineUsage_def Let_def)
  next
    case (Some e)
    show ?thesis
    proof (cases "pe_nullifier e \<in> used_nullifiers ?n")
      case True
      from record_known [OF Some True] obtain i where i: "i < length ?n"
        "pe_nullifier (?n ! i) = pe_nullifier e"
        and cases: "ro_entries ?r = ?n \<or> (\<exists>x. pe_nullifier x = pe_nullifier (?n ! i)
           \<and> pe_receiptId x = pe_receiptId (?n ! i) \<and> ro_entries ?r = normalize_entries (?n[i := x]))"
        using audit_duplicate_key by metis
      from cases have "used_nullifiers (ro_entries ?r) = used_nullifiers ?n"
        using update_audit_ok [OF ok i(1)] normalize_entries_used by metis
      with cases True Some ok normalize_entries_ok show ?thesis by auto
    next
      case False
      note new = record_new [OF Some False]
      have "starts_text (rc_receiptId receipt) \<Longrightarrow> list_all valid_entry (e # ?n)"
        using create_valid [OF Some] ok by (simp add: valid_entry_def ledger_ok_def)
      moreover have "distinct (map pe_nullifier (e # ?n))"
        using ok False by (simp add: ledger_ok_def)
      ultimately have "starts_text (rc_receiptId receipt) \<Longrightarrow>
          used_nullifiers (ro_entries ?r) = insert (pe_nullifier e) (used_nullifiers ?n)"
        using normalize_entries_used [of "e # ?n"] by (simp add: new)
      with Some show ?thesis by (simp add: new normalize_entries_ok)
    qed
  qed
  then show "ledger_ok (ro_entries ?r)"
    "starts_text (rc_receiptId receipt) \<Longrightarrow> used_nullifiers (ro_entries ?r) = used_nullifiers ?n \<union>
     (case createPosOfflineUsageEntryFromReceipt receipt now of None \<Rightarrow> {} | Some e \<Rightarrow> {pe_nullifier e})"
    by simp_all
qed

subsection \<open>Reconciling\<close>

lemma apply_event_key [simp]:
  "pe_nullifier (apply_event now ev e) = pe_nullifier e"
  "pe_receiptId (apply_event now ev e) = pe_receiptId e"
  "pe_syncStatus (apply_event now ev e) = (if se_outcome ev = Accepted then Synced else AuditRequired)"
  by (simp_all add: apply_event_def Let_def)

definition index_inv :: "string set \<Rightarrow> (string \<times> pos_entry) list \<Rightarrow> bool" where
  "index_inv N al \<longleftrightarrow> distinct (map fst al) \<and> fst ` set al = N
     \<and> (\<forall>(n, e) \<in> set al. n = pe_nullifier e \<and> valid_entry e)"

lemma reconcile_step_inv: "index_inv N al \<Longrightarrow> index_inv N (reconcile_step now al ev)"
  by (auto simp: index_inv_def reconcile_step_def Let_def dom_map_of_conv_image_fst [symmetric] valid_entry_def
      split: option.split dest!: set_update_entries map_of_SomeD)

lemma reconcile_steps_inv: "index_inv N al \<Longrightarrow> index_inv N (foldl (reconcile_step now) al evs)"
  by (induction evs arbitrary: al) (simp_all add: reconcile_step_inv)

lemma index_of_ledger:
  assumes "ledger_ok es"
  shows "foldl (\<lambda>acc e. AList.update (pe_nullifier e) e acc) [] es = map (\<lambda>e. (pe_nullifier e, e)) es"
    and "index_inv (used_nullifiers es) (map (\<lambda>e. (pe_nullifier e, e)) es)"
proof -
  have "distinct (map fst acc @ map pe_nullifier es) \<Longrightarrow>
      foldl (\<lambda>acc e. AList.update (pe_nullifier e) e acc) acc es = acc @ map (\<lambda>e. (pe_nullifier e, e)) es"
    for acc
  proof (induction es arbitrary: acc)
    case (Cons e es)
    then have "AList.update (pe_nullifier e) e acc = acc @ [(pe_nullifier e, e)]"
      by (auto simp: update_new)
    with Cons show ?case by simp
  qed simp
  from this [of "[]"] assms show "foldl (\<lambda>acc e. AList.update (pe_nullifier e) e acc) [] es
      = map (\<lambda>e. (pe_nullifier e, e)) es"
    by (simp add: ledger_ok_def)
  show "index_inv (used_nullifiers es) (map (\<lambda>e. (pe_nullifier e, e)) es)"
    using assms by (auto simp: index_inv_def ledger_ok_def o_def list_all_iff image_image)
qed

lemma reconcile_frame:
  "ledger_ok (reconcilePosOfflineUsageSync es evs inow cnow)"
  "used_nullifiers (reconcilePosOfflineUsageSync es evs inow cnow) = used_nullifiers (normalize_entries es)"
proof -
  let ?now = "cleanIsoTimestamp inow cnow"
  let ?al = "foldl (reconcile_step ?now) (map (\<lambda>e. (pe_nullifier e, e)) (normalize_entries es)) evs"
  note idx = index_of_ledger [OF normalize_entries_ok [of es]]
  have eq: "reconcilePosOfflineUsageSync es evs inow cnow = normalize_entries (map snd ?al)"
    by (simp add: reconcilePosOfflineUsageSync_def Let_def idx(1))
  have inv: "index_inv (used_nullifiers (normalize_entries es)) ?al"
    by (rule reconcile_steps_inv [OF idx(2)])
  then have keys: "map pe_nullifier (map snd ?al) = map fst ?al"
    by (auto simp: index_inv_def intro!: map_cong)
  have "list_all valid_entry (map snd ?al)" using inv by (auto simp: index_inv_def list_all_iff)
  moreover have "distinct (map pe_nullifier (map snd ?al))" using inv unfolding keys by (simp add: index_inv_def)
  ultimately have "used_nullifiers (normalize_entries (map snd ?al)) = used_nullifiers (map snd ?al)"
    by (rule normalize_entries_used)
  also have "\<dots> = set (map fst ?al)" unfolding keys [symmetric] by (simp only: set_map)
  finally show "used_nullifiers (reconcilePosOfflineUsageSync es evs inow cnow) = used_nullifiers (normalize_entries es)"
    using inv by (simp add: eq index_inv_def)
  show "ledger_ok (reconcilePosOfflineUsageSync es evs inow cnow)"
    unfolding eq by (rule normalize_entries_ok)
qed

subsection \<open>Properties\<close>

text \<open>The life of a ledger: receipts are recorded and server answers are folded back, in any order. The
  second result lists the nullifiers that were recorded as newly used.\<close>

datatype ledger_step =
    Scan pos_receipt "int option"
  | Sync "sync_event list" "int option" int

fun run_ledger :: "pos_entry list \<Rightarrow> ledger_step list \<Rightarrow> pos_entry list \<times> string list" where
  "run_ledger es [] = (es, [])"
| "run_ledger es (Scan receipt now # steps) =
     (let out = recordPosOfflineUsage es receipt now;
          (final, recorded) = run_ledger (ro_entries out) steps
      in (final, (if ro_recorded out then [pe_nullifier (the (ro_entry out))] else []) @ recorded))"
| "run_ledger es (Sync events now clock # steps) =
     run_ledger (reconcilePosOfflineUsageSync es events now clock) steps"

fun readable_receipt :: "ledger_step \<Rightarrow> bool" where
  "readable_receipt (Scan receipt now) = starts_text (rc_receiptId receipt)"
| "readable_receipt (Sync _ _ _) = True"

lemma run_ledger_inv:
  "ledger_ok es \<Longrightarrow> list_all readable_receipt steps \<Longrightarrow> run_ledger es steps = (final, recorded) \<Longrightarrow>
     ledger_ok final \<and> distinct recorded \<and> set recorded \<inter> used_nullifiers es = {}
     \<and> used_nullifiers es \<union> set recorded \<subseteq> used_nullifiers final"
proof (induction es steps arbitrary: final recorded rule: run_ledger.induct)
  case (2 es receipt now steps)
  let ?out = "recordPosOfflineUsage es receipt now"
  obtain f r where rest: "run_ledger (ro_entries ?out) steps = (f, r)" by (metis surj_pair)
  have ok: "ledger_ok (ro_entries ?out)" by (rule record_frame(1))
  have norm: "used_nullifiers (normalize_entries es) = used_nullifiers es"
    using normalize_entries_used ledger_okD "2.prems"(1) by blast
  have used: "used_nullifiers (ro_entries ?out) = used_nullifiers es \<union>
     (case createPosOfflineUsageEntryFromReceipt receipt now of None \<Rightarrow> {} | Some e \<Rightarrow> {pe_nullifier e})"
    using record_frame(2) [of receipt es now] "2.prems"(2) norm by simp
  have rec: "ro_recorded ?out \<Longrightarrow> pe_nullifier (the (ro_entry ?out)) \<notin> used_nullifiers es
      \<and> pe_nullifier (the (ro_entry ?out)) \<in> used_nullifiers (ro_entries ?out)"
  proof (cases "createPosOfflineUsageEntryFromReceipt receipt now")
    case None
    then show "ro_recorded ?out \<Longrightarrow> ?thesis" by (simp add: recordPosOfflineUsage_def Let_def)
  next
    case (Some e)
    show "ro_recorded ?out \<Longrightarrow> ?thesis"
    proof (cases "pe_nullifier e \<in> used_nullifiers (normalize_entries es)")
      case True
      then show "ro_recorded ?out \<Longrightarrow> ?thesis" using record_known [OF Some] by metis
    next
      case False
      with norm show "ro_recorded ?out \<Longrightarrow> ?thesis"
        using record_new [OF Some False] Some used by simp
    qed
  qed
  have "ledger_ok f \<and> distinct r \<and> set r \<inter> used_nullifiers (ro_entries ?out) = {}
      \<and> used_nullifiers (ro_entries ?out) \<union> set r \<subseteq> used_nullifiers f"
    using "2.IH" [OF refl, of f r] ok rest "2.prems"(2) by simp
  moreover have "final = f" "recorded = (if ro_recorded ?out then [pe_nullifier (the (ro_entry ?out))] else []) @ r"
    using "2.prems"(3) rest by (simp_all add: Let_def)
  ultimately show ?case using used rec by auto
next
  case (3 es events now clock steps)
  have "used_nullifiers (reconcilePosOfflineUsageSync es events now clock) = used_nullifiers es"
    using reconcile_frame(2) normalize_entries_used ledger_okD "3.prems"(1) by metis
  with 3 reconcile_frame(1) show ?case by simp
qed simp

text \<open>Loading the ledger from storage keeps exactly one valid entry per nullifier, the most recent one,
  newest first, whatever the stored records are.\<close>

theorem normalize_keeps_latest:
  "distinct (map pe_nullifier (normalizePosOfflineUsageEntries records))
   \<and> sorted (rev (map pe_updatedAt (normalizePosOfflineUsageEntries records)))
   \<and> (\<forall>e. (\<exists>r. Some r \<in> set records \<and> normalize_record r = Some e) \<longrightarrow>
        (\<exists>k \<in> set (normalizePosOfflineUsageEntries records).
           pe_nullifier k = pe_nullifier e \<and> pe_updatedAt e \<le> pe_updatedAt k))
   \<and> (\<forall>k \<in> set (normalizePosOfflineUsageEntries records).
        nullifier_pattern (pe_nullifier k) \<and> (\<exists>r. Some r \<in> set records \<and> normalize_record r = Some k))"
proof (intro conjI allI impI ballI)
  let ?n = "normalizePosOfflineUsageEntries records"
  show "distinct (map pe_nullifier ?n)" using normalize_ok by (simp add: ledger_ok_def)
  have "sorted (map (\<lambda>e. - pe_updatedAt e) ?n)" using normalize_ok by (simp add: ledger_ok_def)
  then show "sorted (rev (map pe_updatedAt ?n))"
    by (simp add: sorted_wrt_map sorted_wrt_rev rev_map flip: rev_map)
  show "\<exists>k \<in> set ?n. pe_nullifier k = pe_nullifier e \<and> pe_updatedAt e \<le> pe_updatedAt k"
    if "\<exists>r. Some r \<in> set records \<and> normalize_record r = Some e" for e
    using normalize_latest(1) [of e records] that by (auto simp: source_entries_def)
  fix k assume k: "k \<in> set ?n"
  then show "\<exists>r. Some r \<in> set records \<and> normalize_record r = Some k"
    using normalize_latest(2) [of records] by (auto simp: source_entries_def)
  show "nullifier_pattern (pe_nullifier k)"
    using k normalize_ok [of records] by (auto simp: ledger_ok_def list_all_iff valid_entry_def)
qed


text \<open>A second receipt for a used nullifier is a conflict: it is not recorded, the entry of the first
  receipt stays and is marked for audit.\<close>

theorem second_receipt_audited:
  assumes "createPosOfflineUsageEntryFromReceipt receipt now = Some e"
    and "x \<in> set (normalize_entries es)" and "pe_nullifier x = pe_nullifier e"
    and "pe_receiptId x \<noteq> rc_receiptId receipt"
  shows "ro_conflict (recordPosOfflineUsage es receipt now) \<and> \<not> ro_recorded (recordPosOfflineUsage es receipt now)
    \<and> (\<exists>y \<in> set (ro_entries (recordPosOfflineUsage es receipt now)). pe_nullifier y = pe_nullifier e
         \<and> pe_syncStatus y = AuditRequired \<and> pe_receiptId y = boundedText (JStr (pe_receiptId x)) 80)"
proof -
  note ok = normalize_entries_ok [of es]
  have "pe_nullifier e \<in> used_nullifiers (normalize_entries es)" using assms(2,3) by (metis image_eqI)
  from record_known [OF assms(1) this] obtain i where i: "i < length (normalize_entries es)"
    "pe_nullifier (normalize_entries es ! i) = pe_nullifier e"
    and out: "pe_receiptId (normalize_entries es ! i) \<noteq> rc_receiptId receipt \<Longrightarrow>
      (\<exists>t. ro_entries (recordPosOfflineUsage es receipt now) = normalize_entries ((normalize_entries es)[i :=
          audit_duplicate t (rc_receiptId receipt) (normalize_entries es ! i)]))
      \<and> \<not> ro_recorded (recordPosOfflineUsage es receipt now)
      \<and> ro_conflict (recordPosOfflineUsage es receipt now)" by metis
  have "normalize_entries es ! i = x"
    using ok assms(2,3) i by (metis distinct_map inj_onD ledger_ok_def nth_mem)
  with out assms(4) obtain t where t: "ro_entries (recordPosOfflineUsage es receipt now)
      = normalize_entries ((normalize_entries es)[i := audit_duplicate t (rc_receiptId receipt) x])"
    and flags: "\<not> ro_recorded (recordPosOfflineUsage es receipt now)"
      "ro_conflict (recordPosOfflineUsage es receipt now)" by auto
  let ?a = "audit_duplicate t (rc_receiptId receipt) x"
  note upd = update_audit_ok [OF ok i(1), of ?a, simplified \<open>normalize_entries es ! i = x\<close>, simplified]
  have "reshape ?a \<in> set (ro_entries (recordPosOfflineUsage es receipt now))"
    unfolding t normalize_entries_set [OF upd(1,2)] by (rule imageI) (simp add: set_update_memI i(1))
  moreover have "valid_entry ?a"
    using upd(1) i(1) by (metis length_list_update list_all_length nth_list_update_eq)
  ultimately show ?thesis
    using flags assms(3) by (auto simp: reshape_valid intro!: bexI [of _ "reshape ?a"])
qed

lemma reconcile_steps_lookup:
  "n \<noteq> [] \<Longrightarrow> map_of (foldl (reconcile_step now) al evs) n =
    map_option (\<lambda>x. foldl (\<lambda>x ev. if cleanNullifier (se_nullifier ev) = n then apply_event now ev x else x) x evs)
      (map_of al n)"
proof (induction evs arbitrary: al)
  case Nil
  show ?case by (simp add: option.map_ident)
next
  case (Cons ev evs)
  have "map_of (reconcile_step now al ev) n =
      map_option (\<lambda>x. if cleanNullifier (se_nullifier ev) = n then apply_event now ev x else x) (map_of al n)"
    using Cons.prems by (cases "map_of al (cleanNullifier (se_nullifier ev))"; cases "map_of al n")
      (auto simp: reconcile_step_def Let_def)
  with Cons show ?case by (simp add: option.map_comp o_def)
qed

text \<open>The answers of the server that concern a nullifier.\<close>

definition answers_for :: "string \<Rightarrow> sync_event list \<Rightarrow> sync_event list" where
  "answers_for n events = filter (\<lambda>ev. cleanNullifier (se_nullifier ev) = n) events"

lemma foldl_answers:
  "pe_syncStatus (foldl (\<lambda>x ev. if cleanNullifier (se_nullifier ev) = n then apply_event now ev x else x) x evs)
     = (if answers_for n evs = [] then pe_syncStatus x
        else if se_outcome (last (answers_for n evs)) = Accepted then Synced else AuditRequired)"
  "pe_nullifier (foldl (\<lambda>x ev. if cleanNullifier (se_nullifier ev) = n then apply_event now ev x else x) x evs)
     = pe_nullifier x"
  "pe_receiptId (foldl (\<lambda>x ev. if cleanNullifier (se_nullifier ev) = n then apply_event now ev x else x) x evs)
     = pe_receiptId x"
  by (induction evs arbitrary: x) (auto simp: answers_for_def)

text \<open>After a synchronisation every entry is still there for the same receipt, and its status is that of
  the last answer for its nullifier: synced if accepted, for audit otherwise, unchanged without an
  answer.\<close>

theorem reconcile_last_answer:
  assumes "x \<in> set (normalize_entries es)"
  shows "\<exists>y \<in> set (reconcilePosOfflineUsageSync es events now clock).
    pe_nullifier y = pe_nullifier x \<and> pe_receiptId y = boundedText (JStr (pe_receiptId x)) 80
    \<and> pe_syncStatus y =
        (if answers_for (pe_nullifier x) events = [] then pe_syncStatus x
         else if se_outcome (last (answers_for (pe_nullifier x) events)) = Accepted then Synced
         else AuditRequired)"
proof -
  let ?now = "cleanIsoTimestamp now clock"
  let ?al = "foldl (reconcile_step ?now) (map (\<lambda>e. (pe_nullifier e, e)) (normalize_entries es)) events"
  note ok = normalize_entries_ok [of es]
  note idx = index_of_ledger [OF ok]
  have eq: "reconcilePosOfflineUsageSync es events now clock = normalize_entries (map snd ?al)"
    by (simp add: reconcilePosOfflineUsageSync_def Let_def idx(1))
  have inv: "index_inv (used_nullifiers (normalize_entries es)) ?al"
    by (rule reconcile_steps_inv [OF idx(2)])
  then have keys: "map pe_nullifier (map snd ?al) = map fst ?al"
    by (auto simp: index_inv_def intro!: map_cong)
  have valid: "list_all valid_entry (map snd ?al)" "distinct (map pe_nullifier (map snd ?al))"
    using inv unfolding keys by (auto simp: index_inv_def list_all_iff)
  have x: "valid_entry x" "pe_nullifier x \<noteq> []"
    using ok assms nullifier_not_Nil by (auto simp: ledger_ok_def list_all_iff valid_entry_def)
  have "map_of (map (\<lambda>e. (pe_nullifier e, e)) (normalize_entries es)) (pe_nullifier x) = Some x"
    using ok assms by (intro map_of_is_SomeI) (auto simp: ledger_ok_def o_def)
  then obtain z where z: "map_of ?al (pe_nullifier x) = Some z"
    "z = foldl (\<lambda>x' ev. if cleanNullifier (se_nullifier ev) = pe_nullifier x then apply_event ?now ev x' else x')
       x events"
    by (simp add: reconcile_steps_lookup [OF x(2)])
  then have "z \<in> set (map snd ?al)" by (force dest: map_of_SomeD)
  then have "valid_entry z" "reshape z \<in> set (normalize_entries (map snd ?al))"
    using valid(1) normalize_entries_set [OF valid] by (auto simp: list_all_iff)
  then show ?thesis
    unfolding eq by (intro bexI [of _ "reshape z"]) (simp_all add: reshape_valid z(2) foldl_answers)
qed

subsection \<open>Concrete ledgers\<close>

definition sample_nullifier :: string where "sample_nullifier = ''SLN-0123456789ABCDEF''"

lemma sample_nullifier_clean: "cleanNullifier (JStr sample_nullifier) = sample_nullifier"
  "sample_nullifier \<noteq> []" "nullifier_pattern sample_nullifier"
  by code_simp+

definition sample_label :: label_evidence where
  "sample_label = \<lparr>le_scanRole = ''recipient'', le_recipientControlVerified = True,
     le_nullifier = JStr sample_nullifier, le_waybillId = ''W1'', le_waybillCommitment = None,
     le_addressReferenceCommitment = None, le_jti = ''jti-12345678''\<rparr>"

definition sample_receipt :: "string \<Rightarrow> pos_receipt" where
  "sample_receipt rid = \<lparr>rc_accepted = True, rc_shippingLabel = Some sample_label, rc_receiptId = rid,
     rc_terminalId = ''T1'', rc_operatorId = None, rc_createdAt = 5\<rparr>"

definition sample_entry :: pos_entry where
  "sample_entry = \<lparr>pe_id = ''POU-1'', pe_nullifier = sample_nullifier, pe_receiptId = ''R1'',
     pe_waybillAlias = None, pe_waybillCommitment = None, pe_addressReferenceCommitment = None,
     pe_jtiTail = None, pe_terminalId = ''T1'', pe_operatorId = None, pe_createdAt = 5, pe_updatedAt = 5,
     pe_syncStatus = AuditRequired, pe_conflictReason = Some ''local-nullifier-duplicate'',
     pe_conflictingReceiptId = Some ''R2'', pe_conflictDetectedAt = Some 5, pe_serverEventId = None\<rparr>"

definition sample_answer :: sync_event where
  "sample_answer = \<lparr>se_eventId = ''EV-1'', se_createdAt = 9, se_nullifier = JStr sample_nullifier,
     se_nullifierTail = [], se_receiptId = Some ''R1'', se_terminalId = None, se_operatorId = None,
     se_outcome = Accepted, se_errors = [], se_auditRequired = False\<rparr>"

lemma sample_normal: "normalize_entries [sample_entry] = [sample_entry]"
  by code_simp

lemma sample_entry_fields:
  "pe_nullifier sample_entry = sample_nullifier" "pe_receiptId sample_entry = ''R1''"
  by (simp_all add: sample_entry_def)

lemma sample_create:
  "\<exists>e. createPosOfflineUsageEntryFromReceipt (sample_receipt rid) None = Some e \<and> pe_nullifier e = sample_nullifier"
  by (simp add: createPosOfflineUsageEntryFromReceipt_def sample_receipt_def sample_label_def Let_def
      sample_nullifier_clean)

text \<open>An entry under audit for a duplicate scan loses its audit when the answer to an earlier upload
  arrives: an accepted answer sets it to synced, and the summary counts no case for audit.\<close>

theorem accepted_answer_clears_audit:
  "normalize_entries [sample_entry] = [sample_entry]
   \<and> ls_auditRequired (summarizePosOfflineUsageLedger [sample_entry]) = 1
   \<and> ls_auditRequired (summarizePosOfflineUsageLedger
        (reconcilePosOfflineUsageSync [sample_entry] [sample_answer] (Some 9) 9)) = 0"
  by code_simp

theorem reconcile_last_answer_witness:
  "\<exists>y \<in> set (reconcilePosOfflineUsageSync [sample_entry] [sample_answer] (Some 9) 9). pe_syncStatus y = Synced"
proof -
  have "answers_for (pe_nullifier sample_entry) [sample_answer] = [sample_answer]"
    "se_outcome sample_answer = Accepted"
    by (simp_all add: answers_for_def sample_entry_def sample_answer_def sample_nullifier_clean)
  then show ?thesis
    using reconcile_last_answer [of sample_entry "[sample_entry]" "[sample_answer]" "Some 9" 9]
    by (auto simp: sample_normal)
qed

theorem second_receipt_audited_witness:
  "ro_conflict (recordPosOfflineUsage [sample_entry] (sample_receipt ''R7'') None)"
proof -
  obtain e where e: "createPosOfflineUsageEntryFromReceipt (sample_receipt ''R7'') None = Some e"
    "pe_nullifier e = sample_nullifier" using sample_create by blast
  show ?thesis
    by (rule second_receipt_audited [OF e(1), of sample_entry, THEN conjunct1])
      (simp_all add: sample_normal e(2) sample_entry_fields sample_receipt_def)
qed


theorem normalize_keeps_latest_witness:
  "distinct (map pe_nullifier (normalizePosOfflineUsageEntries [Some (raw_of_entry sample_entry), None]))"
  by (rule normalize_keeps_latest [THEN conjunct1])

end
