(* ===== verification/Js_Regex.thy ===== *)
theory Js_Regex
  imports AGID_Prelude
begin

section \<open>Regular expressions with word boundaries\<close>

text \<open>
  The patterns of the sources that search inside a text. A matcher returns every way to go on: the last
  character consumed (for the word boundary \<open>\b\<close>) and the rest of the text. Only single character
  classes are repeated, as in the patterns modelled.
\<close>

datatype re =
    Eps
  | Cls "char \<Rightarrow> bool"
  | Then re re
  | Or re re
  | Many "char \<Rightarrow> bool"
  | WordB

definition word_char :: "char \<Rightarrow> bool" where
  "word_char c \<longleftrightarrow> is_upper_char c \<or> is_lower_char c \<or> is_digit_char c \<or> c = CHR ''_''"

fun many_rests :: "(char \<Rightarrow> bool) \<Rightarrow> char option \<times> string \<Rightarrow> (char option \<times> string) list" where
  "many_rests p (prev, []) = [(prev, [])]"
| "many_rests p (prev, c # cs) = (prev, c # cs) # (if p c then many_rests p (Some c, cs) else [])"

fun re_match :: "re \<Rightarrow> char option \<times> string \<Rightarrow> (char option \<times> string) list" where
  "re_match Eps s = [s]"
| "re_match (Cls p) s = (case snd s of [] \<Rightarrow> [] | c # cs \<Rightarrow> (if p c then [(Some c, cs)] else []))"
| "re_match (Then r q) s = concat (map (re_match q) (re_match r s))"
| "re_match (Or r q) s = re_match r s @ re_match q s"
| "re_match (Many p) s = many_rests p s"
| "re_match WordB s =
     (let before = (case fst s of None \<Rightarrow> False | Some c \<Rightarrow> word_char c);
          after = (case snd s of [] \<Rightarrow> False | c # _ \<Rightarrow> word_char c)
      in if before \<noteq> after then [s] else [])"

fun re_search :: "re \<Rightarrow> char option \<Rightarrow> string \<Rightarrow> bool" where
  "re_search r prev [] = (re_match r (prev, []) \<noteq> [])"
| "re_search r prev (c # cs) = (re_match r (prev, c # cs) \<noteq> [] \<or> re_search r (Some c) cs)"

definition re_test :: "re \<Rightarrow> string \<Rightarrow> bool" where
  "re_test r s = re_search r None s"

text \<open>A literal, matched without regard to case.\<close>

fun lit :: "string \<Rightarrow> re" where
  "lit [] = Eps"
| "lit (c # cs) = Then (Cls (\<lambda>x. lower_char x = lower_char c)) (lit cs)"

definition opt :: "re \<Rightarrow> re" where "opt r = Or r Eps"

fun any_of :: "re list \<Rightarrow> re" where
  "any_of [] = Cls (\<lambda>_. False)"
| "any_of (r # rs) = Or r (any_of rs)"

subsection \<open>What a match consumes\<close>

lemma many_rests_suffix: "(d, t) \<in> set (many_rests p (c, s)) \<Longrightarrow> \<exists>u. s = u @ t"
proof (induction s arbitrary: c)
  case (Cons x s)
  then show ?case by (auto split: if_splits) (metis append_Cons)
qed simp

lemma re_match_suffix: "(d, t) \<in> set (re_match r (c, s)) \<Longrightarrow> \<exists>u. s = u @ t"
proof (induction r arbitrary: c s d t)
  case (Then r q)
  then obtain e v where "(e, v) \<in> set (re_match r (c, s))" "(d, t) \<in> set (re_match q (e, v))" by auto
  with Then.IH(1) [of e v c s] Then.IH(2) [of d t e v] show ?case by fastforce
qed (auto simp: Let_def many_rests_suffix split: list.splits if_splits)

text \<open>A pattern that ends in a character class needs a character of the class.\<close>

fun needs :: "(char \<Rightarrow> bool) \<Rightarrow> re \<Rightarrow> bool" where
  "needs p (Then r q) = needs p q"
| "needs p (Cls q) = (q = p)"
| "needs p _ = False"

lemma re_match_needs: "needs p r \<Longrightarrow> re_match r (c, s) \<noteq> [] \<Longrightarrow> \<exists>x \<in> set s. p x"
proof (induction p r arbitrary: c s rule: needs.induct)
  case (1 p r q)
  then obtain e v where v: "(e, v) \<in> set (re_match r (c, s))" "re_match q (e, v) \<noteq> []"
    by auto
  with 1 have "\<exists>x \<in> set v. p x" by auto
  with re_match_suffix [OF v(1)] show ?case by auto
qed (auto split: list.splits if_splits)

lemma re_test_needs:
  assumes "needs p r" and "re_test r s"
  shows "\<exists>x \<in> set s. p x"
proof -
  have "re_search r c s \<Longrightarrow> \<exists>x \<in> set s. p x" for c
    by (induction s arbitrary: c) (use re_match_needs [OF assms(1)] in fastforce)+
  with assms(2) show ?thesis by (simp add: re_test_def)
qed

end
