(* ===== verification/Aoid_Id.thy ===== *)
theory Aoid_Id
  imports Agid_Contract Js_Regex "HOL-Library.Sublist"
begin

section \<open>AOID identifiers\<close>

text \<open>
  \<open>src/src/lib/aoid/constants.ts\<close>, \<open>helpers.ts\<close>, \<open>id.ts\<close> and \<open>privacy.ts\<close>: the identifier of an
  owner-managed address, its link to an AGID by the ten-character anchor, its generation from random
  values, and the test for an opaque encrypted payload. The values of \<open>crypto.getRandomValues\<close> are an
  argument: attempt and index give a number.
\<close>

subsection \<open>Constants and helpers\<close>

definition AOID_RECORD_VERSION :: int where "AOID_RECORD_VERSION = 1"
definition AOID_BASE32_ALPHABET :: string where "AOID_BASE32_ALPHABET = AGID_BASE32_ALPHABET"
definition AOID_ID_MIN_LENGTH :: nat where "AOID_ID_MIN_LENGTH = 9"
definition AOID_ID_MAX_LENGTH :: nat where "AOID_ID_MAX_LENGTH = 16"
definition AOID_LINKED_AGID_ANCHOR_LENGTH :: nat where "AOID_LINKED_AGID_ANCHOR_LENGTH = AGID_HASH_LENGTH"

text \<open>The pattern \<open>^[0-9A-HJKMNP-TV-Z]{9,16}$\<close>.\<close>

definition aoid_id_char :: "char \<Rightarrow> bool" where
  "aoid_id_char c \<longleftrightarrow> is_digit_char c \<or> char_in_range (CHR ''A'') (CHR ''H'') c \<or> c = CHR ''J''
     \<or> c = CHR ''K'' \<or> c = CHR ''M'' \<or> c = CHR ''N'' \<or> char_in_range (CHR ''P'') (CHR ''T'') c
     \<or> char_in_range (CHR ''V'') (CHR ''Z'') c"

definition aoid_id_pattern :: "string \<Rightarrow> bool" where
  "aoid_id_pattern s \<longleftrightarrow> AOID_ID_MIN_LENGTH \<le> length s \<and> length s \<le> AOID_ID_MAX_LENGTH
     \<and> list_all aoid_id_char s"

definition AOID_PRIVATE_FIELDS :: "string list" where
  "AOID_PRIVATE_FIELDS = [''recipient'', ''name'', ''phone'', ''room'', ''floor'', ''unit'',
     ''deliveryInstructions'', ''accessInstructions'', ''privateNote'', ''lat'', ''lon'', ''lng'']"

definition clean :: "js_value \<Rightarrow> string" where
  "clean value = (case value of JStr s \<Rightarrow> js_trim s | _ \<Rightarrow> [])"

definition cleanAgid :: "js_value \<Rightarrow> string" where
  "cleanAgid value = (case normalizeAGIDInput value of
     None \<Rightarrow> []
   | Some normalized \<Rightarrow> (if isValidAGIDFormat (JStr normalized) then normalized else []))"

definition cleanKeyId :: "js_value \<Rightarrow> string" where
  "cleanKeyId value =
     take 128 (filter (\<lambda>c. word_char c \<or> c \<in> {CHR '':'', CHR ''.'', CHR ''-''}) (clean value))"

datatype aoid_status = Active | Revoked | Rotated

fun aoid_status_text :: "aoid_status \<Rightarrow> string" where
  "aoid_status_text Active = ''active''"
| "aoid_status_text Revoked = ''revoked''"
| "aoid_status_text Rotated = ''rotated''"

definition coerceAOIDStatus :: "js_value \<Rightarrow> aoid_status" where
  "coerceAOIDStatus value = (if value = JStr ''revoked'' then Revoked
     else if value = JStr ''rotated'' then Rotated else Active)"

subsection \<open>Rules of an identifier\<close>

definition getAOIDLinkedAGIDAnchor :: "js_value \<Rightarrow> string" where
  "getAOIDLinkedAGIDAnchor value =
     (let agid = cleanAgid value
      in if agid \<noteq> [] then take AOID_LINKED_AGID_ANCHOR_LENGTH (drop AGID_PREFIX_LENGTH agid) else [])"

definition hasAOIDAllSame16 :: "string \<Rightarrow> bool" where
  "hasAOIDAllSame16 i \<longleftrightarrow> length i = AOID_ID_MAX_LENGTH \<and> length (js_uniq i) = 1"

text \<open>The four neighbours tested at one position; \<open>indexOf\<close> gives -1 for a foreign character.\<close>

definition alphabet_index :: "char \<Rightarrow> int" where
  "alphabet_index c = (case index_of c AOID_BASE32_ALPHABET of None \<Rightarrow> - 1 | Some n \<Rightarrow> int n)"

definition is_run :: "int \<Rightarrow> int \<Rightarrow> int \<Rightarrow> int \<Rightarrow> bool" where
  "is_run first second third fourth \<longleftrightarrow>
     (if first < 0 \<or> second < 0 \<or> third < 0 \<or> fourth < 0 then False
      else let step = second - first
           in (step = 1 \<or> step = - 1) \<and> third - second = step \<and> fourth - third = step)"

definition hasAOIDSequentialRun :: "string \<Rightarrow> bool" where
  "hasAOIDSequentialRun i =
     (let indexes = map alphabet_index i
      in list_ex (\<lambda>k. is_run (indexes ! k) (indexes ! (k + 1)) (indexes ! (k + 2)) (indexes ! (k + 3)))
           [0 ..< length indexes - 3])"

definition isAOIDLinkedToAGID :: "string \<Rightarrow> js_value \<Rightarrow> bool" where
  "isAOIDLinkedToAGID i linkedAgid =
     (let anchor = getAOIDLinkedAGIDAnchor linkedAgid
      in if anchor = [] then False
         else if length i < length anchor then js_starts_with i anchor
         else js_includes anchor i)"

definition normalizeAOIDId :: "js_value \<Rightarrow> js_value \<Rightarrow> string result" where
  "normalizeAOIDId value linkedAgid =
     (let i = js_upper (clean value)
      in if \<not> aoid_id_pattern i
         then Inl (JsError ''Invalid AOID id. AOID ids must be 9 to 16 unambiguous base32 characters.'')
         else if hasAOIDAllSame16 i
         then Inl (JsError ''Invalid AOID id. AOID ids cannot be 16 repeated characters.'')
         else if hasAOIDSequentialRun i
         then Inl (JsError ''Invalid AOID id. AOID ids cannot contain four consecutive base32 characters.'')
         else if truthy linkedAgid \<and> \<not> isAOIDLinkedToAGID i linkedAgid
         then Inl (JsError ''Invalid AOID id. AOID ids must contain the linked AGID base32 anchor.'')
         else Inr i)"

definition isValidAOIDId :: "js_value \<Rightarrow> bool" where
  "isValidAOIDId value = (case normalizeAOIDId value JUndefined of Inl _ \<Rightarrow> False | Inr _ \<Rightarrow> True)"

text \<open>The text one attempt builds: the anchor and the suffix drawn for it.\<close>

definition aoid_candidate :: "(nat \<Rightarrow> nat \<Rightarrow> nat) \<Rightarrow> nat \<Rightarrow> string \<Rightarrow> string" where
  "aoid_candidate random attempt anchor =
     (let suffixLength = (if anchor \<noteq> [] then AOID_ID_MAX_LENGTH - length anchor else AOID_ID_MAX_LENGTH)
      in anchor @ map (\<lambda>i. AOID_BASE32_ALPHABET ! (random attempt i mod length AOID_BASE32_ALPHABET))
           [0 ..< suffixLength])"

fun generate_attempts :: "nat \<Rightarrow> nat \<Rightarrow> (nat \<Rightarrow> nat \<Rightarrow> nat) \<Rightarrow> js_value \<Rightarrow> string \<Rightarrow> string result" where
  "generate_attempts 0 attempt random linkedAgid anchor =
     Inl (JsError ''Unable to generate a valid AOID id under the reserved-pattern rules.'')"
| "generate_attempts (Suc n) attempt random linkedAgid anchor =
     (case normalizeAOIDId (JStr (aoid_candidate random attempt anchor))
             (if anchor \<noteq> [] then linkedAgid else JUndefined) of
        Inr i \<Rightarrow> Inr i
      | Inl _ \<Rightarrow> generate_attempts n (attempt + 1) random linkedAgid anchor)"

definition generateAOID :: "(nat \<Rightarrow> nat \<Rightarrow> nat) \<Rightarrow> js_value \<Rightarrow> string result" where
  "generateAOID random linkedAgid =
     generate_attempts 128 0 random linkedAgid (getAOIDLinkedAGIDAnchor linkedAgid)"

definition buildAOIDPublicHandle :: "string \<Rightarrow> string result" where
  "buildAOIDPublicHandle i = sbind (normalizeAOIDId (JStr i) JUndefined) (\<lambda>s. Inr (''aoid:'' @ s))"

subsection \<open>Opaque payloads\<close>

definition raw_field_pattern :: re where
  "raw_field_pattern = Then (opt (Cls (\<lambda>c. c = CHR 0x22))) (Then (any_of (map lit AOID_PRIVATE_FIELDS))
     (Then (opt (Cls (\<lambda>c. c = CHR 0x22))) (Then (Many js_ws) (Cls (\<lambda>c. c = CHR '':'')))))"

definition looksLikeRawPrivatePayload :: "string \<Rightarrow> bool" where
  "looksLikeRawPrivatePayload value =
     (case dropWhile js_ws value of
        [] \<Rightarrow> re_test raw_field_pattern value
      | c # _ \<Rightarrow> (if c = CHR ''['' \<or> c = CHR ''{'' then True else re_test raw_field_pattern value))"

definition isOpaqueEncryptedPayload :: "js_value \<Rightarrow> bool" where
  "isOpaqueEncryptedPayload value =
     (let payload = clean value in length payload \<ge> 24 \<and> \<not> looksLikeRawPrivatePayload payload)"

subsection \<open>Lemmas\<close>

lemma aoid_id_char_upper: "aoid_id_char c \<Longrightarrow> \<not> js_ws c \<and> \<not> is_lower_char c"
  by (auto simp: aoid_id_char_def is_digit_char_def char_in_range_def js_ws_def is_lower_char_def)

lemma alphabet_aoid: "c \<in> set AOID_BASE32_ALPHABET \<Longrightarrow> aoid_id_char c"
proof -
  have "list_all aoid_id_char AOID_BASE32_ALPHABET" by code_simp
  then show "c \<in> set AOID_BASE32_ALPHABET \<Longrightarrow> ?thesis" by (simp add: list_all_iff)
qed

lemma clean_upper_pattern: "aoid_id_pattern s \<Longrightarrow> js_upper (clean (JStr s)) = s"
  using aoid_id_char_upper
  by (simp add: aoid_id_pattern_def clean_def list_all_iff js_trim_id js_upper_id)

lemma normalizeAOIDId_Inr:
  "normalizeAOIDId v l = Inr s \<longleftrightarrow>
     s = js_upper (clean v) \<and> aoid_id_pattern s \<and> \<not> hasAOIDAllSame16 s \<and> \<not> hasAOIDSequentialRun s
     \<and> (truthy l \<longrightarrow> isAOIDLinkedToAGID s l)"
  by (auto simp: normalizeAOIDId_def Let_def)

lemma run_append:
  assumes "hasAOIDSequentialRun a"
  shows "hasAOIDSequentialRun (a @ b)"
proof -
  from assms obtain k where k: "k < length a - 3"
    "is_run (alphabet_index (a ! k)) (alphabet_index (a ! (k + 1))) (alphabet_index (a ! (k + 2)))
      (alphabet_index (a ! (k + 3)))"
    by (auto simp: hasAOIDSequentialRun_def Let_def list_ex_iff)
  then show ?thesis
    by (auto simp: hasAOIDSequentialRun_def Let_def list_ex_iff nth_append intro!: bexI [of _ k])
qed

lemma includes_append: "js_includes p (p @ s)"
proof -
  have "js_starts_with p (p @ s)" by (simp add: js_starts_with_def)
  then show ?thesis by (cases "p @ s") auto
qed

lemma anchor_shape:
  "getAOIDLinkedAGIDAnchor l \<noteq> [] \<Longrightarrow> length (getAOIDLinkedAGIDAnchor l) = 10
     \<and> set (getAOIDLinkedAGIDAnchor l) \<subseteq> set AOID_BASE32_ALPHABET"
proof -
  assume "getAOIDLinkedAGIDAnchor l \<noteq> []"
  then obtain s where s: "getAOIDLinkedAGIDAnchor l = take 10 (drop 2 s)" "agid_format_pattern s"
    using normalizeAGIDInput_idem [of l]
    by (auto simp: getAOIDLinkedAGIDAnchor_def cleanAgid_def AOID_LINKED_AGID_ANCHOR_LENGTH_def
        agid_constants isValidAGIDFormat_def Let_def split: option.splits if_splits)
  then have "length s = 12" "set (drop 2 s) \<subseteq> set AOID_BASE32_ALPHABET"
    by (auto simp: agid_format_pattern_def agid_constants list_all_iff AOID_BASE32_ALPHABET_def)
  with s(1) show ?thesis by (auto dest: in_set_takeD)
qed

definition good_anchor :: "string \<Rightarrow> bool" where
  "good_anchor a \<longleftrightarrow> (a = [] \<or> length a = 10) \<and> set a \<subseteq> set AOID_BASE32_ALPHABET"

lemma good_anchor_of: "good_anchor (getAOIDLinkedAGIDAnchor l)"
  using anchor_shape [of l] by (cases "getAOIDLinkedAGIDAnchor l = []") (simp_all add: good_anchor_def)

lemma candidate_shape:
  assumes "good_anchor a"
  shows "\<exists>t. aoid_candidate random k a = a @ t" and "length (aoid_candidate random k a) = 16"
    and "aoid_id_pattern (aoid_candidate random k a)"
    and "js_upper (clean (JStr (aoid_candidate random k a))) = aoid_candidate random k a"
proof -
  let ?c = "aoid_candidate random k a"
  show "\<exists>t. ?c = a @ t" by (simp add: aoid_candidate_def Let_def)
  show len: "length ?c = 16"
    using assms by (auto simp: aoid_candidate_def Let_def good_anchor_def AOID_ID_MAX_LENGTH_def)
  have "AOID_BASE32_ALPHABET ! (m mod length AOID_BASE32_ALPHABET) \<in> set AOID_BASE32_ALPHABET" for m
    by (intro nth_mem mod_less_divisor) (simp add: AOID_BASE32_ALPHABET_def AGID_BASE32_ALPHABET_def)
  then have "set ?c \<subseteq> set AOID_BASE32_ALPHABET"
    using assms by (auto simp: aoid_candidate_def Let_def good_anchor_def)
  then have "list_all aoid_id_char ?c" using alphabet_aoid by (auto simp: list_all_iff)
  with len show pat: "aoid_id_pattern ?c"
    by (simp add: aoid_id_pattern_def AOID_ID_MIN_LENGTH_def AOID_ID_MAX_LENGTH_def)
  show "js_upper (clean (JStr ?c)) = ?c" by (rule clean_upper_pattern [OF pat])
qed

lemma generate_attempts_Inr:
  "good_anchor anchor \<Longrightarrow> generate_attempts n k random l anchor = Inr i \<Longrightarrow>
     \<exists>suffix. i = anchor @ suffix \<and> length i = 16 \<and> aoid_id_pattern i \<and> \<not> hasAOIDAllSame16 i
       \<and> \<not> hasAOIDSequentialRun i"
proof (induction n arbitrary: k)
  case (Suc n)
  note c = candidate_shape [OF Suc.prems(1), of random k]
  show ?case
  proof (cases "normalizeAOIDId (JStr (aoid_candidate random k anchor)) (if anchor \<noteq> [] then l else JUndefined)")
    case (Inl e)
    with Suc show ?thesis by simp
  next
    case (Inr j)
    with Suc.prems c show ?thesis by (auto simp: normalizeAOIDId_Inr)
  qed
qed simp

lemma generate_attempts_run:
  assumes "good_anchor anchor" and "hasAOIDSequentialRun anchor"
  shows "generate_attempts n k random l anchor =
    Inl (JsError ''Unable to generate a valid AOID id under the reserved-pattern rules.'')"
proof (induction n arbitrary: k)
  case (Suc n)
  have "hasAOIDSequentialRun (aoid_candidate random k anchor)"
    using candidate_shape(1) [OF assms(1)] run_append [OF assms(2)] by metis
  then obtain e where
    "normalizeAOIDId (JStr (aoid_candidate random k anchor)) (if anchor \<noteq> [] then l else JUndefined) = Inl e"
    using candidate_shape(4) [OF assms(1)] normalizeAOIDId_Inr
    by (cases "normalizeAOIDId (JStr (aoid_candidate random k anchor)) (if anchor \<noteq> [] then l else JUndefined)")
      auto
  then show ?case using Suc.IH by (simp only: generate_attempts.simps sum.case)
qed simp

text \<open>What the generator returns is an identifier that the validator accepts, sixteen characters long,
  and linked to the AGID it was generated for.\<close>

theorem generated_aoid_valid:
  assumes "generateAOID random l = Inr i"
  shows "length i = 16 \<and> isValidAOIDId (JStr i) \<and> normalizeAOIDId (JStr i) JUndefined = Inr i
    \<and> (cleanAgid l \<noteq> [] \<longrightarrow> isAOIDLinkedToAGID i l \<and> normalizeAOIDId (JStr i) l = Inr i)"
proof -
  let ?a = "getAOIDLinkedAGIDAnchor l"
  obtain t where i: "i = ?a @ t" "length i = 16" "aoid_id_pattern i" "\<not> hasAOIDAllSame16 i"
      "\<not> hasAOIDSequentialRun i"
    using generate_attempts_Inr [OF good_anchor_of assms [unfolded generateAOID_def]] by blast
  note self = clean_upper_pattern [OF i(3)]
  have linked: "isAOIDLinkedToAGID i l" if agid: "cleanAgid l \<noteq> []"
  proof -
    obtain s where s: "cleanAgid l = s" "agid_format_pattern s"
      using agid normalizeAGIDInput_idem [of l]
      by (auto simp: cleanAgid_def isValidAGIDFormat_def split: option.splits if_splits)
    then have "?a \<noteq> []"
      by (auto simp: getAOIDLinkedAGIDAnchor_def agid_format_pattern_def agid_constants
          AOID_LINKED_AGID_ANCHOR_LENGTH_def)
    with i(2) anchor_shape [of l] show ?thesis
      using includes_append [of ?a t] by (simp add: isAOIDLinkedToAGID_def Let_def i(1))
  qed
  have "normalizeAOIDId (JStr i) JUndefined = Inr i"
    using i self by (simp add: normalizeAOIDId_Inr truthy_def)
  moreover have "cleanAgid l \<noteq> [] \<Longrightarrow> normalizeAOIDId (JStr i) l = Inr i"
    using i self linked by (simp add: normalizeAOIDId_Inr)
  ultimately show ?thesis using i linked by (simp add: isValidAOIDId_def)
qed

text \<open>An AGID whose hash contains four consecutive characters of the alphabet has no AOID: whatever the
  random source returns, all 128 attempts fail, because the anchor is part of every candidate.\<close>

theorem no_aoid_for_sequential_anchor:
  assumes "hasAOIDSequentialRun (getAOIDLinkedAGIDAnchor l)"
  shows "generateAOID random l =
    Inl (JsError ''Unable to generate a valid AOID id under the reserved-pattern rules.'')"
  unfolding generateAOID_def by (rule generate_attempts_run [OF good_anchor_of assms])

theorem no_aoid_for_sequential_anchor_witness:
  "generateAOID (\<lambda>_ i. 7 * i + 5) (JStr ''JP0123000000'') =
     Inl (JsError ''Unable to generate a valid AOID id under the reserved-pattern rules.'')"
  by (rule no_aoid_for_sequential_anchor) code_simp

lemma sample_generate: "generateAOID (\<lambda>_ i. 7 * i + 5) (JStr ''JP2K00TX0000'') = Inr ''2K00TX00005CKT18''"
  by code_simp

theorem generated_aoid_valid_witness:
  "isValidAOIDId (JStr ''2K00TX00005CKT18'') \<and> isAOIDLinkedToAGID ''2K00TX00005CKT18'' (JStr ''JP2K00TX0000'')"
proof -
  have "cleanAgid (JStr ''JP2K00TX0000'') \<noteq> []" by code_simp
  with generated_aoid_valid [OF sample_generate] show ?thesis by blast
qed

end
