(* ===== verification/Governance.thy ===== *)
theory Governance
  imports Aoid_Id Stable_Json Sha256
begin

section \<open>Who may carry which payload where\<close>

text \<open>
  \<open>src/src/lib/agidAoidGovernance.ts\<close>: the classification of AGID and AOID payloads, the decision for
  each surface, and the audit event. A payload is an untyped value.
\<close>

subsection \<open>Types\<close>

datatype layer = AGID | AOID

datatype operation = Communicate | Register | SyncOp | QrBuild | QrParse | Revoke | Rotate

datatype surface = LocalDevice | PublicApi | PublicQr | PrivateQr | EncryptedSync | EventStream | Sdk | Openapi

datatype payload_class = PublicAgidReference | PublicAgidEvidence | AoidPublicReference
  | AoidPrivatePlaintext | AoidEncryptedEnvelope | Empty | Unknown

datatype privacy = Public | PrivateRedacted | PrivateLocal

fun layer_text :: "layer \<Rightarrow> string" where
  "layer_text AGID = ''AGID''" | "layer_text AOID = ''AOID''"

fun operation_text :: "operation \<Rightarrow> string" where
  "operation_text Communicate = ''communicate''"
| "operation_text Register = ''register''"
| "operation_text SyncOp = ''sync''"
| "operation_text QrBuild = ''qr-build''"
| "operation_text QrParse = ''qr-parse''"
| "operation_text Revoke = ''revoke''"
| "operation_text Rotate = ''rotate''"

fun surface_text :: "surface \<Rightarrow> string" where
  "surface_text LocalDevice = ''local-device''"
| "surface_text PublicApi = ''public-api''"
| "surface_text PublicQr = ''public-qr''"
| "surface_text PrivateQr = ''private-qr''"
| "surface_text EncryptedSync = ''encrypted-sync''"
| "surface_text EventStream = ''event-stream''"
| "surface_text Sdk = ''sdk''"
| "surface_text Openapi = ''openapi''"

fun class_text :: "payload_class \<Rightarrow> string" where
  "class_text PublicAgidReference = ''public-agid-reference''"
| "class_text PublicAgidEvidence = ''public-agid-evidence''"
| "class_text AoidPublicReference = ''aoid-public-reference''"
| "class_text AoidPrivatePlaintext = ''aoid-private-plaintext''"
| "class_text AoidEncryptedEnvelope = ''aoid-encrypted-envelope''"
| "class_text Empty = ''empty''"
| "class_text Unknown = ''unknown''"

record decision =
  dc_modelVersion :: string
  dc_layer :: layer
  dc_operation :: operation
  dc_surface :: surface
  dc_allowed :: bool
  dc_payloadClass :: payload_class
  dc_privacy :: privacy
  dc_requiresOwnerConsent :: bool
  dc_requiresEncryption :: bool
  dc_requiresLocalOnly :: bool
  dc_forbiddenFields :: "string list"
  dc_warnings :: "string list"
  dc_cachePolicy :: string

record audit_event =
  ae_id :: string
  ae_modelVersion :: string
  ae_layer :: layer
  ae_operation :: operation
  ae_surface :: surface
  ae_entityId :: "string option"
  ae_agid :: "string option"
  ae_publicHandle :: "string option"
  ae_payloadClass :: payload_class
  ae_privacy :: privacy
  ae_outcome :: string
  ae_forbiddenFields :: "string list"
  ae_warnings :: "string list"
  ae_payloadFingerprint :: string
  ae_createdAt :: int

subsection \<open>Private fields\<close>

definition AGID_AOID_GOVERNANCE_MODEL_VERSION :: string where
  "AGID_AOID_GOVERNANCE_MODEL_VERSION = ''agid-aoid-governance-v1''"

definition AOID_PRIVATE_FIELD_KEYS :: "string list" where
  "AOID_PRIVATE_FIELD_KEYS =
    [''recipient'', ''name'', ''phone'', ''phonenumber'', ''room'', ''unit'', ''unitnumber'', ''apartment'',
     ''flat'', ''suite'', ''floor'', ''accesscode'', ''buildingaccess'', ''deliveryinstruction'',
     ''deliveryinstructions'', ''accessinstruction'', ''accessinstructions'', ''privatebody'',
     ''deliveryoptions'', ''intercom'', ''intercomcode'', ''dropoffsetting'', ''dropoffpreference'',
     ''accesspolicy'', ''validity'', ''privatenote'', ''privateownershipproof'', ''lat'', ''lon'', ''lng'']"

definition AOID_PUBLIC_REFERENCE_ALLOWED_FIELD_PATHS :: "string list" where
  "AOID_PUBLIC_REFERENCE_ALLOWED_FIELD_PATHS = [''payload.name'']"

definition safeHash :: "js_value \<Rightarrow> string" where
  "safeHash value = js_upper (take 24 (sha256Hex (stableJson value)))"

definition findAoidPrivateFields :: "js_value \<Rightarrow> string \<Rightarrow> string list" where
  "findAoidPrivateFields value path = find_keys (\<lambda>k. k \<in> set AOID_PRIVATE_FIELD_KEYS) value path"

definition hasOwnString :: "js_value \<Rightarrow> string \<Rightarrow> bool" where
  "hasOwnString value key \<longleftrightarrow>
     is_object value \<and> (case get_prop value key of JStr s \<Rightarrow> length (clean (JStr s)) > 0 | _ \<Rightarrow> False)"

definition isEncryptedAoidEnvelope :: "js_value \<Rightarrow> bool" where
  "isEncryptedAoidEnvelope value \<longleftrightarrow> is_object value
     \<and> get_prop value ''type'' = JStr ''AOID_SYNC_ENVELOPE''
     \<and> hasOwnString value ''encryptedPayload''
     \<and> get_prop value ''encryption'' = JStr ''owner-device''"

definition hasPublicAoidReference :: "js_value \<Rightarrow> bool" where
  "hasPublicAoidReference value =
     (let i = js_upper (clean (get_prop value ''id''));
          agid = get_prop value ''agid'';
          hasValidId = isValidAOIDId (JStr i);
          hasLinkedAgid = (if truthy agid then isAOIDLinkedToAGID i agid else True)
      in is_object value \<and> get_prop value ''type'' = JStr ''AOID'' \<and> hasValidId \<and> hasLinkedAgid
         \<and> (get_prop value ''privacy'' = JStr ''public-reference'' \<or> hasOwnString value ''publicHandle''
            \<or> hasOwnString value ''requiresEncryptedPayload''))"

definition hasAgidReference :: "js_value \<Rightarrow> bool" where
  "hasAgidReference value =
     (case value of
        JStr s \<Rightarrow> isValidAGIDFormat value
      | _ \<Rightarrow> (if \<not> is_object value then False
         else (let agid = normalizeAGIDInput (get_prop value ''agid'');
                   i = normalizeAGIDInput (get_prop value ''id'')
               in (case agid of Some a \<Rightarrow> isValidAGIDFormat (JStr a) | None \<Rightarrow> False)
                  \<or> (case i of Some a \<Rightarrow> isValidAGIDFormat (JStr a) | None \<Rightarrow> False))))"

subsection \<open>Classification and decision\<close>

definition classifyAgidAoidPayload :: "layer \<Rightarrow> js_value \<Rightarrow> payload_class" where
  "classifyAgidAoidPayload layer payload =
     (if payload = JUndefined \<or> payload = JNull then Empty
      else if layer = AOID then
        (if isEncryptedAoidEnvelope payload then AoidEncryptedEnvelope
         else if hasPublicAoidReference payload then AoidPublicReference
         else if findAoidPrivateFields payload ''payload'' \<noteq> [] then AoidPrivatePlaintext
         else Unknown)
      else if hasAgidReference payload then PublicAgidReference
      else if ppc_ok (validatePublicAgidPayload payload) then PublicAgidEvidence else Unknown)"

definition forbiddenFieldsFor :: "layer \<Rightarrow> js_value \<Rightarrow> string list" where
  "forbiddenFieldsFor layer payload =
     (if layer = AOID then
        (let fields = findAoidPrivateFields payload ''payload''
         in if hasPublicAoidReference payload
            then filter (\<lambda>field. field \<notin> set AOID_PUBLIC_REFERENCE_ALLOWED_FIELD_PATHS) fields
            else fields)
      else ppc_forbiddenFields (validatePublicAgidPayload payload))"

definition cachePolicyFor :: "layer \<Rightarrow> surface \<Rightarrow> string" where
  "cachePolicyFor layer surface =
     (if layer = AOID then
        (if surface = LocalDevice \<or> surface = PrivateQr then ''local-only-private''
         else if surface = EncryptedSync then ''no-public-cache-encrypted-envelope-only''
         else ''public-reference-no-plaintext-cache'')
      else if surface = LocalDevice then ''local-or-public-reference'' else ''public-evidence-cache-allowed'')"

definition decide_agid :: "operation \<Rightarrow> surface \<Rightarrow> payload_class \<Rightarrow> string list \<Rightarrow> bool \<times> string list" where
  "decide_agid operation surface payloadClass forbiddenFields =
     (let privateTrustedSurface = (surface = LocalDevice \<or> surface = PrivateQr);
          (allowed, warnings) =
            (if length forbiddenFields > 0 \<and> \<not> privateTrustedSurface
             then (False, [''AGID public surfaces cannot carry private recipient, room, access, owner, or AOID fields.''])
             else if length forbiddenFields > 0
             then (True, [''Private registered-address fields are allowed only on trusted local/private QR surfaces.''])
             else (True, []))
      in if operation = Register \<and> payloadClass = Empty
         then (False, warnings @ [''AGID registration requires an AGID reference or public evidence payload.''])
         else (allowed, warnings))"

definition decide_aoid :: "surface \<Rightarrow> payload_class \<Rightarrow> string list \<Rightarrow> bool \<times> string list" where
  "decide_aoid surface payloadClass forbiddenFields =
     (let publicLikeSurface = surface \<in> {PublicApi, PublicQr, EventStream, Openapi} in
      if surface = EncryptedSync then
        (let allowed = (payloadClass = AoidEncryptedEnvelope)
         in (allowed, if allowed then [] else [''AOID encrypted sync requires an owner-device encrypted envelope.'']))
      else if publicLikeSurface then
        (let allowed = (payloadClass = AoidPublicReference \<and> length forbiddenFields = 0)
         in (allowed, if allowed then [] else [''AOID public communication can expose only a public handle and linked AGID.'']))
      else if surface = Sdk then
        (let allowed = (payloadClass \<noteq> AoidPrivatePlaintext)
         in (allowed, if allowed then [] else [''AOID SDK exports must not publish plaintext owner payloads.'']))
      else (True, if payloadClass = AoidPrivatePlaintext
         then [''AOID plaintext is allowed only on owner-controlled local/private surfaces.''] else []))"

definition evaluateAgidAoidOperation :: "layer \<Rightarrow> operation \<Rightarrow> surface \<Rightarrow> js_value \<Rightarrow> decision" where
  "evaluateAgidAoidOperation layer operation surface payload =
     (let payloadClass = classifyAgidAoidPayload layer payload;
          forbiddenFields = forbiddenFieldsFor layer payload;
          (allowed, warnings) =
            (if layer = AGID then decide_agid operation surface payloadClass forbiddenFields
             else decide_aoid surface payloadClass forbiddenFields)
      in \<lparr>dc_modelVersion = AGID_AOID_GOVERNANCE_MODEL_VERSION, dc_layer = layer, dc_operation = operation,
          dc_surface = surface, dc_allowed = allowed, dc_payloadClass = payloadClass,
          dc_privacy = (if layer = AGID then (if length forbiddenFields > 0 then PrivateLocal else Public)
             else if surface = LocalDevice \<or> surface = PrivateQr then PrivateLocal else PrivateRedacted),
          dc_requiresOwnerConsent = (layer = AOID \<and> surface = EncryptedSync),
          dc_requiresEncryption = (layer = AOID \<and> surface = EncryptedSync),
          dc_requiresLocalOnly = (payloadClass = AoidPrivatePlaintext
             \<or> (layer = AGID \<and> length forbiddenFields > 0)),
          dc_forbiddenFields = forbiddenFields, dc_warnings = warnings,
          dc_cachePolicy = cachePolicyFor layer surface\<rparr>)"

text \<open>The texts of the caller; \<open>now\<close> is the time given or the current one.\<close>

definition buildAgidAoidAuditEvent :: "layer \<Rightarrow> operation \<Rightarrow> surface \<Rightarrow> js_value \<Rightarrow> js_value \<Rightarrow> js_value
    \<Rightarrow> js_value \<Rightarrow> int \<Rightarrow> audit_event" where
  "buildAgidAoidAuditEvent layer operation surface entityId agid publicHandle payload now =
     (let decision = evaluateAgidAoidOperation layer operation surface payload;
          outcome = (if dc_allowed decision then ''allowed'' else ''blocked'');
          safeMetadata = JObj [
            (''modelVersion'', JStr (dc_modelVersion decision)),
            (''layer'', JStr (layer_text (dc_layer decision))),
            (''operation'', JStr (operation_text (dc_operation decision))),
            (''surface'', JStr (surface_text (dc_surface decision))),
            (''entityId'', JStr (clean entityId)),
            (''agid'', JStr (clean agid)),
            (''publicHandle'', JStr (clean publicHandle)),
            (''payloadClass'', JStr (class_text (dc_payloadClass decision))),
            (''outcome'', JStr outcome),
            (''forbiddenFields'', JArr (map JStr (sort (dc_forbiddenFields decision))))];
          payloadFingerprint = safeHash safeMetadata
      in \<lparr>ae_id = ''AUD-'' @ take 16 payloadFingerprint, ae_modelVersion = dc_modelVersion decision,
          ae_layer = dc_layer decision, ae_operation = dc_operation decision, ae_surface = dc_surface decision,
          ae_entityId = truthy_opt (Some (clean entityId)), ae_agid = truthy_opt (Some (clean agid)),
          ae_publicHandle = truthy_opt (Some (clean publicHandle)),
          ae_payloadClass = dc_payloadClass decision, ae_privacy = dc_privacy decision,
          ae_outcome = outcome, ae_forbiddenFields = dc_forbiddenFields decision,
          ae_warnings = dc_warnings decision, ae_payloadFingerprint = payloadFingerprint,
          ae_createdAt = now\<rparr>)"

subsection \<open>Properties\<close>

definition private_key :: "string \<Rightarrow> bool" where
  "private_key k \<longleftrightarrow> normalizeFieldKey k \<in> set AOID_PRIVATE_FIELD_KEYS"

lemma evaluate_allowed:
  "dc_allowed (evaluateAgidAoidOperation l op s p) =
     (if l = AGID then fst (decide_agid op s (classifyAgidAoidPayload l p) (forbiddenFieldsFor l p))
      else fst (decide_aoid s (classifyAgidAoidPayload l p) (forbiddenFieldsFor l p)))"
  by (simp add: evaluateAgidAoidOperation_def Let_def split: prod.split)

lemma find_private_nil: "findAoidPrivateFields v path = [] \<longleftrightarrow> (\<forall>k. has_key v k \<longrightarrow> \<not> private_key k)"
  by (simp add: findAoidPrivateFields_def find_keys_empty_iff private_key_def)

text \<open>The only hit that a public reference may have is its own \<open>name\<close>.\<close>

lemma only_name:
  assumes "set (find_keys_object P ps ''payload'') \<subseteq> {''payload.name''}" and "P ''name''"
  shows "\<forall>(k, w) \<in> set ps. (P (normalizeFieldKey k) \<longrightarrow> k = ''name'')
    \<and> (\<not> P (normalizeFieldKey k) \<longrightarrow> (\<forall>j. has_key w j \<longrightarrow> \<not> P (normalizeFieldKey j)))"
  using assms(1)
proof (induction ps)
  case (Cons kw ps)
  obtain k w where kw: "kw = (k, w)" by (cases kw)
  have rest: "set (find_keys_object P ps ''payload'') \<subseteq> {''payload.name''}" using Cons.prems kw by simp
  have "(P (normalizeFieldKey k) \<longrightarrow> k = ''name'')
    \<and> (\<not> P (normalizeFieldKey k) \<longrightarrow> (\<forall>j. has_key w j \<longrightarrow> \<not> P (normalizeFieldKey j)))"
  proof (cases "P (normalizeFieldKey k)")
    case True
    with Cons.prems kw show ?thesis by auto
  next
    case False
    have "find_keys P w (''payload'' @ ''.'' @ k) = []"
    proof (rule ccontr)
      assume "find_keys P w (''payload'' @ ''.'' @ k) \<noteq> []"
      then obtain p where p: "p \<in> set (find_keys P w (''payload'' @ ''.'' @ k))"
        by (cases "find_keys P w (''payload'' @ ''.'' @ k)") auto
      from find_keys_paths(1) [OF this] obtain c r where cr: "p = (''payload'' @ ''.'' @ k) @ c # r"
        "c = CHR ''.'' \<or> c = CHR ''[''" by blast
      have "p = ''payload.name''" using p Cons.prems kw False by auto
      with cr have "''name'' = k @ c # r" by simp
      then have "c \<in> set ''name''" by (metis in_set_conv_decomp)
      with cr(2) show False by auto
    qed
    with False show ?thesis by (simp add: find_keys_empty_iff)
  qed
  with Cons.IH [OF rest] kw show ?case by simp
qed simp


text \<open>On every surface but the local device and the private QR code, an AGID payload that is allowed has
  no forbidden field at any depth.\<close>

theorem agid_public_surface_sound:
  assumes "surf \<noteq> LocalDevice" and "surf \<noteq> PrivateQr"
    and "dc_allowed (evaluateAgidAoidOperation AGID op surf payload)"
  shows "\<forall>k. has_key payload k \<longrightarrow> normalizeFieldKey k \<notin> set PUBLIC_AGID_FORBIDDEN_FIELD_KEYS"
proof -
  have "forbiddenFieldsFor AGID payload = []"
    using assms by (auto simp: evaluate_allowed decide_agid_def Let_def split: if_splits)
  then show ?thesis
    by (simp add: forbiddenFieldsFor_def validatePublicAgidPayload_def Let_def
        findForbiddenPublicAgidFields_def find_keys_empty_iff)
qed

text \<open>The audit event depends on the payload only through its class and the paths of its forbidden
  fields: no value of the payload enters the event or its fingerprint.\<close>

theorem audit_event_hides_payload:
  assumes "classifyAgidAoidPayload l p = classifyAgidAoidPayload l q"
    and "forbiddenFieldsFor l p = forbiddenFieldsFor l q"
  shows "buildAgidAoidAuditEvent l op s e a h p now = buildAgidAoidAuditEvent l op s e a h q now"
proof -
  have "evaluateAgidAoidOperation l op s p = evaluateAgidAoidOperation l op s q"
    by (simp only: evaluateAgidAoidOperation_def assms)
  then show ?thesis by (simp only: buildAgidAoidAuditEvent_def)
qed

definition public_reference :: js_value where
  "public_reference = JObj [(''type'', JStr ''AOID''), (''id'', JStr ''2K00TX00005CKT18''),
     (''privacy'', JStr ''public-reference''), (''name'', JStr ''Home'')]"

definition leaking_envelope :: js_value where
  "leaking_envelope = JObj [(''type'', JStr ''AOID_SYNC_ENVELOPE''), (''encryptedPayload'', JStr ''x''),
     (''encryption'', JStr ''owner-device''), (''phone'', JStr ''555'')]"

definition leaking_reference :: js_value where
  "leaking_reference = JObj [(''type'', JStr ''AOID''), (''id'', JStr ''2K00TX00005CKT18''),
     (''privacy'', JStr ''public-reference''), (''phone'', JStr ''555'')]"


theorem agid_public_surface_sound_witness:
  "\<not> has_key (JObj [(''agid'', JStr ''JP2K00TX0000'')]) ''phone''"
proof -
  have allowed: "dc_allowed (evaluateAgidAoidOperation AGID Communicate PublicApi (JObj [(''agid'', JStr ''JP2K00TX0000'')]))"
    by code_simp
  have "normalizeFieldKey ''phone'' \<in> set PUBLIC_AGID_FORBIDDEN_FIELD_KEYS" by code_simp
  with agid_public_surface_sound [OF _ _ allowed] show ?thesis by blast
qed

theorem audit_event_hides_payload_witness:
  "buildAgidAoidAuditEvent AOID SyncOp EncryptedSync JUndefined JUndefined JUndefined leaking_envelope 3
   = buildAgidAoidAuditEvent AOID SyncOp EncryptedSync JUndefined JUndefined JUndefined
       (JObj [(''type'', JStr ''AOID_SYNC_ENVELOPE''), (''encryptedPayload'', JStr ''y''),
         (''encryption'', JStr ''owner-device''), (''phone'', JStr ''777'')]) 3"
  by (rule audit_event_hides_payload) code_simp+

text \<open>Two surfaces let private fields through in the clear: an envelope for encrypted sync and a public
  reference exported to the SDK are allowed with a telephone number beside them, although the decision
  itself lists that field as forbidden.\<close>

theorem private_field_passes_sync_and_sdk:
  "dc_allowed (evaluateAgidAoidOperation AOID SyncOp EncryptedSync leaking_envelope)
   \<and> dc_forbiddenFields (evaluateAgidAoidOperation AOID SyncOp EncryptedSync leaking_envelope) = [''payload.phone'']
   \<and> dc_allowed (evaluateAgidAoidOperation AOID Communicate Sdk leaking_reference)
   \<and> dc_forbiddenFields (evaluateAgidAoidOperation AOID Communicate Sdk leaking_reference) = [''payload.phone'']"
  by code_simp

end
