(* ===== verification/Aoid_Private_Body.thy ===== *)
theory Aoid_Private_Body
  imports Aoid_Id
begin

section \<open>The private body of an AOID\<close>

text \<open>
  \<open>src/src/lib/aoid/privateBody.ts\<close>: the typed private part (building, recipient, delivery options,
  access policy, validity) that is built from an untyped record, from an earlier private body stored in
  it, or from both.
\<close>

subsection \<open>Types\<close>

definition DROP_OFF_PREFERENCES :: "string list" where
  "DROP_OFF_PREFERENCES = [''recipient-handoff'', ''front-door'', ''locker'', ''front-desk'',
     ''designated-place'', ''do-not-leave-unattended'']"

definition ACCESS_ACTORS :: "string list" where
  "ACCESS_ACTORS = [''owner'', ''recipient'', ''carrier'', ''delegate'', ''emergency-service'']"

definition ACCESS_PURPOSES :: "string list" where
  "ACCESS_PURPOSES = [''owner-management'', ''delivery'', ''residence-verification'', ''emergency'']"

definition DISCLOSURE_FIELDS :: "string list" where
  "DISCLOSURE_FIELDS = [''agid'', ''building'', ''floor'', ''room'', ''recipient'', ''delivery-options'',
     ''intercom'', ''metadata'']"

record delivery_options =
  do_dropOffPreference :: string
  do_unattendedDeliveryAllowed :: bool
  do_signatureRequired :: bool
  do_instructions :: "string option"

record access_policy =
  ap_allowedActors :: "string list"
  ap_allowedPurposes :: "string list"
  ap_disclosedFields :: "string list"
  ap_ownerConsentRequired :: bool

record private_body =
  pb_agid :: string
  pb_building :: "(string \<times> string) list option"
  pb_floor :: "string option"
  pb_room :: "string option"
  pb_recipient :: "(string \<times> string) list option"
  pb_deliveryOptions :: delivery_options
  pb_intercom :: "(string \<times> string) list option"
  pb_accessPolicy :: access_policy
  pb_validFrom :: "int option"
  pb_validUntil :: "int option"
  pb_label :: "string option"
  pb_locale :: "string option"
  pb_tags :: "string list"

subsection \<open>Reading untyped values\<close>

text \<open>\<open>asObject\<close>: an object that is not an array, otherwise \<open>{}\<close>.\<close>

definition asObject :: "js_value \<Rightarrow> js_value" where
  "asObject value = (case value of JObj ps \<Rightarrow> JObj ps | _ \<Rightarrow> JObj [])"

definition preferObject :: "js_value \<Rightarrow> js_value \<Rightarrow> js_value" where
  "preferObject primary fallback =
     (let preferred = asObject primary in if length (obj_props preferred) > 0 then preferred else asObject fallback)"

definition cleanTextMax :: "js_value \<Rightarrow> nat \<Rightarrow> string" where
  "cleanTextMax value maxLength =
     (let text = (case value of JStr s \<Rightarrow> js_trim s | _ \<Rightarrow> [])
      in if length text > maxLength then take maxLength text else text)"

definition cleanOptionalNumber :: "js_value \<Rightarrow> int option" where
  "cleanOptionalNumber value = (case value of JNum n \<Rightarrow> Some n | _ \<Rightarrow> None)"

definition cleanBoolean :: "js_value \<Rightarrow> bool \<Rightarrow> bool" where
  "cleanBoolean value fallback = (case value of JBool b \<Rightarrow> b | _ \<Rightarrow> fallback)"

definition cleanEnum :: "js_value \<Rightarrow> string list \<Rightarrow> string \<Rightarrow> string" where
  "cleanEnum value allowed fallback =
     (let text = js_lower (cleanTextMax value 240) in if text \<in> set allowed then text else fallback)"

definition cleanEnumList :: "js_value \<Rightarrow> string list \<Rightarrow> string list \<Rightarrow> string list" where
  "cleanEnumList value allowed fallback = (case value of
     JArr items \<Rightarrow>
       (let found = filter (\<lambda>t. t \<in> set allowed) (map (\<lambda>item. js_lower (cleanTextMax item 240)) items)
        in js_uniq (if length found > 0 then found else fallback))
   | _ \<Rightarrow> fallback)"

text \<open>\<open>compactObject\<close> of properties that are texts or \<open>undefined\<close>: \<open>undefined\<close> when all are missing.\<close>

definition compactObject :: "(string \<times> string) list \<Rightarrow> (string \<times> string) list option" where
  "compactObject props =
     (let present = filter (\<lambda>(_, v). v \<noteq> []) props in if present = [] then None else Some present)"

definition text_opt :: "js_value \<Rightarrow> nat \<Rightarrow> string option" where
  "text_opt v n = (let t = cleanTextMax v n in if t = [] then None else Some t)"

subsection \<open>Building and validating\<close>

definition buildAOIDPrivateBody :: "js_value \<Rightarrow> private_body result" where
  "buildAOIDPrivateBody source =
     (let src = get_prop source;
          existing = asObject (src ''privateBody'');
          ex = get_prop existing
      in case normalizeAGIDInput (nullish_or (ex ''agid'') (src ''agid'')) of
        None \<Rightarrow> Inl (JsError ''AOID private body requires a valid linked AGID.'')
      | Some agid \<Rightarrow>
        (if \<not> isValidAGIDFormat (JStr agid) then Inl (JsError ''AOID private body requires a valid linked AGID.'')
         else (let
          buildingSource = get_prop (preferObject (src ''building'') (ex ''building''));
          recipientSource = get_prop (preferObject (src ''recipient'') (ex ''recipient''));
          deliverySource = get_prop (preferObject (src ''deliveryOptions'') (ex ''deliveryOptions''));
          intercomSource = get_prop (preferObject (src ''intercom'') (ex ''intercom''));
          policySource = get_prop (preferObject (src ''accessPolicy'') (ex ''accessPolicy''));
          validitySource = get_prop (preferObject (src ''validity'') (ex ''validity''));
          metadataSource = get_prop (preferObject (src ''metadata'') (ex ''metadata''))
         in Inr \<lparr>
          pb_agid = agid,
          pb_building = compactObject
            [(''name'', cleanTextMax (nullish_or (buildingSource ''name'') (nullish_or (src ''building'') (src ''organization''))) 160),
             (''block'', cleanTextMax (nullish_or (buildingSource ''block'') (nullish_or (src ''block'') (src ''tower''))) 80),
             (''entrance'', cleanTextMax (nullish_or (buildingSource ''entrance'') (src ''entrance'')) 120)],
          pb_floor = text_opt (nullish_or (src ''floor'') (ex ''floor'')) 80,
          pb_room = text_opt (nullish_or (src ''room'') (nullish_or (src ''unit'')
             (nullish_or (src ''unitNumber'') (ex ''room'')))) 80,
          pb_recipient = compactObject
            [(''name'', cleanTextMax (nullish_or (recipientSource ''name'') (nullish_or (src ''recipient'') (src ''name''))) 160),
             (''organization'', cleanTextMax (nullish_or (recipientSource ''organization'') (src ''organization'')) 160),
             (''phone'', cleanTextMax (nullish_or (recipientSource ''phone'') (src ''phone'')) 80)],
          pb_deliveryOptions = \<lparr>
            do_dropOffPreference = cleanEnum (nullish_or (deliverySource ''dropOffPreference'') (src ''dropOffPreference''))
               DROP_OFF_PREFERENCES ''recipient-handoff'',
            do_unattendedDeliveryAllowed = cleanBoolean
               (nullish_or (deliverySource ''unattendedDeliveryAllowed'') (src ''unattendedDeliveryAllowed'')) False,
            do_signatureRequired = cleanBoolean
               (nullish_or (deliverySource ''signatureRequired'') (src ''signatureRequired'')) False,
            do_instructions = text_opt (nullish_or (deliverySource ''instructions'') (src ''deliveryInstructions'')) 1000\<rparr>,
          pb_intercom = compactObject
            [(''callLabel'', cleanTextMax (nullish_or (intercomSource ''callLabel'') (src ''intercomLabel'')) 120),
             (''accessCode'', cleanTextMax (nullish_or (intercomSource ''accessCode'') (src ''intercomCode'')) 120),
             (''instructions'', cleanTextMax (nullish_or (intercomSource ''instructions'') (src ''intercomInstructions'')) 500)],
          pb_accessPolicy = \<lparr>
            ap_allowedActors = cleanEnumList (policySource ''allowedActors'') ACCESS_ACTORS [''owner''],
            ap_allowedPurposes = cleanEnumList (policySource ''allowedPurposes'') ACCESS_PURPOSES [''owner-management''],
            ap_disclosedFields = cleanEnumList (policySource ''disclosedFields'') DISCLOSURE_FIELDS [''agid''],
            ap_ownerConsentRequired = cleanBoolean (policySource ''ownerConsentRequired'') True\<rparr>,
          pb_validFrom = cleanOptionalNumber (nullish_or (validitySource ''validFrom'') (src ''validFrom'')),
          pb_validUntil = cleanOptionalNumber (nullish_or (validitySource ''validUntil'') (src ''validUntil'')),
          pb_label = text_opt (nullish_or (metadataSource ''label'') (src ''label'')) 160,
          pb_locale = text_opt (nullish_or (metadataSource ''locale'') (src ''locale'')) 40,
          pb_tags = (case metadataSource ''tags'' of
              JArr tags \<Rightarrow> take 32 (js_uniq (filter (\<lambda>t. t \<noteq> []) (map (\<lambda>t. cleanTextMax t 60) tags)))
            | _ \<Rightarrow> [])\<rparr>)))"

record body_validation =
  bv_ok :: bool
  bv_errors :: "string list"
  bv_body :: "private_body option"

definition error_message :: "js_error \<Rightarrow> string" where
  "error_message e = (case e of JsError m \<Rightarrow> m | JsTypeError m \<Rightarrow> m)"

definition validateAOIDPrivateBody :: "js_value \<Rightarrow> body_validation" where
  "validateAOIDPrivateBody value =
     (case buildAOIDPrivateBody (asObject value) of
        Inl e \<Rightarrow> \<lparr>bv_ok = False, bv_errors = [error_message e], bv_body = None\<rparr>
      | Inr body \<Rightarrow>
          (let errors =
             (case (pb_validFrom body, pb_validUntil body) of
                (Some f, Some u) \<Rightarrow> (if u \<le> f then [''AOID validUntil must be later than validFrom.''] else [])
              | _ \<Rightarrow> [])
             @ (if \<not> ap_ownerConsentRequired (pb_accessPolicy body)
                then [''AOID private disclosure must require owner consent.''] else [])
           in \<lparr>bv_ok = (length errors = 0), bv_errors = errors, bv_body = Some body\<rparr>))"

subsection \<open>The body as a stored value\<close>

definition text_prop :: "string \<Rightarrow> string option \<Rightarrow> (string \<times> js_value) list" where
  "text_prop k v = (case v of None \<Rightarrow> [] | Some s \<Rightarrow> [(k, JStr s)])"

definition num_prop :: "string \<Rightarrow> int option \<Rightarrow> (string \<times> js_value) list" where
  "num_prop k v = (case v of None \<Rightarrow> [] | Some n \<Rightarrow> [(k, JNum n)])"

definition obj_prop :: "string \<Rightarrow> (string \<times> string) list option \<Rightarrow> (string \<times> js_value) list" where
  "obj_prop k v = (case v of None \<Rightarrow> [] | Some ps \<Rightarrow> [(k, JObj (map (\<lambda>(a, s). (a, JStr s)) ps))])"

definition private_body_json :: "private_body \<Rightarrow> js_value" where
  "private_body_json b = JObj (
     [(''schemaVersion'', JStr ''aoid-private-body-v1''), (''agid'', JStr (pb_agid b))]
     @ obj_prop ''building'' (pb_building b) @ text_prop ''floor'' (pb_floor b)
     @ text_prop ''room'' (pb_room b) @ obj_prop ''recipient'' (pb_recipient b)
     @ [(''deliveryOptions'', JObj (
          [(''dropOffPreference'', JStr (do_dropOffPreference (pb_deliveryOptions b))),
           (''unattendedDeliveryAllowed'', JBool (do_unattendedDeliveryAllowed (pb_deliveryOptions b))),
           (''signatureRequired'', JBool (do_signatureRequired (pb_deliveryOptions b)))]
          @ text_prop ''instructions'' (do_instructions (pb_deliveryOptions b))))]
     @ obj_prop ''intercom'' (pb_intercom b)
     @ [(''accessPolicy'', JObj
          [(''allowedActors'', JArr (map JStr (ap_allowedActors (pb_accessPolicy b)))),
           (''allowedPurposes'', JArr (map JStr (ap_allowedPurposes (pb_accessPolicy b)))),
           (''disclosedFields'', JArr (map JStr (ap_disclosedFields (pb_accessPolicy b)))),
           (''ownerConsentRequired'', JBool (ap_ownerConsentRequired (pb_accessPolicy b)))]),
        (''validity'', JObj (num_prop ''validFrom'' (pb_validFrom b) @ num_prop ''validUntil'' (pb_validUntil b))),
        (''metadata'', JObj (text_prop ''label'' (pb_label b) @ text_prop ''locale'' (pb_locale b)
          @ [(''tags'', JArr (map JStr (pb_tags b)))]))])"

subsection \<open>Properties\<close>

lemma length_cleanTextMax: "length (cleanTextMax v n) \<le> n"
  by (simp add: cleanTextMax_def Let_def)

lemma text_opt_length: "text_opt v n = Some t \<Longrightarrow> length t \<le> n \<and> t \<noteq> []"
  using length_cleanTextMax [of v n] by (auto simp: text_opt_def Let_def split: if_splits)

lemma cleanEnum_allowed: "fallback \<in> set allowed \<Longrightarrow> cleanEnum v allowed fallback \<in> set allowed"
  by (simp add: cleanEnum_def Let_def)

lemma cleanEnum_drop_off:
  "cleanEnum v DROP_OFF_PREFERENCES ''recipient-handoff'' \<in> set DROP_OFF_PREFERENCES"
  by (rule cleanEnum_allowed) (simp add: DROP_OFF_PREFERENCES_def)

lemma cleanEnumList_allowed:
  assumes "fallback \<noteq> []" and "set fallback \<subseteq> set allowed" and "distinct fallback"
  shows "cleanEnumList v allowed fallback \<noteq> [] \<and> set (cleanEnumList v allowed fallback) \<subseteq> set allowed
    \<and> distinct (cleanEnumList v allowed fallback)"
proof -
  have "js_uniq xs \<noteq> []" if "xs \<noteq> []" for xs :: "string list"
    using that by (metis set_empty set_js_uniq)
  then show ?thesis
    using assms by (cases v) (auto simp: cleanEnumList_def Let_def)
qed

definition opt_list :: "'a option \<Rightarrow> 'a list" where
  "opt_list v = (case v of None \<Rightarrow> [] | Some x \<Rightarrow> [x])"

definition body_ok :: "private_body \<Rightarrow> bool" where
  "body_ok b \<longleftrightarrow> agid_format_pattern (pb_agid b)
     \<and> do_dropOffPreference (pb_deliveryOptions b) \<in> set DROP_OFF_PREFERENCES
     \<and> (let p = pb_accessPolicy b in
          ap_allowedActors p \<noteq> [] \<and> set (ap_allowedActors p) \<subseteq> set ACCESS_ACTORS \<and> distinct (ap_allowedActors p)
        \<and> ap_allowedPurposes p \<noteq> [] \<and> set (ap_allowedPurposes p) \<subseteq> set ACCESS_PURPOSES
        \<and> distinct (ap_allowedPurposes p)
        \<and> ap_disclosedFields p \<noteq> [] \<and> set (ap_disclosedFields p) \<subseteq> set DISCLOSURE_FIELDS
        \<and> distinct (ap_disclosedFields p))
     \<and> length (pb_tags b) \<le> 32 \<and> distinct (pb_tags b) \<and> (\<forall>t \<in> set (pb_tags b). t \<noteq> [] \<and> length t \<le> 60)
     \<and> list_all (\<lambda>t. t \<noteq> [] \<and> length t \<le> 80) (opt_list (pb_floor b) @ opt_list (pb_room b))"

lemma build_body_ok: "buildAOIDPrivateBody source = Inr b \<Longrightarrow> body_ok b"
proof -
  assume build: "buildAOIDPrivateBody source = Inr b"
  let ?p = "pb_accessPolicy b"
  note parts = build [unfolded buildAOIDPrivateBody_def Let_def, simplified]
  have agid: "normalizeAGIDInput (JStr (pb_agid b)) = Some (pb_agid b) \<and> isValidAGIDFormat (JStr (pb_agid b))"
    using parts by (auto split: option.splits if_splits dest: normalizeAGIDInput_idem)
  then have "agid_format_pattern (pb_agid b)" by (auto simp: isValidAGIDFormat_def)
  moreover have "do_dropOffPreference (pb_deliveryOptions b) \<in> set DROP_OFF_PREFERENCES"
    using parts by (auto split: option.splits if_splits intro!: cleanEnum_drop_off)
  moreover obtain v where "ap_allowedActors ?p = cleanEnumList v ACCESS_ACTORS [''owner'']"
    using parts by (auto split: option.splits if_splits)
  then have "ap_allowedActors ?p \<noteq> [] \<and> set (ap_allowedActors ?p) \<subseteq> set ACCESS_ACTORS \<and> distinct (ap_allowedActors ?p)"
    using cleanEnumList_allowed [of "[''owner'']" ACCESS_ACTORS v] by (simp add: ACCESS_ACTORS_def)
  moreover obtain v where "ap_allowedPurposes ?p = cleanEnumList v ACCESS_PURPOSES [''owner-management'']"
    using parts by (auto split: option.splits if_splits)
  then have "ap_allowedPurposes ?p \<noteq> [] \<and> set (ap_allowedPurposes ?p) \<subseteq> set ACCESS_PURPOSES
      \<and> distinct (ap_allowedPurposes ?p)"
    using cleanEnumList_allowed [of "[''owner-management'']" ACCESS_PURPOSES v] by (simp add: ACCESS_PURPOSES_def)
  moreover obtain v where "ap_disclosedFields ?p = cleanEnumList v DISCLOSURE_FIELDS [''agid'']"
    using parts by (auto split: option.splits if_splits)
  then have "ap_disclosedFields ?p \<noteq> [] \<and> set (ap_disclosedFields ?p) \<subseteq> set DISCLOSURE_FIELDS
      \<and> distinct (ap_disclosedFields ?p)"
    using cleanEnumList_allowed [of "[''agid'']" DISCLOSURE_FIELDS v] by (simp add: DISCLOSURE_FIELDS_def)
  moreover have "pb_tags b = [] \<or> (\<exists>tags. pb_tags b
      = take 32 (js_uniq (filter (\<lambda>t. t \<noteq> []) (map (\<lambda>t. cleanTextMax t 60) tags))))"
    using parts by (auto split: option.splits if_splits js_value.splits)
  then have "length (pb_tags b) \<le> 32 \<and> distinct (pb_tags b) \<and> (\<forall>t \<in> set (pb_tags b). t \<noteq> [] \<and> length t \<le> 60)"
    using length_cleanTextMax by (auto dest!: in_set_takeD simp: distinct_take)
  moreover have "list_all (\<lambda>t. t \<noteq> [] \<and> length t \<le> 80) (opt_list (pb_floor b) @ opt_list (pb_room b))"
    using parts by (auto simp: opt_list_def split: option.splits if_splits dest!: text_opt_length)
  ultimately show ?thesis unfolding body_ok_def Let_def by blast
qed

text \<open>A private body that passes the check is well formed (a linked AGID of the public format, every
  choice among the listed ones, at least one actor, purpose and field, bounded texts and tags), demands the
  owner's consent and does not end before it begins.\<close>

theorem validated_body_sound:
  "bv_ok (validateAOIDPrivateBody value) \<Longrightarrow>
    \<exists>b. bv_body (validateAOIDPrivateBody value) = Some b \<and> body_ok b
      \<and> ap_ownerConsentRequired (pb_accessPolicy b)
      \<and> (\<forall>f u. pb_validFrom b = Some f \<and> pb_validUntil b = Some u \<longrightarrow> f < u)"
  by (auto simp: validateAOIDPrivateBody_def Let_def split: sum.splits option.splits if_splits
      intro: build_body_ok)

lemma validated_body_sound_witness:
  "\<exists>b. bv_body (validateAOIDPrivateBody (JObj [(''agid'', JStr ''JP0123456789'')])) = Some b \<and> body_ok b
      \<and> ap_ownerConsentRequired (pb_accessPolicy b)
      \<and> (\<forall>f u. pb_validFrom b = Some f \<and> pb_validUntil b = Some u \<longrightarrow> f < u)"
  by (rule validated_body_sound) code_simp

subsection \<open>A stored body is read back unchanged\<close>

definition stable_text :: "nat \<Rightarrow> string \<Rightarrow> bool" where
  "stable_text n s \<longleftrightarrow> js_trim s = s \<and> length s \<le> n"

definition stable_opt :: "nat \<Rightarrow> string option \<Rightarrow> bool" where
  "stable_opt n v = (case v of None \<Rightarrow> True | Some s \<Rightarrow> s \<noteq> [] \<and> stable_text n s)"

definition entry :: "(string \<times> string) list option \<Rightarrow> string \<Rightarrow> string" where
  "entry ob k = (case ob of None \<Rightarrow> [] | Some ps \<Rightarrow> (case map_of ps k of None \<Rightarrow> [] | Some v \<Rightarrow> v))"

definition stable_object :: "(string \<times> nat) list \<Rightarrow> (string \<times> string) list option \<Rightarrow> bool" where
  "stable_object keys ob \<longleftrightarrow> ob = compactObject (map (\<lambda>(k, _). (k, entry ob k)) keys)
     \<and> (\<forall>(k, n) \<in> set keys. stable_text n (entry ob k))"

definition building_keys :: "(string \<times> nat) list" where
  "building_keys = [(''name'', 160), (''block'', 80), (''entrance'', 120)]"

definition recipient_keys :: "(string \<times> nat) list" where
  "recipient_keys = [(''name'', 160), (''organization'', 160), (''phone'', 80)]"

definition intercom_keys :: "(string \<times> nat) list" where
  "intercom_keys = [(''callLabel'', 120), (''accessCode'', 120), (''instructions'', 500)]"

definition body_stable :: "private_body \<Rightarrow> bool" where
  "body_stable b \<longleftrightarrow> js_upper (js_trim (pb_agid b)) = pb_agid b
     \<and> stable_object building_keys (pb_building b) \<and> stable_object recipient_keys (pb_recipient b)
     \<and> stable_object intercom_keys (pb_intercom b)
     \<and> stable_opt 80 (pb_floor b) \<and> stable_opt 80 (pb_room b)
     \<and> stable_opt 1000 (do_instructions (pb_deliveryOptions b))
     \<and> stable_opt 160 (pb_label b) \<and> stable_opt 40 (pb_locale b)
     \<and> (\<forall>t \<in> set (pb_tags b). stable_text 60 t)"

text \<open>The fields outside the stored body that \<open>buildAOIDPrivateBody\<close> also reads.\<close>

definition legacy_keys :: "string list" where
  "legacy_keys = [''building'', ''organization'', ''block'', ''tower'', ''entrance'', ''floor'', ''room'',
     ''unit'', ''unitNumber'', ''recipient'', ''name'', ''phone'', ''deliveryOptions'', ''dropOffPreference'',
     ''unattendedDeliveryAllowed'', ''signatureRequired'', ''deliveryInstructions'', ''intercom'',
     ''intercomLabel'', ''intercomCode'', ''intercomInstructions'', ''accessPolicy'', ''validity'',
     ''validFrom'', ''validUntil'', ''metadata'', ''label'', ''locale'']"

lemma cleanTextMax_stable: "stable_text n s \<Longrightarrow> cleanTextMax (JStr s) n = s"
  by (auto simp: cleanTextMax_def stable_text_def Let_def)

lemma text_opt_stable: "stable_opt n v \<Longrightarrow> text_opt (js_opt v) n = v"
  by (cases v) (auto simp: text_opt_def stable_opt_def js_opt_def cleanTextMax_stable cleanTextMax_def [of JUndefined])

lemma nullish_undefined [simp]:
  "nullish_or JUndefined v = v"
  "cleanTextMax (nullish_or v JUndefined) n = cleanTextMax v n"
  "text_opt (nullish_or v JUndefined) n = text_opt v n"
  "cleanEnum (nullish_or v JUndefined) allowed t = cleanEnum v allowed t"
  "cleanOptionalNumber (nullish_or v JUndefined) = cleanOptionalNumber v"
  "cleanBoolean (nullish_or v JUndefined) d = cleanBoolean v d"
  by (cases v; simp add: nullish_or_def cleanTextMax_def text_opt_def cleanEnum_def cleanOptionalNumber_def
      cleanBoolean_def)+

lemma nullish_present [simp]:
  "nullish_or (JStr s) v = JStr s" "nullish_or (JBool x) v = JBool x" "nullish_or (JObj ps) v = JObj ps"
  by (simp_all add: nullish_or_def)

lemma cleanBoolean_JBool [simp]: "cleanBoolean (JBool x) d = x"
  by (simp add: cleanBoolean_def)

lemma map_of_text_prop: "map_of (text_prop k v) j = (if j = k then map_option JStr v else None)"
  by (cases v) (auto simp: text_prop_def)

lemma map_of_num_prop: "map_of (num_prop k v) j = (if j = k then map_option JNum v else None)"
  by (cases v) (auto simp: num_prop_def)

definition text_object :: "(string \<times> string) list \<Rightarrow> js_value" where
  "text_object ps = JObj (map (\<lambda>(a, s). (a, JStr s)) ps)"

definition stored_text_object :: "(string \<times> string) list option \<Rightarrow> js_value" where
  "stored_text_object ob = (case ob of None \<Rightarrow> JUndefined | Some ps \<Rightarrow> text_object ps)"

lemma map_of_obj_prop: "map_of (obj_prop k v) j = (if j = k then map_option text_object v else None)"
  by (cases v) (auto simp: obj_prop_def text_object_def)

lemmas map_of_props = map_of_text_prop map_of_num_prop map_of_obj_prop map_add_def

lemma stored_object:
  "cleanTextMax (get_prop (asObject (stored_text_object ob)) k) n
     = entry ob k" if "stable_text n (entry ob k)"
proof -
  have "map_of (map (\<lambda>(a, s). (a, JStr s)) ps) k = map_option JStr (map_of ps k)" for ps
    by (induction ps) auto
  with that show ?thesis
    by (cases ob; cases "map_of (the ob) k")
      (auto simp: stored_text_object_def text_object_def get_prop_def asObject_def entry_def cleanTextMax_stable
        cleanTextMax_def [of JUndefined])
qed

lemma preferObject_undefined [simp]: "preferObject JUndefined v = asObject v"
  by (simp add: preferObject_def asObject_def obj_props_def Let_def)

lemma fold_js_opt [simp]: "(case map_option JStr v of None \<Rightarrow> JUndefined | Some w \<Rightarrow> w) = js_opt v"
  by (cases v) (auto simp: js_opt_def)

lemma js_opt_not_null [simp]: "js_opt v \<noteq> JNull"
  by (cases v) (auto simp: js_opt_def)

lemma stored_number [simp]:
  "cleanOptionalNumber (case map_option JNum v of None \<Rightarrow> JUndefined | Some w \<Rightarrow> w) = v"
  "(case map_option JNum v of None \<Rightarrow> JUndefined | Some w \<Rightarrow> w) \<noteq> JNull"
  by (cases v; simp add: cleanOptionalNumber_def)+

lemma stored_props:
  fixes b :: private_body
  defines "ex \<equiv> get_prop (private_body_json b)"
  shows "ex ''agid'' = JStr (pb_agid b)"
    and "ex ''building'' = stored_text_object (pb_building b)"
    and "ex ''recipient'' = stored_text_object (pb_recipient b)"
    and "ex ''intercom'' = stored_text_object (pb_intercom b)"
    and "ex ''floor'' = js_opt (pb_floor b)"
    and "ex ''room'' = js_opt (pb_room b)"
    and "ex ''validity'' = JObj (num_prop ''validFrom'' (pb_validFrom b) @ num_prop ''validUntil'' (pb_validUntil b))"
    and "ex ''metadata'' = JObj (text_prop ''label'' (pb_label b) @ text_prop ''locale'' (pb_locale b)
          @ [(''tags'', JArr (map JStr (pb_tags b)))])"
    and "ex ''accessPolicy'' = JObj
         [(''allowedActors'', JArr (map JStr (ap_allowedActors (pb_accessPolicy b)))),
          (''allowedPurposes'', JArr (map JStr (ap_allowedPurposes (pb_accessPolicy b)))),
          (''disclosedFields'', JArr (map JStr (ap_disclosedFields (pb_accessPolicy b)))),
          (''ownerConsentRequired'', JBool (ap_ownerConsentRequired (pb_accessPolicy b)))]"
    and "ex ''deliveryOptions'' = JObj (
          [(''dropOffPreference'', JStr (do_dropOffPreference (pb_deliveryOptions b))),
           (''unattendedDeliveryAllowed'', JBool (do_unattendedDeliveryAllowed (pb_deliveryOptions b))),
           (''signatureRequired'', JBool (do_signatureRequired (pb_deliveryOptions b)))]
          @ text_prop ''instructions'' (do_instructions (pb_deliveryOptions b)))"
  unfolding ex_def private_body_json_def get_prop_JObj
  by (simp_all add: map_of_props js_opt_def stored_text_object_def split: option.split)

definition enum_text :: "string \<Rightarrow> bool" where
  "enum_text t \<longleftrightarrow> js_lower t = t \<and> js_trim t = t \<and> length t \<le> 240"

lemma enum_texts:
  "\<forall>t \<in> set DROP_OFF_PREFERENCES \<union> set ACCESS_ACTORS \<union> set ACCESS_PURPOSES \<union> set DISCLOSURE_FIELDS. enum_text t"
  by code_simp

lemma cleanEnum_same: "enum_text t \<Longrightarrow> t \<in> set allowed \<Longrightarrow> cleanEnum (JStr t) allowed fallback = t"
  by (simp add: enum_text_def cleanEnum_def cleanTextMax_def Let_def)

lemma cleanEnumList_same:
  assumes "ts \<noteq> []" and "set ts \<subseteq> set allowed" and "distinct ts" and "\<forall>t \<in> set allowed. enum_text t"
  shows "cleanEnumList (JArr (map JStr ts)) allowed fallback = ts"
proof -
  have "map (\<lambda>item. js_lower (cleanTextMax item 240)) (map JStr ts) = ts"
    using assms(2,4) by (auto simp: enum_text_def cleanTextMax_def Let_def intro!: map_idI)
  moreover have "filter (\<lambda>t. t \<in> set allowed) ts = ts"
    using assms(2) by (auto simp: filter_id_conv)
  ultimately show ?thesis
    using assms(1,3) by (simp add: cleanEnumList_def js_uniq_distinct)
qed

text \<open>A private body that was stored is read back unchanged: building the body of a record that holds
  only the stored body (its own texts trimmed and within their lengths) gives that body, so normalising a
  stored record again loses nothing.\<close>

theorem stored_body_reads_back:
  assumes "body_ok b" and "body_stable b"
    and "get_prop source ''privateBody'' = private_body_json b"
    and "\<forall>k \<in> set legacy_keys. get_prop source k = JUndefined"
  shows "buildAOIDPrivateBody source = Inr b"
proof -
  have none: "k \<in> set legacy_keys \<Longrightarrow> get_prop source k = JUndefined" for k using assms(4) by blast
  have obj: "asObject (private_body_json b) = private_body_json b"
    by (simp add: private_body_json_def asObject_def)
  have agid: "normalizeAGIDInput (JStr (pb_agid b)) = Some (pb_agid b)" "isValidAGIDFormat (JStr (pb_agid b))"
    using assms(1,2) by (auto simp: body_ok_def body_stable_def normalizeAGIDInput_def isValidAGIDFormat_def
        agid_format_pattern_def agid_constants Let_def)
  note undef = assms(4) [unfolded legacy_keys_def, simplified]
  have same_object: "compactObject (map (\<lambda>(k, n). (k, cleanTextMax (get_prop (asObject (stored_text_object ob)) k) n)) keys) = ob"
    if "stable_object keys ob" for keys ob
  proof -
    have eq: "map (\<lambda>(k, n). (k, cleanTextMax (get_prop (asObject (stored_text_object ob)) k) n)) keys
      = map (\<lambda>(k, _). (k, entry ob k)) keys"
      using that by (auto simp: stable_object_def stored_object split: prod.splits)
    have "compactObject (map (\<lambda>(k, _). (k, entry ob k)) keys) = ob"
      using that unfolding stable_object_def by simp
    then show ?thesis by (simp only: eq)
  qed
  have stable: "stable_object building_keys (pb_building b)" "stable_object recipient_keys (pb_recipient b)"
    "stable_object intercom_keys (pb_intercom b)"
    using assms(2) by (simp_all add: body_stable_def)
  note objects = stable [THEN same_object, unfolded building_keys_def recipient_keys_def intercom_keys_def, simplified]
  have lists:
    "cleanEnumList (JArr (map JStr (ap_allowedActors (pb_accessPolicy b)))) ACCESS_ACTORS [''owner'']
       = ap_allowedActors (pb_accessPolicy b)"
    "cleanEnumList (JArr (map JStr (ap_allowedPurposes (pb_accessPolicy b)))) ACCESS_PURPOSES [''owner-management'']
       = ap_allowedPurposes (pb_accessPolicy b)"
    "cleanEnumList (JArr (map JStr (ap_disclosedFields (pb_accessPolicy b)))) DISCLOSURE_FIELDS [''agid'']
       = ap_disclosedFields (pb_accessPolicy b)"
    "cleanEnum (JStr (do_dropOffPreference (pb_deliveryOptions b))) DROP_OFF_PREFERENCES ''recipient-handoff''
       = do_dropOffPreference (pb_deliveryOptions b)"
    using assms(1) enum_texts by (simp_all add: body_ok_def cleanEnumList_same cleanEnum_same Let_def)
  have texts: "text_opt (js_opt (pb_floor b)) 80 = pb_floor b" "text_opt (js_opt (pb_room b)) 80 = pb_room b"
    "text_opt (js_opt (pb_label b)) 160 = pb_label b" "text_opt (js_opt (pb_locale b)) 40 = pb_locale b"
    "text_opt (js_opt (do_instructions (pb_deliveryOptions b))) 1000 = do_instructions (pb_deliveryOptions b)"
    using assms(2) by (simp_all add: body_stable_def text_opt_stable)
  have "map (\<lambda>t. cleanTextMax t 60) (map JStr (pb_tags b)) = pb_tags b"
    using assms(2) by (auto simp: body_stable_def cleanTextMax_stable intro!: map_idI)
  moreover have "filter (\<lambda>t. t \<noteq> []) (pb_tags b) = pb_tags b"
    using assms(1) by (simp add: body_ok_def)
  ultimately have tags: "take 32 (js_uniq (filter (\<lambda>t. t \<noteq> []) (map ((\<lambda>t. cleanTextMax t 60) \<circ> JStr) (pb_tags b)))) = pb_tags b"
    using assms(1) by (simp add: body_ok_def js_uniq_distinct)
  show ?thesis
    by (simp add: buildAOIDPrivateBody_def Let_def assms(3) undef obj stored_props agid objects)
      (rule private_body.equality; (rule delivery_options.equality access_policy.equality)?;
        simp add: asObject_def get_prop_JObj map_of_props lists texts tags;
        use texts in \<open>auto simp: js_opt_def cleanOptionalNumber_def map_of_props split: option.splits\<close>)
qed

definition sample_body :: private_body where
  "sample_body = \<lparr>pb_agid = ''JP0123456789'', pb_building = Some [(''block'', ''B'')], pb_floor = Some ''3'',
     pb_room = None, pb_recipient = None,
     pb_deliveryOptions = \<lparr>do_dropOffPreference = ''locker'', do_unattendedDeliveryAllowed = False,
       do_signatureRequired = True, do_instructions = None\<rparr>,
     pb_intercom = None,
     pb_accessPolicy = \<lparr>ap_allowedActors = [''owner'', ''carrier''], ap_allowedPurposes = [''delivery''],
       ap_disclosedFields = [''agid'', ''floor''], ap_ownerConsentRequired = True\<rparr>,
     pb_validFrom = Some 5, pb_validUntil = None, pb_label = None, pb_locale = None, pb_tags = [''home'']\<rparr>"

lemma sample_body_ok: "body_ok sample_body" "body_stable sample_body"
  unfolding body_ok_def body_stable_def sample_body_def by code_simp+

lemma stored_body_reads_back_witness:
  "buildAOIDPrivateBody (JObj [(''id'', JStr ''x''), (''privateBody'', private_body_json sample_body)]) = Inr sample_body"
  by (rule stored_body_reads_back [OF sample_body_ok]) (simp_all add: get_prop_JObj legacy_keys_def)

end
