(* ===== verification/Aoid_Records.thy ===== *)
theory Aoid_Records
  imports Aoid_Private_Body
begin

section \<open>AOID records, their public descriptor and their synchronisation\<close>

text \<open>
  \<open>src/src/lib/aoid/records.ts\<close> and \<open>src/src/lib/aoid/sync.ts\<close>. A record is an untyped object; an
  AOID record is normalised, described in public by a descriptor, and leaves the device only as an
  encrypted envelope or as that descriptor. The alternatives of the search patterns that are written in
  Japanese cannot match ASCII text and are left out; an array stands for an object without named fields.
\<close>

subsection \<open>Records\<close>

definition isAOIDRecord :: "js_value \<Rightarrow> bool" where
  "isAOIDRecord record' \<longleftrightarrow> is_object record' \<and> get_prop record' ''type'' = JStr ''AOID''
     \<and> isValidAOIDId (get_prop record' ''id'')"

definition cleanRecordText :: "js_value \<Rightarrow> nat \<Rightarrow> string" where
  "cleanRecordText value maxLength =
     (let text = js_trim (js_String (nullish_or value (JStr [])))
      in if length text > maxLength then take maxLength text else text)"

subsection \<open>Delivery access\<close>

definition ACCESS_KINDS :: "string list" where
  "ACCESS_KINDS = [''standard'', ''auto-lock'', ''po-box'', ''locker'', ''front-desk'', ''unknown'']"

definition cleanAccessKind :: "js_value \<Rightarrow> string option" where
  "cleanAccessKind value =
     (let text = replace_runs (\<lambda>c. c = CHR ''_'' \<or> js_ws c) ''-'' (js_lower (cleanRecordText value 160))
      in if text \<in> set ACCESS_KINDS then Some text else None)"

definition marked :: "js_value \<Rightarrow> bool" where
  "marked value = (case value of
     JBool b \<Rightarrow> b
   | JStr s \<Rightarrow> js_lower (js_trim s) \<in> {''true'', ''yes'', ''1'', ''auto-lock'', ''po-box''}
   | _ \<Rightarrow> False)"

definition booleanField :: "js_value \<Rightarrow> string list \<Rightarrow> bool" where
  "booleanField record' keys = list_ex (\<lambda>key. marked (get_prop record' key)) keys"

definition SEARCH_FIELDS :: "string list" where
  "SEARCH_FIELDS = [''address'', ''street'', ''building'', ''room'', ''organization'', ''deliveryAccessKind'',
     ''accessKind'', ''accessControl'', ''deliveryAccessType'']"

definition recordSearchText :: "js_value \<Rightarrow> string" where
  "recordSearchText record' =
     string_join '' '' (map (\<lambda>key. cleanRecordText (get_prop record' key) 160) SEARCH_FIELDS)"

definition AUTO_LOCK_KEYS :: "string list" where
  "AUTO_LOCK_KEYS = [''autoLock'', ''autolock'', ''hasAutoLock'']"
definition PO_BOX_KEYS :: "string list" where
  "PO_BOX_KEYS = [''poBox'', ''pobox'', ''isPoBox'']"
definition LOCKER_KEYS :: "string list" where
  "LOCKER_KEYS = [''locker'', ''parcelLocker'', ''deliveryLocker'']"
definition FRONT_DESK_KEYS :: "string list" where
  "FRONT_DESK_KEYS = [''frontDesk'', ''concierge'', ''reception'']"

definition sp :: re where "sp = Many js_ws"

text \<open>\<open>/\b(?:p\.?\s*o\.?\s*box|post\s*office\s*box)\b/i\<close>.\<close>

definition po_box_pattern :: re where
  "po_box_pattern = Then WordB (Then (any_of
     [Then (lit ''p'') (Then (opt (lit ''.'')) (Then sp (Then (lit ''o'') (Then (opt (lit ''.'')) (Then sp (lit ''box'')))))),
      Then (lit ''post'') (Then sp (Then (lit ''office'') (Then sp (lit ''box''))))]) WordB)"

text \<open>\<open>/auto[-\s]?lock|autolock/i\<close>.\<close>

definition auto_lock_pattern :: re where
  "auto_lock_pattern = any_of
     [Then (lit ''auto'') (Then (opt (Cls (\<lambda>c. c = CHR ''-'' \<or> js_ws c))) (lit ''lock'')), lit ''autolock'']"

definition locker_pattern :: re where "locker_pattern = lit ''locker''"

definition front_desk_pattern :: re where
  "front_desk_pattern = any_of [Then (lit ''front'') (Then sp (lit ''desk'')), lit ''concierge'']"

text \<open>\<open>x || y\<close> of optional kinds.\<close>

definition or_else :: "'a option \<Rightarrow> 'a option \<Rightarrow> 'a option" where
  "or_else x y = (case x of None \<Rightarrow> y | Some v \<Rightarrow> Some v)"

definition nestedAccess :: "js_value \<Rightarrow> js_value" where
  "nestedAccess record' =
     (let d = get_prop record' ''deliveryAccess'' in if is_object d then d else JObj [])"

definition inferDeliveryAccessKind :: "js_value \<Rightarrow> string" where
  "inferDeliveryAccessKind record' =
     (let nested = nestedAccess record';
          explicit = or_else (cleanAccessKind (get_prop record' ''deliveryAccessKind''))
            (or_else (cleanAccessKind (get_prop record' ''accessKind''))
              (cleanAccessKind (get_prop record' ''deliveryAccessType'')))
      in case explicit of
        Some kind \<Rightarrow> kind
      | None \<Rightarrow>
         (if booleanField record' AUTO_LOCK_KEYS \<or> booleanField nested AUTO_LOCK_KEYS then ''auto-lock''
          else if booleanField record' PO_BOX_KEYS \<or> booleanField nested PO_BOX_KEYS then ''po-box''
          else if booleanField record' LOCKER_KEYS \<or> booleanField nested LOCKER_KEYS then ''locker''
          else if booleanField record' FRONT_DESK_KEYS \<or> booleanField nested FRONT_DESK_KEYS then ''front-desk''
          else (let text = recordSearchText record' in
            if re_test po_box_pattern text then ''po-box''
            else if re_test auto_lock_pattern text then ''auto-lock''
            else if re_test locker_pattern text then ''locker''
            else if re_test front_desk_pattern text then ''front-desk''
            else (case cleanAccessKind (get_prop nested ''kind'') of
                Some kind \<Rightarrow> kind
              | None \<Rightarrow> ''standard''))))"

record access_markers =
  am_kind :: "string option"
  am_autoLock :: bool
  am_poBox :: bool

definition explicitDeliveryAccessMarkers :: "js_value \<Rightarrow> access_markers" where
  "explicitDeliveryAccessMarkers record' =
     (let nested = nestedAccess record';
          kind = or_else (cleanAccessKind (get_prop record' ''deliveryAccessKind''))
            (or_else (cleanAccessKind (get_prop record' ''accessKind''))
              (or_else (cleanAccessKind (get_prop record' ''deliveryAccessType''))
                (cleanAccessKind (get_prop nested ''kind''))))
      in \<lparr>am_kind = kind,
          am_autoLock = (kind = Some ''auto-lock'' \<or> booleanField record' AUTO_LOCK_KEYS
             \<or> booleanField nested AUTO_LOCK_KEYS),
          am_poBox = (kind = Some ''po-box'' \<or> booleanField record' PO_BOX_KEYS
             \<or> booleanField nested PO_BOX_KEYS)\<rparr>)"

record access_profile =
  dap_kind :: string
  dap_autoLock :: bool
  dap_poBox :: bool
  dap_locker :: bool
  dap_frontDesk :: bool
  dap_carrierReviewRequired :: bool
  dap_confirmedAt :: "int option"
  dap_instructionCommitment :: "string option"

definition normalizeAOIDDeliveryAccessProfile :: "js_value \<Rightarrow> access_profile" where
  "normalizeAOIDDeliveryAccessProfile source =
     (let nested = nestedAccess source;
          merged = JObj (obj_assign (obj_props nested) (obj_props source));
          kind = inferDeliveryAccessKind source;
          autoLock = (kind = ''auto-lock'' \<or> booleanField merged AUTO_LOCK_KEYS);
          poBox = (kind = ''po-box'' \<or> booleanField merged PO_BOX_KEYS);
          instructionCommitment = cleanRecordText (nullish_or (get_prop nested ''instructionCommitment'')
            (get_prop source ''deliveryInstructionCommitment'')) 120
      in \<lparr>dap_kind = kind, dap_autoLock = autoLock, dap_poBox = poBox,
          dap_locker = (kind = ''locker'' \<or> booleanField merged LOCKER_KEYS),
          dap_frontDesk = (kind = ''front-desk'' \<or> booleanField merged FRONT_DESK_KEYS),
          dap_carrierReviewRequired = (autoLock \<or> poBox),
          dap_confirmedAt = (case nullish_or (get_prop nested ''confirmedAt'')
              (get_prop source ''deliveryAccessConfirmedAt'') of
            JNum n \<Rightarrow> (if n \<noteq> 0 then Some n else None) | _ \<Rightarrow> None),
          dap_instructionCommitment = (if instructionCommitment \<noteq> [] then Some instructionCommitment else None)\<rparr>)"

record registration_check =
  rc_ok :: bool
  rc_deliveryAccess :: access_profile
  rc_errors :: "string list"
  rc_warnings :: "string list"

definition validateAOIDRegistrationRequirements :: "js_value \<Rightarrow> registration_check" where
  "validateAOIDRegistrationRequirements record' =
     (let deliveryAccess = normalizeAOIDDeliveryAccessProfile record';
          explicitAccess = explicitDeliveryAccessMarkers record';
          agid = cleanAgid (get_prop record' ''agid'');
          restricted = dap_autoLock deliveryAccess \<or> dap_poBox deliveryAccess;
          errors = (if agid = [] then [''aoid-linked-agid-required''] else [])
            @ (if dap_autoLock deliveryAccess \<and> \<not> am_autoLock explicitAccess
               then [''aoid-delivery-access-kind-must-record-auto-lock''] else [])
            @ (if dap_poBox deliveryAccess \<and> \<not> am_poBox explicitAccess
               then [''aoid-delivery-access-kind-must-record-po-box''] else [])
            @ (if restricted \<and> \<not> dap_carrierReviewRequired deliveryAccess
               then [''aoid-delivery-access-carrier-review-required''] else []);
          warnings = (if restricted \<and> dap_confirmedAt deliveryAccess = None
               then [''aoid-delivery-access-confirmation-timestamp-recommended''] else [])
      in \<lparr>rc_ok = (length errors = 0), rc_deliveryAccess = deliveryAccess, rc_errors = errors, rc_warnings = warnings\<rparr>)"

subsection \<open>Normalising a record\<close>

definition access_profile_json :: "access_profile \<Rightarrow> js_value" where
  "access_profile_json p = JObj (
     [(''kind'', JStr (dap_kind p)), (''autoLock'', JBool (dap_autoLock p)), (''poBox'', JBool (dap_poBox p)),
      (''locker'', JBool (dap_locker p)), (''frontDesk'', JBool (dap_frontDesk p)),
      (''carrierReviewRequired'', JBool (dap_carrierReviewRequired p))]
     @ num_prop ''confirmedAt'' (dap_confirmedAt p)
     @ text_prop ''instructionCommitment'' (dap_instructionCommitment p))"

text \<open>The properties that \<open>normalizeAOIDRecord\<close> deletes before it writes its own.\<close>

definition RECORD_DROPPED :: "string list" where
  "RECORD_DROPPED = [''agid'', ''isAoid'', ''ownerManaged'', ''privacy'', ''storageMode'', ''syncReadiness'',
     ''status'', ''publicHandle'', ''deliveryAccess'', ''privateBody'', ''ownerKeyId'', ''deviceKeyId'', ''version'']"

definition text_when :: "string \<Rightarrow> string \<Rightarrow> (string \<times> js_value) list" where
  "text_when k s = (if s \<noteq> [] then [(k, JStr s)] else [])"

definition private_body_part :: "js_value \<Rightarrow> string \<Rightarrow> (string \<times> js_value) list result" where
  "private_body_part record' agid =
     (if agid \<noteq> []
      then sbind (buildAOIDPrivateBody (JObj (obj_assign (obj_props record') [(''agid'', JStr agid)])))
        (\<lambda>body. Inr [(''privateBody'', private_body_json body)])
      else Inr [])"

definition record_version :: "js_value \<Rightarrow> js_value" where
  "record_version v = (case v of JNum n \<Rightarrow> JNum n | JNonFinite \<Rightarrow> JNonFinite | _ \<Rightarrow> JNum AOID_RECORD_VERSION)"

definition record_fields ::
  "js_value \<Rightarrow> string \<Rightarrow> string \<Rightarrow> string \<Rightarrow> (string \<times> js_value) list \<Rightarrow> js_value \<Rightarrow> (string \<times> js_value) list" where
  "record_fields record' agid i publicHandle privateBody updatedAt =
     [(''type'', JStr ''AOID''), (''id'', JStr i)] @ text_when ''agid'' agid
     @ [(''isAoid'', JBool True), (''version'', record_version (get_prop record' ''version'')),
        (''ownerManaged'', JBool True), (''privacy'', JStr ''private''), (''storageMode'', JStr ''device-local''),
        (''syncReadiness'', JStr ''local-only''),
        (''status'', JStr (aoid_status_text (coerceAOIDStatus (get_prop record' ''status'')))),
        (''publicHandle'', JStr publicHandle),
        (''deliveryAccess'', access_profile_json (normalizeAOIDDeliveryAccessProfile record'))]
     @ privateBody
     @ text_when ''ownerKeyId'' (cleanKeyId (get_prop record' ''ownerKeyId''))
     @ text_when ''deviceKeyId'' (cleanKeyId (get_prop record' ''deviceKeyId''))
     @ [(''updatedAt'', updatedAt)]"

definition normalizeAOIDRecord :: "js_value \<Rightarrow> bool \<Rightarrow> int \<Rightarrow> js_value result" where
  "normalizeAOIDRecord record' requireLinkedAgid now =
     (let updatedAt = (case get_prop record' ''updatedAt'' of JNum n \<Rightarrow> JNum n | JNonFinite \<Rightarrow> JNonFinite
            | _ \<Rightarrow> JNum now);
          agid = cleanAgid (get_prop record' ''agid'')
      in if requireLinkedAgid \<and> agid = [] then Inl (JsError ''AOID registration requires a valid linked AGID.'')
      else sbind (normalizeAOIDId (get_prop record' ''id'') (if agid \<noteq> [] then JStr agid else JUndefined)) (\<lambda>i.
        sbind (private_body_part record' agid) (\<lambda>privateBody.
        sbind (buildAOIDPublicHandle i) (\<lambda>publicHandle.
          Inr (JObj (obj_assign (obj_delete RECORD_DROPPED (obj_props record'))
            (record_fields record' agid i publicHandle privateBody updatedAt)))))))"

definition prop_if_truthy :: "string \<Rightarrow> js_value \<Rightarrow> (string \<times> js_value) list" where
  "prop_if_truthy k v = (if truthy v then [(k, v)] else [])"

definition buildAOIDPublicDescriptor :: "js_value \<Rightarrow> int \<Rightarrow> js_value result" where
  "buildAOIDPublicDescriptor record' now =
     sbind (normalizeAOIDRecord record' False now) (\<lambda>normalized.
       Inr (JObj ([(''type'', JStr ''AOID''), (''id'', get_prop normalized ''id'')]
         @ prop_if_truthy ''agid'' (get_prop normalized ''agid'')
         @ prop_if_truthy ''country'' (get_prop normalized ''country'')
         @ [(''version'', get_prop normalized ''version''), (''status'', get_prop normalized ''status''),
            (''publicHandle'', get_prop normalized ''publicHandle''), (''privacy'', JStr ''public-reference'')])))"

text \<open>\<open>now\<close> is the default of the parameter and the clock of \<open>normalizeAOIDRecord\<close>.\<close>

definition revokeAOIDRecord :: "js_value \<Rightarrow> int \<Rightarrow> js_value result" where
  "revokeAOIDRecord record' now =
     sbind (normalizeAOIDRecord record' False now) (\<lambda>normalized.
       Inr (JObj (obj_assign (obj_props normalized)
         [(''status'', JStr ''revoked''), (''revokedAt'', JNum now), (''updatedAt'', JNum now)])))"

subsection \<open>Synchronisation\<close>

definition isAOIDEncryptedSyncEnvelope :: "js_value \<Rightarrow> bool" where
  "isAOIDEncryptedSyncEnvelope value \<longleftrightarrow> is_object value
     \<and> get_prop value ''type'' = JStr ''AOID_SYNC_ENVELOPE'' \<and> isValidAOIDId (get_prop value ''id'')
     \<and> get_prop value ''encryption'' = JStr ''owner-device''
     \<and> isOpaqueEncryptedPayload (get_prop value ''encryptedPayload'')
     \<and> length (cleanKeyId (get_prop value ''ownerKeyId'')) > 0
     \<and> length (cleanKeyId (get_prop value ''deviceKeyId'')) > 0"

definition buildAOIDEncryptedSyncEnvelope ::
  "js_value \<Rightarrow> js_value \<Rightarrow> js_value \<Rightarrow> js_value \<Rightarrow> int \<Rightarrow> js_value result" where
  "buildAOIDEncryptedSyncEnvelope record' payload owner device now =
     (let encryptedPayload = clean payload
      in if \<not> isOpaqueEncryptedPayload (JStr encryptedPayload)
         then Inl (JsError ''AOID cloud sync requires an opaque owner-device encrypted payload.'')
         else (let ownerKeyId = cleanKeyId owner; deviceKeyId = cleanKeyId device
           in if ownerKeyId = [] \<or> deviceKeyId = []
              then Inl (JsError ''AOID cloud sync requires owner and device key ids.'')
              else sbind (normalizeAOIDRecord record' False now) (\<lambda>normalized.
                Inr (JObj ([(''type'', JStr ''AOID_SYNC_ENVELOPE''), (''id'', get_prop normalized ''id'')]
                  @ prop_if_truthy ''agid'' (get_prop normalized ''agid'')
                  @ [(''publicHandle'', get_prop normalized ''publicHandle''),
                     (''version'', get_prop normalized ''version''), (''status'', get_prop normalized ''status''),
                     (''encryptedPayload'', JStr encryptedPayload), (''encryption'', JStr ''owner-device''),
                     (''ownerKeyId'', JStr ownerKeyId), (''deviceKeyId'', JStr deviceKeyId),
                     (''updatedAt'', JNum now)])))))"

definition classifyAOIDSyncReadiness :: "bool \<Rightarrow> bool \<Rightarrow> bool \<Rightarrow> bool \<Rightarrow> string" where
  "classifyAOIDSyncReadiness userOptedInToCloud hasEncryptedPayload hasOwnerKeyId hasDeviceKeyId =
     (if \<not> userOptedInToCloud then ''local-only''
      else if hasEncryptedPayload \<and> hasOwnerKeyId \<and> hasDeviceKeyId then ''encrypted-sync-ready''
      else ''blocked'')"

definition buildAOIDSyncQueuePayload :: "js_value \<Rightarrow> int \<Rightarrow> js_value result" where
  "buildAOIDSyncQueuePayload payload now =
     (if isAOIDEncryptedSyncEnvelope payload then Inr payload
      else if is_object payload \<and> get_prop payload ''type'' = JStr ''AOID_SYNC_ENVELOPE''
      then Inl (JsError ''Invalid AOID encrypted sync envelope.'')
      else if isAOIDRecord payload \<or> (is_object payload \<and> get_prop payload ''type'' = JStr ''AOID'')
      then sbind (buildAOIDPublicDescriptor payload now) (\<lambda>descriptor.
        Inr (JObj (obj_assign (obj_props descriptor) [(''requiresEncryptedPayload'', JBool True)])))
      else Inr payload)"

subsection \<open>Properties of a normalised record\<close>

lemma map_of_obj_delete: "map_of (obj_delete ks ps) k = (if k \<in> set ks then None else map_of ps k)"
  by (induction ps) (auto simp: obj_delete_def)

lemma map_of_text_when: "map_of (text_when k s) j = (if j = k \<and> s \<noteq> [] then Some (JStr s) else None)"
  by (simp add: text_when_def)

lemma map_of_prop_if_truthy: "map_of (prop_if_truthy k v) j = (if j = k \<and> truthy v then Some v else None)"
  by (simp add: prop_if_truthy_def)

lemma map_of_rev_parts [simp]: "rev (text_when k s) = text_when k s" "rev (prop_if_truthy k v) = prop_if_truthy k v"
  by (simp_all add: text_when_def prop_if_truthy_def)

lemma get_prop_obj_props: "get_prop v k = (case map_of (obj_props v) k of None \<Rightarrow> JUndefined | Some w \<Rightarrow> w)"
  by (cases v) (simp_all add: get_prop_def obj_props_def)

lemma private_body_part_cases:
  assumes "private_body_part r agid = Inr part"
  shows "(agid = [] \<and> part = [])
    \<or> (agid \<noteq> [] \<and> (\<exists>b. buildAOIDPrivateBody (JObj (obj_assign (obj_props r) [(''agid'', JStr agid)])) = Inr b
          \<and> part = [(''privateBody'', private_body_json b)]))"
  using assms by (auto simp: private_body_part_def sbind_Inr_iff split: if_splits)

definition field_of :: "(string \<times> js_value) list \<Rightarrow> string \<Rightarrow> js_value option" where
  "field_of ps k = map_of (rev ps) k"

lemma field_of_simps [simp]:
  "field_of [] k = None"
  "field_of ((j, v) # ps) k = (case field_of ps k of None \<Rightarrow> (if k = j then Some v else None) | Some w \<Rightarrow> Some w)"
  "field_of (ps @ qs) k = (case field_of qs k of None \<Rightarrow> field_of ps k | Some w \<Rightarrow> Some w)"
  "field_of (text_when j s) k = (if k = j \<and> s \<noteq> [] then Some (JStr s) else None)"
  by (auto simp: field_of_def map_add_def text_when_def split: option.split)

lemma normalized_field:
  assumes "field_of (record_fields r agid i h part u) k = v"
  shows "get_prop (JObj (obj_assign (obj_delete RECORD_DROPPED (obj_props r)) (record_fields r agid i h part u))) k
    = (case v of Some w \<Rightarrow> w | None \<Rightarrow> (if k \<in> set RECORD_DROPPED then JUndefined else get_prop r k))"
  using assms
  by (auto simp: get_prop_JObj map_of_obj_assign map_of_obj_delete field_of_def get_prop_obj_props [of r]
      split: option.split)

lemma record_fields_lookup:
  assumes "part = [] \<or> (\<exists>b. part = [(''privateBody'', b)])"
  shows "field_of (record_fields r agid i h part u) ''type'' = Some (JStr ''AOID'')"
    and "field_of (record_fields r agid i h part u) ''id'' = Some (JStr i)"
    and "field_of (record_fields r agid i h part u) ''publicHandle'' = Some (JStr h)"
    and "field_of (record_fields r agid i h part u) ''agid'' = (if agid \<noteq> [] then Some (JStr agid) else None)"
    and "field_of (record_fields r agid i h part u) ''country'' = None"
    and "field_of (record_fields r agid i h part u) ''version'' = Some (record_version (get_prop r ''version''))"
    and "field_of (record_fields r agid i h part u) ''status''
      = Some (JStr (aoid_status_text (coerceAOIDStatus (get_prop r ''status''))))"
    and "field_of (record_fields r agid i h part u) ''privateBody'' = field_of part ''privateBody''"
  using assms unfolding record_fields_def by (auto split: option.split)

lemma normalized_props:
  assumes "normalizeAOIDRecord r required now = Inr n"
  defines "agid \<equiv> cleanAgid (get_prop r ''agid'')"
  obtains i part h where
    "normalizeAOIDId (get_prop r ''id'') (if agid \<noteq> [] then JStr agid else JUndefined) = Inr i"
    "private_body_part r agid = Inr part" "buildAOIDPublicHandle i = Inr h"
    "get_prop n ''type'' = JStr ''AOID''" "get_prop n ''id'' = JStr i" "get_prop n ''publicHandle'' = JStr h"
    "get_prop n ''agid'' = (if agid \<noteq> [] then JStr agid else JUndefined)"
    "get_prop n ''country'' = get_prop r ''country''"
    "get_prop n ''version'' = record_version (get_prop r ''version'')"
    "get_prop n ''status'' = JStr (aoid_status_text (coerceAOIDStatus (get_prop r ''status'')))"
    "get_prop n ''privateBody'' = (case field_of part ''privateBody'' of None \<Rightarrow> JUndefined | Some w \<Rightarrow> w)"
proof -
  from assms(1) obtain i part h u where
    parts: "normalizeAOIDId (get_prop r ''id'') (if agid \<noteq> [] then JStr agid else JUndefined) = Inr i"
    "private_body_part r agid = Inr part" "buildAOIDPublicHandle i = Inr h"
    and n: "n = JObj (obj_assign (obj_delete RECORD_DROPPED (obj_props r)) (record_fields r agid i h part u))"
    unfolding normalizeAOIDRecord_def agid_def Let_def by (auto simp: sbind_Inr_iff split: if_splits)
  have part: "part = [] \<or> (\<exists>b. part = [(''privateBody'', b)])"
    using private_body_part_cases [OF parts(2)] by auto
  note fields = record_fields_lookup [OF part, where r = r and agid = agid and i = i and h = h and u = u,
      THEN normalized_field, folded n]
  show ?thesis
    by (rule that [OF parts]) (simp_all add: fields RECORD_DROPPED_def)
qed

text \<open>The identifier and handle a record is accepted under, and the descriptor as a function of its public fields.\<close>

definition accepted_id :: "js_value \<Rightarrow> string \<Rightarrow> string \<Rightarrow> bool" where
  "accepted_id r i h \<longleftrightarrow> normalizeAOIDId (get_prop r ''id'')
     (if cleanAgid (get_prop r ''agid'') \<noteq> [] then JStr (cleanAgid (get_prop r ''agid'')) else JUndefined) = Inr i
     \<and> buildAOIDPublicHandle i = Inr h"

definition descriptor_json :: "js_value \<Rightarrow> string \<Rightarrow> string \<Rightarrow> js_value" where
  "descriptor_json r i h =
     JObj ([(''type'', JStr ''AOID''), (''id'', JStr i)] @ text_when ''agid'' (cleanAgid (get_prop r ''agid''))
      @ prop_if_truthy ''country'' (get_prop r ''country'')
      @ [(''version'', record_version (get_prop r ''version'')),
         (''status'', JStr (aoid_status_text (coerceAOIDStatus (get_prop r ''status'')))),
         (''publicHandle'', JStr h), (''privacy'', JStr ''public-reference'')])"

lemma descriptor_form:
  assumes "buildAOIDPublicDescriptor r now = Inr d"
  shows "\<exists>i h. accepted_id r i h \<and> d = descriptor_json r i h"
proof -
  from assms obtain n where n: "normalizeAOIDRecord r False now = Inr n"
    and d: "d = JObj ([(''type'', JStr ''AOID''), (''id'', get_prop n ''id'')]
         @ prop_if_truthy ''agid'' (get_prop n ''agid'')
         @ prop_if_truthy ''country'' (get_prop n ''country'')
         @ [(''version'', get_prop n ''version''), (''status'', get_prop n ''status''),
            (''publicHandle'', get_prop n ''publicHandle''), (''privacy'', JStr ''public-reference'')])"
    by (auto simp: buildAOIDPublicDescriptor_def sbind_Inr_iff)
  have agid: "prop_if_truthy ''agid'' (if a \<noteq> [] then JStr a else JUndefined) = text_when ''agid'' a" for a
    by (simp add: prop_if_truthy_def text_when_def truthy_def)
  from n show ?thesis
    by (rule normalized_props) (auto simp only: d agid accepted_id_def descriptor_json_def)
qed

definition PUBLIC_RECORD_KEYS :: "string list" where
  "PUBLIC_RECORD_KEYS = [''type'', ''id'', ''agid'', ''country'', ''version'', ''status'']"

text \<open>C35. What an AOID record sends to the synchronisation queue is its public descriptor and nothing else:
  the queued object has the descriptor's properties only, and it is the same for every two records that
  agree on the public fields, whatever private fields they hold, at whatever time.\<close>

theorem queued_record_is_public:
  assumes "get_prop p ''type'' = JStr ''AOID''"
    and "\<forall>k \<in> set PUBLIC_RECORD_KEYS. get_prop p k = get_prop p' k"
    and "buildAOIDSyncQueuePayload p now = Inr q" and "buildAOIDSyncQueuePayload p' now' = Inr q'"
  shows "q = q' \<and> fst ` set (obj_props q) \<subseteq> {''type'', ''id'', ''agid'', ''country'', ''version'', ''status'',
      ''publicHandle'', ''privacy'', ''requiresEncryptedPayload''}"
proof -
  have queued: "\<exists>d. buildAOIDPublicDescriptor v now = Inr d
      \<and> q = JObj (obj_assign (obj_props d) [(''requiresEncryptedPayload'', JBool True)])"
    if "get_prop v ''type'' = JStr ''AOID''" "buildAOIDSyncQueuePayload v now = Inr q" for v now q
  proof -
    have "is_object v" using that(1) by (cases v) (simp_all add: get_prop_def)
    with that show ?thesis
      by (auto simp: buildAOIDSyncQueuePayload_def isAOIDEncryptedSyncEnvelope_def sbind_Inr_iff)
  qed
  note same = assms(2) [unfolded PUBLIC_RECORD_KEYS_def, simplified]
  from queued [OF assms(1,3)] descriptor_form obtain i h where ih: "accepted_id p i h"
    "q = JObj (obj_assign (obj_props (descriptor_json p i h)) [(''requiresEncryptedPayload'', JBool True)])" by blast
  have "get_prop p' ''type'' = JStr ''AOID''" using assms(1) same by simp
  from queued [OF this assms(4)] descriptor_form obtain i' h' where ih': "accepted_id p' i' h'"
    "q' = JObj (obj_assign (obj_props (descriptor_json p' i' h')) [(''requiresEncryptedPayload'', JBool True)])" by blast
  have "accepted_id p' = accepted_id p" "descriptor_json p' = descriptor_json p"
    using same by (simp_all add: accepted_id_def descriptor_json_def fun_eq_iff)
  with ih(1) ih'(1) have "i' = i" "h' = h" by (auto simp: accepted_id_def)
  with ih(2) ih'(2) \<open>descriptor_json p' = descriptor_json p\<close> have "q = q'" by simp
  moreover have "fst ` set (obj_props q) \<subseteq> {''type'', ''id'', ''agid'', ''country'', ''version'', ''status'',
      ''publicHandle'', ''privacy'', ''requiresEncryptedPayload''}"
    by (auto simp: ih(2) descriptor_json_def obj_props_def obj_assign_def text_when_def prop_if_truthy_def dom_update)
  ultimately show ?thesis by blast
qed

definition room_101 :: js_value where
  "room_101 = JObj [(''type'', JStr ''AOID''), (''id'', JStr '' 2k00tx00005ckt18''), (''agid'', JStr ''JP2K00TX0000''),
     (''room'', JStr ''101''), (''phone'', JStr ''0312345678'')]"

definition room_202 :: js_value where
  "room_202 = JObj [(''type'', JStr ''AOID''), (''id'', JStr '' 2k00tx00005ckt18''), (''agid'', JStr ''JP2K00TX0000''),
     (''room'', JStr ''202''), (''privateBody'', JObj [(''floor'', JStr ''2'')])]"

definition queued_sample :: js_value where
  "queued_sample = JObj [(''type'', JStr ''AOID''), (''id'', JStr ''2K00TX00005CKT18''), (''agid'', JStr ''JP2K00TX0000''),
     (''version'', JNum 1), (''status'', JStr ''active''), (''publicHandle'', JStr ''aoid:2K00TX00005CKT18''),
     (''privacy'', JStr ''public-reference''), (''requiresEncryptedPayload'', JBool True)]"

lemma queued_samples:
  "buildAOIDSyncQueuePayload room_101 5 = Inr queued_sample"
  "buildAOIDSyncQueuePayload room_202 7 = Inr queued_sample"
  by code_simp+

lemma queued_record_is_public_witness:
  "fst ` set (obj_props queued_sample) \<subseteq> {''type'', ''id'', ''agid'', ''country'', ''version'', ''status'',
      ''publicHandle'', ''privacy'', ''requiresEncryptedPayload''}"
  by (rule conjunct2 [OF queued_record_is_public [OF _ _ queued_samples]])
    (simp_all add: room_101_def room_202_def get_prop_JObj PUBLIC_RECORD_KEYS_def)

lemma normalized_id_valid: "normalizeAOIDId v l = Inr s \<Longrightarrow> isValidAOIDId (JStr s)"
proof -
  assume "normalizeAOIDId v l = Inr s"
  then have "aoid_id_pattern s" "\<not> hasAOIDAllSame16 s" "\<not> hasAOIDSequentialRun s"
    unfolding normalizeAOIDId_Inr by blast+
  then have "normalizeAOIDId (JStr s) JUndefined = Inr s"
    by (simp add: normalizeAOIDId_Inr clean_upper_pattern truthy_def)
  then show ?thesis by (simp add: isValidAOIDId_def)
qed

lemma clean_idem [simp]: "clean (JStr (clean v)) = clean v"
proof -
  have "js_trim [] = []" by (simp add: js_trim_def)
  then show ?thesis by (cases v) (simp_all add: clean_def)
qed

lemma key_char_not_ws: "word_char c \<or> c \<in> {CHR '':'', CHR ''.'', CHR ''-''} \<Longrightarrow> \<not> js_ws c"
  by (auto simp: word_char_def is_upper_char_def is_lower_char_def is_digit_char_def char_in_range_def js_ws_def)

lemma cleanKeyId_idem [simp]: "cleanKeyId (JStr (cleanKeyId v)) = cleanKeyId v"
proof -
  define ok where "ok = (\<lambda>c. word_char c \<or> c \<in> {CHR '':'', CHR ''.'', CHR ''-''})"
  have id: "cleanKeyId w = take 128 (filter ok (clean w))" for w
    by (simp add: cleanKeyId_def ok_def)
  have chars: "ok c" if "c \<in> set (cleanKeyId v)" for c
    using that by (auto simp: id dest: in_set_takeD)
  then have "clean (JStr (cleanKeyId v)) = cleanKeyId v"
    using key_char_not_ws by (auto simp: clean_def ok_def intro!: js_trim_id)
  moreover have "filter ok (cleanKeyId v) = cleanKeyId v"
    using chars by (auto simp: filter_id_conv)
  moreover have "length (cleanKeyId v) \<le> 128" by (simp add: id)
  ultimately show ?thesis by (simp add: id [of "JStr (cleanKeyId v)"])
qed

text \<open>An envelope that the device builds is taken by the synchronisation queue as it is, for every record,
  payload and pair of keys the builder accepts.\<close>

theorem built_envelope_is_queued:
  assumes "buildAOIDEncryptedSyncEnvelope r payload owner device now = Inr envelope"
  shows "buildAOIDSyncQueuePayload envelope now' = Inr envelope"
proof -
  from assms obtain n where n: "normalizeAOIDRecord r False now = Inr n"
    and ok: "isOpaqueEncryptedPayload (JStr (clean payload))" "cleanKeyId owner \<noteq> []" "cleanKeyId device \<noteq> []"
    and e: "envelope = JObj ([(''type'', JStr ''AOID_SYNC_ENVELOPE''), (''id'', get_prop n ''id'')]
                  @ prop_if_truthy ''agid'' (get_prop n ''agid'')
                  @ [(''publicHandle'', get_prop n ''publicHandle''),
                     (''version'', get_prop n ''version''), (''status'', get_prop n ''status''),
                     (''encryptedPayload'', JStr (clean payload)), (''encryption'', JStr ''owner-device''),
                     (''ownerKeyId'', JStr (cleanKeyId owner)), (''deviceKeyId'', JStr (cleanKeyId device)),
                     (''updatedAt'', JNum now)])"
    by (auto simp: buildAOIDEncryptedSyncEnvelope_def Let_def sbind_Inr_iff split: if_splits)
  from n have "isValidAOIDId (get_prop n ''id'')"
    by (rule normalized_props) (simp add: normalized_id_valid)
  then have "isAOIDEncryptedSyncEnvelope envelope"
    using ok by (simp add: isAOIDEncryptedSyncEnvelope_def e get_prop_JObj map_of_prop_if_truthy map_add_def)
  then show ?thesis by (simp add: buildAOIDSyncQueuePayload_def)
qed

lemma Inr_value: "(case m of Inr e \<Rightarrow> e | Inl _ \<Rightarrow> JNull) \<noteq> JNull \<Longrightarrow> m = Inr (case m of Inr e \<Rightarrow> e | Inl _ \<Rightarrow> JNull)"
  by (cases m) simp_all

definition sample_envelope :: js_value where
  "sample_envelope = (case buildAOIDEncryptedSyncEnvelope room_101 (JStr ''c2VjcmV0IGNpcGhlcnRleHQgYnl0ZXM='')
     (JStr ''owner-1'') (JStr ''device 1'') 9 of Inr e \<Rightarrow> e | Inl _ \<Rightarrow> JNull)"

lemma built_envelope_is_queued_witness:
  "sample_envelope \<noteq> JNull \<and> buildAOIDSyncQueuePayload sample_envelope 10 = Inr sample_envelope"
proof -
  have "\<not> re_test raw_field_pattern ''c2VjcmV0IGNpcGhlcnRleHQgYnl0ZXM=''"
  proof
    assume "re_test raw_field_pattern ''c2VjcmV0IGNpcGhlcnRleHQgYnl0ZXM=''"
    then have "\<exists>x \<in> set ''c2VjcmV0IGNpcGhlcnRleHQgYnl0ZXM=''. x = CHR '':''"
      by (rule re_test_needs [rotated]) (simp add: raw_field_pattern_def)
    then show False by simp
  qed
  then have "isOpaqueEncryptedPayload (JStr (clean (JStr ''c2VjcmV0IGNpcGhlcnRleHQgYnl0ZXM='')))"
    by (simp add: isOpaqueEncryptedPayload_def looksLikeRawPrivatePayload_def clean_def js_trim_def js_ws_def)
  moreover have "\<exists>n. normalizeAOIDRecord room_101 False 9 = Inr n"
  proof -
    have "(case normalizeAOIDRecord room_101 False 9 of Inl _ \<Rightarrow> False | Inr _ \<Rightarrow> True)" by code_simp
    then show ?thesis by (auto split: sum.splits)
  qed
  moreover have "cleanKeyId (JStr ''owner-1'') \<noteq> [] \<and> cleanKeyId (JStr ''device 1'') \<noteq> []" by code_simp
  ultimately have "sample_envelope \<noteq> JNull"
    by (auto simp: sample_envelope_def buildAOIDEncryptedSyncEnvelope_def Let_def)
  then have "buildAOIDEncryptedSyncEnvelope room_101 (JStr ''c2VjcmV0IGNpcGhlcnRleHQgYnl0ZXM='')
     (JStr ''owner-1'') (JStr ''device 1'') 9 = Inr sample_envelope"
    unfolding sample_envelope_def by (rule Inr_value)
  from built_envelope_is_queued [OF this] \<open>sample_envelope \<noteq> JNull\<close> show ?thesis by blast
qed

subsection \<open>Registration\<close>

lemma marked_merged:
  assumes "distinct (map fst (obj_props source))"
    and "booleanField (JObj (obj_assign (obj_props nested) (obj_props source))) keys"
  shows "booleanField source keys \<or> booleanField nested keys"
proof -
  have "map_of (rev (obj_props source)) = map_of (obj_props source)"
    using assms(1) by (simp add: map_of_inject_set rev_map [symmetric])
  then have "get_prop (JObj (obj_assign (obj_props nested) (obj_props source))) k \<in> {get_prop source k, get_prop nested k}" for k
    by (auto simp: get_prop_JObj map_of_obj_assign get_prop_obj_props [of source] get_prop_obj_props [of nested]
        split: option.splits)
  moreover from assms(2) obtain k where "k \<in> set keys"
    "marked (get_prop (JObj (obj_assign (obj_props nested) (obj_props source))) k)"
    by (auto simp: booleanField_def list_ex_iff)
  ultimately have "marked (get_prop source k) \<or> marked (get_prop nested k)" by (metis insertE singletonD)
  with \<open>k \<in> set keys\<close> show ?thesis by (auto simp: booleanField_def list_ex_iff)
qed

text \<open>The kind that is read off the free text alone: no kind is stated, nothing is marked.\<close>

definition text_kind :: "js_value \<Rightarrow> string option" where
  "text_kind r =
     (if cleanAccessKind (get_prop r ''deliveryAccessKind'') \<noteq> None \<or> cleanAccessKind (get_prop r ''accessKind'') \<noteq> None
         \<or> cleanAccessKind (get_prop r ''deliveryAccessType'') \<noteq> None
         \<or> list_ex (\<lambda>keys. booleanField r keys \<or> booleanField (nestedAccess r) keys)
             [AUTO_LOCK_KEYS, PO_BOX_KEYS, LOCKER_KEYS, FRONT_DESK_KEYS]
      then None
      else if re_test po_box_pattern (recordSearchText r) then Some ''po-box''
      else if re_test auto_lock_pattern (recordSearchText r) then Some ''auto-lock''
      else None)"

lemma inferred_kind:
  "inferDeliveryAccessKind r = ''auto-lock'' \<and> \<not> am_autoLock (explicitDeliveryAccessMarkers r)
     \<longleftrightarrow> text_kind r = Some ''auto-lock'' \<and> \<not> am_autoLock (explicitDeliveryAccessMarkers r)"
  "inferDeliveryAccessKind r = ''po-box'' \<and> \<not> am_poBox (explicitDeliveryAccessMarkers r)
     \<longleftrightarrow> text_kind r = Some ''po-box'' \<and> \<not> am_poBox (explicitDeliveryAccessMarkers r)"
  by (cases "cleanAccessKind (get_prop r ''deliveryAccessKind'')"; cases "cleanAccessKind (get_prop r ''accessKind'')";
      cases "cleanAccessKind (get_prop r ''deliveryAccessType'')";
      cases "cleanAccessKind (get_prop (nestedAccess r) ''kind'')";
      simp add: inferDeliveryAccessKind_def text_kind_def explicitDeliveryAccessMarkers_def or_else_def Let_def)+

text \<open>A registration is refused for exactly three reasons: no valid AGID is linked, or the free text of
  the record mentions an auto-lock or a post office box that neither a stated kind nor a marker records. A
  marker inside the nested access object counts, and the check for the carrier's review never fires, since
  the profile always asks for that review when the address is restricted.\<close>

theorem registration_errors:
  assumes "distinct (map fst (obj_props r))"
  shows "rc_errors (validateAOIDRegistrationRequirements r)
      = (if cleanAgid (get_prop r ''agid'') = [] then [''aoid-linked-agid-required''] else [])
        @ (if text_kind r = Some ''auto-lock'' \<and> \<not> am_autoLock (explicitDeliveryAccessMarkers r)
           then [''aoid-delivery-access-kind-must-record-auto-lock''] else [])
        @ (if text_kind r = Some ''po-box'' \<and> \<not> am_poBox (explicitDeliveryAccessMarkers r)
           then [''aoid-delivery-access-kind-must-record-po-box''] else [])
    \<and> (rc_ok (validateAOIDRegistrationRequirements r) \<longleftrightarrow> rc_errors (validateAOIDRegistrationRequirements r) = [])"
proof -
  let ?m = "explicitDeliveryAccessMarkers r"
  let ?p = "normalizeAOIDDeliveryAccessProfile r"
  have "booleanField (JObj (obj_assign (obj_props (nestedAccess r)) (obj_props r))) AUTO_LOCK_KEYS \<Longrightarrow> am_autoLock ?m"
    "booleanField (JObj (obj_assign (obj_props (nestedAccess r)) (obj_props r))) PO_BOX_KEYS \<Longrightarrow> am_poBox ?m"
    using marked_merged [OF assms] by (auto simp: explicitDeliveryAccessMarkers_def Let_def)
  then have "(dap_autoLock ?p \<and> \<not> am_autoLock ?m) = (text_kind r = Some ''auto-lock'' \<and> \<not> am_autoLock ?m)"
    "(dap_poBox ?p \<and> \<not> am_poBox ?m) = (text_kind r = Some ''po-box'' \<and> \<not> am_poBox ?m)"
    using inferred_kind [of r] by (auto simp: normalizeAOIDDeliveryAccessProfile_def Let_def)
  moreover have "dap_carrierReviewRequired ?p = (dap_autoLock ?p \<or> dap_poBox ?p)"
    by (simp add: normalizeAOIDDeliveryAccessProfile_def Let_def)
  ultimately show ?thesis
    by (simp add: validateAOIDRegistrationRequirements_def Let_def) blast
qed

lemma registration_errors_witness:
  "rc_errors (validateAOIDRegistrationRequirements
     (JObj [(''agid'', JStr ''JP2K00TX0000''), (''address'', JStr ''P. O. Box 12'')]))
   = [''aoid-delivery-access-kind-must-record-po-box'']"
proof -
  define r where "r = JObj [(''agid'', JStr ''JP2K00TX0000''), (''address'', JStr ''P. O. Box 12'')]"
  have "distinct (map fst (obj_props r))" by (simp add: r_def obj_props_def)
  moreover have "cleanAgid (get_prop r ''agid'') \<noteq> []" "text_kind r = Some ''po-box''"
    "\<not> am_poBox (explicitDeliveryAccessMarkers r)"
    unfolding r_def by code_simp+
  ultimately show ?thesis
    using registration_errors [of r] unfolding r_def by simp
qed

subsection \<open>A relinked record\<close>

text \<open>When a record with a stored private body is linked to another AGID, normalising it writes the new AGID
  into the record and its anchor rules, but the private body keeps the AGID it was stored with.\<close>

theorem relinked_body_keeps_agid:
  assumes "normalizeAOIDRecord r required now = Inr n"
    and "cleanAgid (get_prop r ''agid'') = agid" and "agid \<noteq> []"
    and "get_prop (asObject (get_prop r ''privateBody'')) ''agid'' = JStr old"
    and "normalizeAGIDInput (JStr old) = Some old"
  shows "get_prop n ''agid'' = JStr agid \<and> get_prop (get_prop n ''privateBody'') ''agid'' = JStr old"
proof -
  let ?s = "JObj (obj_assign (obj_props r) [(''agid'', JStr agid)])"
  have body: "pb_agid b = old" if "buildAOIDPrivateBody ?s = Inr b" for b
  proof -
    have "get_prop (asObject (get_prop ?s ''privateBody'')) ''agid'' = JStr old"
      using assms(4) by (simp add: get_prop_JObj map_of_obj_assign get_prop_obj_props [of r])
    then show ?thesis
      using that assms(5) by (auto simp: buildAOIDPrivateBody_def Let_def split: option.splits if_splits)
  qed
  from assms(1) show ?thesis
  proof (rule normalized_props)
    fix i part h
    assume "private_body_part r (cleanAgid (get_prop r ''agid'')) = Inr part"
      and n: "get_prop n ''agid'' = (if cleanAgid (get_prop r ''agid'') \<noteq> [] then JStr (cleanAgid (get_prop r ''agid''))
           else JUndefined)"
        "get_prop n ''privateBody'' = (case field_of part ''privateBody'' of None \<Rightarrow> JUndefined | Some w \<Rightarrow> w)"
    with private_body_part_cases assms(2,3) obtain b where "buildAOIDPrivateBody ?s = Inr b"
      "part = [(''privateBody'', private_body_json b)]" by blast
    with body n assms(2,3) show ?thesis by (simp add: stored_props)
  qed
qed

definition relinked_record :: js_value where
  "relinked_record = JObj [(''id'', JStr ''2K00TX00005CKT18''), (''agid'', JStr ''JP2K00TX0000''),
     (''privateBody'', JObj [(''agid'', JStr ''JP0123456789'')])]"

definition normal_record :: js_value where
  "normal_record = (case normalizeAOIDRecord relinked_record False 0 of Inr n \<Rightarrow> n | Inl _ \<Rightarrow> JNull)"

lemma relinked_body_keeps_agid_witness:
  "get_prop normal_record ''agid'' = JStr ''JP2K00TX0000''
    \<and> get_prop (get_prop normal_record ''privateBody'') ''agid'' = JStr ''JP0123456789''"
proof (rule relinked_body_keeps_agid)
  have "normal_record \<noteq> JNull" by code_simp
  then show "normalizeAOIDRecord relinked_record False 0 = Inr normal_record"
    unfolding normal_record_def by (rule Inr_value)
  show "cleanAgid (get_prop relinked_record ''agid'') = ''JP2K00TX0000''" by code_simp
  show "get_prop (asObject (get_prop relinked_record ''privateBody'')) ''agid'' = JStr ''JP0123456789''" by code_simp
  show "normalizeAGIDInput (JStr ''JP0123456789'') = Some ''JP0123456789''" by code_simp
qed simp

end
