(* ===== verification/Sync_Queue.thy ===== *)
theory Sync_Queue
  imports Aoid_Records Governance
begin

section \<open>The synchronisation queue\<close>

text \<open>
  \<open>src/src/lib/syncQueue.ts\<close>: what a local change becomes on its way out. A queue record is built from
  the payload of an AOID (through \<open>buildAOIDSyncQueuePayload\<close>) or of another entity, is checked against the
  governance rules of its target surface, and is retried with a growing delay.
\<close>

datatype sync_action = Create | Update | Delete

fun sync_action_text :: "sync_action \<Rightarrow> string" where
  "sync_action_text Create = ''create''"
| "sync_action_text Update = ''update''"
| "sync_action_text Delete = ''delete''"

datatype queue_status = QPending | QSending | QFailed

text \<open>\<open>SyncQueueRecord\<close>; the entity type is its text.\<close>

record queue_record =
  qr_id :: string
  qr_entityType :: string
  qr_entityId :: string
  qr_action :: sync_action
  qr_payload :: js_value
  qr_status :: queue_status
  qr_attemptCount :: int
  qr_createdAt :: int
  qr_updatedAt :: int
  qr_nextAttemptAt :: "int option"
  qr_lastError :: "string option"
  qr_audit :: audit_event

definition cleanId :: "string \<Rightarrow> string" where
  "cleanId value = replace_runs js_ws ''-'' (js_trim value)"

definition layerForEntity :: "string \<Rightarrow> layer" where
  "layerForEntity entityType = (if entityType = ''aoid'' then AOID else AGID)"

text \<open>\<open>payloadRecord\<close> reads the properties of an object; \<open>get_prop\<close> of anything else is \<open>undefined\<close>.\<close>

definition text_of_payload :: "js_value \<Rightarrow> string \<Rightarrow> js_value" where
  "text_of_payload payload key = (case get_prop payload key of JStr s \<Rightarrow> JStr s | _ \<Rightarrow> JUndefined)"

definition publicHandleFromPayload :: "js_value \<Rightarrow> js_value" where
  "publicHandleFromPayload payload = text_of_payload payload ''publicHandle''"

definition agidFromPayload :: "js_value \<Rightarrow> js_value" where
  "agidFromPayload payload = text_of_payload payload ''agid''"

definition buildSyncQueueRecord ::
  "string \<Rightarrow> string \<Rightarrow> sync_action \<Rightarrow> js_value \<Rightarrow> surface option \<Rightarrow> int \<Rightarrow> queue_record result" where
  "buildSyncQueueRecord entityType rawId action rawPayload targetSurface now =
     (let entityId = cleanId rawId in
      sbind (if entityType = ''aoid'' then buildAOIDSyncQueuePayload rawPayload now else Inr rawPayload) (\<lambda>payload.
       (let layer = layerForEntity entityType;
            surface = (case targetSurface of None \<Rightarrow> LocalDevice | Some s \<Rightarrow> s);
            decision = evaluateAgidAoidOperation layer SyncOp surface payload
        in if \<not> dc_allowed decision
           then Inl (JsError (''AGID/AOID sync policy blocked '' @ entityType @ '' payload: ''
             @ string_join '' '' (dc_warnings decision)))
           else Inr \<lparr>
             qr_id = entityType @ '':'' @ entityId @ '':'' @ sync_action_text action @ '':'' @ int_str now,
             qr_entityType = entityType, qr_entityId = entityId, qr_action = action, qr_payload = payload,
             qr_status = QPending, qr_attemptCount = 0, qr_createdAt = now, qr_updatedAt = now,
             qr_nextAttemptAt = None, qr_lastError = None,
             qr_audit = buildAgidAoidAuditEvent layer SyncOp surface (JStr entityId) (agidFromPayload payload)
               (publicHandleFromPayload payload) payload now\<rparr>)))"

definition getSyncBackoffMs :: "int \<Rightarrow> int" where
  "getSyncBackoffMs attemptCount = min (5 * 60 * 1000) (1000 * 2 ^ nat (max 0 attemptCount))"

definition markSyncQueueRecordFailed :: "queue_record \<Rightarrow> string \<Rightarrow> int \<Rightarrow> queue_record" where
  "markSyncQueueRecordFailed r err now =
     (let attemptCount = qr_attemptCount r + 1
      in r\<lparr>qr_status := QFailed, qr_attemptCount := attemptCount, qr_lastError := Some err,
           qr_updatedAt := now, qr_nextAttemptAt := Some (now + getSyncBackoffMs attemptCount)\<rparr>)"

definition markSyncQueueRecordSending :: "queue_record \<Rightarrow> int \<Rightarrow> queue_record" where
  "markSyncQueueRecordSending r now = r\<lparr>qr_status := QSending, qr_updatedAt := now\<rparr>"

text \<open>The filters of the flush; a \<open>nextAttemptAt\<close> of 0 counts as absent.\<close>

definition due :: "int \<Rightarrow> queue_record \<Rightarrow> bool" where
  "due now r \<longleftrightarrow> qr_status r \<noteq> QSending
     \<and> (case qr_nextAttemptAt r of None \<Rightarrow> True | Some t \<Rightarrow> t = 0 \<or> t \<le> now)"

text \<open>\<open>slice(0, limit)\<close>: a negative limit counts from the end.\<close>

definition slice_to :: "int \<Rightarrow> 'a list \<Rightarrow> 'a list" where
  "slice_to limit xs = (if limit \<ge> 0 then take (nat limit) xs else take (length xs - nat (- limit)) xs)"

definition getFlushableSyncQueueRecords :: "queue_record list \<Rightarrow> bool \<Rightarrow> int \<Rightarrow> int option \<Rightarrow> queue_record list" where
  "getFlushableSyncQueueRecords records online now limit =
     (if \<not> online then []
      else slice_to (case limit of None \<Rightarrow> 25 | Some l \<Rightarrow> l) (sort_key qr_createdAt (filter (due now) records)))"

subsection \<open>What leaves the device\<close>

lemma queued_allowed:
  assumes "buildSyncQueueRecord entityType i action p (Some surface) now = Inr r"
  shows "dc_allowed (evaluateAgidAoidOperation (layerForEntity entityType) SyncOp surface (qr_payload r))"
  using assms by (auto simp: buildSyncQueueRecord_def Let_def sbind_Inr_iff split: if_splits)


lemma queued_sample_allowed: "dc_allowed (evaluateAgidAoidOperation AOID SyncOp PublicApi queued_sample)"
  by code_simp


text \<open>The normalised names of the descriptor's properties are not private.\<close>

lemma descriptor_keys_public:
  "\<forall>k \<in> set [''type'', ''id'', ''agid'', ''country'', ''version'', ''status'', ''publicHandle'', ''privacy'',
     ''requiresEncryptedPayload'']. normalizeFieldKey k \<notin> set AOID_PRIVATE_FIELD_KEYS"
  by code_simp

lemma accepted_id_facts:
  assumes "accepted_id r i h"
  shows "js_upper (clean (JStr i)) = i" and "isValidAOIDId (JStr i)"
    and "cleanAgid (get_prop r ''agid'') \<noteq> [] \<longrightarrow> isAOIDLinkedToAGID i (JStr (cleanAgid (get_prop r ''agid'')))"
proof -
  let ?l = "if cleanAgid (get_prop r ''agid'') \<noteq> [] then JStr (cleanAgid (get_prop r ''agid'')) else JUndefined"
  have i: "normalizeAOIDId (get_prop r ''id'') ?l = Inr i" using assms by (simp add: accepted_id_def)
  then show "isValidAOIDId (JStr i)" by (rule normalized_id_valid)
  from i have "aoid_id_pattern i" and "truthy ?l \<longrightarrow> isAOIDLinkedToAGID i ?l"
    unfolding normalizeAOIDId_Inr by blast+
  then show "js_upper (clean (JStr i)) = i"
    and "cleanAgid (get_prop r ''agid'') \<noteq> [] \<longrightarrow> isAOIDLinkedToAGID i (JStr (cleanAgid (get_prop r ''agid'')))"
    using clean_upper_pattern by (auto simp: truthy_def)
qed

lemma queued_descriptor_props:
  "obj_assign (obj_props (descriptor_json p i h)) [(''requiresEncryptedPayload'', JBool True)]
    = [(''type'', JStr ''AOID''), (''id'', JStr i)] @ text_when ''agid'' (cleanAgid (get_prop p ''agid''))
      @ prop_if_truthy ''country'' (get_prop p ''country'')
      @ [(''version'', record_version (get_prop p ''version'')),
         (''status'', JStr (aoid_status_text (coerceAOIDStatus (get_prop p ''status'')))),
         (''publicHandle'', JStr h), (''privacy'', JStr ''public-reference''),
         (''requiresEncryptedPayload'', JBool True)]"
  by (simp add: descriptor_json_def obj_props_def obj_assign_def text_when_def prop_if_truthy_def)

lemma version_no_keys: "\<not> has_key (record_version v) k"
  by (cases v) (auto simp: record_version_def)

lemma descriptor_no_private_key:
  assumes "\<forall>k. \<not> has_key (get_prop p ''country'') k"
  shows "findAoidPrivateFields (JObj (obj_assign (obj_props (descriptor_json p i h))
    [(''requiresEncryptedPayload'', JBool True)])) ''payload'' = []"
  using assms descriptor_keys_public version_no_keys
  unfolding findAoidPrivateFields_def find_keys_empty_iff queued_descriptor_props text_when_def prop_if_truthy_def
  by (auto split: if_splits)

text \<open>The queue and the governance rules agree: the descriptor of every AOID record that is accepted, with a
  country that is plain text, is allowed on every surface but the encrypted one, where only the envelope is.\<close>

theorem aoid_record_reaches_public_surface:
  assumes "get_prop p ''type'' = JStr ''AOID''"
    and "\<forall>k. \<not> has_key (get_prop p ''country'') k"
    and "buildAOIDSyncQueuePayload p now = Inr q"
  shows "\<not> isl (buildSyncQueueRecord ''aoid'' i action p (Some surface) now) \<longleftrightarrow> surface \<noteq> EncryptedSync"
proof -
  have "is_object p" using assms(1) by (cases p) (simp_all add: get_prop_def)
  with assms(1,3) descriptor_form obtain j h where q: "accepted_id p j h"
    "q = JObj (obj_assign (obj_props (descriptor_json p j h)) [(''requiresEncryptedPayload'', JBool True)])"
    by (auto simp: buildAOIDSyncQueuePayload_def isAOIDEncryptedSyncEnvelope_def sbind_Inr_iff) blast
  have props: "get_prop q ''type'' = JStr ''AOID''" "get_prop q ''id'' = JStr j"
    "get_prop q ''privacy'' = JStr ''public-reference''"
    "get_prop q ''agid'' = (if cleanAgid (get_prop p ''agid'') \<noteq> [] then JStr (cleanAgid (get_prop p ''agid'')) else JUndefined)"
    unfolding q(2) queued_descriptor_props by (simp_all add: get_prop_JObj text_when_def prop_if_truthy_def)
  have reference: "hasPublicAoidReference q"
    using accepted_id_facts [OF q(1)] props
    by (simp add: hasPublicAoidReference_def Let_def truthy_def) (simp add: q(2))
  have "findAoidPrivateFields q ''payload'' = []"
    unfolding q(2) using assms(2) by (rule descriptor_no_private_key)
  moreover have "\<not> isEncryptedAoidEnvelope q" using props by (simp add: isEncryptedAoidEnvelope_def)
  ultimately have "dc_allowed (evaluateAgidAoidOperation AOID SyncOp surface q) \<longleftrightarrow> surface \<noteq> EncryptedSync"
    using reference q(2)
    by (auto simp: evaluateAgidAoidOperation_def decide_aoid_def classifyAgidAoidPayload_def forbiddenFieldsFor_def
        Let_def)
  then show ?thesis
    using assms(3) by (auto simp: buildSyncQueueRecord_def layerForEntity_def Let_def)
qed

lemma aoid_record_reaches_public_surface_witness:
  "\<not> isl (buildSyncQueueRecord ''aoid'' ''x'' Update room_101 (Some PublicApi) 5)"
proof -
  have "\<not> has_key (get_prop room_101 ''country'') k" for k by (simp add: room_101_def get_prop_JObj)
  then show ?thesis
    using aoid_record_reaches_public_surface [OF _ _ queued_samples(1), of "''x''" Update PublicApi]
    by (simp add: room_101_def get_prop_JObj)
qed

subsection \<open>Retrying\<close>

lemma backoff_bounds: "1000 \<le> getSyncBackoffMs n \<and> getSyncBackoffMs n \<le> 300000"
  by (simp add: getSyncBackoffMs_def)

text \<open>A record that failed is not sent again before its delay is over and is sent from then on: the delay
  lies between one second and five minutes and never shrinks from one failure to the next.\<close>

theorem failed_record_retried:
  fixes r :: queue_record and err :: string and now :: int
  assumes "0 < now"
  defines "f \<equiv> markSyncQueueRecordFailed r err now"
  shows "(due t f \<longleftrightarrow> now + getSyncBackoffMs (qr_attemptCount r + 1) \<le> t)
    \<and> 1000 \<le> getSyncBackoffMs (qr_attemptCount r + 1) \<and> getSyncBackoffMs (qr_attemptCount r + 1) \<le> 300000
    \<and> getSyncBackoffMs (qr_attemptCount r + 1) \<le> getSyncBackoffMs (qr_attemptCount f + 1)"
proof -
  have "getSyncBackoffMs m \<le> getSyncBackoffMs n" if "m \<le> n" for m n
  proof -
    have "(2 :: int) ^ nat (max 0 m) \<le> 2 ^ nat (max 0 n)"
      using that by (intro power_increasing) auto
    then show ?thesis unfolding getSyncBackoffMs_def by (intro min.mono) simp_all
  qed
  then show ?thesis
    using assms(1) backoff_bounds [of "qr_attemptCount r + 1"]
    by (auto simp: f_def markSyncQueueRecordFailed_def due_def Let_def)
qed

text \<open>A flush returns the oldest due records: they are due, at most as many as asked for, in the order they
  were created, each as often as it is queued, and a due record that is left behind is not older than any that
  is returned.\<close>

theorem flush_oldest_due:
  fixes records :: "queue_record list" and now :: int and l :: int
  assumes "0 \<le> l"
  defines "out \<equiv> getFlushableSyncQueueRecords records True now (Some l)"
  shows "sorted (map qr_createdAt out) \<and> length out \<le> nat l
    \<and> (\<exists>rest. mset out + mset rest = mset (filter (due now) records)
          \<and> (\<forall>a \<in> set out. \<forall>b \<in> set rest. qr_createdAt a \<le> qr_createdAt b)
          \<and> (rest \<noteq> [] \<longrightarrow> length out = nat l))"
proof -
  define q where "q = sort_key qr_createdAt (filter (due now) records)"
  have out: "out = take (nat l) q"
    using assms(1) by (simp add: out_def getFlushableSyncQueueRecords_def slice_to_def q_def)
  have sorted: "sorted (map qr_createdAt q)" by (simp add: q_def)
  then have "sorted (map qr_createdAt (take (nat l) q) @ map qr_createdAt (drop (nat l) q))"
    by (metis append_take_drop_id map_append)
  then have "\<forall>a \<in> set (take (nat l) q). \<forall>b \<in> set (drop (nat l) q). qr_createdAt a \<le> qr_createdAt b"
    and "sorted (map qr_createdAt out)"
    by (auto simp: sorted_append out)
  moreover have "mset (take (nat l) q) + mset (drop (nat l) q) = mset (filter (due now) records)"
    by (metis append_take_drop_id mset_append mset_sort q_def)
  ultimately show ?thesis
    by (intro conjI exI [of _ "drop (nat l) q"]) (auto simp: out)
qed

definition queued_record :: "int \<Rightarrow> queue_record" where
  "queued_record t = \<lparr>qr_id = ''savedAgid:A:create:1'', qr_entityType = ''savedAgid'', qr_entityId = ''A'',
     qr_action = Create, qr_payload = JUndefined, qr_status = QPending, qr_attemptCount = 0, qr_createdAt = t,
     qr_updatedAt = t, qr_nextAttemptAt = None, qr_lastError = None,
     qr_audit = \<lparr>ae_id = [], ae_modelVersion = [], ae_layer = AGID, ae_operation = SyncOp,
       ae_surface = LocalDevice, ae_entityId = None, ae_agid = None, ae_publicHandle = None,
       ae_payloadClass = Empty, ae_privacy = Public, ae_outcome = ''allowed'', ae_forbiddenFields = [],
       ae_warnings = [], ae_payloadFingerprint = [], ae_createdAt = t\<rparr>\<rparr>"

lemma failed_record_retried_witness:
  "\<not> due 3999 (markSyncQueueRecordFailed (queued_record 1) ''network'' 2000)
    \<and> due 4000 (markSyncQueueRecordFailed (queued_record 1) ''network'' 2000)"
  using failed_record_retried [of 2000 3999 "queued_record 1" "''network''"]
    failed_record_retried [of 2000 4000 "queued_record 1" "''network''"]
  by (simp add: queued_record_def getSyncBackoffMs_def)

lemma flush_oldest_due_witness:
  "length (getFlushableSyncQueueRecords [queued_record 3, queued_record 1] True 9 (Some 1)) \<le> 1"
  using flush_oldest_due [of 1 "[queued_record 3, queued_record 1]" 9] by simp

end
