(* ===== verification/One_Time_Store.thy ===== *)
theory One_Time_Store
  imports AGID_Prelude
begin

section \<open>The contract of a store of one-time credentials\<close>

text \<open>
  Authorization codes, refresh tokens and navigation handoffs are kept by the hash of their secret and can be
  consumed once. The contract says what a client of the store relies on: a saved record is found under its
  hash, consuming an unused record returns and marks it, and consuming a used or unknown one returns nothing
  and changes nothing.
\<close>

locale one_time_store =
  fixes save :: "'v \<Rightarrow> 's \<Rightarrow> 's"
    and lookup :: "string \<Rightarrow> 's \<Rightarrow> 'v option"
    and consume :: "string \<Rightarrow> int \<Rightarrow> 's \<Rightarrow> 'v option \<times> 's"
    and key :: "'v \<Rightarrow> string"
    and used :: "'v \<Rightarrow> bool"
    and mark :: "int \<Rightarrow> 'v \<Rightarrow> 'v"
  assumes lookup_save: "lookup h (save v s) = (if h = key v then Some v else lookup h s)"
    and consume_unknown: "lookup h s = None \<Longrightarrow> consume h t s = (None, s)"
    and consume_used: "lookup h s = Some v \<Longrightarrow> used v \<Longrightarrow> consume h t s = (None, s)"
    and consume_fresh: "lookup h s = Some v \<Longrightarrow> \<not> used v \<Longrightarrow> fst (consume h t s) = Some (mark t v)"
    and lookup_consume: "lookup h s = Some v \<Longrightarrow> \<not> used v
      \<Longrightarrow> lookup k (snd (consume h t s)) = (if k = h then Some (mark t v) else lookup k s)"
    and used_mark: "used (mark t v)"
begin

definition spent :: "string \<Rightarrow> 's \<Rightarrow> bool" where
  "spent h s \<longleftrightarrow> (case lookup h s of None \<Rightarrow> False | Some v \<Rightarrow> used v)"

lemma consume_cases:
  obtains (refused) "consume h t s = (None, s)" "lookup h s = None \<or> spent h s"
    | (taken) v where "lookup h s = Some v" "\<not> used v" "fst (consume h t s) = Some (mark t v)"
proof (cases "lookup h s")
  case None
  then show ?thesis using refused consume_unknown by blast
next
  case (Some v)
  show ?thesis
  proof (cases "used v")
    case True
    with Some show ?thesis using refused consume_used by (simp add: spent_def)
  next
    case False
    with Some show ?thesis using taken consume_fresh by blast
  qed
qed

lemma taken_iff: "fst (consume h t s) = Some w \<longleftrightarrow> (\<exists>v. lookup h s = Some v \<and> \<not> used v \<and> w = mark t v)"
  by (rule consume_cases [of h t s]) (auto simp: spent_def)

lemma spent_after: "fst (consume h t s) = Some v \<Longrightarrow> spent h (snd (consume h t s))"
  unfolding taken_iff using lookup_consume used_mark by (auto simp: spent_def)

lemma spent_refused: "spent h s \<Longrightarrow> consume h t s = (None, s)"
  using consume_used by (auto simp: spent_def split: option.splits)

lemma spent_stays_consume: "spent h s \<Longrightarrow> spent h (snd (consume k t s))"
proof (rule consume_cases [of k t s])
  fix v
  assume "spent h s" "lookup k s = Some v" "\<not> used v"
  then show ?thesis using lookup_consume [of k s v h t] by (auto simp: spent_def used_mark split: option.splits)
qed simp

lemma spent_stays_save: "spent h s \<Longrightarrow> lookup (key v) s = None \<Longrightarrow> spent h (save v s)"
  by (auto simp: spent_def lookup_save split: option.splits)

text \<open>A record is taken at most once: whatever consumptions and additions under new keys come in between.\<close>

lemma consume_once:
  assumes "fst (consume h t s) = Some v"
    and "(\<lambda>a b. (\<exists>k t'. b = snd (consume k t' a)) \<or> (\<exists>w. lookup (key w) a = None \<and> b = save w a))\<^sup>*\<^sup>*
           (snd (consume h t s)) s'"
  shows "fst (consume h t'' s') = None"
proof -
  from assms(2) have "spent h s'"
  proof induction
    case base
    show ?case using assms(1) by (rule spent_after)
  next
    case (step a b)
    then show ?case using spent_stays_consume spent_stays_save by blast
  qed
  then show ?thesis by (simp add: spent_refused)
qed

end

end
