(* ===== verification/Veygrit_Id_Store.thy ===== *)
theory Veygrit_Id_Store
  imports One_Time_Store Js_Value
begin

section \<open>The records of the identity service and their store\<close>

text \<open>
  The types of \<open>src/src/server/auth/veygritIdService.ts\<close> and its \<open>InMemoryVeygritIdStore\<close>. Every map of the
  store is an association list; consuming a record marks the stored object, as the source does.
\<close>

subsection \<open>Records\<close>

datatype social_provider = Google | Apple
datatype session_provider = Social social_provider | StepUp
datatype veygrit_surface = AddressWallet | VeygritStore | VeygritShip
datatype subject_status = SubjectActive | SubjectLocked | SubjectClosed
datatype request_status = Pending | Approved | Denied | Expired
datatype family_status = FamilyActive | FamilyRevoked | FamilyCompromised

datatype client_type = PublicClient | ConfidentialClient
datatype client_status = ClientActive | ClientDisabled

record oauth_client =
  cl_clientId :: string
  cl_displayName :: string
  cl_clientType :: client_type
  cl_sectorIdentifier :: string
  cl_redirectUris :: "string list"
  cl_allowedOrigins :: "string list"
  cl_allowedScopes :: "string list"
  cl_clientSecretHash :: "string option"
  cl_status :: client_status

record identity_subject =
  sj_subjectRef :: string
  sj_status :: subject_status

record identity_session =
  ss_sessionRef :: string
  ss_sessionTokenHash :: string
  ss_subjectRef :: string
  ss_provider :: session_provider
  ss_authTime :: int
  ss_expiresAt :: int
  ss_revokedAt :: "int option"

record auth_request =
  rq_requestRef :: string
  rq_clientId :: string
  rq_redirectUri :: string
  rq_origin :: "string option"
  rq_scopes :: "string list"
  rq_stateHash :: string
  rq_nonceHash :: string
  rq_nonce :: string
  rq_pkceChallenge :: string
  rq_status :: request_status
  rq_createdAt :: int
  rq_expiresAt :: int

record auth_code =
  ac_codeRef :: string
  ac_codeHash :: string
  ac_requestRef :: string
  ac_clientId :: string
  ac_pairwiseSubjectAlias :: string
  ac_subjectRef :: string
  ac_sessionRef :: string
  ac_authTime :: int
  ac_redirectUri :: string
  ac_scopes :: "string list"
  ac_nonce :: string
  ac_pkceChallenge :: string
  ac_walletConsentRef :: "string option"
  ac_expiresAt :: int
  ac_consumedAt :: "int option"

record token_family =
  tf_familyRef :: string
  tf_clientId :: string
  tf_pairwiseSubjectAlias :: string
  tf_subjectRef :: string
  tf_scopes :: "string list"
  tf_status :: family_status

record access_token =
  at_tokenRef :: string
  at_tokenHash :: string
  at_familyRef :: string
  at_issuedAt :: int
  at_expiresAt :: int
  at_revokedAt :: "int option"

record refresh_token =
  rt_tokenRef :: string
  rt_tokenHash :: string
  rt_familyRef :: string
  rt_rotationCounter :: int
  rt_issuedAt :: int
  rt_expiresAt :: int
  rt_consumedAt :: "int option"
  rt_replacedByRef :: "string option"

record nav_handoff =
  nh_handoffRef :: string
  nh_tokenHash :: string
  nh_pairwiseSubjectAlias :: string
  nh_source :: veygrit_surface
  nh_target :: veygrit_surface
  nh_returnPath :: string
  nh_expiresAt :: int
  nh_consumedAt :: "int option"

record audit_entry =
  au_eventRef :: string
  au_actorType :: string
  au_actorRef :: "string option"
  au_action :: string
  au_aggregateType :: string
  au_aggregateRef :: string
  au_outcome :: string
  au_requestId :: "string option"
  au_details :: "(string \<times> js_value) list option"
  au_occurredAt :: int

record id_store =
  st_clients :: "(string \<times> oauth_client) list"
  st_requests :: "(string \<times> auth_request) list"
  st_subjects :: "(string \<times> identity_subject) list"
  st_identities :: "(string \<times> string) list"
  st_sessions :: "(string \<times> identity_session) list"
  st_pairwise :: "(string \<times> string) list"
  st_codes :: "(string \<times> auth_code) list"
  st_families :: "(string \<times> token_family) list"
  st_access :: "(string \<times> access_token) list"
  st_refreshTokens :: "(string \<times> refresh_token) list"
  st_handoffs :: "(string \<times> nav_handoff) list"
  st_audits :: "audit_entry list"

definition empty_id_store :: id_store where
  "empty_id_store = \<lparr>st_clients = [], st_requests = [], st_subjects = [], st_identities = [], st_sessions = [],
     st_pairwise = [], st_codes = [], st_families = [], st_access = [], st_refreshTokens = [], st_handoffs = [],
     st_audits = []\<rparr>"

subsection \<open>Operations\<close>

definition getClient :: "string \<Rightarrow> id_store \<Rightarrow> oauth_client option" where
  "getClient i s = map_of (st_clients s) i"

definition saveClient :: "oauth_client \<Rightarrow> id_store \<Rightarrow> id_store" where
  "saveClient v s = s\<lparr>st_clients := AList.update (cl_clientId v) v (st_clients s)\<rparr>"

definition saveAuthorizationRequest :: "auth_request \<Rightarrow> id_store \<Rightarrow> id_store" where
  "saveAuthorizationRequest v s = s\<lparr>st_requests := AList.update (rq_requestRef v) v (st_requests s)\<rparr>"

definition getAuthorizationRequest :: "string \<Rightarrow> id_store \<Rightarrow> auth_request option" where
  "getAuthorizationRequest i s = map_of (st_requests s) i"

definition updateAuthorizationRequest :: "auth_request \<Rightarrow> id_store \<Rightarrow> id_store" where
  "updateAuthorizationRequest v s = s\<lparr>st_requests := AList.update (rq_requestRef v) v (st_requests s)\<rparr>"

definition provider_text :: "social_provider \<Rightarrow> string" where
  "provider_text p = (case p of Google \<Rightarrow> ''google'' | Apple \<Rightarrow> ''apple'')"

text \<open>\<open>this.subjects.get(found)!\<close>: the subject of a known identity; it is there because both are written
  together.\<close>

definition findOrCreateSubject ::
  "social_provider \<Rightarrow> string \<Rightarrow> string \<Rightarrow> id_store \<Rightarrow> identity_subject option \<times> id_store" where
  "findOrCreateSubject provider providerSubjectHash subjectRef s =
     (let key = provider_text provider @ '':'' @ providerSubjectHash
      in case map_of (st_identities s) key of
        Some found \<Rightarrow> (map_of (st_subjects s) found, s)
      | None \<Rightarrow> (let subject = \<lparr>sj_subjectRef = subjectRef, sj_status = SubjectActive\<rparr>
          in (Some subject, s\<lparr>st_subjects := AList.update subjectRef subject (st_subjects s),
                              st_identities := AList.update key subjectRef (st_identities s)\<rparr>)))"

definition saveSession :: "identity_session \<Rightarrow> id_store \<Rightarrow> id_store" where
  "saveSession v s = s\<lparr>st_sessions := AList.update (ss_sessionTokenHash v) v (st_sessions s)\<rparr>"

definition findSessionByTokenHash :: "string \<Rightarrow> id_store \<Rightarrow> identity_session option" where
  "findSessionByTokenHash h s = map_of (st_sessions s) h"

definition getOrCreatePairwiseSubject :: "string \<Rightarrow> string \<Rightarrow> string \<Rightarrow> id_store \<Rightarrow> string \<times> id_store" where
  "getOrCreatePairwiseSubject subjectRef clientId alias s =
     (let key = subjectRef @ '':'' @ clientId
      in case map_of (st_pairwise s) key of
        Some found \<Rightarrow> (if found \<noteq> [] then (found, s)
          else (alias, s\<lparr>st_pairwise := AList.update key alias (st_pairwise s)\<rparr>))
      | None \<Rightarrow> (alias, s\<lparr>st_pairwise := AList.update key alias (st_pairwise s)\<rparr>))"

definition saveAuthorizationCode :: "auth_code \<Rightarrow> id_store \<Rightarrow> id_store" where
  "saveAuthorizationCode v s = s\<lparr>st_codes := AList.update (ac_codeHash v) v (st_codes s)\<rparr>"

definition consumeAuthorizationCode :: "string \<Rightarrow> int \<Rightarrow> id_store \<Rightarrow> auth_code option \<times> id_store" where
  "consumeAuthorizationCode h at s = (case map_of (st_codes s) h of
     None \<Rightarrow> (None, s)
   | Some v \<Rightarrow> (if ac_consumedAt v \<noteq> None then (None, s)
       else (let w = v\<lparr>ac_consumedAt := Some at\<rparr>
             in (Some w, s\<lparr>st_codes := AList.update h w (st_codes s)\<rparr>))))"

definition saveTokenFamily :: "token_family \<Rightarrow> id_store \<Rightarrow> id_store" where
  "saveTokenFamily v s = s\<lparr>st_families := AList.update (tf_familyRef v) v (st_families s)\<rparr>"

definition getTokenFamily :: "string \<Rightarrow> id_store \<Rightarrow> token_family option" where
  "getTokenFamily r s = map_of (st_families s) r"

definition updateTokenFamily :: "token_family \<Rightarrow> id_store \<Rightarrow> id_store" where
  "updateTokenFamily v s = s\<lparr>st_families := AList.update (tf_familyRef v) v (st_families s)\<rparr>"

definition saveAccessToken :: "access_token \<Rightarrow> id_store \<Rightarrow> id_store" where
  "saveAccessToken v s = s\<lparr>st_access := AList.update (at_tokenHash v) v (st_access s)\<rparr>"

definition findAccessToken :: "string \<Rightarrow> id_store \<Rightarrow> access_token option" where
  "findAccessToken h s = map_of (st_access s) h"

definition saveRefreshToken :: "refresh_token \<Rightarrow> id_store \<Rightarrow> id_store" where
  "saveRefreshToken v s = s\<lparr>st_refreshTokens := AList.update (rt_tokenHash v) v (st_refreshTokens s)\<rparr>"

definition findRefreshToken :: "string \<Rightarrow> id_store \<Rightarrow> refresh_token option" where
  "findRefreshToken h s = map_of (st_refreshTokens s) h"

definition consumeRefreshToken :: "string \<Rightarrow> int \<Rightarrow> string \<Rightarrow> id_store \<Rightarrow> refresh_token option \<times> id_store" where
  "consumeRefreshToken h at ref s = (case map_of (st_refreshTokens s) h of
     None \<Rightarrow> (None, s)
   | Some v \<Rightarrow> (if rt_consumedAt v \<noteq> None then (None, s)
       else (let w = v\<lparr>rt_consumedAt := Some at, rt_replacedByRef := Some ref\<rparr>
             in (Some w, s\<lparr>st_refreshTokens := AList.update h w (st_refreshTokens s)\<rparr>))))"

definition revokeFamily :: "string \<Rightarrow> family_status \<Rightarrow> id_store \<Rightarrow> id_store" where
  "revokeFamily r status s = (case map_of (st_families s) r of
     None \<Rightarrow> s
   | Some v \<Rightarrow> s\<lparr>st_families := AList.update r (v\<lparr>tf_status := status\<rparr>) (st_families s)\<rparr>)"

definition saveNavigationHandoff :: "nav_handoff \<Rightarrow> id_store \<Rightarrow> id_store" where
  "saveNavigationHandoff v s = s\<lparr>st_handoffs := AList.update (nh_tokenHash v) v (st_handoffs s)\<rparr>"

definition storeConsumeNavigationHandoff :: "string \<Rightarrow> int \<Rightarrow> id_store \<Rightarrow> nav_handoff option \<times> id_store" where
  "storeConsumeNavigationHandoff h at s = (case map_of (st_handoffs s) h of
     None \<Rightarrow> (None, s)
   | Some v \<Rightarrow> (if nh_consumedAt v \<noteq> None then (None, s)
       else (let w = v\<lparr>nh_consumedAt := Some at\<rparr>
             in (Some w, s\<lparr>st_handoffs := AList.update h w (st_handoffs s)\<rparr>))))"

definition appendAudit :: "audit_entry \<Rightarrow> id_store \<Rightarrow> id_store" where
  "appendAudit v s = s\<lparr>st_audits := st_audits s @ [v]\<rparr>"

subsection \<open>The store keeps the one-time contract\<close>

definition findAuthorizationCode :: "string \<Rightarrow> id_store \<Rightarrow> auth_code option" where
  "findAuthorizationCode h s = map_of (st_codes s) h"

definition findNavigationHandoff :: "string \<Rightarrow> id_store \<Rightarrow> nav_handoff option" where
  "findNavigationHandoff h s = map_of (st_handoffs s) h"

interpretation codes: one_time_store saveAuthorizationCode findAuthorizationCode consumeAuthorizationCode
    ac_codeHash "\<lambda>v. ac_consumedAt v \<noteq> None" "\<lambda>t v. v\<lparr>ac_consumedAt := Some t\<rparr>"
  by unfold_locales (auto simp: saveAuthorizationCode_def findAuthorizationCode_def consumeAuthorizationCode_def
      Let_def)

interpretation refresh_tokens: one_time_store saveRefreshToken findRefreshToken
    "\<lambda>h t s. consumeRefreshToken h t ref s"
    rt_tokenHash "\<lambda>v. rt_consumedAt v \<noteq> None" "\<lambda>t v. v\<lparr>rt_consumedAt := Some t, rt_replacedByRef := Some ref\<rparr>"
  for ref
  by unfold_locales (auto simp: saveRefreshToken_def findRefreshToken_def consumeRefreshToken_def Let_def)

interpretation handoffs: one_time_store saveNavigationHandoff findNavigationHandoff storeConsumeNavigationHandoff
    nh_tokenHash "\<lambda>v. nh_consumedAt v \<noteq> None" "\<lambda>t v. v\<lparr>nh_consumedAt := Some t\<rparr>"
  by unfold_locales (auto simp: saveNavigationHandoff_def findNavigationHandoff_def
      storeConsumeNavigationHandoff_def Let_def)

end
