(* ===== verification/Veygrit_Id_Service.thy ===== *)
theory Veygrit_Id_Service
  imports Veygrit_Id_Store
begin

section \<open>The identity service\<close>

text \<open>
  \<open>VeygritIdService\<close> of \<open>src/src/server/auth/veygritIdService.ts\<close>: authorization requests with PKCE, social
  sessions, single-use authorization codes, token families with refresh rotation, introspection, revocation
  and navigation handoffs. A method is a function of the environment, the time it reads from the clock (one
  reading per call), the random texts it draws (\<open>rnd 0\<close>, \<open>rnd 1\<close>, ... in base64url, in the order of the
  code), its input and the store; it returns its answer or the error it throws, and the store as it leaves
  it, also when it throws.

  The platform's cryptography and URL parser are not part of the repository: hashing, message
  authentication, signing and \<open>new URL\<close> are fields of the environment.
\<close>

record parsed_url =
  pu_protocol :: string
  pu_hostname :: string
  pu_origin :: string
  pu_withoutHash :: string

record id_env =
  ev_issuer :: string
  ev_sha256 :: "string \<Rightarrow> string"
  ev_challenge :: "string \<Rightarrow> string"
  ev_hmac_hex :: "string \<Rightarrow> string \<Rightarrow> string"
  ev_hmac_b64 :: "string \<Rightarrow> string \<Rightarrow> string"
  ev_sign :: "js_value \<Rightarrow> string"
  ev_publicJwk :: js_value
  ev_parseUrl :: "string \<Rightarrow> parsed_url option"
  ev_callbackUrl :: "string \<Rightarrow> string \<Rightarrow> string \<Rightarrow> string"
  ev_pairwiseSubjectSecret :: string
  ev_providerSubjectPepper :: string
  ev_authorizationRequestTtl :: "int option"
  ev_authorizationCodeTtl :: "int option"
  ev_sessionTtl :: "int option"
  ev_accessTokenTtl :: "int option"
  ev_refreshTokenTtl :: "int option"
  ev_navigationHandoffTtl :: "int option"

type_synonym randoms = "nat \<Rightarrow> string"
type_synonym 'a answer = "'a result \<times> id_store"

definition throw :: "string \<Rightarrow> id_store \<Rightarrow> 'a answer" where
  "throw code s = (Inl (JsTypeError code), s)"

definition or_default :: "int option \<Rightarrow> int \<Rightarrow> int" where
  "or_default v d = (case v of None \<Rightarrow> d | Some n \<Rightarrow> n)"

subsection \<open>Helpers\<close>

record opaque_token =
  op_ref :: string
  op_secret :: string
  op_hash :: string

definition opaque :: "id_env \<Rightarrow> string \<Rightarrow> string \<Rightarrow> string \<Rightarrow> opaque_token" where
  "opaque env prefix random refRandom =
     (let secret = prefix @ ''_'' @ random
      in \<lparr>op_ref = prefix @ ''_ref_'' @ refRandom, op_secret = secret, op_hash = ev_sha256 env secret\<rparr>)"

definition hex64 :: "string \<Rightarrow> bool" where
  "hex64 s \<longleftrightarrow> length s = 64
     \<and> list_all (\<lambda>c. is_digit_char c \<or> char_in_range (CHR ''a'') (CHR ''f'') c) s"

definition safeEqualHex :: "string \<Rightarrow> string \<Rightarrow> bool" where
  "safeEqualHex a b = (if \<not> hex64 a \<or> \<not> hex64 b then False else a = b)"

definition normalizeUrl :: "id_env \<Rightarrow> string \<Rightarrow> string result" where
  "normalizeUrl env value = (case ev_parseUrl env value of
     None \<Rightarrow> Inl (JsTypeError ''Invalid URL'')
   | Some url \<Rightarrow> (if pu_protocol url \<noteq> ''https:'' \<and> pu_hostname url \<notin> {''localhost'', ''127.0.0.1''}
       then Inl (JsTypeError ''https_required'') else Inr (pu_withoutHash url)))"

definition urlOrigin :: "id_env \<Rightarrow> string \<Rightarrow> string result" where
  "urlOrigin env value = (case ev_parseUrl env value of
     None \<Rightarrow> Inl (JsTypeError ''Invalid URL'') | Some url \<Rightarrow> Inr (pu_origin url))"

definition normalizedOrigin :: "id_env \<Rightarrow> string \<Rightarrow> string result" where
  "normalizedOrigin env value = sbind (normalizeUrl env value) (urlOrigin env)"

definition relativePath :: "string \<Rightarrow> string result" where
  "relativePath value =
     (if \<not> js_starts_with ''/'' value \<or> js_starts_with ''//'' value \<or> js_includes [CHR 0x5C] value
      then Inl (JsTypeError ''relative_return_path_required'') else Inr value)"

text \<open>\<open>value.split(/\s+/).filter(Boolean)\<close>.\<close>

fun words_ws :: "string \<Rightarrow> string \<Rightarrow> string list" where
  "words_ws cur [] = (if cur = [] then [] else [rev cur])"
| "words_ws cur (c # cs) =
     (if js_ws c then (if cur = [] then [] else [rev cur]) @ words_ws [] cs else words_ws (c # cur) cs)"

datatype scope_input = ScopeText string | ScopeList "string list"

definition uniqueScopes :: "scope_input \<Rightarrow> string list result" where
  "uniqueScopes value =
     (let scopes = js_uniq (filter (\<lambda>t. t \<noteq> []) (case value of ScopeText t \<Rightarrow> words_ws [] t | ScopeList ts \<Rightarrow> ts))
      in if ''openid'' \<notin> set scopes then Inl (JsTypeError ''openid_scope_required'') else Inr scopes)"

definition epochSeconds :: "int \<Rightarrow> int" where
  "epochSeconds ms = ms div 1000"

definition challenge_ok :: "string \<Rightarrow> bool" where
  "challenge_ok s \<longleftrightarrow> 43 \<le> length s \<and> length s \<le> 128
     \<and> list_all (\<lambda>c. is_upper_char c \<or> is_lower_char c \<or> is_digit_char c \<or> c = CHR ''_'' \<or> c = CHR ''-'') s"

definition verifier_ok :: "string \<Rightarrow> bool" where
  "verifier_ok s \<longleftrightarrow> 43 \<le> length s \<and> length s \<le> 128
     \<and> list_all (\<lambda>c. is_upper_char c \<or> is_lower_char c \<or> is_digit_char c
          \<or> c \<in> {CHR ''.'', CHR ''_'', CHR 0x7E, CHR ''-''}) s"

definition audit ::
  "int \<Rightarrow> string \<Rightarrow> string \<Rightarrow> string option \<Rightarrow> string \<Rightarrow> string \<Rightarrow> string \<Rightarrow> string
    \<Rightarrow> string option \<Rightarrow> (string \<times> js_value) list option \<Rightarrow> id_store \<Rightarrow> id_store" where
  "audit now random actorType actorRef action aggregateType aggregateRef outcome requestId details s =
     appendAudit \<lparr>au_eventRef = ''vey_audit_'' @ random, au_actorType = actorType, au_actorRef = actorRef,
       au_action = action, au_aggregateType = aggregateType, au_aggregateRef = aggregateRef,
       au_outcome = outcome, au_requestId = requestId, au_details = details, au_occurredAt = now\<rparr> s"

definition authenticateClient :: "id_env \<Rightarrow> string \<Rightarrow> string option \<Rightarrow> id_store \<Rightarrow> oauth_client result" where
  "authenticateClient env clientId clientSecret s = (case getClient clientId s of
     None \<Rightarrow> Inl (JsTypeError ''invalid_client'')
   | Some client \<Rightarrow>
       (if cl_status client \<noteq> ClientActive then Inl (JsTypeError ''invalid_client'')
        else if cl_clientType client = ConfidentialClient then
          (case (truthy_opt clientSecret, truthy_opt (cl_clientSecretHash client)) of
             (Some secret, Some hash) \<Rightarrow>
               (if safeEqualHex hash (ev_sha256 env secret) then Inr client
                else Inl (JsTypeError ''client_authentication_failed''))
           | _ \<Rightarrow> Inl (JsTypeError ''client_authentication_failed''))
        else Inr client))"

subsection \<open>The service and its description\<close>

text \<open>The constructor: the issuer is normalised and loses a final slash.\<close>

definition VeygritIdService :: "id_env \<Rightarrow> id_env result" where
  "VeygritIdService options =
     sbind (normalizeUrl options (ev_issuer options)) (\<lambda>u.
       if length (ev_pairwiseSubjectSecret options) < 32 \<or> length (ev_providerSubjectPepper options) < 32
       then Inl (JsTypeError ''identity_peppers_must_be_at_least_32_characters'')
       else Inr (options\<lparr>ev_issuer := (if u \<noteq> [] \<and> last u = CHR ''/'' then butlast u else u)\<rparr>))"

definition discovery :: "id_env \<Rightarrow> js_value" where
  "discovery env = JObj
     [(''issuer'', JStr (ev_issuer env)),
      (''authorization_endpoint'', JStr (ev_issuer env @ ''/veygrit/oauth/authorize'')),
      (''token_endpoint'', JStr (ev_issuer env @ ''/veygrit/oauth/token'')),
      (''userinfo_endpoint'', JStr (ev_issuer env @ ''/veygrit/oauth/userinfo'')),
      (''revocation_endpoint'', JStr (ev_issuer env @ ''/veygrit/oauth/revoke'')),
      (''introspection_endpoint'', JStr (ev_issuer env @ ''/veygrit/oauth/introspect'')),
      (''jwks_uri'', JStr (ev_issuer env @ ''/.well-known/jwks.json'')),
      (''response_types_supported'', JArr [JStr ''code'']),
      (''grant_types_supported'', JArr [JStr ''authorization_code'', JStr ''refresh_token'']),
      (''subject_types_supported'', JArr [JStr ''pairwise'']),
      (''id_token_signing_alg_values_supported'', JArr [JStr ''EdDSA'']),
      (''code_challenge_methods_supported'', JArr [JStr ''S256'']),
      (''scopes_supported'', JArr [JStr ''openid'', JStr ''profile'', JStr ''address_wallet'',
         JStr ''friend_delivery:request''])]"

definition jwks :: "id_env \<Rightarrow> js_value" where
  "jwks env = JObj [(''keys'', JArr [ev_publicJwk env])]"

subsection \<open>Clients and authorization requests\<close>

fun map_result :: "('a \<Rightarrow> 'b result) \<Rightarrow> 'a list \<Rightarrow> 'b list result" where
  "map_result f [] = Inr []"
| "map_result f (x # xs) = sbind (f x) (\<lambda>y. sbind (map_result f xs) (\<lambda>ys. Inr (y # ys)))"

text \<open>The status is the one part of the registration that may be missing; it is active then.\<close>

definition registerClient :: "id_env \<Rightarrow> oauth_client \<Rightarrow> client_status option \<Rightarrow> id_store \<Rightarrow> unit answer" where
  "registerClient env client status s =
     (case map_result (normalizeUrl env) (cl_redirectUris client) of Inl e \<Rightarrow> (Inl e, s) | Inr redirectUris \<Rightarrow>
      (case map_result (normalizedOrigin env) (cl_allowedOrigins client) of Inl e \<Rightarrow> (Inl e, s) | Inr allowedOrigins \<Rightarrow>
        (if cl_clientId client = [] \<or> cl_displayName client = [] \<or> cl_sectorIdentifier client = [] \<or> redirectUris = []
         then throw ''invalid_client_registration'' s
         else if cl_clientType client = ConfidentialClient \<and> truthy_opt (cl_clientSecretHash client) = None
         then throw ''confidential_client_secret_hash_required'' s
         else (Inr (), saveClient (client\<lparr>cl_redirectUris := redirectUris, cl_allowedOrigins := allowedOrigins,
           cl_allowedScopes := js_uniq (cl_allowedScopes client),
           cl_status := (case status of None \<Rightarrow> ClientActive | Some st \<Rightarrow> st)\<rparr>) s))))"

record start_input =
  si_clientId :: string
  si_redirectUri :: string
  si_origin :: "string option"
  si_scope :: scope_input
  si_state :: string
  si_nonce :: string
  si_codeChallenge :: string
  si_codeChallengeMethod :: string
  si_requestId :: "string option"

text \<open>The checks of \<open>startAuthorization\<close> in their order; the answer is the redirect URI, the origin to store
  and the scopes.\<close>

definition start_checks :: "id_env \<Rightarrow> start_input \<Rightarrow> id_store \<Rightarrow> (oauth_client \<times> string \<times> string list) result" where
  "start_checks env i s = (case getClient (si_clientId i) s of
     None \<Rightarrow> Inl (JsTypeError ''invalid_client'')
   | Some client \<Rightarrow>
      (if cl_status client \<noteq> ClientActive then Inl (JsTypeError ''invalid_client'')
       else sbind (normalizeUrl env (si_redirectUri i)) (\<lambda>redirectUri.
         if redirectUri \<notin> set (cl_redirectUris client) then Inl (JsTypeError ''redirect_uri_not_allowed'')
         else sbind (case truthy_opt (si_origin i) of
              None \<Rightarrow> Inr ()
            | Some o' \<Rightarrow> sbind (normalizedOrigin env o') (\<lambda>origin.
                if origin \<notin> set (cl_allowedOrigins client) then Inl (JsTypeError ''origin_not_allowed'') else Inr ()))
          (\<lambda>_. sbind (uniqueScopes (si_scope i)) (\<lambda>scopes.
            if list_ex (\<lambda>scope. scope \<notin> set (cl_allowedScopes client)) scopes
            then Inl (JsTypeError ''scope_not_allowed'')
            else if length (si_state i) < 16 \<or> length (si_nonce i) < 16
            then Inl (JsTypeError ''state_and_nonce_too_short'')
            else if si_codeChallengeMethod i \<noteq> ''S256'' \<or> \<not> challenge_ok (si_codeChallenge i)
            then Inl (JsTypeError ''pkce_s256_required'')
            else Inr (client, redirectUri, scopes))))))"

definition stored_origin :: "id_env \<Rightarrow> string option \<Rightarrow> string option result" where
  "stored_origin env o' = (case truthy_opt o' of
     None \<Rightarrow> Inr None | Some v \<Rightarrow> sbind (urlOrigin env v) (\<lambda>origin. Inr (Some origin)))"

record started =
  sd_requestRef :: string
  sd_continueUrl :: string
  sd_expiresAt :: int

definition startAuthorization :: "id_env \<Rightarrow> int \<Rightarrow> randoms \<Rightarrow> start_input \<Rightarrow> id_store \<Rightarrow> started answer" where
  "startAuthorization env now rnd i s = (case start_checks env i s of
     Inl e \<Rightarrow> (Inl e, s)
   | Inr (client, redirectUri, scopes) \<Rightarrow> (case stored_origin env (si_origin i) of
       Inl e \<Rightarrow> (Inl e, s)
     | Inr origin \<Rightarrow>
       (let requestRef = ''vey_auth_req_'' @ rnd 0;
            request = \<lparr>rq_requestRef = requestRef, rq_clientId = cl_clientId client, rq_redirectUri = redirectUri,
              rq_origin = origin, rq_scopes = scopes, rq_stateHash = ev_sha256 env (si_state i),
              rq_nonceHash = ev_sha256 env (si_nonce i), rq_nonce = si_nonce i,
              rq_pkceChallenge = si_codeChallenge i, rq_status = Pending, rq_createdAt = now,
              rq_expiresAt = now + or_default (ev_authorizationRequestTtl env) 600 * 1000\<rparr>;
            s1 = saveAuthorizationRequest request s;
            s2 = audit now (rnd 1) ''client'' (Some (cl_clientId client)) ''authorization.started''
              ''authorization_request'' requestRef ''success'' (si_requestId i)
              (Some [(''scopes'', JArr (map JStr scopes))]) s1
        in (Inr \<lparr>sd_requestRef = requestRef,
              sd_continueUrl = ev_issuer env @ ''/veygrit/login?request_ref='' @ requestRef,
              sd_expiresAt = rq_expiresAt request\<rparr>, s2))))"

subsection \<open>Sessions and approval\<close>

text \<open>The provider as the text the caller gives; \<open>si_authenticatedAt\<close> is the result of \<open>Date.parse\<close>. The hash
  of the e-mail address goes to the store, whose in-memory version does not keep it.\<close>

record social_identity =
  so_provider :: string
  so_providerSubject :: string
  so_emailVerified :: bool
  so_authenticatedAt :: "int option"
  so_verification :: string

definition socialProvider :: "string \<Rightarrow> social_provider option" where
  "socialProvider t = (if t = ''google'' then Some Google else if t = ''apple'' then Some Apple else None)"

record session_started =
  sn_sessionRef :: string
  sn_sessionToken :: string
  sn_expiresAt :: int
  sn_provider :: social_provider

definition establishSocialSession ::
  "id_env \<Rightarrow> int \<Rightarrow> randoms \<Rightarrow> social_identity \<Rightarrow> string option \<Rightarrow> id_store \<Rightarrow> session_started answer" where
  "establishSocialSession env now rnd identity requestId s = (case socialProvider (so_provider identity) of
     None \<Rightarrow> throw ''unsupported_social_provider'' s
   | Some provider \<Rightarrow>
      (if so_verification identity \<noteq> ''provider-jwks-verified'' then throw ''unverified_social_identity'' s
       else case so_authenticatedAt identity of
         None \<Rightarrow> throw ''invalid_social_identity'' s
       | Some authTime \<Rightarrow>
         (if so_providerSubject identity = [] then throw ''invalid_social_identity'' s
          else (let providerSubjectHash = ev_hmac_hex env (ev_providerSubjectPepper env)
                  (provider_text provider @ CHR 0x00 # so_providerSubject identity)
            in case findOrCreateSubject provider providerSubjectHash (''vey_subject_'' @ rnd 0) s of
              (None, s1) \<Rightarrow> throw ''subject_not_active'' s1
            | (Some subject, s1) \<Rightarrow>
               (if sj_status subject \<noteq> SubjectActive then throw ''subject_not_active'' s1
                else (let token = opaque env ''vey_session'' (rnd 1) (rnd 2);
                  session = \<lparr>ss_sessionRef = ''vey_session_'' @ rnd 2, ss_sessionTokenHash = op_hash token,
                    ss_subjectRef = sj_subjectRef subject, ss_provider = Social provider, ss_authTime = authTime,
                    ss_expiresAt = now + or_default (ev_sessionTtl env) 43200 * 1000, ss_revokedAt = None\<rparr>;
                  s2 = saveSession session s1;
                  s3 = audit now (rnd 3) ''subject'' (Some (sj_subjectRef subject)) ''session.created'' ''session''
                    (ss_sessionRef session) ''success'' requestId
                    (Some [(''provider'', JStr (provider_text provider))]) s2
                in (Inr \<lparr>sn_sessionRef = ss_sessionRef session, sn_sessionToken = op_secret token,
                      sn_expiresAt = ss_expiresAt session, sn_provider = provider\<rparr>, s3)))))))"

definition verifyAuthorizationRequestState ::
  "id_env \<Rightarrow> int \<Rightarrow> string \<Rightarrow> string \<Rightarrow> id_store \<Rightarrow> (string \<times> string) result" where
  "verifyAuthorizationRequestState env now requestRef state s = (case getAuthorizationRequest requestRef s of
     None \<Rightarrow> Inl (JsTypeError ''authorization_request_not_pending'')
   | Some request \<Rightarrow>
      (if rq_status request \<noteq> Pending \<or> rq_expiresAt request \<le> now
       then Inl (JsTypeError ''authorization_request_not_pending'')
       else if \<not> safeEqualHex (rq_stateHash request) (ev_sha256 env state)
       then Inl (JsTypeError ''state_mismatch'')
       else Inr (rq_clientId request, rq_requestRef request)))"

definition CONSENT_SCOPES :: "string list" where
  "CONSENT_SCOPES = [''address_wallet'', ''friend_delivery:request'']"

record approve_input =
  ap_requestRef :: string
  ap_sessionToken :: string
  ap_state :: string
  ap_walletConsentRef :: "string option"
  ap_requestId :: "string option"

text \<open>The checks of \<open>approveAuthorization\<close>; the answer is the request, the session and the client.\<close>

definition approve_checks ::
  "id_env \<Rightarrow> int \<Rightarrow> approve_input \<Rightarrow> id_store \<Rightarrow> (auth_request \<times> identity_session \<times> oauth_client) result" where
  "approve_checks env now i s = (case getAuthorizationRequest (ap_requestRef i) s of
     None \<Rightarrow> Inl (JsTypeError ''authorization_request_not_pending'')
   | Some request \<Rightarrow>
      (if rq_status request \<noteq> Pending then Inl (JsTypeError ''authorization_request_not_pending'')
       else if rq_expiresAt request \<le> now then Inl (JsTypeError ''authorization_request_expired'')
       else if \<not> safeEqualHex (rq_stateHash request) (ev_sha256 env (ap_state i))
       then Inl (JsTypeError ''state_mismatch'')
       else case findSessionByTokenHash (ev_sha256 env (ap_sessionToken i)) s of
         None \<Rightarrow> Inl (JsTypeError ''session_invalid'')
       | Some session \<Rightarrow>
          (if ss_revokedAt session \<noteq> None \<or> ss_expiresAt session \<le> now then Inl (JsTypeError ''session_invalid'')
           else case getClient (rq_clientId request) s of
             None \<Rightarrow> Inl (JsTypeError ''client_not_found'')
           | Some client \<Rightarrow>
              (if list_ex (\<lambda>scope. scope \<in> set CONSENT_SCOPES) (rq_scopes request)
                  \<and> truthy_opt (ap_walletConsentRef i) = None
               then Inl (JsTypeError ''wallet_consent_required'')
               else Inr (request, session, client)))))"

record approval =
  av_redirectUri :: string
  av_authorizationCode :: string
  av_expiresIn :: int

definition approveAuthorization :: "id_env \<Rightarrow> int \<Rightarrow> randoms \<Rightarrow> approve_input \<Rightarrow> id_store \<Rightarrow> approval answer" where
  "approveAuthorization env now rnd i s = (case approve_checks env now i s of
     Inl e \<Rightarrow> (Inl e, s)
   | Inr (request, session, client) \<Rightarrow>
      (let digest = ev_hmac_b64 env (ev_pairwiseSubjectSecret env)
             (ss_subjectRef session @ CHR 0x00 # cl_sectorIdentifier client)
       in case getOrCreatePairwiseSubject (ss_subjectRef session) (cl_clientId client) (''pairwise_'' @ digest) s of
         (pairwiseSubjectAlias, s1) \<Rightarrow>
           (let code = opaque env ''vey_code'' (rnd 0) (rnd 1);
                s2 = saveAuthorizationCode \<lparr>ac_codeRef = op_ref code, ac_codeHash = op_hash code,
                  ac_requestRef = rq_requestRef request, ac_clientId = cl_clientId client,
                  ac_pairwiseSubjectAlias = pairwiseSubjectAlias, ac_subjectRef = ss_subjectRef session,
                  ac_sessionRef = ss_sessionRef session, ac_authTime = ss_authTime session,
                  ac_redirectUri = rq_redirectUri request, ac_scopes = rq_scopes request,
                  ac_nonce = rq_nonce request, ac_pkceChallenge = rq_pkceChallenge request,
                  ac_walletConsentRef = ap_walletConsentRef i,
                  ac_expiresAt = now + or_default (ev_authorizationCodeTtl env) 120 * 1000,
                  ac_consumedAt = None\<rparr> s1;
                s3 = updateAuthorizationRequest (request\<lparr>rq_status := Approved\<rparr>) s2;
                s4 = audit now (rnd 2) ''subject'' (Some (ss_subjectRef session)) ''authorization.approved''
                  ''authorization_request'' (rq_requestRef request) ''success'' (ap_requestId i)
                  (Some [(''clientId'', JStr (cl_clientId client))]) s3
            in (Inr \<lparr>av_redirectUri = ev_callbackUrl env (rq_redirectUri request) (op_secret code) (ap_state i),
                  av_authorizationCode = op_secret code,
                  av_expiresIn = or_default (ev_authorizationCodeTtl env) 120\<rparr>, s4))))"

subsection \<open>Tokens\<close>

record token_response =
  tr_access_token :: string
  tr_expires_in :: int
  tr_refresh_token :: string
  tr_refresh_expires_in :: int
  tr_id_token :: "string option"
  tr_scope :: string

definition access_ttl :: "id_env \<Rightarrow> int" where "access_ttl env = or_default (ev_accessTokenTtl env) 900"
definition refresh_ttl :: "id_env \<Rightarrow> int" where "refresh_ttl env = or_default (ev_refreshTokenTtl env) 2592000"

definition issueTokenFamily :: "id_env \<Rightarrow> int \<Rightarrow> randoms \<Rightarrow> auth_code \<Rightarrow> string option \<Rightarrow> id_store \<Rightarrow> token_response answer" where
  "issueTokenFamily env now rnd code requestId s =
     (let family = \<lparr>tf_familyRef = ''vey_token_family_'' @ rnd 0, tf_clientId = ac_clientId code,
            tf_pairwiseSubjectAlias = ac_pairwiseSubjectAlias code, tf_subjectRef = ac_subjectRef code,
            tf_scopes = ac_scopes code, tf_status = FamilyActive\<rparr>;
          access = opaque env ''vey_access'' (rnd 1) (rnd 2);
          refresh = opaque env ''vey_refresh'' (rnd 3) (rnd 4);
          accessExpiresAt = now + access_ttl env * 1000;
          refreshExpiresAt = now + refresh_ttl env * 1000;
          s1 = saveTokenFamily family s;
          s2 = saveAccessToken \<lparr>at_tokenRef = op_ref access, at_tokenHash = op_hash access,
            at_familyRef = tf_familyRef family, at_issuedAt = now, at_expiresAt = accessExpiresAt,
            at_revokedAt = None\<rparr> s1;
          s3 = saveRefreshToken \<lparr>rt_tokenRef = op_ref refresh, rt_tokenHash = op_hash refresh,
            rt_familyRef = tf_familyRef family, rt_rotationCounter = 0, rt_issuedAt = now,
            rt_expiresAt = refreshExpiresAt, rt_consumedAt = None, rt_replacedByRef = None\<rparr> s2;
          idToken = ev_sign env (JObj [(''iss'', JStr (ev_issuer env)),
            (''sub'', JStr (tf_pairwiseSubjectAlias family)), (''aud'', JStr (tf_clientId family)),
            (''iat'', JNum (epochSeconds now)), (''exp'', JNum (epochSeconds accessExpiresAt)),
            (''auth_time'', JNum (epochSeconds (ac_authTime code))), (''nonce'', JStr (ac_nonce code)),
            (''sid'', JStr (ac_sessionRef code)),
            (''address_wallet_linked'', JBool (truthy_opt (ac_walletConsentRef code) \<noteq> None))]);
          s4 = audit now (rnd 5) ''client'' (Some (tf_clientId family)) ''token.issued'' ''token_family''
            (tf_familyRef family) ''success'' requestId
            (Some [(''scopes'', JArr (map JStr (tf_scopes family)))]) s3
      in (Inr \<lparr>tr_access_token = op_secret access, tr_expires_in = access_ttl env,
            tr_refresh_token = op_secret refresh, tr_refresh_expires_in = refresh_ttl env,
            tr_id_token = Some idToken, tr_scope = string_join '' '' (tf_scopes family)\<rparr>, s4))"

record exchange_input =
  ex_code :: string
  ex_clientId :: string
  ex_redirectUri :: string
  ex_codeVerifier :: string
  ex_clientSecret :: "string option"
  ex_requestId :: "string option"

text \<open>The condition that binds a code to its client, redirect URI, verifier and time; the redirect URI is
  normalised only when the client matches, and an unreadable one throws.\<close>

definition binding_failed :: "id_env \<Rightarrow> int \<Rightarrow> exchange_input \<Rightarrow> auth_code \<Rightarrow> bool result" where
  "binding_failed env now i code =
     (if ac_clientId code \<noteq> ex_clientId i then Inr True
      else sbind (normalizeUrl env (ex_redirectUri i)) (\<lambda>uri.
        Inr (ac_redirectUri code \<noteq> uri \<or> ac_pkceChallenge code \<noteq> ev_challenge env (ex_codeVerifier i)
             \<or> ac_expiresAt code \<le> now)))"

definition exchangeAuthorizationCode ::
  "id_env \<Rightarrow> int \<Rightarrow> randoms \<Rightarrow> exchange_input \<Rightarrow> id_store \<Rightarrow> token_response answer" where
  "exchangeAuthorizationCode env now rnd i s =
     (case authenticateClient env (ex_clientId i) (ex_clientSecret i) s of
        Inl e \<Rightarrow> (Inl e, s)
      | Inr _ \<Rightarrow>
         (if \<not> verifier_ok (ex_codeVerifier i) then throw ''invalid_code_verifier'' s
          else case consumeAuthorizationCode (ev_sha256 env (ex_code i)) now s of
            (None, s1) \<Rightarrow> throw ''invalid_or_replayed_authorization_code'' s1
          | (Some code, s1) \<Rightarrow> (case binding_failed env now i code of
              Inl e \<Rightarrow> (Inl e, s1)
            | Inr True \<Rightarrow> throw ''authorization_code_binding_failed''
                (audit now (rnd 0) ''client'' (Some (ex_clientId i)) ''token.exchange'' ''authorization_code''
                  (ac_codeRef code) ''denied'' (ex_requestId i) None s1)
            | Inr False \<Rightarrow> issueTokenFamily env now rnd code (ex_requestId i) s1)))"

record refresh_input =
  ri_refreshToken :: string
  ri_clientId :: string
  ri_clientSecret :: "string option"
  ri_requestId :: "string option"

text \<open>\<open>refresh\<close> up to its second access to the token: the client, the token and its family are read, and a
  token that was used before compromises the family.\<close>

definition refresh_begin ::
  "id_env \<Rightarrow> int \<Rightarrow> randoms \<Rightarrow> refresh_input \<Rightarrow> id_store \<Rightarrow> token_family answer" where
  "refresh_begin env now rnd i s =
     (case authenticateClient env (ri_clientId i) (ri_clientSecret i) s of
        Inl e \<Rightarrow> (Inl e, s)
      | Inr _ \<Rightarrow> (case findRefreshToken (ev_sha256 env (ri_refreshToken i)) s of
          None \<Rightarrow> throw ''invalid_refresh_token'' s
        | Some existing \<Rightarrow> (case getTokenFamily (rt_familyRef existing) s of
            None \<Rightarrow> throw ''refresh_token_inactive'' s
          | Some family \<Rightarrow>
             (if tf_clientId family \<noteq> ri_clientId i \<or> tf_status family \<noteq> FamilyActive \<or> rt_expiresAt existing \<le> now
              then throw ''refresh_token_inactive'' s
              else if rt_consumedAt existing \<noteq> None
              then throw ''refresh_token_reuse_detected''
                (audit now (rnd 0) ''client'' (Some (ri_clientId i)) ''refresh.reuse_detected'' ''token_family''
                  (tf_familyRef family) ''denied'' (ri_requestId i) None
                  (revokeFamily (tf_familyRef family) FamilyCompromised s))
              else (Inr family, s)))))"

text \<open>The rest of \<open>refresh\<close>, which may run after other requests: the token is consumed, and when another
  request was faster the family is compromised.\<close>

definition refresh_finish ::
  "id_env \<Rightarrow> int \<Rightarrow> randoms \<Rightarrow> refresh_input \<Rightarrow> token_family \<Rightarrow> id_store \<Rightarrow> token_response answer" where
  "refresh_finish env now rnd i family s =
     (let replacement = opaque env ''vey_refresh'' (rnd 0) (rnd 1)
      in case consumeRefreshToken (ev_sha256 env (ri_refreshToken i)) now (op_ref replacement) s of
        (None, s1) \<Rightarrow> throw ''refresh_token_replay_race''
          (audit now (rnd 2) ''client'' (Some (ri_clientId i)) ''refresh.replay_race'' ''token_family''
            (tf_familyRef family) ''denied'' (ri_requestId i) None
            (revokeFamily (tf_familyRef family) FamilyCompromised s1))
      | (Some consumed, s1) \<Rightarrow>
         (let access = opaque env ''vey_access'' (rnd 2) (rnd 3);
              s2 = saveAccessToken \<lparr>at_tokenRef = op_ref access, at_tokenHash = op_hash access,
                at_familyRef = tf_familyRef family, at_issuedAt = now, at_expiresAt = now + access_ttl env * 1000,
                at_revokedAt = None\<rparr> s1;
              s3 = saveRefreshToken \<lparr>rt_tokenRef = op_ref replacement, rt_tokenHash = op_hash replacement,
                rt_familyRef = tf_familyRef family, rt_rotationCounter = rt_rotationCounter consumed + 1,
                rt_issuedAt = now, rt_expiresAt = now + refresh_ttl env * 1000, rt_consumedAt = None,
                rt_replacedByRef = None\<rparr> s2;
              s4 = audit now (rnd 4) ''client'' (Some (ri_clientId i)) ''refresh.rotated'' ''token_family''
                (tf_familyRef family) ''success'' (ri_requestId i)
                (Some [(''rotationCounter'', JNum (rt_rotationCounter consumed + 1))]) s3
          in (Inr \<lparr>tr_access_token = op_secret access, tr_expires_in = access_ttl env,
                tr_refresh_token = op_secret replacement, tr_refresh_expires_in = refresh_ttl env,
                tr_id_token = None, tr_scope = string_join '' '' (tf_scopes family)\<rparr>, s4)))"

definition refresh :: "id_env \<Rightarrow> int \<Rightarrow> randoms \<Rightarrow> refresh_input \<Rightarrow> id_store \<Rightarrow> token_response answer" where
  "refresh env now rnd i s = (case refresh_begin env now rnd i s of
     (Inl e, s1) \<Rightarrow> (Inl e, s1)
   | (Inr family, s1) \<Rightarrow> refresh_finish env now rnd i family s1)"

subsection \<open>Introspection and revocation\<close>

record introspection =
  is_client_id :: string
  is_sub :: string
  is_scope :: string
  is_exp :: int

text \<open>\<open>None\<close> is \<open>{ active: false }\<close>.\<close>

definition introspect :: "id_env \<Rightarrow> int \<Rightarrow> string \<Rightarrow> id_store \<Rightarrow> introspection option" where
  "introspect env now accessToken s = (case findAccessToken (ev_sha256 env accessToken) s of
     None \<Rightarrow> None
   | Some token \<Rightarrow>
      (if at_revokedAt token \<noteq> None \<or> at_expiresAt token \<le> now then None
       else case getTokenFamily (at_familyRef token) s of
         None \<Rightarrow> None
       | Some family \<Rightarrow>
          (if tf_status family \<noteq> FamilyActive then None
           else Some \<lparr>is_client_id = tf_clientId family, is_sub = tf_pairwiseSubjectAlias family,
             is_scope = string_join '' '' (tf_scopes family), is_exp = epochSeconds (at_expiresAt token)\<rparr>)))"

definition introspectForClient ::
  "id_env \<Rightarrow> int \<Rightarrow> string \<Rightarrow> string \<Rightarrow> string option \<Rightarrow> id_store \<Rightarrow> introspection option result" where
  "introspectForClient env now accessToken clientId clientSecret s =
     sbind (authenticateClient env clientId clientSecret s) (\<lambda>_.
       Inr (case introspect env now accessToken s of
         None \<Rightarrow> None
       | Some r \<Rightarrow> (if is_client_id r \<noteq> clientId then None else Some r)))"

text \<open>The family of an access token or, if it is none, of a refresh token.\<close>

definition family_of_token :: "id_env \<Rightarrow> string \<Rightarrow> id_store \<Rightarrow> string option" where
  "family_of_token env token s =
     (let tokenHash = ev_sha256 env token
      in case findAccessToken tokenHash s of
        Some access \<Rightarrow> Some (at_familyRef access)
      | None \<Rightarrow> map_option rt_familyRef (findRefreshToken tokenHash s))"

definition unknown_or :: "string option \<Rightarrow> string" where
  "unknown_or v = (case v of None \<Rightarrow> ''unknown'' | Some r \<Rightarrow> r)"

definition revoke :: "id_env \<Rightarrow> int \<Rightarrow> randoms \<Rightarrow> string \<Rightarrow> string option \<Rightarrow> id_store \<Rightarrow> unit answer" where
  "revoke env now rnd token requestId s =
     (let familyRef = truthy_opt (family_of_token env token s);
          s1 = (case familyRef of None \<Rightarrow> s | Some r \<Rightarrow> revokeFamily r FamilyRevoked s)
      in (Inr (), audit now (rnd 0) ''system'' None ''token.revoked'' ''token_family''
            (unknown_or (family_of_token env token s)) ''success'' requestId None s1))"

definition revokeForClient ::
  "id_env \<Rightarrow> int \<Rightarrow> randoms \<Rightarrow> string \<Rightarrow> string \<Rightarrow> string option \<Rightarrow> string option \<Rightarrow> id_store \<Rightarrow> unit answer" where
  "revokeForClient env now rnd token clientId clientSecret requestId s =
     (case authenticateClient env clientId clientSecret s of
        Inl e \<Rightarrow> (Inl e, s)
      | Inr _ \<Rightarrow>
         (let familyRef = truthy_opt (family_of_token env token s);
              s1 = (case familyRef of
                 None \<Rightarrow> s
               | Some r \<Rightarrow> (case getTokenFamily r s of
                   None \<Rightarrow> s
                 | Some family \<Rightarrow> (if tf_clientId family = clientId then revokeFamily r FamilyRevoked s else s)))
          in (Inr (), audit now (rnd 0) ''client'' (Some clientId) ''token.revoked'' ''token_family''
                (unknown_or (family_of_token env token s)) ''success'' requestId None s1)))"

subsection \<open>Navigation handoffs\<close>

fun surface_text :: "veygrit_surface \<Rightarrow> string" where
  "surface_text AddressWallet = ''address-wallet''"
| "surface_text VeygritStore = ''veygrit-store''"
| "surface_text VeygritShip = ''veygrit-ship''"

record handoff_input =
  hi_accessToken :: string
  hi_source :: veygrit_surface
  hi_target :: veygrit_surface
  hi_returnPath :: string
  hi_requestId :: "string option"

record handoff_started =
  hs_handoffToken :: string
  hs_expiresAt :: int
  hs_target :: veygrit_surface

definition createNavigationHandoff ::
  "id_env \<Rightarrow> int \<Rightarrow> randoms \<Rightarrow> handoff_input \<Rightarrow> id_store \<Rightarrow> handoff_started answer" where
  "createNavigationHandoff env now rnd i s =
     (if hi_source i = hi_target i then throw ''source_and_target_must_differ'' s
      else case introspect env now (hi_accessToken i) s of
        None \<Rightarrow> throw ''access_token_invalid'' s
      | Some claims \<Rightarrow>
         (if is_sub claims = [] then throw ''access_token_invalid'' s
          else case relativePath (hi_returnPath i) of
            Inl e \<Rightarrow> (Inl e, s)
          | Inr returnPath \<Rightarrow>
             (let handoff = opaque env ''nav_handoff'' (rnd 0) (rnd 1);
                  record' = \<lparr>nh_handoffRef = op_ref handoff, nh_tokenHash = op_hash handoff,
                    nh_pairwiseSubjectAlias = is_sub claims, nh_source = hi_source i, nh_target = hi_target i,
                    nh_returnPath = returnPath,
                    nh_expiresAt = now + or_default (ev_navigationHandoffTtl env) 120 * 1000, nh_consumedAt = None\<rparr>;
                  s1 = saveNavigationHandoff record' s;
                  s2 = audit now (rnd 2) ''subject'' (Some (is_sub claims)) ''navigation_handoff.created''
                    ''navigation_handoff'' (nh_handoffRef record') ''success'' (hi_requestId i)
                    (Some [(''source'', JStr (surface_text (hi_source i))), (''target'', JStr (surface_text (hi_target i)))]) s1
              in (Inr \<lparr>hs_handoffToken = op_secret handoff, hs_expiresAt = nh_expiresAt record',
                    hs_target = nh_target record'\<rparr>, s2))))"

record handoff_result =
  hr_pairwiseSubjectAlias :: string
  hr_source :: veygrit_surface
  hr_target :: veygrit_surface
  hr_returnPath :: string

definition consumeNavigationHandoff ::
  "id_env \<Rightarrow> int \<Rightarrow> randoms \<Rightarrow> string \<Rightarrow> string option \<Rightarrow> id_store \<Rightarrow> handoff_result answer" where
  "consumeNavigationHandoff env now rnd handoffToken requestId s =
     (case storeConsumeNavigationHandoff (ev_sha256 env handoffToken) now s of
        (None, s1) \<Rightarrow> throw ''navigation_handoff_invalid_or_replayed'' s1
      | (Some record', s1) \<Rightarrow>
         (if nh_expiresAt record' \<le> now then throw ''navigation_handoff_invalid_or_replayed'' s1
          else (Inr \<lparr>hr_pairwiseSubjectAlias = nh_pairwiseSubjectAlias record', hr_source = nh_source record',
                  hr_target = nh_target record', hr_returnPath = nh_returnPath record'\<rparr>,
                audit now (rnd 0) ''subject'' (Some (nh_pairwiseSubjectAlias record')) ''navigation_handoff.consumed''
                  ''navigation_handoff'' (nh_handoffRef record') ''success'' requestId None s1)))"

end
