(* ===== verification/Veygrit_Id_Steps.thy ===== *)
theory Veygrit_Id_Steps
  imports Veygrit_Id_Service
begin

section \<open>The identity service as a state machine\<close>

text \<open>
  The service is run by the requests it serves, in any order and number; \<open>refresh\<close> is two steps, so that
  other requests can come between its reads and its writes. The only assumption about the random source is
  that a new secret or reference is not in use already. Each step has one of a few effects on the requests,
  codes, families and tokens, and the guarantees are proved over these effects.
\<close>

subsection \<open>Steps\<close>

inductive id_step :: "id_env \<Rightarrow> id_store \<Rightarrow> id_store \<Rightarrow> bool" for env where
  register: "id_step env s (snd (registerClient env c st s))"
| start: "getAuthorizationRequest (''vey_auth_req_'' @ rnd 0) s = None
    \<Longrightarrow> id_step env s (snd (startAuthorization env now rnd i s))"
| session: "id_step env s (snd (establishSocialSession env now rnd identity requestId s))"
| approve: "findAuthorizationCode (op_hash (opaque env ''vey_code'' (rnd 0) (rnd 1))) s = None
    \<Longrightarrow> id_step env s (snd (approveAuthorization env now rnd ap s))"
| exchange: "getTokenFamily (''vey_token_family_'' @ rnd 0) s = None
    \<Longrightarrow> findAccessToken (op_hash (opaque env ''vey_access'' (rnd 1) (rnd 2))) s = None
    \<Longrightarrow> findRefreshToken (op_hash (opaque env ''vey_refresh'' (rnd 3) (rnd 4))) s = None
    \<Longrightarrow> id_step env s (snd (exchangeAuthorizationCode env now rnd ex s))"
| refresh_begin: "id_step env s (snd (refresh_begin env now rnd ri s))"
| refresh_finish: "findRefreshToken (ev_sha256 env (ri_refreshToken ri)) s = Some token
    \<Longrightarrow> getTokenFamily (rt_familyRef token) s \<noteq> None \<Longrightarrow> tf_familyRef family = rt_familyRef token
    \<Longrightarrow> findAccessToken (op_hash (opaque env ''vey_access'' (rnd 2) (rnd 3))) s = None
    \<Longrightarrow> findRefreshToken (op_hash (opaque env ''vey_refresh'' (rnd 0) (rnd 1))) s = None
    \<Longrightarrow> id_step env s (snd (refresh_finish env now rnd ri family s))"
| revoke: "id_step env s (snd (revoke env now rnd t requestId s))"
| revoke_client: "id_step env s (snd (revokeForClient env now rnd t clientId secret requestId s))"
| handoff: "findNavigationHandoff (op_hash (opaque env ''nav_handoff'' (rnd 0) (rnd 1))) s = None
    \<Longrightarrow> id_step env s (snd (createNavigationHandoff env now rnd hi s))"
| consume_handoff: "id_step env s (snd (consumeNavigationHandoff env now rnd t requestId s))"

abbreviation id_run :: "id_env \<Rightarrow> id_store \<Rightarrow> id_store \<Rightarrow> bool" where
  "id_run env \<equiv> (id_step env)\<^sup>*\<^sup>*"

definition id_reachable :: "id_env \<Rightarrow> id_store \<Rightarrow> bool" where
  "id_reachable env s \<longleftrightarrow> id_run env empty_id_store s"

subsection \<open>Effects\<close>

text \<open>The part of the store the guarantees are about.\<close>

record id_core =
  co_clients :: "string \<Rightarrow> oauth_client option"
  co_requests :: "string \<Rightarrow> auth_request option"
  co_codes :: "string \<Rightarrow> auth_code option"
  co_families :: "string \<Rightarrow> token_family option"
  co_access :: "string \<Rightarrow> access_token option"
  co_refresh :: "string \<Rightarrow> refresh_token option"
  co_handoffs :: "string \<Rightarrow> nav_handoff option"

definition core :: "id_store \<Rightarrow> id_core" where
  "core s = \<lparr>co_clients = map_of (st_clients s), co_requests = map_of (st_requests s), co_codes = map_of (st_codes s), co_families = map_of (st_families s),
     co_access = map_of (st_access s), co_refresh = map_of (st_refreshTokens s), co_handoffs = map_of (st_handoffs s)\<rparr>"

definition consent_ok :: "string list \<Rightarrow> string option \<Rightarrow> bool" where
  "consent_ok scopes consent \<longleftrightarrow> (\<forall>scope \<in> set scopes. scope \<in> set CONSENT_SCOPES \<longrightarrow> truthy_opt consent \<noteq> None)"

text \<open>A code carries what its request asked for.\<close>

definition code_of_request :: "auth_code \<Rightarrow> auth_request \<Rightarrow> bool" where
  "code_of_request c q \<longleftrightarrow> ac_requestRef c = rq_requestRef q \<and> ac_clientId c = rq_clientId q
     \<and> ac_redirectUri c = rq_redirectUri q \<and> ac_scopes c = rq_scopes q \<and> ac_pkceChallenge c = rq_pkceChallenge q
     \<and> ac_nonce c = rq_nonce q"

inductive id_effect :: "id_core \<Rightarrow> id_core \<Rightarrow> bool" where
  nothing: "id_effect k k"
| new_client: "id_effect k (k\<lparr>co_clients := (co_clients k)(cl_clientId cl \<mapsto> cl)\<rparr>)"
| new_request: "co_requests k (rq_requestRef q) = None \<Longrightarrow> rq_status q = Pending \<Longrightarrow> ''openid'' \<in> set (rq_scopes q)
    \<Longrightarrow> id_effect k (k\<lparr>co_requests := (co_requests k)(rq_requestRef q \<mapsto> q)\<rparr>)"
| new_code: "co_requests k r = Some q \<Longrightarrow> rq_status q = Pending \<Longrightarrow> co_codes k (ac_codeHash c) = None
    \<Longrightarrow> code_of_request c q \<Longrightarrow> ac_consumedAt c = None \<Longrightarrow> consent_ok (ac_scopes c) (ac_walletConsentRef c)
    \<Longrightarrow> id_effect k (k\<lparr>co_requests := (co_requests k)(rq_requestRef q \<mapsto> q\<lparr>rq_status := Approved\<rparr>),
          co_codes := (co_codes k)(ac_codeHash c \<mapsto> c)\<rparr>)"
| burn_code: "co_codes k h = Some c \<Longrightarrow> ac_consumedAt c = None
    \<Longrightarrow> id_effect k (k\<lparr>co_codes := (co_codes k)(h \<mapsto> c\<lparr>ac_consumedAt := Some t\<rparr>)\<rparr>)"
| new_family: "co_codes k h = Some c \<Longrightarrow> ac_consumedAt c = None
    \<Longrightarrow> co_families k (tf_familyRef f) = None \<Longrightarrow> co_access k (at_tokenHash a) = None
    \<Longrightarrow> co_refresh k (rt_tokenHash b) = None \<Longrightarrow> tf_clientId f = ac_clientId c
    \<Longrightarrow> tf_pairwiseSubjectAlias f = ac_pairwiseSubjectAlias c \<Longrightarrow> tf_scopes f = ac_scopes c
    \<Longrightarrow> at_familyRef a = tf_familyRef f \<Longrightarrow> rt_familyRef b = tf_familyRef f \<Longrightarrow> rt_consumedAt b = None
    \<Longrightarrow> id_effect k (k\<lparr>co_codes := (co_codes k)(h \<mapsto> c\<lparr>ac_consumedAt := Some t\<rparr>),
          co_families := (co_families k)(tf_familyRef f \<mapsto> f), co_access := (co_access k)(at_tokenHash a \<mapsto> a),
          co_refresh := (co_refresh k)(rt_tokenHash b \<mapsto> b)\<rparr>)"
| kill_family: "co_families k r = Some f \<Longrightarrow> st \<noteq> FamilyActive
    \<Longrightarrow> id_effect k (k\<lparr>co_families := (co_families k)(r \<mapsto> f\<lparr>tf_status := st\<rparr>)\<rparr>)"
| rotate: "co_refresh k h = Some b \<Longrightarrow> rt_consumedAt b = None \<Longrightarrow> co_families k (rt_familyRef b) \<noteq> None
    \<Longrightarrow> co_access k (at_tokenHash a) = None \<Longrightarrow> co_refresh k (rt_tokenHash b') = None
    \<Longrightarrow> at_familyRef a = rt_familyRef b \<Longrightarrow> rt_familyRef b' = rt_familyRef b \<Longrightarrow> rt_consumedAt b' = None
    \<Longrightarrow> id_effect k (k\<lparr>co_access := (co_access k)(at_tokenHash a \<mapsto> a),
          co_refresh := (co_refresh k)(h \<mapsto> b\<lparr>rt_consumedAt := Some t, rt_replacedByRef := ref\<rparr>, rt_tokenHash b' \<mapsto> b')\<rparr>)"
| new_handoff: "co_handoffs k (nh_tokenHash n) = None
    \<Longrightarrow> id_effect k (k\<lparr>co_handoffs := (co_handoffs k)(nh_tokenHash n \<mapsto> n)\<rparr>)"
| use_handoff: "co_handoffs k h = Some n \<Longrightarrow> nh_consumedAt n = None
    \<Longrightarrow> id_effect k (k\<lparr>co_handoffs := (co_handoffs k)(h \<mapsto> n\<lparr>nh_consumedAt := Some t\<rparr>)\<rparr>)"

inductive_cases id_effectE: "id_effect k k'"

lemma core_audit [simp]: "core (audit now r a b c d e f g h s) = core s"
  by (simp add: audit_def appendAudit_def core_def)

lemma core_saves [simp]:
  "core (saveClient cl s) = (core s)\<lparr>co_clients := (co_clients (core s))(cl_clientId cl \<mapsto> cl)\<rparr>"
  "core (saveSession x s) = core s"
  "core (saveAuthorizationRequest q s) = (core s)\<lparr>co_requests := (co_requests (core s))(rq_requestRef q \<mapsto> q)\<rparr>"
  "core (updateAuthorizationRequest q s) = (core s)\<lparr>co_requests := (co_requests (core s))(rq_requestRef q \<mapsto> q)\<rparr>"
  "core (saveAuthorizationCode cd s) = (core s)\<lparr>co_codes := (co_codes (core s))(ac_codeHash cd \<mapsto> cd)\<rparr>"
  "core (saveTokenFamily f s) = (core s)\<lparr>co_families := (co_families (core s))(tf_familyRef f \<mapsto> f)\<rparr>"
  "core (saveAccessToken a s) = (core s)\<lparr>co_access := (co_access (core s))(at_tokenHash a \<mapsto> a)\<rparr>"
  "core (saveRefreshToken b s) = (core s)\<lparr>co_refresh := (co_refresh (core s))(rt_tokenHash b \<mapsto> b)\<rparr>"
  "core (saveNavigationHandoff n s) = (core s)\<lparr>co_handoffs := (co_handoffs (core s))(nh_tokenHash n \<mapsto> n)\<rparr>"
  by (simp_all add: core_def saveClient_def saveSession_def saveAuthorizationRequest_def updateAuthorizationRequest_def
      saveAuthorizationCode_def saveTokenFamily_def saveAccessToken_def saveRefreshToken_def saveNavigationHandoff_def)

lemma core_lookup:
  "getClient i s = co_clients (core s) i"
  "getAuthorizationRequest r s = co_requests (core s) r"
  "findAuthorizationCode h s = co_codes (core s) h"
  "getTokenFamily r s = co_families (core s) r"
  "findAccessToken h s = co_access (core s) h"
  "findRefreshToken h s = co_refresh (core s) h"
  "findNavigationHandoff h s = co_handoffs (core s) h"
  by (simp_all add: core_def getClient_def getAuthorizationRequest_def findAuthorizationCode_def getTokenFamily_def
      findAccessToken_def findRefreshToken_def findNavigationHandoff_def)

lemma core_subject [simp]: "core (snd (findOrCreateSubject p h r s)) = core s"
  by (simp add: findOrCreateSubject_def core_def Let_def split: option.split)

lemma core_pairwise [simp]: "core (snd (getOrCreatePairwiseSubject u c a s)) = core s"
  by (simp add: getOrCreatePairwiseSubject_def core_def Let_def split: option.split)

lemma core_revoke: "core (revokeFamily r st s) = (case co_families (core s) r of None \<Rightarrow> core s
   | Some f \<Rightarrow> (core s)\<lparr>co_families := (co_families (core s))(r \<mapsto> f\<lparr>tf_status := st\<rparr>)\<rparr>)"
  by (simp add: core_def revokeFamily_def split: option.split)

lemma core_consume_code:
  "consumeAuthorizationCode h t s = (v, s') \<Longrightarrow>
    (v = None \<and> s' = s) \<or> (\<exists>c. co_codes (core s) h = Some c \<and> ac_consumedAt c = None
       \<and> v = Some (c\<lparr>ac_consumedAt := Some t\<rparr>)
       \<and> core s' = (core s)\<lparr>co_codes := (co_codes (core s))(h \<mapsto> c\<lparr>ac_consumedAt := Some t\<rparr>)\<rparr>)"
  by (auto simp: consumeAuthorizationCode_def core_def Let_def split: option.splits if_splits)

lemma core_consume_refresh:
  "consumeRefreshToken h t ref s = (v, s') \<Longrightarrow>
    (v = None \<and> s' = s) \<or> (\<exists>c. co_refresh (core s) h = Some c \<and> rt_consumedAt c = None
       \<and> v = Some (c\<lparr>rt_consumedAt := Some t, rt_replacedByRef := Some ref\<rparr>)
       \<and> core s' = (core s)\<lparr>co_refresh := (co_refresh (core s))(h \<mapsto>
            c\<lparr>rt_consumedAt := Some t, rt_replacedByRef := Some ref\<rparr>)\<rparr>)"
  by (auto simp: consumeRefreshToken_def core_def Let_def split: option.splits if_splits)

lemma core_consume_handoff:
  "storeConsumeNavigationHandoff h t s = (v, s') \<Longrightarrow>
    (v = None \<and> s' = s) \<or> (\<exists>c. co_handoffs (core s) h = Some c \<and> nh_consumedAt c = None
       \<and> v = Some (c\<lparr>nh_consumedAt := Some t\<rparr>)
       \<and> core s' = (core s)\<lparr>co_handoffs := (co_handoffs (core s))(h \<mapsto> c\<lparr>nh_consumedAt := Some t\<rparr>)\<rparr>)"
  by (auto simp: storeConsumeNavigationHandoff_def core_def Let_def split: option.splits if_splits)

lemma effect_register: "id_effect (core s) (core (snd (registerClient env c st s)))"
  by (auto simp: registerClient_def throw_def id_effect.nothing
      intro!: new_client [where cl = "c\<lparr>cl_redirectUris := _, cl_allowedOrigins := _, cl_allowedScopes := _, cl_status := _\<rparr>", simplified]
      split: sum.split)

lemma effect_session: "core (snd (establishSocialSession env now rnd identity requestId s)) = core s"
proof -
  have "core s1 = core s" if "findOrCreateSubject p h r s = (v, s1)" for p h r v s1
    using core_subject [of p h r s] that by simp
  then show ?thesis
    by (auto simp: establishSocialSession_def throw_def Let_def split: option.split prod.split)
qed

lemma uniqueScopes_openid: "uniqueScopes v = Inr scopes \<Longrightarrow> ''openid'' \<in> set scopes"
  by (auto simp: uniqueScopes_def Let_def split: if_splits)

lemma start_checks_openid: "start_checks env i s = Inr (client, uri, scopes) \<Longrightarrow> ''openid'' \<in> set scopes"
  by (auto simp: start_checks_def sbind_Inr_iff uniqueScopes_openid split: option.splits if_splits)

lemma effect_start:
  assumes "getAuthorizationRequest (''vey_auth_req_'' @ rnd 0) s = None"
  shows "id_effect (core s) (core (snd (startAuthorization env now rnd i s)))"
proof (cases "start_checks env i s")
  case (Inl e)
  then show ?thesis by (simp add: startAuthorization_def id_effect.nothing)
next
  case (Inr r)
  obtain client uri scopes where r: "r = (client, uri, scopes)" by (cases r)
  show ?thesis
  proof (cases "stored_origin env (si_origin i)")
    case (Inl e)
    with Inr r show ?thesis by (simp add: startAuthorization_def id_effect.nothing)
  next
    case Inr': (Inr origin)
    from Inr r start_checks_openid have "''openid'' \<in> set scopes" by blast
    with assms show ?thesis
      by (auto simp: startAuthorization_def Inr r Inr' Let_def core_lookup
          intro!: new_request [of _ "\<lparr>rq_requestRef = _, rq_clientId = _, rq_redirectUri = _, rq_origin = _,
            rq_scopes = _, rq_stateHash = _, rq_nonceHash = _, rq_nonce = _, rq_pkceChallenge = _, rq_status = _,
            rq_createdAt = _, rq_expiresAt = _\<rparr>", simplified])
  qed
qed

lemma approve_checks_Inr:
  assumes "approve_checks env now i s = Inr (q, session, client)"
  shows "co_requests (core s) (ap_requestRef i) = Some q" and "rq_status q = Pending"
    and "getClient (rq_clientId q) s = Some client"
    and "consent_ok (rq_scopes q) (ap_walletConsentRef i)"
    and "safeEqualHex (rq_stateHash q) (ev_sha256 env (ap_state i))" and "now < rq_expiresAt q"
  using assms
  by (auto simp: approve_checks_def core_lookup consent_ok_def list_ex_iff split: option.splits if_splits)

definition clients_ok :: "id_core \<Rightarrow> bool" where
  "clients_ok k \<longleftrightarrow> (\<forall>i c. co_clients k i = Some c \<longrightarrow> cl_clientId c = i)"

lemma effect_approve:
  assumes "clients_ok (core s)" and "findAuthorizationCode (op_hash (opaque env ''vey_code'' (rnd 0) (rnd 1))) s = None"
  shows "id_effect (core s) (core (snd (approveAuthorization env now rnd i s)))"
proof (cases "approve_checks env now i s")
  case (Inl e)
  then show ?thesis by (simp add: approveAuthorization_def id_effect.nothing)
next
  case (Inr r)
  obtain q session client where r: "r = (q, session, client)" by (cases r)
  note checks = approve_checks_Inr [OF Inr [unfolded r]]
  have client: "cl_clientId client = rq_clientId q" using assms(1) checks(3) by (simp add: clients_ok_def core_lookup)
  obtain pa s1 where pw: "getOrCreatePairwiseSubject (ss_subjectRef session) (cl_clientId client)
      (''pairwise_'' @ ev_hmac_b64 env (ev_pairwiseSubjectSecret env)
         (ss_subjectRef session @ CHR 0x00 # cl_sectorIdentifier client)) s = (pa, s1)"
    by fastforce
  then have "core s1 = core s" using core_pairwise by (metis snd_conv)
  let ?o = "opaque env ''vey_code'' (rnd 0) (rnd 1)"
  define c where "c = \<lparr>ac_codeRef = op_ref ?o, ac_codeHash = op_hash ?o,
                  ac_requestRef = rq_requestRef q, ac_clientId = cl_clientId client,
                  ac_pairwiseSubjectAlias = pa, ac_subjectRef = ss_subjectRef session,
                  ac_sessionRef = ss_sessionRef session, ac_authTime = ss_authTime session,
                  ac_redirectUri = rq_redirectUri q, ac_scopes = rq_scopes q,
                  ac_nonce = rq_nonce q, ac_pkceChallenge = rq_pkceChallenge q,
                  ac_walletConsentRef = ap_walletConsentRef i,
                  ac_expiresAt = now + or_default (ev_authorizationCodeTtl env) 120 * 1000,
                  ac_consumedAt = None\<rparr>"
  have "core (snd (approveAuthorization env now rnd i s)) = (core s)\<lparr>
      co_requests := (co_requests (core s))(rq_requestRef q \<mapsto> q\<lparr>rq_status := Approved\<rparr>),
      co_codes := (co_codes (core s))(ac_codeHash c \<mapsto> c)\<rparr>"
    by (simp add: approveAuthorization_def Inr r pw [simplified] Let_def c_def \<open>core s1 = core s\<close>)
  moreover have "id_effect (core s) ((core s)\<lparr>
      co_requests := (co_requests (core s))(rq_requestRef q \<mapsto> q\<lparr>rq_status := Approved\<rparr>),
      co_codes := (co_codes (core s))(ac_codeHash c \<mapsto> c)\<rparr>)"
    using checks client assms(2)
    by (intro new_code) (simp_all add: c_def core_lookup code_of_request_def)
  ultimately show ?thesis by simp
qed

lemma issue_core:
  obtains f a b where "core (snd (issueTokenFamily env now rnd code requestId s)) = (core s)\<lparr>
      co_families := (co_families (core s))(tf_familyRef f \<mapsto> f),
      co_access := (co_access (core s))(at_tokenHash a \<mapsto> a),
      co_refresh := (co_refresh (core s))(rt_tokenHash b \<mapsto> b)\<rparr>"
    "tf_familyRef f = ''vey_token_family_'' @ rnd 0" "tf_clientId f = ac_clientId code"
    "tf_pairwiseSubjectAlias f = ac_pairwiseSubjectAlias code" "tf_scopes f = ac_scopes code"
    "at_tokenHash a = op_hash (opaque env ''vey_access'' (rnd 1) (rnd 2))" "at_familyRef a = tf_familyRef f"
    "rt_tokenHash b = op_hash (opaque env ''vey_refresh'' (rnd 3) (rnd 4))" "rt_familyRef b = tf_familyRef f"
    "rt_consumedAt b = None"
  by (rule that [where f = "\<lparr>tf_familyRef = ''vey_token_family_'' @ rnd 0, tf_clientId = ac_clientId code,
        tf_pairwiseSubjectAlias = ac_pairwiseSubjectAlias code, tf_subjectRef = ac_subjectRef code,
        tf_scopes = ac_scopes code, tf_status = FamilyActive\<rparr>"
      and a = "\<lparr>at_tokenRef = op_ref (opaque env ''vey_access'' (rnd 1) (rnd 2)),
        at_tokenHash = op_hash (opaque env ''vey_access'' (rnd 1) (rnd 2)),
        at_familyRef = ''vey_token_family_'' @ rnd 0, at_issuedAt = now,
        at_expiresAt = now + access_ttl env * 1000, at_revokedAt = None\<rparr>"
      and b = "\<lparr>rt_tokenRef = op_ref (opaque env ''vey_refresh'' (rnd 3) (rnd 4)),
        rt_tokenHash = op_hash (opaque env ''vey_refresh'' (rnd 3) (rnd 4)),
        rt_familyRef = ''vey_token_family_'' @ rnd 0, rt_rotationCounter = 0, rt_issuedAt = now,
        rt_expiresAt = now + refresh_ttl env * 1000, rt_consumedAt = None, rt_replacedByRef = None\<rparr>"])
    (simp_all add: issueTokenFamily_def Let_def)

lemma effect_exchange:
  assumes "getTokenFamily (''vey_token_family_'' @ rnd 0) s = None"
    and "findAccessToken (op_hash (opaque env ''vey_access'' (rnd 1) (rnd 2))) s = None"
    and "findRefreshToken (op_hash (opaque env ''vey_refresh'' (rnd 3) (rnd 4))) s = None"
  shows "id_effect (core s) (core (snd (exchangeAuthorizationCode env now rnd i s)))"
proof (cases "authenticateClient env (ex_clientId i) (ex_clientSecret i) s")
  case (Inl e)
  then show ?thesis by (simp add: exchangeAuthorizationCode_def id_effect.nothing)
next
  case (Inr client)
  show ?thesis
  proof (cases "verifier_ok (ex_codeVerifier i)")
    case False
    with Inr show ?thesis by (simp add: exchangeAuthorizationCode_def throw_def id_effect.nothing)
  next
    case True
    obtain v s1 where consume: "consumeAuthorizationCode (ev_sha256 env (ex_code i)) now s = (v, s1)" by fastforce
    from core_consume_code [OF consume] show ?thesis
    proof (elim disjE conjE exE)
      assume "v = None" "s1 = s"
      with Inr True consume show ?thesis by (simp add: exchangeAuthorizationCode_def throw_def id_effect.nothing)
    next
      fix c :: auth_code
      let ?h = "ev_sha256 env (ex_code i)" and ?c = "c\<lparr>ac_consumedAt := Some now\<rparr>"
      assume c: "co_codes (core s) ?h = Some c" "ac_consumedAt c = None" "v = Some ?c"
        and s1: "core s1 = (core s)\<lparr>co_codes := (co_codes (core s))(?h \<mapsto> ?c)\<rparr>"
      consider (failed) "binding_failed env now i ?c \<noteq> Inr False" | (bound) "binding_failed env now i ?c = Inr False" by blast
      then show ?thesis
      proof cases
        case failed
        then have "core (snd (exchangeAuthorizationCode env now rnd i s)) = core s1"
          using Inr True consume c(3) by (auto simp: exchangeAuthorizationCode_def throw_def split: sum.split bool.split)
        then show ?thesis using burn_code [OF c(1,2)] by (simp add: s1)
      next
        case bound
        then have "snd (exchangeAuthorizationCode env now rnd i s) = snd (issueTokenFamily env now rnd ?c (ex_requestId i) s1)"
          using Inr True consume c(3) by (simp add: exchangeAuthorizationCode_def)
        moreover have "id_effect (core s) (core (snd (issueTokenFamily env now rnd ?c (ex_requestId i) s1)))"
        proof (rule issue_core [of env now rnd ?c "ex_requestId i" s1])
          fix f :: token_family and a :: access_token and b :: refresh_token
          assume issued: "core (snd (issueTokenFamily env now rnd ?c (ex_requestId i) s1)) = (core s1)\<lparr>
              co_families := (co_families (core s1))(tf_familyRef f \<mapsto> f),
              co_access := (co_access (core s1))(at_tokenHash a \<mapsto> a),
              co_refresh := (co_refresh (core s1))(rt_tokenHash b \<mapsto> b)\<rparr>"
            and fab: "tf_familyRef f = ''vey_token_family_'' @ rnd 0" "tf_clientId f = ac_clientId ?c"
              "tf_pairwiseSubjectAlias f = ac_pairwiseSubjectAlias ?c" "tf_scopes f = ac_scopes ?c"
              "at_tokenHash a = op_hash (opaque env ''vey_access'' (rnd 1) (rnd 2))" "at_familyRef a = tf_familyRef f"
              "rt_tokenHash b = op_hash (opaque env ''vey_refresh'' (rnd 3) (rnd 4))" "rt_familyRef b = tf_familyRef f"
              "rt_consumedAt b = None"
          show ?thesis
            unfolding issued using new_family [OF c(1,2), where f = f and a = a and b = b and t = now] fab assms
            by (simp add: s1 core_lookup)
        qed
        ultimately show ?thesis by simp
      qed
    qed
  qed
qed

lemma effect_refresh_begin: "id_effect (core s) (core (snd (refresh_begin env now rnd i s)))"
proof -
  have "id_effect (core s) (core (revokeFamily r FamilyCompromised s))" for r
    by (auto simp: core_revoke id_effect.nothing intro: kill_family split: option.split)
  then show ?thesis
    by (auto simp: refresh_begin_def throw_def id_effect.nothing split: sum.split option.split)
qed

lemma effect_refresh_finish:
  assumes "findRefreshToken (ev_sha256 env (ri_refreshToken i)) s = Some token"
    and "getTokenFamily (rt_familyRef token) s \<noteq> None" and "tf_familyRef family = rt_familyRef token"
    and "findAccessToken (op_hash (opaque env ''vey_access'' (rnd 2) (rnd 3))) s = None"
    and "findRefreshToken (op_hash (opaque env ''vey_refresh'' (rnd 0) (rnd 1))) s = None"
  shows "id_effect (core s) (core (snd (refresh_finish env now rnd i family s)))"
proof -
  let ?h = "ev_sha256 env (ri_refreshToken i)" and ?ref = "op_ref (opaque env ''vey_refresh'' (rnd 0) (rnd 1))"
  obtain v s1 where consume: "consumeRefreshToken ?h now ?ref s = (v, s1)" by fastforce
  from core_consume_refresh [OF consume] show ?thesis
  proof (elim disjE conjE exE)
    assume "v = None" "s1 = s"
    moreover have "id_effect (core s) (core (revokeFamily (tf_familyRef family) FamilyCompromised s))"
      by (auto simp: core_revoke id_effect.nothing intro: kill_family split: option.split)
    ultimately show ?thesis using consume by (simp add: refresh_finish_def throw_def Let_def)
  next
    fix b :: refresh_token
    let ?b = "b\<lparr>rt_consumedAt := Some now, rt_replacedByRef := Some ?ref\<rparr>"
    assume b: "co_refresh (core s) ?h = Some b" "rt_consumedAt b = None" "v = Some ?b"
      and s1: "core s1 = (core s)\<lparr>co_refresh := (co_refresh (core s))(?h \<mapsto> ?b)\<rparr>"
    define a where "a = \<lparr>at_tokenRef = op_ref (opaque env ''vey_access'' (rnd 2) (rnd 3)),
      at_tokenHash = op_hash (opaque env ''vey_access'' (rnd 2) (rnd 3)), at_familyRef = tf_familyRef family,
      at_issuedAt = now, at_expiresAt = now + access_ttl env * 1000, at_revokedAt = None\<rparr>"
    define b' where "b' = \<lparr>rt_tokenRef = ?ref, rt_tokenHash = op_hash (opaque env ''vey_refresh'' (rnd 0) (rnd 1)),
      rt_familyRef = tf_familyRef family, rt_rotationCounter = rt_rotationCounter b + 1, rt_issuedAt = now,
      rt_expiresAt = now + refresh_ttl env * 1000, rt_consumedAt = None, rt_replacedByRef = None\<rparr>"
    have "core (snd (refresh_finish env now rnd i family s)) = (core s)\<lparr>
        co_access := (co_access (core s))(at_tokenHash a \<mapsto> a),
        co_refresh := (co_refresh (core s))(?h \<mapsto> ?b, rt_tokenHash b' \<mapsto> b')\<rparr>"
      using consume by (simp add: refresh_finish_def Let_def b(3) s1 a_def b'_def)
    moreover have "id_effect (core s) ((core s)\<lparr>
        co_access := (co_access (core s))(at_tokenHash a \<mapsto> a),
        co_refresh := (co_refresh (core s))(?h \<mapsto> ?b, rt_tokenHash b' \<mapsto> b')\<rparr>)"
      using assms b by (intro rotate) (simp_all add: core_lookup a_def b'_def)
    ultimately show ?thesis by simp
  qed
qed

lemma effect_revoke: "id_effect (core s) (core (snd (revoke env now rnd t requestId s)))"
  by (auto simp: revoke_def Let_def core_revoke id_effect.nothing intro: kill_family split: option.split)

lemma effect_revoke_client: "id_effect (core s) (core (snd (revokeForClient env now rnd t clientId secret requestId s)))"
  by (auto simp: revokeForClient_def Let_def core_revoke id_effect.nothing intro: kill_family
      split: option.split sum.split)

lemma effect_handoff:
  assumes "findNavigationHandoff (op_hash (opaque env ''nav_handoff'' (rnd 0) (rnd 1))) s = None"
  shows "id_effect (core s) (core (snd (createNavigationHandoff env now rnd i s)))"
  using assms
  by (auto simp: createNavigationHandoff_def throw_def Let_def core_lookup id_effect.nothing
      intro!: new_handoff [of _ "\<lparr>nh_handoffRef = _, nh_tokenHash = _, nh_pairwiseSubjectAlias = _, nh_source = _,
        nh_target = _, nh_returnPath = _, nh_expiresAt = _, nh_consumedAt = _\<rparr>", simplified]
      split: option.split sum.split)

lemma effect_consume_handoff: "id_effect (core s) (core (snd (consumeNavigationHandoff env now rnd t requestId s)))"
proof -
  obtain v s1 where consume: "storeConsumeNavigationHandoff (ev_sha256 env t) now s = (v, s1)" by fastforce
  from core_consume_handoff [OF consume] have "id_effect (core s) (core s1)"
    using use_handoff id_effect.nothing by (elim disjE conjE exE) simp_all
  moreover have "core (snd (consumeNavigationHandoff env now rnd t requestId s)) = core s1"
    using consume by (simp add: consumeNavigationHandoff_def throw_def split: option.split)
  ultimately show ?thesis by simp
qed

subsection \<open>Invariants\<close>

definition requests_ok :: "id_core \<Rightarrow> bool" where
  "requests_ok k \<longleftrightarrow> (\<forall>r q. co_requests k r = Some q \<longrightarrow> rq_requestRef q = r \<and> ''openid'' \<in> set (rq_scopes q))"

text \<open>Every code was approved for its request, with the consent its scopes need, and no request has two codes.\<close>

definition good_code :: "id_core \<Rightarrow> auth_code \<Rightarrow> bool" where
  "good_code k c \<longleftrightarrow> consent_ok (ac_scopes c) (ac_walletConsentRef c)
     \<and> (\<exists>q. co_requests k (ac_requestRef c) = Some q \<and> rq_status q = Approved \<and> code_of_request c q)"

definition codes_ok :: "id_core \<Rightarrow> bool" where
  "codes_ok k \<longleftrightarrow> (\<forall>h c. co_codes k h = Some c \<longrightarrow> good_code k c)"

definition one_code_each :: "(string \<Rightarrow> auth_code option) \<Rightarrow> bool" where
  "one_code_each codes \<longleftrightarrow> (\<forall>h c h' c'. codes h = Some c \<and> codes h' = Some c'
     \<and> ac_requestRef c = ac_requestRef c' \<longrightarrow> h = h')"

text \<open>Every family was issued for a code that is spent.\<close>

definition family_of_code :: "token_family \<Rightarrow> auth_code \<Rightarrow> bool" where
  "family_of_code f c \<longleftrightarrow> ac_consumedAt c \<noteq> None \<and> tf_clientId f = ac_clientId c
     \<and> tf_pairwiseSubjectAlias f = ac_pairwiseSubjectAlias c \<and> tf_scopes f = ac_scopes c"

definition issued_for :: "(string \<Rightarrow> auth_code option) \<Rightarrow> token_family \<Rightarrow> bool" where
  "issued_for codes f \<longleftrightarrow> (\<exists>h c. codes h = Some c \<and> family_of_code f c)"

definition families_ok :: "id_core \<Rightarrow> bool" where
  "families_ok k \<longleftrightarrow> (\<forall>r f. co_families k r = Some f \<longrightarrow> tf_familyRef f = r \<and> issued_for (co_codes k) f)"

definition tokens_ok :: "id_core \<Rightarrow> bool" where
  "tokens_ok k \<longleftrightarrow> (\<forall>h a. co_access k h = Some a \<longrightarrow> co_families k (at_familyRef a) \<noteq> None)
     \<and> (\<forall>h b. co_refresh k h = Some b \<longrightarrow> co_families k (rt_familyRef b) \<noteq> None)"

definition id_inv :: "id_core \<Rightarrow> bool" where
  "id_inv k \<longleftrightarrow> clients_ok k \<and> requests_ok k \<and> codes_ok k \<and> one_code_each (co_codes k) \<and> families_ok k \<and> tokens_ok k"

lemma clients_ok_effect: "id_effect k k' \<Longrightarrow> clients_ok k \<Longrightarrow> clients_ok k'"
  by (induction rule: id_effect.induct) (simp_all add: clients_ok_def)

lemma requests_ok_effect: "id_effect k k' \<Longrightarrow> requests_ok k \<Longrightarrow> requests_ok k'"
  by (induction rule: id_effect.induct) (auto simp: requests_ok_def)

lemma code_of_request_status: "code_of_request c (q\<lparr>rq_status := x\<rparr>) = code_of_request c q"
  "code_of_request (c\<lparr>ac_consumedAt := t\<rparr>) q = code_of_request c q"
  by (simp_all add: code_of_request_def)

lemma good_code_mono:
  assumes "good_code k c"
    and "\<And>q. co_requests k (ac_requestRef c) = Some q \<Longrightarrow> rq_status q = Approved
      \<Longrightarrow> co_requests k' (ac_requestRef c) = Some q"
  shows "good_code k' c"
  using assms by (auto simp: good_code_def)

lemma good_code_consumed [simp]: "good_code k (c\<lparr>ac_consumedAt := t\<rparr>) = good_code k c"
  by (simp add: good_code_def code_of_request_status)

lemma codes_ok_effect: "id_effect k k' \<Longrightarrow> requests_ok k \<Longrightarrow> codes_ok k \<Longrightarrow> codes_ok k'"
proof (induction rule: id_effect.induct)
  case (new_request k q)
  have "good_code (k\<lparr>co_requests := (co_requests k)(rq_requestRef q \<mapsto> q)\<rparr>) c" if "co_codes k h = Some c" for h c
  proof (rule good_code_mono)
    show "good_code k c" using new_request that by (auto simp: codes_ok_def)
  qed (use new_request(1) in auto)
  then show ?case unfolding codes_ok_def by simp
next
  case (new_code k r q c)
  let ?k = "k\<lparr>co_requests := (co_requests k)(rq_requestRef q \<mapsto> q\<lparr>rq_status := Approved\<rparr>),
      co_codes := (co_codes k)(ac_codeHash c \<mapsto> c)\<rparr>"
  from new_code have r: "rq_requestRef q = r" by (simp add: requests_ok_def)
  have "good_code ?k c" using new_code by (simp add: good_code_def code_of_request_def)
  moreover have "good_code ?k d" if "co_codes k h = Some d" for h d
  proof (rule good_code_mono)
    show "good_code k d" using new_code that by (auto simp: codes_ok_def)
    fix p
    assume "co_requests k (ac_requestRef d) = Some p" "rq_status p = Approved"
    then show "co_requests ?k (ac_requestRef d) = Some p" using new_code(1,2) r by auto
  qed
  ultimately show ?case unfolding codes_ok_def by simp
next
  case (burn_code k h c t)
  then have "good_code k d" if "co_codes k g = Some d" for g d using that by (auto simp: codes_ok_def)
  with burn_code(1) show ?case unfolding codes_ok_def by (auto simp: good_code_def code_of_request_def)
next
  case (new_family k h c f a b t)
  then have "good_code k d" if "co_codes k g = Some d" for g d using that by (auto simp: codes_ok_def)
  with new_family(1) show ?case unfolding codes_ok_def by (auto simp: good_code_def code_of_request_def)
qed (simp_all add: codes_ok_def good_code_def)

lemma one_code_consumed:
  assumes "one_code_each codes" and "codes h = Some c"
  shows "one_code_each (codes(h \<mapsto> c\<lparr>ac_consumedAt := Some t\<rparr>))"
proof -
  have "g = g'" if "codes g = Some d" "codes g' = Some d'" "ac_requestRef d = ac_requestRef d'" for g g' d d'
    using assms(1) that by (auto simp: one_code_each_def)
  with assms(2) show ?thesis unfolding one_code_each_def by (simp add: fun_upd_apply) metis
qed

lemma one_code_each_effect:
  "id_effect k k' \<Longrightarrow> requests_ok k \<Longrightarrow> codes_ok k
    \<Longrightarrow> one_code_each (co_codes k) \<Longrightarrow> one_code_each (co_codes k')"
proof (induction rule: id_effect.induct)
  case (new_code k r q c)
  have "ac_requestRef d \<noteq> ac_requestRef c" if "co_codes k h = Some d" for h d
  proof
    assume "ac_requestRef d = ac_requestRef c"
    moreover have "good_code k d" using new_code(8) that by (auto simp: codes_ok_def)
    ultimately show False
      using new_code by (auto simp: good_code_def code_of_request_def requests_ok_def)
  qed
  then have "ac_requestRef c \<noteq> ac_requestRef d" "ac_requestRef d \<noteq> ac_requestRef c" if "co_codes k h = Some d" for h d
    using that by metis+
  moreover have "h = h'" if "co_codes k h = Some d" "co_codes k h' = Some d'" "ac_requestRef d = ac_requestRef d'" for h h' d d'
    using new_code(9) that by (auto simp: one_code_each_def)
  ultimately show ?case
    unfolding one_code_each_def by (auto simp: fun_upd_apply split: if_split_asm)
next
  case (burn_code k h c t)
  then show ?case by (simp add: one_code_consumed del: fun_upd_apply)
next
  case (new_family k h c f a b t)
  then show ?case by (simp add: one_code_consumed del: fun_upd_apply)
qed simp_all

lemma family_of_code_kept:
  "family_of_code f c \<Longrightarrow> family_of_code f (c\<lparr>ac_consumedAt := Some t\<rparr>)"
  "family_of_code (f\<lparr>tf_status := st\<rparr>) c = family_of_code f c"
  by (simp_all add: family_of_code_def)

lemma issued_for_kept:
  assumes "issued_for codes f"
  shows "codes h = Some c \<Longrightarrow> issued_for (codes(h \<mapsto> c\<lparr>ac_consumedAt := Some t\<rparr>)) f"
    and "codes h = None \<Longrightarrow> issued_for (codes(h \<mapsto> c')) f"
    and "issued_for codes (f\<lparr>tf_status := st\<rparr>)"
proof -
  from assms obtain g d where d: "codes g = Some d" "family_of_code f d" by (auto simp: issued_for_def)
  show "issued_for (codes(h \<mapsto> c\<lparr>ac_consumedAt := Some t\<rparr>)) f" if "codes h = Some c"
    unfolding issued_for_def using d that family_of_code_kept(1)
    by (intro exI [of _ g]) auto
  show "issued_for (codes(h \<mapsto> c')) f" if "codes h = None"
    unfolding issued_for_def using d that by (intro exI [of _ g]) auto
  show "issued_for codes (f\<lparr>tf_status := st\<rparr>)"
    using d by (auto simp: issued_for_def family_of_code_kept(2))
qed

lemma families_ok_effect: "id_effect k k' \<Longrightarrow> families_ok k \<Longrightarrow> families_ok k'"
proof (induction rule: id_effect.induct)
  case (new_family k h c f a b t)
  have "issued_for ((co_codes k)(h \<mapsto> c\<lparr>ac_consumedAt := Some t\<rparr>)) f"
    unfolding issued_for_def using new_family by (intro exI [of _ h]) (simp add: family_of_code_def)
  with new_family show ?case
    by (auto simp add: families_ok_def issued_for_kept(1) simp del: fun_upd_apply simp: map_upd_Some_unfold)
qed (auto simp add: families_ok_def issued_for_kept simp del: fun_upd_apply simp: map_upd_Some_unfold)

lemma tokens_ok_effect: "id_effect k k' \<Longrightarrow> tokens_ok k \<Longrightarrow> tokens_ok k'"
  by (induction rule: id_effect.induct) (auto simp: tokens_ok_def split: if_splits)

lemma step_effect:
  assumes "id_step env s s'" and "clients_ok (core s)"
  shows "id_effect (core s) (core s')"
  using assms
  by (induction rule: id_step.induct)
    (simp_all add: effect_register effect_start effect_session effect_approve effect_exchange effect_refresh_begin
      effect_refresh_finish effect_revoke effect_revoke_client effect_handoff effect_consume_handoff id_effect.nothing)

lemma step_inv: "id_step env s s' \<Longrightarrow> id_inv (core s) \<Longrightarrow> id_inv (core s')"
  unfolding id_inv_def
  by (blast dest: step_effect
      intro: clients_ok_effect requests_ok_effect codes_ok_effect one_code_each_effect families_ok_effect
        tokens_ok_effect)

lemma run_inv: "id_run env s s' \<Longrightarrow> id_inv (core s) \<Longrightarrow> id_inv (core s')"
  by (induction rule: rtranclp_induct) (auto intro: step_inv)

lemma reachable_inv: "id_reachable env s \<Longrightarrow> id_inv (core s)"
  unfolding id_reachable_def
  by (erule run_inv) (simp add: id_inv_def core_def empty_id_store_def clients_ok_def requests_ok_def codes_ok_def
      one_code_each_def families_ok_def tokens_ok_def)

subsection \<open>What stays\<close>

lemma effect_spent_code: "id_effect k k' \<Longrightarrow> co_codes k h = Some c \<Longrightarrow> ac_consumedAt c \<noteq> None
    \<Longrightarrow> co_codes k' h = Some c"
  by (induction rule: id_effect.induct) auto

lemma effect_spent_refresh: "id_effect k k' \<Longrightarrow> co_refresh k h = Some c \<Longrightarrow> rt_consumedAt c \<noteq> None
    \<Longrightarrow> co_refresh k' h = Some c"
  by (induction rule: id_effect.induct) auto

lemma effect_spent_handoff: "id_effect k k' \<Longrightarrow> co_handoffs k h = Some c \<Longrightarrow> nh_consumedAt c \<noteq> None
    \<Longrightarrow> co_handoffs k' h = Some c"
  by (induction rule: id_effect.induct) auto

lemma effect_approved: "id_effect k k' \<Longrightarrow> requests_ok k \<Longrightarrow> co_requests k r = Some q \<Longrightarrow> rq_status q \<noteq> Pending
    \<Longrightarrow> co_requests k' r = Some q"
  by (induction rule: id_effect.induct) (auto simp: requests_ok_def)

definition dead_family :: "string \<Rightarrow> id_core \<Rightarrow> bool" where
  "dead_family r k \<longleftrightarrow> (\<exists>f. co_families k r = Some f \<and> tf_status f \<noteq> FamilyActive)"

lemma effect_dead_family: "id_effect k k' \<Longrightarrow> dead_family r k \<Longrightarrow> dead_family r k'"
  by (induction rule: id_effect.induct) (auto simp: dead_family_def)

lemma effect_has_family: "id_effect k k' \<Longrightarrow> co_families k r \<noteq> None \<Longrightarrow> co_families k' r \<noteq> None"
  by (induction rule: id_effect.induct) auto

text \<open>What an effect keeps, a run keeps.\<close>

lemma run_keeps:
  assumes "id_run env s s'" and "id_inv (core s)" and "P (core s)"
    and keep: "\<And>k k'. id_effect k k' \<Longrightarrow> id_inv k \<Longrightarrow> P k \<Longrightarrow> P k'"
  shows "P (core s')"
proof -
  from assms(1,2,3) have "id_inv (core s') \<and> P (core s')"
  proof (induction rule: rtranclp_induct)
    case (step a b)
    then have inv: "id_inv (core a)" and "P (core a)" by auto
    moreover from this have "id_effect (core a) (core b)" using step(2) by (auto intro: step_effect simp: id_inv_def)
    ultimately show ?case using step_inv [OF step(2)] keep by blast
  qed auto
  then show ?thesis by simp
qed

lemma run_spent_code:
  "id_run env s s' \<Longrightarrow> id_inv (core s) \<Longrightarrow> findAuthorizationCode h s = Some c \<Longrightarrow> ac_consumedAt c \<noteq> None
    \<Longrightarrow> findAuthorizationCode h s' = Some c"
  unfolding core_lookup by (erule run_keeps) (auto intro: effect_spent_code)

lemma run_spent_refresh:
  "id_run env s s' \<Longrightarrow> id_inv (core s) \<Longrightarrow> findRefreshToken h s = Some c \<Longrightarrow> rt_consumedAt c \<noteq> None
    \<Longrightarrow> findRefreshToken h s' = Some c"
  unfolding core_lookup by (erule run_keeps) (auto intro: effect_spent_refresh)

lemma run_spent_handoff:
  "id_run env s s' \<Longrightarrow> id_inv (core s) \<Longrightarrow> findNavigationHandoff h s = Some c \<Longrightarrow> nh_consumedAt c \<noteq> None
    \<Longrightarrow> findNavigationHandoff h s' = Some c"
  unfolding core_lookup by (erule run_keeps) (auto intro: effect_spent_handoff)

lemma run_approved:
  "id_run env s s' \<Longrightarrow> id_inv (core s) \<Longrightarrow> getAuthorizationRequest r s = Some q \<Longrightarrow> rq_status q \<noteq> Pending
    \<Longrightarrow> getAuthorizationRequest r s' = Some q"
  unfolding core_lookup by (erule run_keeps) (auto intro: effect_approved simp: id_inv_def)

lemma run_dead_family:
  "id_run env s s' \<Longrightarrow> id_inv (core s) \<Longrightarrow> dead_family r (core s) \<Longrightarrow> dead_family r (core s')"
  by (erule run_keeps) (auto intro: effect_dead_family)

lemma run_has_family:
  "id_run env s s' \<Longrightarrow> id_inv (core s) \<Longrightarrow> co_families (core s) r \<noteq> None \<Longrightarrow> co_families (core s') r \<noteq> None"
  by (erule run_keeps [where P = "\<lambda>k. co_families k r \<noteq> None"]) (simp_all add: effect_has_family del: not_None_eq)

text \<open>No token of a dead family is worth anything.\<close>

lemma dead_family_introspect:
  "dead_family r (core s) \<Longrightarrow> findAccessToken (ev_sha256 env t) s = Some a \<Longrightarrow> at_familyRef a = r
    \<Longrightarrow> introspect env now t s = None"
  by (auto simp: dead_family_def introspect_def core_lookup)

lemma dead_family_refresh:
  "dead_family r (core s) \<Longrightarrow> findRefreshToken (ev_sha256 env (ri_refreshToken i)) s = Some b
    \<Longrightarrow> rt_familyRef b = r \<Longrightarrow> isl (fst (refresh env now rnd i s)) \<and> snd (refresh env now rnd i s) = s"
  by (auto simp: dead_family_def refresh_def refresh_begin_def core_lookup throw_def split: sum.split)

end
