(* ===== verification/Veygrit_Id_Samples.thy ===== *)
theory Veygrit_Id_Samples
  imports Veygrit_Id_Steps
begin

section \<open>A sample run of the identity service\<close>

text \<open>
  One client, one request, one login, one approval and exchange, two refreshes with the same token, a
  revocation and a handoff, with a sample environment (the hash keeps its text, except for the state). The
  witnesses of the guarantees are taken from this run.
\<close>

definition sample_state :: string where "sample_state = replicate 16 (CHR ''s'')"
definition sample_verifier :: string where "sample_verifier = replicate 43 (CHR ''v'')"
definition sample_uri :: string where "sample_uri = ''https://shop.example/cb''"

definition sample_env :: id_env where
  "sample_env = \<lparr>ev_issuer = ''https://id.example'',
     ev_sha256 = (\<lambda>t. if t = sample_state then replicate 64 (CHR ''a'') else t), ev_challenge = (\<lambda>t. t),
     ev_hmac_hex = (\<lambda>k t. ''hex''), ev_hmac_b64 = (\<lambda>k t. ''b64''), ev_sign = (\<lambda>v. ''jwt''), ev_publicJwk = JNull,
     ev_parseUrl = (\<lambda>t. Some \<lparr>pu_protocol = ''https:'', pu_hostname = ''shop.example'',
       pu_origin = ''https://shop.example'', pu_withoutHash = t\<rparr>),
     ev_callbackUrl = (\<lambda>u c st. u), ev_pairwiseSubjectSecret = replicate 32 (CHR ''k''),
     ev_providerSubjectPepper = replicate 32 (CHR ''p''), ev_authorizationRequestTtl = None,
     ev_authorizationCodeTtl = None, ev_sessionTtl = None, ev_accessTokenTtl = None, ev_refreshTokenTtl = None,
     ev_navigationHandoffTtl = None\<rparr>"

definition sample_rnd :: "string \<Rightarrow> nat \<Rightarrow> string" where
  "sample_rnd tag k = tag @ replicate k (CHR ''x'')"

definition sample_client :: oauth_client where
  "sample_client = \<lparr>cl_clientId = ''shop'', cl_displayName = ''Shop'', cl_clientType = PublicClient,
     cl_sectorIdentifier = ''shop.example'', cl_redirectUris = [sample_uri], cl_allowedOrigins = [],
     cl_allowedScopes = [''openid'', ''address_wallet''], cl_clientSecretHash = None, cl_status = ClientActive\<rparr>"

definition sample_start :: start_input where
  "sample_start = \<lparr>si_clientId = ''shop'', si_redirectUri = sample_uri, si_origin = None,
     si_scope = ScopeText ''openid address_wallet'', si_state = sample_state, si_nonce = replicate 16 (CHR ''n''),
     si_codeChallenge = sample_verifier, si_codeChallengeMethod = ''S256'', si_requestId = None\<rparr>"

definition sample_identity :: social_identity where
  "sample_identity = \<lparr>so_provider = ''google'', so_providerSubject = ''sub'', so_emailVerified = True,
     so_authenticatedAt = Some 900, so_verification = ''provider-jwks-verified''\<rparr>"

definition sample_approve :: approve_input where
  "sample_approve = \<lparr>ap_requestRef = ''vey_auth_req_a'', ap_sessionToken = ''vey_session_bx'',
     ap_state = sample_state, ap_walletConsentRef = Some ''consent'', ap_requestId = None\<rparr>"

definition sample_exchange :: exchange_input where
  "sample_exchange = \<lparr>ex_code = ''vey_code_c'', ex_clientId = ''shop'', ex_redirectUri = sample_uri,
     ex_codeVerifier = sample_verifier, ex_clientSecret = None, ex_requestId = None\<rparr>"

definition sample_refresh :: refresh_input where
  "sample_refresh = \<lparr>ri_refreshToken = ''vey_refresh_dxxx'', ri_clientId = ''shop'', ri_clientSecret = None,
     ri_requestId = None\<rparr>"

definition sample_family :: token_family where
  "sample_family = \<lparr>tf_familyRef = ''vey_token_family_d'', tf_clientId = ''shop'',
     tf_pairwiseSubjectAlias = ''pairwise_b64'',
     tf_subjectRef = ''vey_subject_b'', tf_scopes = [''openid'', ''address_wallet''], tf_status = FamilyActive\<rparr>"

definition sample_handoff :: handoff_input where
  "sample_handoff = \<lparr>hi_accessToken = ''vey_access_dx'', hi_source = AddressWallet, hi_target = VeygritShip,
     hi_returnPath = ''/ship'', hi_requestId = None\<rparr>"

definition sample1 :: id_store where "sample1 = snd (registerClient sample_env sample_client None empty_id_store)"
definition sample2 :: id_store where
  "sample2 = snd (startAuthorization sample_env 1000 (sample_rnd ''a'') sample_start sample1)"
definition sample3 :: id_store where
  "sample3 = snd (establishSocialSession sample_env 2000 (sample_rnd ''b'') sample_identity None sample2)"
definition sample4 :: id_store where
  "sample4 = snd (approveAuthorization sample_env 3000 (sample_rnd ''c'') sample_approve sample3)"
definition sample5 :: id_store where
  "sample5 = snd (exchangeAuthorizationCode sample_env 4000 (sample_rnd ''d'') sample_exchange sample4)"
definition sample6 :: id_store where
  "sample6 = snd (refresh_finish sample_env 5000 (sample_rnd ''e'') sample_refresh sample_family sample5)"
definition sample7 :: id_store where
  "sample7 = snd (createNavigationHandoff sample_env 5000 (sample_rnd ''f'') sample_handoff sample5)"

text \<open>An answer with the store it leaves.\<close>

lemma ok_answer: "\<not> isl (fst x) \<Longrightarrow> \<exists>r. x = (Inr r, snd x)"
  by (cases x; cases "fst x") auto

lemma error_answer: "fst x = Inl e \<Longrightarrow> x = (Inl e, snd x)"
  by (cases x) auto

lemma sample_reachable1: "id_reachable sample_env sample1"
  unfolding id_reachable_def sample1_def by (intro r_into_rtranclp id_step.register)

lemma sample_reach: "id_reachable env s \<Longrightarrow> id_step env s s' \<Longrightarrow> id_reachable env s'"
  unfolding id_reachable_def by (rule rtranclp.rtrancl_into_rtrancl)

lemma sample_step2: "id_step sample_env sample1 sample2"
  unfolding sample2_def by (rule id_step.start) code_simp

lemma sample_step3: "id_step sample_env sample2 sample3"
  unfolding sample3_def by (rule id_step.session)

lemma sample_step4: "id_step sample_env sample3 sample4"
  unfolding sample4_def by (rule id_step.approve) code_simp

text \<open>The store after the approval, as the later evaluations use it.\<close>

lemma sample4_value [code]: "sample4 = \<lparr>st_clients = [(''shop'', sample_client)],
   st_requests = [(''vey_auth_req_a'',
     \<lparr>rq_requestRef = ''vey_auth_req_a'', rq_clientId = ''shop'', rq_redirectUri = ''https://shop.example/cb'',
      rq_origin = None, rq_scopes = [''openid'', ''address_wallet''], rq_stateHash = replicate 64 (CHR ''a''),
      rq_nonceHash = ''nnnnnnnnnnnnnnnn'', rq_nonce = ''nnnnnnnnnnnnnnnn'', rq_pkceChallenge = sample_verifier,
      rq_status = Approved, rq_createdAt = 1000, rq_expiresAt = 601000\<rparr>)],
   st_subjects = [(''vey_subject_b'', \<lparr>sj_subjectRef = ''vey_subject_b'', sj_status = SubjectActive\<rparr>)],
   st_identities = [(''google:hex'', ''vey_subject_b'')],
   st_sessions = [(''vey_session_bx'',
     \<lparr>ss_sessionRef = ''vey_session_bxx'', ss_sessionTokenHash = ''vey_session_bx'', ss_subjectRef = ''vey_subject_b'',
      ss_provider = Social Google, ss_authTime = 900, ss_expiresAt = 43202000, ss_revokedAt = None\<rparr>)],
   st_pairwise = [(''vey_subject_b:shop'', ''pairwise_b64'')],
   st_codes = [(''vey_code_c'',
     \<lparr>ac_codeRef = ''vey_code_ref_cx'', ac_codeHash = ''vey_code_c'', ac_requestRef = ''vey_auth_req_a'',
      ac_clientId = ''shop'', ac_pairwiseSubjectAlias = ''pairwise_b64'', ac_subjectRef = ''vey_subject_b'',
      ac_sessionRef = ''vey_session_bxx'', ac_authTime = 900, ac_redirectUri = ''https://shop.example/cb'',
      ac_scopes = [''openid'', ''address_wallet''], ac_nonce = ''nnnnnnnnnnnnnnnn'',
      ac_pkceChallenge = sample_verifier, ac_walletConsentRef = Some ''consent'', ac_expiresAt = 123000,
      ac_consumedAt = None\<rparr>)],
   st_families = [], st_access = [], st_refreshTokens = [], st_handoffs = [],
   st_audits =
     [\<lparr>au_eventRef = ''vey_audit_ax'', au_actorType = ''client'', au_actorRef = Some ''shop'',
       au_action = ''authorization.started'', au_aggregateType = ''authorization_request'',
       au_aggregateRef = ''vey_auth_req_a'', au_outcome = ''success'', au_requestId = None,
       au_details = Some [(''scopes'', JArr [JStr ''openid'', JStr ''address_wallet''])], au_occurredAt = 1000\<rparr>,
      \<lparr>au_eventRef = ''vey_audit_bxxx'', au_actorType = ''subject'', au_actorRef = Some ''vey_subject_b'',
       au_action = ''session.created'', au_aggregateType = ''session'', au_aggregateRef = ''vey_session_bxx'',
       au_outcome = ''success'', au_requestId = None,
       au_details = Some [(''provider'', JStr ''google'')], au_occurredAt = 2000\<rparr>,
      \<lparr>au_eventRef = ''vey_audit_cxx'', au_actorType = ''subject'', au_actorRef = Some ''vey_subject_b'',
       au_action = ''authorization.approved'', au_aggregateType = ''authorization_request'',
       au_aggregateRef = ''vey_auth_req_a'', au_outcome = ''success'', au_requestId = None,
       au_details = Some [(''clientId'', JStr ''shop'')], au_occurredAt = 3000\<rparr>]\<rparr>"
  by code_simp

lemma sample_step5: "id_step sample_env sample4 sample5"
  unfolding sample5_def by (rule id_step.exchange) code_simp+

lemma sample_token: "findRefreshToken (ev_sha256 sample_env (ri_refreshToken sample_refresh)) sample5 = Some
    \<lparr>rt_tokenRef = ''vey_refresh_ref_dxxxx'', rt_tokenHash = ''vey_refresh_dxxx'', rt_familyRef = ''vey_token_family_d'',
     rt_rotationCounter = 0, rt_issuedAt = 4000, rt_expiresAt = 2592004000, rt_consumedAt = None, rt_replacedByRef = None\<rparr>"
  by code_simp

lemma sample_family: "getTokenFamily ''vey_token_family_d'' sample5 = Some sample_family"
  by code_simp

lemma sample_family_ref: "tf_familyRef sample_family = ''vey_token_family_d''"
  by code_simp

lemma sample_unused_access:
  "findAccessToken (op_hash (opaque sample_env ''vey_access'' (sample_rnd ''e'' 2) (sample_rnd ''e'' 3))) sample5 = None"
  by code_simp

lemma sample_unused_refresh:
  "findRefreshToken (op_hash (opaque sample_env ''vey_refresh'' (sample_rnd ''e'' 0) (sample_rnd ''e'' 1))) sample5 = None"
  by code_simp

lemma sample_step6: "id_step sample_env sample5 sample6"
  unfolding sample6_def
  by (rule id_step.refresh_finish [OF sample_token _ _ sample_unused_access sample_unused_refresh])
    (simp_all add: sample_family, simp add: sample_family_def)

lemma sample_step7: "id_step sample_env sample5 sample7"
  unfolding sample7_def by (rule id_step.handoff) code_simp

lemma sample_runs: "id_run sample_env sample4 sample5" "id_run sample_env sample5 sample6"
  using sample_step5 sample_step6 by (auto intro: r_into_rtranclp)

lemmas sample_reachable3 = sample_reach [OF sample_reach [OF sample_reachable1 sample_step2] sample_step3]
lemmas sample_reachable4 = sample_reach [OF sample_reachable3 sample_step4]
lemmas sample_reachable5 = sample_reach [OF sample_reachable4 sample_step5]
lemmas sample_reachable6 = sample_reach [OF sample_reachable5 sample_step6]
lemmas sample_reachable7 = sample_reach [OF sample_reachable5 sample_step7]

end
