(* ===== verification/Veygrit_Id_Props.thy ===== *)
theory Veygrit_Id_Props
  imports Veygrit_Id_Samples
begin

section \<open>What the identity service guarantees\<close>

text \<open>
  Single use of authorization codes, approvals, refresh tokens and navigation handoffs over every run of the
  service; the origin of every active token; the end of a token family. The witnesses run the service with a
  sample environment: one client, one login, one code exchange.
\<close>

subsection \<open>Success of the single operations\<close>

lemma exchange_success:
  assumes "exchangeAuthorizationCode env now rnd i s = (Inr r, s')"
  obtains c where "findAuthorizationCode (ev_sha256 env (ex_code i)) s = Some c" "ac_consumedAt c = None"
    "ac_clientId c = ex_clientId i" "normalizeUrl env (ex_redirectUri i) = Inr (ac_redirectUri c)"
    "ac_pkceChallenge c = ev_challenge env (ex_codeVerifier i)" "now < ac_expiresAt c"
    "verifier_ok (ex_codeVerifier i)" "tr_scope r = string_join '' '' (ac_scopes c)"
    "findAuthorizationCode (ev_sha256 env (ex_code i)) s' = Some (c\<lparr>ac_consumedAt := Some now\<rparr>)"
proof -
  from assms obtain client where client: "authenticateClient env (ex_clientId i) (ex_clientSecret i) s = Inr client"
    by (auto simp: exchangeAuthorizationCode_def split: sum.splits)
  from assms have verifier: "verifier_ok (ex_codeVerifier i)"
    by (auto simp: exchangeAuthorizationCode_def client throw_def split: if_splits)
  obtain v s1 where consume: "consumeAuthorizationCode (ev_sha256 env (ex_code i)) now s = (v, s1)" by fastforce
  with assms client verifier have "v \<noteq> None" by (cases v) (auto simp: exchangeAuthorizationCode_def throw_def)
  then obtain c where c: "co_codes (core s) (ev_sha256 env (ex_code i)) = Some c" "ac_consumedAt c = None"
      "v = Some (c\<lparr>ac_consumedAt := Some now\<rparr>)"
      "core s1 = (core s)\<lparr>co_codes := (co_codes (core s))(ev_sha256 env (ex_code i) \<mapsto> c\<lparr>ac_consumedAt := Some now\<rparr>)\<rparr>"
    using core_consume_code [OF consume] by blast
  let ?c = "c\<lparr>ac_consumedAt := Some now\<rparr>"
  have bound: "binding_failed env now i ?c = Inr False"
    using assms client verifier consume c(3)
    by (auto simp: exchangeAuthorizationCode_def throw_def split: sum.splits bool.splits)
  then have issue: "issueTokenFamily env now rnd ?c (ex_requestId i) s1 = (Inr r, s')"
    using assms client verifier consume c(3) by (simp add: exchangeAuthorizationCode_def)
  show ?thesis
  proof (rule that [of c])
    show "findAuthorizationCode (ev_sha256 env (ex_code i)) s' = Some ?c"
      using issue c(4) by (auto simp: issueTokenFamily_def Let_def core_lookup)
    show "tr_scope r = string_join '' '' (ac_scopes c)"
      using issue by (auto simp: issueTokenFamily_def Let_def)
  qed (use c verifier bound in \<open>auto simp: binding_failed_def core_lookup sbind_Inr_iff split: if_splits\<close>)
qed

lemma refresh_finish_success:
  assumes "refresh_finish env now rnd i f s = (Inr r, s')"
    and "findRefreshToken (op_hash (opaque env ''vey_refresh'' (rnd 0) (rnd 1))) s = None"
  obtains b b' where "findRefreshToken (ev_sha256 env (ri_refreshToken i)) s = Some b" "rt_consumedAt b = None"
    "findRefreshToken (ev_sha256 env (ri_refreshToken i)) s' = Some b'" "rt_consumedAt b' \<noteq> None"
    "rt_familyRef b' = rt_familyRef b"
proof -
  obtain v s1 where consume: "consumeRefreshToken (ev_sha256 env (ri_refreshToken i)) now
      (op_ref (opaque env ''vey_refresh'' (rnd 0) (rnd 1))) s = (v, s1)" by fastforce
  with assms have "v \<noteq> None" by (cases v) (auto simp: refresh_finish_def throw_def)
  with core_consume_refresh [OF consume] obtain b where b: "co_refresh (core s) (ev_sha256 env (ri_refreshToken i)) = Some b"
      "rt_consumedAt b = None" "v = Some (b\<lparr>rt_consumedAt := Some now,
        rt_replacedByRef := Some (op_ref (opaque env ''vey_refresh'' (rnd 0) (rnd 1)))\<rparr>)"
      "core s1 = (core s)\<lparr>co_refresh := (co_refresh (core s))(ev_sha256 env (ri_refreshToken i) \<mapsto>
         b\<lparr>rt_consumedAt := Some now, rt_replacedByRef := Some (op_ref (opaque env ''vey_refresh'' (rnd 0) (rnd 1)))\<rparr>)\<rparr>"
    by blast
  show ?thesis
  proof (rule that)
    show "findRefreshToken (ev_sha256 env (ri_refreshToken i)) s' = Some (b\<lparr>rt_consumedAt := Some now,
        rt_replacedByRef := Some (op_ref (opaque env ''vey_refresh'' (rnd 0) (rnd 1)))\<rparr>)"
      using assms consume b(1,3,4) by (auto simp: refresh_finish_def Let_def core_lookup)
  qed (simp_all add: b core_lookup)
qed

subsection \<open>Guarantees\<close>

text \<open>C2. Whenever an access token is reported active, its family was issued for a spent authorization code whose
  request was approved, with the client and scopes the request asked for, \<open>openid\<close> among them, and with a wallet
  consent where a scope needs one.\<close>

theorem active_token_provenance:
  assumes "id_reachable env s" and "introspect env now t s = Some claims"
  shows "\<exists>h c q. findAuthorizationCode h s = Some c \<and> ac_consumedAt c \<noteq> None
    \<and> getAuthorizationRequest (ac_requestRef c) s = Some q \<and> rq_status q = Approved
    \<and> is_client_id claims = rq_clientId q \<and> is_scope claims = string_join '' '' (rq_scopes q)
    \<and> is_sub claims = ac_pairwiseSubjectAlias c \<and> ''openid'' \<in> set (rq_scopes q)
    \<and> consent_ok (rq_scopes q) (ac_walletConsentRef c)"
proof -
  note inv = reachable_inv [OF assms(1), unfolded id_inv_def]
  from assms(2) obtain r f e where f: "co_families (core s) r = Some f"
    and claims: "claims = \<lparr>is_client_id = tf_clientId f, is_sub = tf_pairwiseSubjectAlias f,
      is_scope = string_join '' '' (tf_scopes f), is_exp = e\<rparr>"
    unfolding introspect_def core_lookup by (fastforce split: option.splits if_splits)
  from f inv obtain h c where c: "co_codes (core s) h = Some c" "family_of_code f c"
    unfolding families_ok_def issued_for_def by blast
  with inv have "good_code (core s) c" by (auto simp: codes_ok_def)
  then obtain q where q: "co_requests (core s) (ac_requestRef c) = Some q" "rq_status q = Approved" "code_of_request c q"
    and "consent_ok (ac_scopes c) (ac_walletConsentRef c)" by (auto simp: good_code_def)
  moreover from q(1) inv have "''openid'' \<in> set (rq_scopes q)" by (auto simp: requests_ok_def)
  ultimately show ?thesis
    using c claims by (intro exI [of _ h] exI [of _ c] exI [of _ q])
      (simp add: core_lookup family_of_code_def code_of_request_def)
qed

theorem active_token_provenance_witness:
  "\<exists>h c q. findAuthorizationCode h sample5 = Some c \<and> getAuthorizationRequest (ac_requestRef c) sample5 = Some q
    \<and> rq_clientId q = ''shop''"
proof -
  have "introspect sample_env 5000 ''vey_access_dx'' sample5 = Some \<lparr>is_client_id = ''shop'',
      is_sub = tf_pairwiseSubjectAlias sample_family, is_scope = ''openid address_wallet'', is_exp = 904\<rparr>"
    by code_simp
  from active_token_provenance [OF sample_reachable5 this] show ?thesis
    unfolding introspection.simps by metis
qed

text \<open>C32. A successful exchange is bound to the request that was approved: the same client, the redirect URI and
  the PKCE verifier of its challenge, in time; the scopes are those of the request.\<close>

theorem exchange_bound_to_request:
  assumes "id_reachable env s" and "exchangeAuthorizationCode env now rnd i s = (Inr r, s')"
  shows "\<exists>c q. findAuthorizationCode (ev_sha256 env (ex_code i)) s = Some c \<and> now < ac_expiresAt c
    \<and> getAuthorizationRequest (ac_requestRef c) s = Some q \<and> rq_status q = Approved
    \<and> rq_clientId q = ex_clientId i \<and> normalizeUrl env (ex_redirectUri i) = Inr (rq_redirectUri q)
    \<and> rq_pkceChallenge q = ev_challenge env (ex_codeVerifier i)
    \<and> tr_scope r = string_join '' '' (rq_scopes q)"
proof -
  from assms(2) obtain c where c: "findAuthorizationCode (ev_sha256 env (ex_code i)) s = Some c"
    "ac_clientId c = ex_clientId i" "normalizeUrl env (ex_redirectUri i) = Inr (ac_redirectUri c)"
    "ac_pkceChallenge c = ev_challenge env (ex_codeVerifier i)" "now < ac_expiresAt c"
    "tr_scope r = string_join '' '' (ac_scopes c)"
    by (rule exchange_success)
  moreover from c(1) have "good_code (core s) c"
    using reachable_inv [OF assms(1)] by (auto simp: id_inv_def codes_ok_def core_lookup)
  then obtain q where "co_requests (core s) (ac_requestRef c) = Some q" "rq_status q = Approved" "code_of_request c q"
    by (auto simp: good_code_def)
  ultimately show ?thesis
    by (intro exI [of _ c] exI [of _ q]) (simp add: core_lookup code_of_request_def)
qed

lemma sample_exchanged: "\<not> isl (fst (exchangeAuthorizationCode sample_env 4000 (sample_rnd ''d'') sample_exchange sample4))"
  by code_simp

lemma sample_exchanges: obtains r where
  "exchangeAuthorizationCode sample_env 4000 (sample_rnd ''d'') sample_exchange sample4 = (Inr r, sample5)"
  using ok_answer [OF sample_exchanged] unfolding sample5_def by blast

theorem exchange_bound_to_request_witness:
  "\<exists>c q. findAuthorizationCode (ev_sha256 sample_env ''vey_code_c'') sample4 = Some c
    \<and> getAuthorizationRequest (ac_requestRef c) sample4 = Some q \<and> rq_pkceChallenge q = sample_verifier"
proof -
  obtain r where "exchangeAuthorizationCode sample_env 4000 (sample_rnd ''d'') sample_exchange sample4 = (Inr r, sample5)"
    by (rule sample_exchanges)
  from exchange_bound_to_request [OF sample_reachable4 this] show ?thesis
    by (auto simp: sample_exchange_def sample_env_def)
qed

text \<open>C6. An authorization code is exchanged once: after a successful exchange and any run of the service every
  further exchange of the code fails, whoever makes it and whatever verifier it has, and changes nothing.\<close>

theorem code_exchanged_once:
  assumes "id_reachable env s" and "id_step env s s1" and "exchangeAuthorizationCode env now rnd i s = (Inr r, s1)"
    and "id_run env s1 s2" and "ex_code j = ex_code i"
  shows "\<exists>e. exchangeAuthorizationCode env now' rnd' j s2 = (Inl e, s2)"
proof -
  from assms(3) obtain c where "findAuthorizationCode (ev_sha256 env (ex_code i)) s1 = Some (c\<lparr>ac_consumedAt := Some now\<rparr>)"
    by (rule exchange_success)
  with assms(4) step_inv [OF assms(2) reachable_inv [OF assms(1)]]
  have "findAuthorizationCode (ev_sha256 env (ex_code j)) s2 = Some (c\<lparr>ac_consumedAt := Some now\<rparr>)"
    by (simp add: run_spent_code assms(5))
  then have "consumeAuthorizationCode (ev_sha256 env (ex_code j)) now' s2 = (None, s2)"
    by (rule codes.consume_used) simp
  then show ?thesis
    by (auto simp: exchangeAuthorizationCode_def throw_def split: sum.split)
qed

theorem code_exchanged_once_witness:
  "\<exists>e. exchangeAuthorizationCode sample_env 4500 (sample_rnd ''h'') sample_exchange sample6 = (Inl e, sample6)"
proof -
  obtain r where "exchangeAuthorizationCode sample_env 4000 (sample_rnd ''d'') sample_exchange sample4 = (Inr r, sample5)"
    by (rule sample_exchanges)
  from code_exchanged_once [OF sample_reachable4 sample_step5 this sample_runs(2) refl]
  show ?thesis .
qed

text \<open>An authorization request is approved once.\<close>

theorem request_approved_once:
  assumes "id_reachable env s" and "id_step env s s1" and "approveAuthorization env now rnd i s = (Inr a, s1)"
    and "id_run env s1 s2" and "ap_requestRef j = ap_requestRef i"
  shows "approveAuthorization env now' rnd' j s2 = (Inl (JsTypeError ''authorization_request_not_pending''), s2)"
proof -
  note inv = reachable_inv [OF assms(1)]
  from assms(3) obtain q session client where checks: "approve_checks env now i s = Inr (q, session, client)"
    by (auto simp: approveAuthorization_def split: sum.splits)
  note q = approve_checks_Inr [OF checks]
  from q(1) inv have "rq_requestRef q = ap_requestRef i" by (simp add: id_inv_def requests_ok_def)
  then have "getAuthorizationRequest (ap_requestRef i) s1 = Some (q\<lparr>rq_status := Approved\<rparr>)"
    using assms(3) by (auto simp: approveAuthorization_def checks Let_def core_lookup split: prod.splits)
  then have "getAuthorizationRequest (ap_requestRef j) s2 = Some (q\<lparr>rq_status := Approved\<rparr>)"
    using assms(4) step_inv [OF assms(2) inv] by (simp add: run_approved assms(5))
  then show ?thesis by (simp add: approveAuthorization_def approve_checks_def)
qed

theorem request_approved_once_witness:
  "approveAuthorization sample_env 3500 (sample_rnd ''h'') sample_approve sample5
    = (Inl (JsTypeError ''authorization_request_not_pending''), sample5)"
proof -
  have "\<not> isl (fst (approveAuthorization sample_env 3000 (sample_rnd ''c'') sample_approve sample3))" by code_simp
  then obtain a where "approveAuthorization sample_env 3000 (sample_rnd ''c'') sample_approve sample3 = (Inr a, sample4)"
    unfolding sample4_def by (blast dest: ok_answer)
  from request_approved_once [OF sample_reachable3 sample_step4 this sample_runs(1) refl]
  show ?thesis .
qed

text \<open>A family that ended: no access token of it is active and no refresh token of it can be used.\<close>

definition family_over :: "id_env \<Rightarrow> string \<Rightarrow> id_store \<Rightarrow> bool" where
  "family_over env r s \<longleftrightarrow>
     (\<forall>now t a. findAccessToken (ev_sha256 env t) s = Some a \<and> at_familyRef a = r \<longrightarrow> introspect env now t s = None)
   \<and> (\<forall>now rnd i b. findRefreshToken (ev_sha256 env (ri_refreshToken i)) s = Some b \<and> rt_familyRef b = r
        \<longrightarrow> isl (fst (refresh env now rnd i s)) \<and> snd (refresh env now rnd i s) = s)"

lemma dead_family_over: "dead_family r (core s) \<Longrightarrow> family_over env r s"
  unfolding family_over_def using dead_family_introspect dead_family_refresh by blast



text \<open>C21. Two requests may pass the checks of \<open>refresh\<close> with one token before either consumes it. At most one gets
  tokens: the other is refused, and the family, with the tokens the first one got, is over.\<close>

theorem refresh_race_ends_family:
  assumes "id_reachable env s" and "refresh_begin env n1 r1 i s = (Inr f, s)"
    and "id_run env s s1" and "id_step env s1 s2" and "refresh_finish env n2 r2 i f s1 = (Inr resp, s2)"
    and "findRefreshToken (op_hash (opaque env ''vey_refresh'' (r2 0) (r2 1))) s1 = None"
    and "id_run env s2 s3" and "ri_refreshToken j = ri_refreshToken i"
  shows "fst (refresh_finish env n3 r3 j f s3) = Inl (JsTypeError ''refresh_token_replay_race'')
    \<and> family_over env (tf_familyRef f) (snd (refresh_finish env n3 r3 j f s3))"
proof -
  have inv: "id_inv (core s)" using assms(1) by (rule reachable_inv)
  have inv2: "id_inv (core s2)" using step_inv [OF assms(4) run_inv [OF assms(3) inv]] .
  from assms(2) have "\<exists>e. getTokenFamily (rt_familyRef (e :: refresh_token)) s = Some f"
    by (auto simp: refresh_begin_def throw_def split: sum.splits option.splits if_splits)
  with inv have "co_families (core s) (tf_familyRef f) \<noteq> None"
    by (auto simp: id_inv_def families_ok_def core_lookup)
  then have "co_families (core s1) (tf_familyRef f) \<noteq> None" using assms(3) inv by (rule run_has_family [rotated 2])
  moreover have "id_effect (core s1) (core s2)"
    using assms(4) run_inv [OF assms(3) inv] by (auto intro: step_effect simp: id_inv_def)
  ultimately have "co_families (core s2) (tf_familyRef f) \<noteq> None" by (metis effect_has_family)
  then have fam: "co_families (core s3) (tf_familyRef f) \<noteq> None" using assms(7) inv2 by (rule run_has_family [rotated 2])
  from assms(5,6) obtain b where "findRefreshToken (ev_sha256 env (ri_refreshToken i)) s2 = Some b" "rt_consumedAt b \<noteq> None"
    by (rule refresh_finish_success)
  then have "findRefreshToken (ev_sha256 env (ri_refreshToken j)) s3 = Some b" "rt_consumedAt b \<noteq> None"
    using run_spent_refresh [OF assms(7) inv2] assms(8) by simp_all
  then have "consumeRefreshToken (ev_sha256 env (ri_refreshToken j)) n3 ref s3 = (None, s3)" for ref
    by (rule refresh_tokens.consume_used)
  then have race: "refresh_finish env n3 r3 j f s3 = (Inl (JsTypeError ''refresh_token_replay_race''),
      audit n3 (r3 2) ''client'' (Some (ri_clientId j)) ''refresh.replay_race'' ''token_family''
        (tf_familyRef f) ''denied'' (ri_requestId j) None (revokeFamily (tf_familyRef f) FamilyCompromised s3))"
    by (simp add: refresh_finish_def throw_def Let_def)
  moreover have "dead_family (tf_familyRef f) (core (revokeFamily (tf_familyRef f) FamilyCompromised s3))"
    using fam by (auto simp: core_revoke dead_family_def)
  ultimately show ?thesis by (simp add: dead_family_over)
qed

theorem refresh_race_ends_family_witness:
  "family_over sample_env ''vey_token_family_d''
     (snd (refresh_finish sample_env 6000 (sample_rnd ''h'') sample_refresh sample_family sample6))"
proof -
  have begun: "refresh_begin sample_env 4500 (sample_rnd ''g'') sample_refresh sample5 = (Inr sample_family, sample5)"
    by code_simp
  have "\<not> isl (fst (refresh_finish sample_env 5000 (sample_rnd ''e'') sample_refresh sample_family sample5))" by code_simp
  then obtain r where "refresh_finish sample_env 5000 (sample_rnd ''e'') sample_refresh sample_family sample5 = (Inr r, sample6)"
    unfolding sample6_def by (blast dest: ok_answer)
  from refresh_race_ends_family [OF sample_reachable5 begun rtranclp.rtrancl_refl sample_step6 this
      sample_unused_refresh rtranclp.rtrancl_refl refl]
  show ?thesis by (simp only: sample_family_ref)
qed

text \<open>A client revokes families of its own only: the token's family ends when it is the client's, and every
  family of another client stays as it is.\<close>

theorem revoke_client_own_family:
  assumes "id_reachable env s" and "authenticateClient env clientId secret s = Inr client"
    and "revokeForClient env now rnd t clientId secret requestId s = (r, s')"
  shows "(\<forall>ref f. getTokenFamily ref s = Some f \<and> tf_clientId f \<noteq> clientId \<longrightarrow> getTokenFamily ref s' = Some f)
    \<and> (\<forall>ref f. family_of_token env t s = Some ref \<and> ref \<noteq> [] \<and> getTokenFamily ref s = Some f \<and> tf_clientId f = clientId
         \<longrightarrow> family_over env ref s')"
proof (intro conjI allI impI)
  fix ref f
  assume f: "getTokenFamily ref s = Some f \<and> tf_clientId f \<noteq> clientId"
  then show "getTokenFamily ref s' = Some f"
    using assms(2,3) by (auto simp: revokeForClient_def Let_def core_lookup core_revoke split: option.splits if_splits)
next
  fix ref f
  assume f: "family_of_token env t s = Some ref \<and> ref \<noteq> [] \<and> getTokenFamily ref s = Some f \<and> tf_clientId f = clientId"
  then have "dead_family ref (core s')"
    using assms(2,3) by (auto simp: revokeForClient_def Let_def core_lookup core_revoke dead_family_def truthy_opt_def)
  then show "family_over env ref s'" by (rule dead_family_over)
qed

theorem revoke_client_own_family_witness:
  "family_over sample_env ''vey_token_family_d''
     (snd (revokeForClient sample_env 6000 (sample_rnd ''h'') ''vey_access_dx'' ''shop'' None None sample5))"
proof -
  have auth: "\<not> isl (authenticateClient sample_env ''shop'' None sample5)" by code_simp
  have ref: "family_of_token sample_env ''vey_access_dx'' sample5 = Some ''vey_token_family_d''" by code_simp
  from auth obtain client where client: "authenticateClient sample_env ''shop'' None sample5 = Inr client"
    by (metis sum.collapse(2))
  obtain r s' where "revokeForClient sample_env 6000 (sample_rnd ''h'') ''vey_access_dx'' ''shop'' None None sample5 = (r, s')"
    by fastforce
  note revoked = revoke_client_own_family [OF sample_reachable5 client this]
  have "family_over sample_env ''vey_token_family_d'' s'"
    by (rule revoked [THEN conjunct2, rule_format, of _ sample_family])
      (simp add: ref sample_family, simp add: sample_family_def)
  then show ?thesis using \<open>_ = (r, s')\<close> by (simp only: snd_conv)
qed

text \<open>A navigation handoff is consumed once.\<close>

theorem handoff_consumed_once:
  assumes "id_reachable env s" and "consumeNavigationHandoff env now rnd t requestId s = (Inr r, s1)"
    and "id_run env s1 s2"
  shows "consumeNavigationHandoff env now' rnd' t requestId' s2
    = (Inl (JsTypeError ''navigation_handoff_invalid_or_replayed''), s2)"
proof -
  have inv: "id_inv (core s)" using assms(1) by (rule reachable_inv)
  obtain v sc where consume: "storeConsumeNavigationHandoff (ev_sha256 env t) now s = (v, sc)" by fastforce
  with assms(2) have "v \<noteq> None" by (cases v) (auto simp: consumeNavigationHandoff_def throw_def)
  with core_consume_handoff [OF consume] obtain n where
      "core sc = (core s)\<lparr>co_handoffs := (co_handoffs (core s))(ev_sha256 env t \<mapsto> n\<lparr>nh_consumedAt := Some now\<rparr>)\<rparr>" by auto
  moreover have "core s1 = core sc"
    using assms(2) consume by (auto simp: consumeNavigationHandoff_def throw_def split: option.splits if_splits)
  ultimately have "findNavigationHandoff (ev_sha256 env t) s1 = Some (n\<lparr>nh_consumedAt := Some now\<rparr>)"
    by (simp add: core_lookup)
  moreover have "id_inv (core s1)"
    using step_inv [OF id_step.consume_handoff [of env s now rnd t requestId] inv] assms(2) by simp
  ultimately have "findNavigationHandoff (ev_sha256 env t) s2 = Some (n\<lparr>nh_consumedAt := Some now\<rparr>)"
    using assms(3) by (simp add: run_spent_handoff)
  then have "storeConsumeNavigationHandoff (ev_sha256 env t) now' s2 = (None, s2)"
    by (rule handoffs.consume_used) simp
  then show ?thesis by (simp add: consumeNavigationHandoff_def throw_def)
qed

definition sample8 :: id_store where
  "sample8 = snd (consumeNavigationHandoff sample_env 6000 (sample_rnd ''h'') ''nav_handoff_f'' None sample7)"

theorem handoff_consumed_once_witness:
  "consumeNavigationHandoff sample_env 7000 (sample_rnd ''j'') ''nav_handoff_f'' None sample8
    = (Inl (JsTypeError ''navigation_handoff_invalid_or_replayed''), sample8)"
proof -
  have "\<not> isl (fst (consumeNavigationHandoff sample_env 6000 (sample_rnd ''h'') ''nav_handoff_f'' None sample7))" by code_simp
  then obtain r where "consumeNavigationHandoff sample_env 6000 (sample_rnd ''h'') ''nav_handoff_f'' None sample7 = (Inr r, sample8)"
    unfolding sample8_def by (blast dest: ok_answer)
  from handoff_consumed_once [OF sample_reachable7 this rtranclp.rtrancl_refl] show ?thesis .
qed

end
