(* ===== verification/Guest_Access.thy ===== *)
theory Guest_Access
  imports AGID_Prelude
begin

section \<open>Guest sessions of the shipping service\<close>

text \<open>
  \<open>src/src/server/auth/veygritShipGuestAccess.ts\<close>: guest sessions with a closed set of capabilities, each with
  a budget per time window, issued at a bounded rate per caller. The store is the PostgreSQL one; its
  statements are read as functions on two tables, with one reading of the database clock (\<open>now()\<close>, in
  milliseconds) for each statement. Hashing is a parameter.
\<close>

subsection \<open>Capabilities and budgets\<close>

datatype guest_capability = RateSimulation | SandboxShipment | ShipmentDraft | AddressInput | TestApi

definition GUEST_CAPABILITIES :: "guest_capability list" where
  "GUEST_CAPABILITIES = [RateSimulation, SandboxShipment, ShipmentDraft, AddressInput, TestApi]"

record capability_budget =
  cb_limit :: int
  cb_windowSeconds :: int

fun GUEST_CAPABILITY_BUDGETS :: "guest_capability \<Rightarrow> capability_budget" where
  "GUEST_CAPABILITY_BUDGETS RateSimulation = \<lparr>cb_limit = 60, cb_windowSeconds = 15 * 60\<rparr>"
| "GUEST_CAPABILITY_BUDGETS SandboxShipment = \<lparr>cb_limit = 20, cb_windowSeconds = 60 * 60\<rparr>"
| "GUEST_CAPABILITY_BUDGETS ShipmentDraft = \<lparr>cb_limit = 50, cb_windowSeconds = 60 * 60\<rparr>"
| "GUEST_CAPABILITY_BUDGETS AddressInput = \<lparr>cb_limit = 60, cb_windowSeconds = 15 * 60\<rparr>"
| "GUEST_CAPABILITY_BUDGETS TestApi = \<lparr>cb_limit = 120, cb_windowSeconds = 15 * 60\<rparr>"

definition window_ms :: "capability_budget \<Rightarrow> int" where
  "window_ms b = cb_windowSeconds b * 1000"

subsection \<open>Tables\<close>

datatype guest_status = GActive | GClaimed | GExpired | GRevoked

record guest_row =
  gr_id :: int
  gr_session_ref :: string
  gr_token_hash :: string
  gr_issuer_fingerprint_hash :: string
  gr_capabilities :: "guest_capability list"
  gr_expires_at :: int
  gr_status :: guest_status
  gr_created_at :: int
  gr_last_seen_at :: int
  gr_revoked_reason :: "string option"

record usage_row =
  ur_window_started_at :: int
  ur_request_count :: int
  ur_last_used_at :: int

text \<open>The sessions in the order of their identities, the usage rows by session and capability, and the audit
  events as action and reference.\<close>

record guest_db =
  gd_sessions :: "guest_row list"
  gd_usage :: "((int \<times> guest_capability) \<times> usage_row) list"
  gd_audits :: "(string \<times> string) list"

definition empty_guest_db :: guest_db where
  "empty_guest_db = \<lparr>gd_sessions = [], gd_usage = [], gd_audits = []\<rparr>"

record guest_session =
  gs_sessionRef :: string
  gs_capabilities :: "guest_capability list"
  gs_expiresAt :: int

datatype refusal = InvalidToken | SessionExpired | SessionRevoked | CapabilityDenied | RateLimited
datatype guest_decision = Granted int guest_session | Refused refusal

subsection \<open>The store\<close>

record session_input =
  sx_sessionRef :: string
  sx_tokenHash :: string
  sx_issuerFingerprintHash :: string
  sx_expiresAt :: int
  sx_maxSessionsPerHour :: int

text \<open>The transaction: the lock on the issuer makes count and insertion one step; a session reference or token
  hash that is in use violates a unique key, and the transaction is rolled back.\<close>

definition createSession :: "session_input \<Rightarrow> int \<Rightarrow> guest_db \<Rightarrow> bool result \<times> guest_db" where
  "createSession i now db =
     (let recent = length (filter (\<lambda>r. gr_issuer_fingerprint_hash r = sx_issuerFingerprintHash i
            \<and> now - 3600000 < gr_created_at r) (gd_sessions db))
      in if \<not> int recent < sx_maxSessionsPerHour i then (Inr False, db)
         else if list_ex (\<lambda>r. gr_session_ref r = sx_sessionRef i \<or> gr_token_hash r = sx_tokenHash i) (gd_sessions db)
         then (Inl (JsError ''duplicate key''), db)
         else (Inr True, db\<lparr>gd_sessions := gd_sessions db @ [\<lparr>gr_id = int (length (gd_sessions db)),
             gr_session_ref = sx_sessionRef i, gr_token_hash = sx_tokenHash i,
             gr_issuer_fingerprint_hash = sx_issuerFingerprintHash i, gr_capabilities = GUEST_CAPABILITIES,
             gr_expires_at = sx_expiresAt i, gr_status = GActive, gr_created_at = now, gr_last_seen_at = now,
             gr_revoked_reason = None\<rparr>],
           gd_audits := gd_audits db @ [(''guest.session.issued'', sx_sessionRef i)]\<rparr>))"

text \<open>The first query of \<open>consumeCapability\<close> and the checks on its row.\<close>

definition check_capability :: "string \<Rightarrow> guest_capability \<Rightarrow> int \<Rightarrow> guest_db \<Rightarrow> refusal + guest_row" where
  "check_capability tokenHash capability now db =
     (case filter (\<lambda>r. gr_token_hash r = tokenHash) (gd_sessions db) of
        [] \<Rightarrow> Inl InvalidToken
      | row # _ \<Rightarrow>
         (if gr_status row = GRevoked \<or> gr_status row = GClaimed then Inl SessionRevoked
          else if gr_status row \<noteq> GActive \<or> gr_expires_at row \<le> now then Inl SessionExpired
          else if capability \<notin> set (gr_capabilities row) then Inl CapabilityDenied
          else Inr row))"

text \<open>The second query: one statement that inserts the usage row or, on conflict, updates it where the window
  is over or the budget is not used up, and returns the session when a row was written.\<close>

definition next_usage :: "capability_budget \<Rightarrow> int \<Rightarrow> usage_row option \<Rightarrow> usage_row option" where
  "next_usage budget now old = (case old of
     None \<Rightarrow> Some \<lparr>ur_window_started_at = now, ur_request_count = 1, ur_last_used_at = now\<rparr>
   | Some u \<Rightarrow>
      (if ur_window_started_at u \<le> now - window_ms budget \<or> ur_request_count u < cb_limit budget
       then Some (if ur_window_started_at u \<le> now - window_ms budget
         then \<lparr>ur_window_started_at = now, ur_request_count = 1, ur_last_used_at = now\<rparr>
         else u\<lparr>ur_request_count := ur_request_count u + 1, ur_last_used_at := now\<rparr>)
       else None))"

definition seen :: "int \<Rightarrow> int \<Rightarrow> guest_row \<Rightarrow> guest_row" where
  "seen i now r = (if gr_id r = i then r\<lparr>gr_last_seen_at := now\<rparr> else r)"

definition use_capability ::
  "int \<Rightarrow> guest_capability \<Rightarrow> capability_budget \<Rightarrow> int \<Rightarrow> guest_db \<Rightarrow> guest_decision \<times> guest_db" where
  "use_capability i capability budget now db =
     (case filter (\<lambda>g. gr_id g = i \<and> gr_status g = GActive \<and> now < gr_expires_at g
          \<and> capability \<in> set (gr_capabilities g)) (gd_sessions db) of
        [] \<Rightarrow> (Refused RateLimited, db)
      | g # _ \<Rightarrow> (case next_usage budget now (map_of (gd_usage db) (i, capability)) of
          None \<Rightarrow> (Refused RateLimited, db)
        | Some u \<Rightarrow> (Granted (max 0 (cb_limit budget - ur_request_count u))
              \<lparr>gs_sessionRef = gr_session_ref g, gs_capabilities = gr_capabilities g, gs_expiresAt = gr_expires_at g\<rparr>,
            db\<lparr>gd_usage := AList.update (i, capability) u (gd_usage db),
               gd_sessions := map (seen i now) (gd_sessions db)\<rparr>)))"

definition consumeCapability ::
  "string \<Rightarrow> guest_capability \<Rightarrow> capability_budget \<Rightarrow> int \<Rightarrow> guest_db \<Rightarrow> guest_decision \<times> guest_db" where
  "consumeCapability tokenHash capability budget now db = (case check_capability tokenHash capability now db of
     Inl reason \<Rightarrow> (Refused reason, db)
   | Inr row \<Rightarrow> use_capability (gr_id row) capability budget now db)"

definition revoked :: "string \<Rightarrow> string \<Rightarrow> guest_row \<Rightarrow> guest_row" where
  "revoked sessionRef reason r = (if gr_session_ref r = sessionRef \<and> gr_status r = GActive
     then r\<lparr>gr_status := GRevoked, gr_revoked_reason := Some reason\<rparr> else r)"

definition revokeSession :: "string \<Rightarrow> string \<Rightarrow> guest_db \<Rightarrow> bool \<times> guest_db" where
  "revokeSession sessionRef reason db =
     (let normalizedReason = take 200 (js_trim reason);
          hit = filter (\<lambda>r. gr_session_ref r = sessionRef \<and> gr_status r = GActive) (gd_sessions db)
      in (length hit = 1, db\<lparr>gd_sessions := map (revoked sessionRef
              (if normalizedReason = [] then ''revoked'' else normalizedReason)) (gd_sessions db),
            gd_audits := gd_audits db @ map (\<lambda>r. (''guest.session.revoked'', gr_session_ref r)) hit\<rparr>))"

subsection \<open>The service\<close>

record guest_options =
  go_fingerprintSecret :: string
  go_sessionLifetimeMs :: "int option"
  go_maxSessionsPerHour :: "int option"
  go_sha256 :: "string \<Rightarrow> string"
  go_hmac :: "string \<Rightarrow> string \<Rightarrow> string"

definition VeygritShipGuestAccessService :: "guest_options \<Rightarrow> guest_options result" where
  "VeygritShipGuestAccessService options =
     (if length (go_fingerprintSecret options) < 32
      then Inl (JsTypeError ''Guest fingerprint secret must be at least 32 characters.'') else Inr options)"

definition session_lifetime :: "guest_options \<Rightarrow> int" where
  "session_lifetime options = max (15 * 60000) (min (24 * 60 * 60000)
     (case go_sessionLifetimeMs options of None \<Rightarrow> 2 * 60 * 60000 | Some n \<Rightarrow> n))"

definition max_sessions :: "guest_options \<Rightarrow> int" where
  "max_sessions options = max 1 (min 100 (case go_maxSessionsPerHour options of None \<Rightarrow> 10 | Some n \<Rightarrow> n))"

text \<open>\<open>token\<close> and \<open>uuid\<close> are the random texts: the token as the options or the platform draw it, the UUID
  without its dashes; \<open>now\<close> is the clock of the service and \<open>dbNow\<close> that of the database.\<close>

definition issueSession :: "guest_options \<Rightarrow> string \<Rightarrow> string \<Rightarrow> string \<Rightarrow> int \<Rightarrow> int \<Rightarrow> guest_db
    \<Rightarrow> (string \<times> guest_session) result \<times> guest_db" where
  "issueSession options issuer token uuid now dbNow db =
     (let normalizedIssuer = (if js_trim issuer = [] then ''unknown'' else js_trim issuer);
          sessionRef = ''guest_'' @ uuid;
          expiresAt = now + session_lifetime options
      in case createSession \<lparr>sx_sessionRef = sessionRef, sx_tokenHash = go_sha256 options token,
            sx_issuerFingerprintHash = go_hmac options (go_fingerprintSecret options) normalizedIssuer,
            sx_expiresAt = expiresAt, sx_maxSessionsPerHour = max_sessions options\<rparr> dbNow db of
          (Inl e, db') \<Rightarrow> (Inl e, db')
        | (Inr False, db') \<Rightarrow> (Inl (JsError ''Guest session issuance rate limit was reached.''), db')
        | (Inr True, db') \<Rightarrow> (Inr (token, \<lparr>gs_sessionRef = sessionRef, gs_capabilities = GUEST_CAPABILITIES,
              gs_expiresAt = expiresAt\<rparr>), db'))"

definition token_char :: "char \<Rightarrow> bool" where
  "token_char c \<longleftrightarrow> is_upper_char c \<or> is_lower_char c \<or> is_digit_char c \<or> c = CHR ''_'' \<or> c = CHR ''-''"

definition guest_token_pattern :: "string \<Rightarrow> bool" where
  "guest_token_pattern t \<longleftrightarrow> js_starts_with ''gst_'' t \<and> 32 \<le> length (drop 4 t) \<and> length (drop 4 t) \<le> 200
     \<and> list_all token_char (drop 4 t)"

definition authorize :: "guest_options \<Rightarrow> string \<Rightarrow> guest_capability \<Rightarrow> int \<Rightarrow> guest_db \<Rightarrow> guest_decision \<times> guest_db" where
  "authorize options token capability now db =
     (let normalized = js_trim token
      in if \<not> guest_token_pattern normalized then (Refused InvalidToken, db)
         else consumeCapability (go_sha256 options normalized) capability (GUEST_CAPABILITY_BUDGETS capability) now db)"

end
