(* ===== verification/Guest_Props.thy ===== *)
theory Guest_Props
  imports Guest_Access
begin

section \<open>Rate limits and revocation of guest access\<close>

text \<open>
  Runs of the service: sessions are issued and revoked, capabilities are used, time passes. A run records the
  uses that were granted. The second query of \<open>consumeCapability\<close> is a step of its own, for any row the first
  query may have read earlier.
\<close>

type_synonym guest_use = "int \<times> int \<times> guest_capability"

inductive guest_step :: "guest_options \<Rightarrow> int \<times> guest_db \<Rightarrow> guest_use list \<Rightarrow> int \<times> guest_db \<Rightarrow> bool" for opts where
  tick: "t \<le> t' \<Longrightarrow> guest_step opts (t, db) [] (t', db)"
| issue: "guest_step opts (t, db) [] (t, snd (issueSession opts issuer token uuid now t db))"
| use_granted: "use_capability i c (GUEST_CAPABILITY_BUDGETS c) t db = (Granted n s, db')
    \<Longrightarrow> guest_step opts (t, db) [(t, i, c)] (t, db')"
| revoke: "guest_step opts (t, db) [] (t, snd (revokeSession ref reason db))"

inductive guest_run :: "guest_options \<Rightarrow> int \<times> guest_db \<Rightarrow> guest_use list \<Rightarrow> int \<times> guest_db \<Rightarrow> bool" for opts where
  stop: "guest_run opts x [] x"
| more: "guest_run opts x l y \<Longrightarrow> guest_step opts y e z \<Longrightarrow> guest_run opts x (l @ e) z"

definition uses_of :: "int \<Rightarrow> guest_capability \<Rightarrow> guest_use list \<Rightarrow> int list" where
  "uses_of i c l = map fst (filter (\<lambda>u. snd u = (i, c)) l)"

lemma uses_of_simps [simp]:
  "uses_of i c [] = []" "uses_of i c (l @ m) = uses_of i c l @ uses_of i c m"
  "uses_of i c [(t, j, d)] = (if (j, d) = (i, c) then [t] else [])"
  by (simp_all add: uses_of_def)

text \<open>An authorization is refused without a change, or it is such a step for the session of the token.\<close>

lemma guest_authorize_cases:
  obtains (refused) reason where "authorize opts token c now db = (Refused reason, db)"
    | (granted) row n s db' where "authorize opts token c now db = (Granted n s, db')"
      "check_capability (go_sha256 opts (js_trim token)) c now db = Inr row"
      "use_capability (gr_id row) c (GUEST_CAPABILITY_BUDGETS c) now db = (Granted n s, db')"
proof (cases "guest_token_pattern (js_trim token)")
  case False
  then show ?thesis using refused by (simp add: authorize_def)
next
  case True
  show ?thesis
  proof (cases "check_capability (go_sha256 opts (js_trim token)) c now db")
    case (Inl e)
    then show ?thesis using refused True by (simp add: authorize_def consumeCapability_def)
  next
    case (Inr row)
    have eq: "authorize opts token c now db = use_capability (gr_id row) c (GUEST_CAPABILITY_BUDGETS c) now db"
      using True Inr by (simp add: authorize_def consumeCapability_def)
    obtain d db' where u: "use_capability (gr_id row) c (GUEST_CAPABILITY_BUDGETS c) now db = (d, db')" by fastforce
    show ?thesis
    proof (cases d)
      case (Granted n s)
      then show ?thesis using granted eq u Inr by simp
    next
      case (Refused e)
      then have "db' = db" using u by (auto simp: use_capability_def split: list.splits option.splits)
      then show ?thesis using refused eq u Refused by simp
    qed
  qed
qed

subsection \<open>The budget of a capability\<close>

definition uses_between :: "int \<Rightarrow> int \<Rightarrow> int list \<Rightarrow> nat" where
  "uses_between a b ts = length (filter (\<lambda>x. a \<le> x \<and> x < b) ts)"

lemma filter_length_mono: "(\<And>x. x \<in> set xs \<Longrightarrow> P x \<Longrightarrow> Q x) \<Longrightarrow> length (filter P xs) \<le> length (filter Q xs)"
  by (induction xs) force+

lemma filter_length_less:
  "(\<And>x. x \<in> set xs \<Longrightarrow> P x \<Longrightarrow> Q x) \<Longrightarrow> y \<in> set xs \<Longrightarrow> Q y \<Longrightarrow> \<not> P y \<Longrightarrow> length (filter P xs) < length (filter Q xs)"
proof (induction xs)
  case (Cons x xs)
  have mono: "length (filter P xs) \<le> length (filter Q xs)" using Cons.prems(1) by (intro filter_length_mono) simp
  show ?case
  proof (cases "x = y")
    case True
    then show ?thesis using mono Cons.prems by simp
  next
    case False
    then have "length (filter P xs) < length (filter Q xs)" using Cons by simp
    then show ?thesis using Cons.prems(1) [of x] by simp
  qed
qed simp

text \<open>The usage row of a session and capability against the uses it stands for: it counts those since its
  window began, the window before had fewer than the limit left of it, and nothing lies beyond.\<close>

definition window_inv :: "capability_budget \<Rightarrow> usage_row option \<Rightarrow> int list \<Rightarrow> int \<Rightarrow> bool" where
  "window_inv b old ts t \<longleftrightarrow> (case old of None \<Rightarrow> ts = []
   | Some u \<Rightarrow> ur_request_count u = int (length (filter (\<lambda>x. ur_window_started_at u \<le> x) ts))
      \<and> ur_request_count u \<le> cb_limit b \<and> ur_window_started_at u \<in> set ts
      \<and> (\<forall>x \<in> set ts. x < ur_window_started_at u + window_ms b \<and> x \<le> t)
      \<and> int (uses_between (ur_window_started_at u - window_ms b + 1) (ur_window_started_at u) ts) < cb_limit b)
   \<and> (\<forall>a. int (uses_between a (a + window_ms b) ts) \<le> 2 * cb_limit b - 1)"

lemma window_inv_first:
  assumes "0 < window_ms b" "1 \<le> cb_limit b"
  shows "window_inv b (Some \<lparr>ur_window_started_at = now, ur_request_count = 1, ur_last_used_at = now\<rparr>) [now] now"
  using assms by (auto simp: window_inv_def uses_between_def)

lemma window_inv_reset:
  assumes b: "0 < window_ms b" "1 \<le> cb_limit b" and inv: "window_inv b (Some u) ts t" and "t \<le> now"
    and over: "ur_window_started_at u \<le> now - window_ms b"
  shows "window_inv b (Some \<lparr>ur_window_started_at = now, ur_request_count = 1, ur_last_used_at = now\<rparr>) (ts @ [now]) now"
proof -
  let ?w = "ur_window_started_at u" and ?W = "window_ms b"
  from inv have w: "?w \<in> set ts" "\<forall>x \<in> set ts. x < ?w + ?W \<and> x \<le> t"
    and count: "int (length (filter (\<lambda>x. ?w \<le> x) ts)) \<le> cb_limit b"
    and all: "int (uses_between a (a + ?W) ts) \<le> 2 * cb_limit b - 1" for a
    by (auto simp: window_inv_def)
  have before: "\<forall>x \<in> set ts. x < now" using w(2) over by force
  have recent: "int (length (filter P ts)) < cb_limit b" if "\<And>x. x \<in> set ts \<Longrightarrow> P x \<Longrightarrow> now - ?W < x" for P
  proof -
    have "length (filter P ts) < length (filter (\<lambda>x. ?w \<le> x) ts)"
      using that w(1) over by (intro filter_length_less [where y = ?w]) force+
    then show ?thesis using count by linarith
  qed
  have "filter (\<lambda>x. now \<le> x) ts = []" using before by (force simp: filter_empty_conv)
  moreover have "int (uses_between (now - ?W + 1) now (ts @ [now])) < cb_limit b"
    using recent [of "\<lambda>x. now - ?W + 1 \<le> x \<and> x < now"] by (simp add: uses_between_def)
  moreover have "int (uses_between a (a + ?W) (ts @ [now])) \<le> 2 * cb_limit b - 1" for a
  proof (cases "a \<le> now \<and> now < a + ?W")
    case True
    then have "int (uses_between a (a + ?W) ts) < cb_limit b"
      using recent [of "\<lambda>x. a \<le> x \<and> x < a + ?W"] by (simp add: uses_between_def)
    then show ?thesis using True b(2) by (simp add: uses_between_def)
  next
    case False
    then show ?thesis using all [of a] by (auto simp: uses_between_def)
  qed
  ultimately show ?thesis
    using b before \<open>t \<le> now\<close> by (auto simp: window_inv_def)
qed

lemma window_inv_count:
  assumes b: "0 < window_ms b" and inv: "window_inv b (Some u) ts t" and "t \<le> now"
    and running: "now - window_ms b < ur_window_started_at u" and left: "ur_request_count u < cb_limit b"
  shows "window_inv b (Some (u\<lparr>ur_request_count := ur_request_count u + 1, ur_last_used_at := now\<rparr>)) (ts @ [now]) now"
proof -
  let ?w = "ur_window_started_at u" and ?W = "window_ms b"
  from inv have w: "?w \<in> set ts" "\<forall>x \<in> set ts. x < ?w + ?W \<and> x \<le> t"
    and count: "ur_request_count u = int (length (filter (\<lambda>x. ?w \<le> x) ts))"
    and prev: "int (uses_between (?w - ?W + 1) ?w ts) < cb_limit b"
    and all: "int (uses_between a (a + ?W) ts) \<le> 2 * cb_limit b - 1" for a
    by (auto simp: window_inv_def)
  have "?w \<le> now" using w \<open>t \<le> now\<close> by force
  have "int (uses_between a (a + ?W) (ts @ [now])) \<le> 2 * cb_limit b - 1" for a
  proof (cases "a \<le> now \<and> now < a + ?W")
    case True
    have "uses_between a (a + ?W) ts \<le> length (filter (\<lambda>x. ?w \<le> x \<or> ?w - ?W + 1 \<le> x \<and> x < ?w) ts)"
      unfolding uses_between_def using True \<open>?w \<le> now\<close> by (intro filter_length_mono) auto
    also have "\<dots> \<le> length (filter (\<lambda>x. ?w \<le> x) ts) + uses_between (?w - ?W + 1) ?w ts"
      unfolding uses_between_def by (induction ts) auto
    finally show ?thesis using True count left prev by (simp add: uses_between_def)
  next
    case False
    then show ?thesis using all [of a] by (auto simp: uses_between_def)
  qed
  moreover have "int (uses_between (?w - ?W + 1) ?w (ts @ [now])) < cb_limit b"
    using prev \<open>?w \<le> now\<close> by (simp add: uses_between_def)
  ultimately show ?thesis
    using w count left \<open>?w \<le> now\<close> \<open>t \<le> now\<close> running by (force simp: window_inv_def)
qed

lemma window_inv_next:
  assumes "0 < window_ms b" "1 \<le> cb_limit b" "window_inv b old ts t" "t \<le> now" "next_usage b now old = Some u"
  shows "window_inv b (Some u) (ts @ [now]) now"
proof (cases old)
  case None
  then have "ts = []" using assms(3) by (simp add: window_inv_def)
  then show ?thesis using assms(5) None window_inv_first [OF assms(1,2)] by (auto simp: next_usage_def)
next
  case (Some v)
  then show ?thesis
    using assms window_inv_reset [of b v ts t now] window_inv_count [of b v ts t now]
    by (auto simp: next_usage_def split: if_splits)
qed

lemma window_inv_later: "window_inv b old ts t \<Longrightarrow> t \<le> t' \<Longrightarrow> window_inv b old ts t'"
  by (force simp: window_inv_def split: option.splits)

lemma budgets_positive: "0 < window_ms (GUEST_CAPABILITY_BUDGETS c)" "1 \<le> cb_limit (GUEST_CAPABILITY_BUDGETS c)"
  by (cases c; simp add: window_ms_def)+

subsection \<open>The invariant of a run\<close>

definition issued_between :: "string \<Rightarrow> int \<Rightarrow> int \<Rightarrow> guest_row list \<Rightarrow> nat" where
  "issued_between h a b rows = length (filter (\<lambda>r. gr_issuer_fingerprint_hash r = h
     \<and> a < gr_created_at r \<and> gr_created_at r \<le> b) rows)"

definition budgets_ok :: "int \<Rightarrow> guest_db \<Rightarrow> guest_use list \<Rightarrow> bool" where
  "budgets_ok t db log \<longleftrightarrow>
     (\<forall>i c. window_inv (GUEST_CAPABILITY_BUDGETS c) (map_of (gd_usage db) (i, c)) (uses_of i c log) t)"

definition rows_ok :: "guest_options \<Rightarrow> int \<Rightarrow> guest_row list \<Rightarrow> bool" where
  "rows_ok opts t rows \<longleftrightarrow> distinct (map gr_token_hash rows) \<and> distinct (map gr_session_ref rows)
     \<and> (\<forall>r \<in> set rows. gr_created_at r \<le> t)
     \<and> (\<forall>h a. int (issued_between h a (a + 3600000) rows) \<le> max_sessions opts)"

lemma rows_ok_map:
  assumes "\<And>r. gr_token_hash (f r) = gr_token_hash r" "\<And>r. gr_session_ref (f r) = gr_session_ref r"
    "\<And>r. gr_created_at (f r) = gr_created_at r"
    "\<And>r. gr_issuer_fingerprint_hash (f r) = gr_issuer_fingerprint_hash r"
  shows "rows_ok opts t (map f rows) = rows_ok opts t rows"
  by (simp add: rows_ok_def issued_between_def filter_map comp_def assms)

lemma rows_ok_seen [simp]: "rows_ok opts t (map (seen i now) rows) = rows_ok opts t rows"
  by (rule rows_ok_map) (simp_all add: seen_def)

lemma rows_ok_revoked [simp]: "rows_ok opts t (map (revoked ref reason) rows) = rows_ok opts t rows"
  by (rule rows_ok_map) (simp_all add: revoked_def)

lemma max_sessions_bounds: "1 \<le> max_sessions opts" "max_sessions opts \<le> 100"
  by (simp_all add: max_sessions_def)

lemma rows_ok_new:
  assumes ok: "rows_ok opts t rows" and r: "gr_created_at r = t" "gr_issuer_fingerprint_hash r = h"
    and few: "int (length (filter (\<lambda>r. gr_issuer_fingerprint_hash r = h \<and> t - 3600000 < gr_created_at r) rows)) < max_sessions opts"
    and fresh: "\<not> list_ex (\<lambda>x. gr_session_ref x = gr_session_ref r \<or> gr_token_hash x = gr_token_hash r) rows"
  shows "rows_ok opts t (rows @ [r])"
proof -
  have "int (issued_between g a (a + 3600000) (rows @ [r])) \<le> max_sessions opts" for g a
  proof (cases "g = h \<and> a < t \<and> t \<le> a + 3600000")
    case True
    have "issued_between g a (a + 3600000) rows
        \<le> length (filter (\<lambda>r. gr_issuer_fingerprint_hash r = h \<and> t - 3600000 < gr_created_at r) rows)"
      unfolding issued_between_def using True by (intro filter_length_mono) auto
    then show ?thesis using True r few by (simp add: issued_between_def)
  next
    case False
    moreover have "int (issued_between g a (a + 3600000) rows) \<le> max_sessions opts" using ok by (simp add: rows_ok_def)
    ultimately show ?thesis using r by (auto simp: issued_between_def)
  qed
  then show ?thesis using ok r fresh by (auto simp: rows_ok_def list_ex_iff)
qed

lemma issue_effect:
  "snd (issueSession opts issuer token uuid now t db) = db \<or>
   (\<exists>r a. snd (issueSession opts issuer token uuid now t db) = db\<lparr>gd_sessions := gd_sessions db @ [r], gd_audits := a\<rparr>
      \<and> (rows_ok opts t (gd_sessions db) \<longrightarrow> rows_ok opts t (gd_sessions db @ [r])))"
  using rows_ok_new [of opts t "gd_sessions db"]
  by (auto simp: issueSession_def createSession_def Let_def split: if_split)

lemma revoke_frame [simp]: "gd_usage (snd (revokeSession ref reason db)) = gd_usage db"
  "rows_ok opts t (gd_sessions (snd (revokeSession ref reason db))) = rows_ok opts t (gd_sessions db)"
  by (simp_all add: revokeSession_def Let_def)

lemma step_budgets:
  assumes "guest_step opts x e y" "budgets_ok (fst x) (snd x) log"
  shows "budgets_ok (fst y) (snd y) (log @ e)"
  using assms
proof (induction rule: guest_step.induct)
  case (tick t t' db)
  then show ?case by (auto simp: budgets_ok_def intro: window_inv_later)
next
  case (issue t db issuer token uuid now)
  then show ?case using issue_effect [of opts issuer token uuid now t db] by (auto simp: budgets_ok_def)
next
  case (use_granted i c t db n s db')
  then obtain u where u: "next_usage (GUEST_CAPABILITY_BUDGETS c) t (map_of (gd_usage db) (i, c)) = Some u"
    "gd_usage db' = AList.update (i, c) u (gd_usage db)"
    by (auto simp: use_capability_def split: list.splits option.splits)
  with use_granted.prems window_inv_next [OF budgets_positive _ order_refl u(1)]
  show ?case by (auto simp: budgets_ok_def update_conv')
qed (simp add: budgets_ok_def)

lemma rows_ok_later: "rows_ok opts t rows \<Longrightarrow> t \<le> t' \<Longrightarrow> rows_ok opts t' rows"
  by (force simp: rows_ok_def)

lemma step_rows:
  assumes "guest_step opts x e y" "rows_ok opts (fst x) (gd_sessions (snd x))"
  shows "rows_ok opts (fst y) (gd_sessions (snd y))"
  using assms
proof (induction rule: guest_step.induct)
  case (issue t db issuer token uuid now)
  then show ?case using issue_effect [of opts issuer token uuid now t db] by auto
next
  case (use_granted i c t db n s db')
  then show ?case by (auto simp: use_capability_def split: list.splits option.splits)
qed (auto intro: rows_ok_later)

lemma guest_run_inv:
  assumes "guest_run opts (t0, empty_guest_db) log x"
  shows "budgets_ok (fst x) (snd x) log \<and> rows_ok opts (fst x) (gd_sessions (snd x))"
  using assms
proof (induction "(t0, empty_guest_db)" log x rule: guest_run.induct)
  case stop
  have "0 < cb_limit (GUEST_CAPABILITY_BUDGETS c)" for c by (cases c) simp_all
  then show ?case using max_sessions_bounds(1) [of opts]
    by (simp add: budgets_ok_def rows_ok_def empty_guest_db_def window_inv_def uses_between_def issued_between_def)
next
  case (more l y e z)
  then show ?case using step_budgets step_rows by blast
qed

subsection \<open>Guarantees\<close>

text \<open>C22. Whatever the order of the requests, the uses of one capability of a session that fall into any stretch of
  time as long as its window are fewer than twice its limit. (The window starts anew with a use, so that two
  windows can meet inside the stretch.)\<close>

theorem guest_uses_bounded:
  assumes "guest_run opts (t0, empty_guest_db) log x"
  shows "int (uses_between a (a + window_ms (GUEST_CAPABILITY_BUDGETS c)) (uses_of i c log))
    \<le> 2 * cb_limit (GUEST_CAPABILITY_BUDGETS c) - 1"
  using guest_run_inv [OF assms] by (auto simp: budgets_ok_def window_inv_def)

text \<open>The sessions issued to one caller in any hour are at most the configured number, which is at most a
  hundred.\<close>

theorem guest_sessions_bounded:
  assumes "guest_run opts (t0, empty_guest_db) log (t, db)"
  shows "int (issued_between h a (a + 3600000) (gd_sessions db)) \<le> max_sessions opts \<and> max_sessions opts \<le> 100"
  using guest_run_inv [OF assms] max_sessions_bounds by (simp add: rows_ok_def)

lemma check_row:
  assumes "check_capability h c now db = Inr row"
  shows "row \<in> set (gd_sessions db)" "gr_token_hash row = h" "gr_status row = GActive" "now < gr_expires_at row"
    "c \<in> set (gr_capabilities row)"
proof -
  from assms obtain rest where rows: "filter (\<lambda>r. gr_token_hash r = h) (gd_sessions db) = row # rest"
    and checks: "gr_status row = GActive" "now < gr_expires_at row" "c \<in> set (gr_capabilities row)"
    by (auto simp: check_capability_def split: list.splits if_splits)
  from rows have "row \<in> set (filter (\<lambda>r. gr_token_hash r = h) (gd_sessions db))" by simp
  then show "row \<in> set (gd_sessions db)" "gr_token_hash row = h" by auto
  show "gr_status row = GActive" "now < gr_expires_at row" "c \<in> set (gr_capabilities row)" by (rule checks)+
qed

lemma window_inv_positive:
  assumes "window_inv b (Some u) ts t"
  shows "0 < ur_request_count u" "ur_request_count u \<le> cb_limit b"
proof -
  from assms have "ur_window_started_at u \<in> set (filter (\<lambda>x. ur_window_started_at u \<le> x) ts)"
    by (simp add: window_inv_def)
  then have "0 < length (filter (\<lambda>x. ur_window_started_at u \<le> x) ts)" by (rule length_pos_if_in_set)
  then show "0 < ur_request_count u" using assms by (simp add: window_inv_def)
  show "ur_request_count u \<le> cb_limit b" using assms by (simp add: window_inv_def)
qed

text \<open>An authorization that is granted is backed by a session of the token that is active, in time and has the
  capability, and tells how many uses the window still has.\<close>

theorem guest_grant_sound:
  assumes "guest_run opts (t0, empty_guest_db) log (t, db)" and "t \<le> now"
    and "authorize opts token c now db = (Granted n s, db')"
  shows "(\<exists>row \<in> set (gd_sessions db). gr_token_hash row = go_sha256 opts (js_trim token)
      \<and> gr_status row = GActive \<and> now < gr_expires_at row \<and> c \<in> set (gr_capabilities row))
    \<and> 0 \<le> n \<and> n < cb_limit (GUEST_CAPABILITY_BUDGETS c)"
proof (rule guest_authorize_cases [of opts token c now db])
  fix row m r d
  assume a: "authorize opts token c now db = (Granted m r, d)"
    and check: "check_capability (go_sha256 opts (js_trim token)) c now db = Inr row"
    and use: "use_capability (gr_id row) c (GUEST_CAPABILITY_BUDGETS c) now db = (Granted m r, d)"
  from use obtain u where u: "next_usage (GUEST_CAPABILITY_BUDGETS c) now (map_of (gd_usage db) (gr_id row, c)) = Some u"
    and m: "m = max 0 (cb_limit (GUEST_CAPABILITY_BUDGETS c) - ur_request_count u)"
    by (auto simp: use_capability_def split: list.splits option.splits)
  have "window_inv (GUEST_CAPABILITY_BUDGETS c) (map_of (gd_usage db) (gr_id row, c)) (uses_of (gr_id row) c log) t"
    using guest_run_inv [OF assms(1)] by (simp add: budgets_ok_def)
  from window_inv_next [OF budgets_positive this \<open>t \<le> now\<close> u]
  have inv: "window_inv (GUEST_CAPABILITY_BUDGETS c) (Some u) (uses_of (gr_id row) c log @ [now]) now" .
  from window_inv_positive [OF inv] show ?thesis using check_row [OF check] a m assms(3) by auto
qed (use assms(3) in simp)

lemma revoked_row_stays:
  assumes "guest_step opts x e y" and "r \<in> set (gd_sessions (snd x))" and "gr_status r = GRevoked"
  shows "\<exists>r' \<in> set (gd_sessions (snd y)). gr_token_hash r' = gr_token_hash r \<and> gr_status r' = GRevoked"
  using assms
proof (induction rule: guest_step.induct)
  case (issue t db issuer token uuid now)
  then show ?case using issue_effect [of opts issuer token uuid now t db] by auto
next
  case (use_granted i c t db n s db')
  then have "seen i t r \<in> set (gd_sessions db')"
    by (auto simp: use_capability_def split: list.splits option.splits)
  moreover have "gr_token_hash (seen i t r) = gr_token_hash r" "gr_status (seen i t r) = gr_status r"
    by (simp_all add: seen_def)
  ultimately show ?case using use_granted.prems by auto
next
  case (revoke t db ref reason)
  then show ?case by (auto simp: revokeSession_def Let_def revoked_def)
qed auto

lemma guest_run_trans: "guest_run opts y l z \<Longrightarrow> guest_run opts x k y \<Longrightarrow> guest_run opts x (k @ l) z"
proof (induction rule: guest_run.induct)
  case (more y l z e w)
  then show ?case using guest_run.more [of opts x "k @ l" z e w] by simp
qed simp

lemma revoked_row_stays_run:
  "guest_run opts x l y \<Longrightarrow> r \<in> set (gd_sessions (snd x)) \<Longrightarrow> gr_status r = GRevoked
    \<Longrightarrow> \<exists>r' \<in> set (gd_sessions (snd y)). gr_token_hash r' = gr_token_hash r \<and> gr_status r' = GRevoked"
proof (induction rule: guest_run.induct)
  case (more x l y e z)
  then show ?case using revoked_row_stays [OF more(2)] by metis
qed auto

lemma distinct_map_unique: "distinct (map f xs) \<Longrightarrow> x \<in> set xs \<Longrightarrow> filter (\<lambda>y. f y = f x) xs = [x]"
proof (induction xs)
  case (Cons y xs)
  then show ?case by (cases "x = y") (auto simp: filter_empty_conv image_iff)
qed simp

text \<open>A revoked session is over: whatever happens in between, every later authorization with its token is
  refused, and the answer says why.\<close>

theorem guest_revoked_stays:
  assumes "guest_run opts (t0, empty_guest_db) log (t, db)" and "revokeSession ref reason db = (True, db1)"
    and "r \<in> set (gd_sessions db)" and "gr_session_ref r = ref" and "gr_token_hash r = go_sha256 opts (js_trim token)"
    and "guest_run opts (t, db1) log' (t', db2)" and "guest_token_pattern (js_trim token)"
  shows "authorize opts token c now db2 = (Refused SessionRevoked, db2)"
proof -
  have rows: "rows_ok opts t (gd_sessions db)" using guest_run_inv [OF assms(1)] by simp
  then have only: "filter (\<lambda>x. gr_session_ref x = ref) (gd_sessions db) = [r]"
    using distinct_map_unique [of gr_session_ref "gd_sessions db" r] assms(3,4) by (simp add: rows_ok_def)
  have "filter (\<lambda>x. gr_session_ref x = ref \<and> gr_status x = GActive) (gd_sessions db)
      = filter (\<lambda>x. gr_status x = GActive) [r]"
    by (simp only: only [symmetric] filter_filter conj_commute)
  then have "gr_status r = GActive" using assms(2) by (auto simp: revokeSession_def Let_def split: if_splits)
  let ?r = "revoked ref (if take 200 (js_trim reason) = [] then ''revoked'' else take 200 (js_trim reason)) r"
  have "gd_sessions db1 = map (revoked ref (if take 200 (js_trim reason) = [] then ''revoked''
      else take 200 (js_trim reason))) (gd_sessions db)"
    using assms(2) by (auto simp: revokeSession_def Let_def)
  then have "?r \<in> set (gd_sessions db1)" using assms(3) by simp
  moreover have "gr_status ?r = GRevoked" "gr_token_hash ?r = gr_token_hash r"
    using \<open>gr_status r = GActive\<close> assms(4) by (simp_all add: revoked_def)
  ultimately obtain r' where r': "r' \<in> set (gd_sessions db2)" "gr_token_hash r' = gr_token_hash r" "gr_status r' = GRevoked"
    using revoked_row_stays_run [OF assms(6)] by fastforce
  have "guest_run opts (t0, empty_guest_db) log (t, db1)"
    using guest_run.more [OF assms(1) guest_step.revoke [of opts t db ref reason]] assms(2) by simp
  from guest_run_inv [OF guest_run_trans [OF assms(6) this]] have "distinct (map gr_token_hash (gd_sessions db2))"
    by (simp add: rows_ok_def)
  from distinct_map_unique [OF this r'(1)] show ?thesis
    using assms(5,7) r' by (simp add: authorize_def consumeCapability_def check_capability_def)
qed

subsection \<open>A sample run\<close>

definition guest_opts :: guest_options where
  "guest_opts = \<lparr>go_fingerprintSecret = replicate 32 (CHR ''f''), go_sessionLifetimeMs = None,
     go_maxSessionsPerHour = Some 1, go_sha256 = (\<lambda>t. t), go_hmac = (\<lambda>k t. t)\<rparr>"

definition guest_token :: string where "guest_token = ''gst_'' @ replicate 32 (CHR ''a'')"

definition guest1 :: guest_db where
  "guest1 = snd (issueSession guest_opts ''caller'' guest_token ''u'' 1000 1000 empty_guest_db)"
definition guest2 :: guest_db where "guest2 = snd (authorize guest_opts guest_token TestApi 1000 guest1)"
definition guest3 :: guest_db where "guest3 = snd (revokeSession ''guest_u'' ''spam'' guest2)"

lemma guest_run1: "guest_run guest_opts (1000, empty_guest_db) [] (1000, guest1)"
  using guest_run.more [OF guest_run.stop guest_step.issue [of guest_opts 1000 empty_guest_db "''caller''" guest_token "''u''" 1000]]
  by (simp add: guest1_def)

lemma guest_granted: "authorize guest_opts guest_token TestApi 1000 guest1 =
    (Granted 119 \<lparr>gs_sessionRef = ''guest_u'', gs_capabilities = GUEST_CAPABILITIES, gs_expiresAt = 7201000\<rparr>, guest2)"
  by code_simp

lemma guest_used: "use_capability 0 TestApi (GUEST_CAPABILITY_BUDGETS TestApi) 1000 guest1 =
    (Granted 119 \<lparr>gs_sessionRef = ''guest_u'', gs_capabilities = GUEST_CAPABILITIES, gs_expiresAt = 7201000\<rparr>, guest2)"
  by code_simp

lemma guest_run2: "guest_run guest_opts (1000, empty_guest_db) [(1000, 0, TestApi)] (1000, guest2)"
  using guest_run.more [OF guest_run1 guest_step.use_granted [OF guest_used]] by simp

theorem guest_uses_bounded_witness: "uses_between 900 900900 [1000] \<le> 239"
  using guest_uses_bounded [OF guest_run2, of 900 TestApi 0] by (simp add: window_ms_def)

theorem guest_sessions_bounded_witness: "issued_between ''caller'' 500 3600500 (gd_sessions guest1) \<le> 1"
  using guest_sessions_bounded [OF guest_run1, of "''caller''" 500] by (simp add: max_sessions_def guest_opts_def)

theorem guest_grant_sound_witness: "\<exists>row \<in> set (gd_sessions guest1). gr_token_hash row = guest_token \<and> gr_status row = GActive"
proof -
  have "js_trim guest_token = guest_token" by code_simp
  with guest_grant_sound [OF guest_run1 order_refl guest_granted] show ?thesis
    by (auto simp: guest_opts_def)
qed

lemma guest_revocation: "revokeSession ''guest_u'' ''spam'' guest2 = (True, guest3)"
  by code_simp

lemma guest_row:
  "hd (gd_sessions guest2) \<in> set (gd_sessions guest2) \<and> gr_session_ref (hd (gd_sessions guest2)) = ''guest_u''
    \<and> gr_token_hash (hd (gd_sessions guest2)) = go_sha256 guest_opts (js_trim guest_token)
    \<and> guest_token_pattern (js_trim guest_token)"
  by code_simp

theorem guest_revoked_stays_witness:
  "authorize guest_opts guest_token TestApi 2000 guest3 = (Refused SessionRevoked, guest3)"
  by (rule guest_revoked_stays [OF guest_run2 guest_revocation _ _ _ guest_run.stop]) (use guest_row in blast)+

end
