(* ===== verification/Webhook_Events.thy ===== *)
theory Webhook_Events
  imports Js_Value
begin

section \<open>The store of webhook events\<close>

text \<open>
  \<open>createInMemorySkipshipWebhookEventStore\<close> of \<open>src/src/lib/skipshipWebhookEventStore.ts\<close>: the first delivery of
  an event is answered and kept, a repeated delivery gets the same answer, and another body under the same
  identifier is a conflict. The map of the closure is an association list. An instant is a number of
  milliseconds, or \<open>None\<close> for a text that is no date; the order of \<open>localeCompare\<close> is a parameter.
\<close>

subsection \<open>Data\<close>

record webhook_response =
  wr_status :: int
  wr_body :: js_value

record webhook_input =
  wi_eventId :: string
  wi_bodyFingerprint :: string
  wi_response :: webhook_response
  wi_receivedAt :: "int option option"
  wi_ttlDays :: "int option"

record webhook_audit =
  wa_eventId :: string
  wa_attemptCount :: int
  wa_firstSeenAt :: "int option"
  wa_lastSeenAt :: "int option"
  wa_expiresAt :: int

record webhook_entry =
  we_response :: webhook_response
  we_bodyFingerprint :: string
  we_audit :: webhook_audit

datatype webhook_result =
    Stored webhook_response webhook_audit
  | Replayed webhook_response webhook_audit
  | Conflict webhook_response webhook_audit

type_synonym webhook_store = "(string \<times> webhook_entry) list"

definition DEFAULT_TTL_DAYS :: int where
  "DEFAULT_TTL_DAYS = 30"

text \<open>\<open>setUTCDate(getUTCDate() + days)\<close> moves the instant by whole days; \<open>toISOString\<close> throws without one.\<close>

definition addDaysIso :: "int option \<Rightarrow> int \<Rightarrow> int result" where
  "addDaysIso instant days = (case instant of
     None \<Rightarrow> Inl (JsError ''Invalid time value'') | Some t \<Rightarrow> Inr (t + days * 86400000))"

subsection \<open>Operations\<close>

definition conflict_response :: webhook_response where
  "conflict_response = \<lparr>wr_status = 409, wr_body = JObj [(''ok'', JBool False),
     (''error'', JStr ''tracking_webhook_event_conflict''),
     (''message'', JStr ''The same tracking webhook eventId was reused with a different signed body.'')]\<rparr>"

definition seen_again :: "int option \<Rightarrow> webhook_entry \<Rightarrow> webhook_entry" where
  "seen_again receivedAt cached = cached\<lparr>we_audit := (we_audit cached)\<lparr>
     wa_attemptCount := wa_attemptCount (we_audit cached) + 1, wa_lastSeenAt := receivedAt\<rparr>\<rparr>"

text \<open>\<open>now\<close> is the clock, for an input without a time of receipt.\<close>

definition accept_event :: "int \<Rightarrow> webhook_input \<Rightarrow> webhook_store \<Rightarrow> webhook_result result \<times> webhook_store" where
  "accept_event now input entries =
     (let receivedAt = (case wi_receivedAt input of None \<Rightarrow> Some now | Some t \<Rightarrow> t);
          ttlDays = (case wi_ttlDays input of None \<Rightarrow> DEFAULT_TTL_DAYS | Some d \<Rightarrow> d)
      in case map_of entries (wi_eventId input) of
        Some old \<Rightarrow>
          (let cached = seen_again receivedAt old;
               entries' = AList.update (wi_eventId input) cached entries
           in if we_bodyFingerprint cached \<noteq> wi_bodyFingerprint input
              then (Inr (Conflict conflict_response (we_audit cached)), entries')
              else (Inr (Replayed (we_response cached) (we_audit cached)), entries'))
      | None \<Rightarrow> (case addDaysIso receivedAt ttlDays of
          Inl e \<Rightarrow> (Inl e, entries)
        | Inr expiresAt \<Rightarrow>
           (let audit = \<lparr>wa_eventId = wi_eventId input, wa_attemptCount = 1, wa_firstSeenAt = receivedAt,
                  wa_lastSeenAt = receivedAt, wa_expiresAt = expiresAt\<rparr>
            in (Inr (Stored (wi_response input) audit),
                AList.update (wi_eventId input) \<lparr>we_response = wi_response input,
                  we_bodyFingerprint = wi_bodyFingerprint input, we_audit = audit\<rparr> entries))))"

definition expired :: "int \<Rightarrow> webhook_entry \<Rightarrow> bool" where
  "expired now entry \<longleftrightarrow> wa_expiresAt (we_audit entry) \<le> now"

definition pruneExpired :: "int option \<Rightarrow> webhook_store \<Rightarrow> string list \<times> webhook_store" where
  "pruneExpired nowIso entries = (case nowIso of
     None \<Rightarrow> ([], entries)
   | Some now \<Rightarrow> (sort (map fst (filter (\<lambda>(i, e). expired now e) entries)),
       filter (\<lambda>(i, e). \<not> expired now e) entries))"

definition store_size :: "webhook_store \<Rightarrow> nat" where
  "store_size entries = length entries"

definition snapshot :: "(string \<Rightarrow> nat list) \<Rightarrow> webhook_store \<Rightarrow> (webhook_audit \<times> int) list" where
  "snapshot collate entries = sort_key (\<lambda>(a, s). collate (wa_eventId a))
     (map (\<lambda>(i, e). (we_audit e, wr_status (we_response e))) entries)"

subsection \<open>Runs\<close>

text \<open>Runs in which no pruning has reached the given instant, with the number of deliveries of one event.\<close>

inductive store_run_before :: "int \<Rightarrow> string \<Rightarrow> webhook_store \<Rightarrow> nat \<Rightarrow> webhook_store \<Rightarrow> bool" for limit k where
  stay: "store_run_before limit k s 0 s"
| accept: "store_run_before limit k s n s'
    \<Longrightarrow> store_run_before limit k s (if wi_eventId i = k then n + 1 else n) (snd (accept_event now i s'))"
| prune: "store_run_before limit k s n s' \<Longrightarrow> t < limit \<Longrightarrow> store_run_before limit k s n (snd (pruneExpired (Some t) s'))"

lemma map_of_filter_values: "distinct (map fst s) \<Longrightarrow> map_of (filter (\<lambda>(i, e). P e) s) k
    = (case map_of s k of None \<Rightarrow> None | Some e \<Rightarrow> if P e then Some e else None)"
  by (induction s) (auto split: option.splits simp: map_of_eq_None_iff rev_image_eqI)

lemma prune_lookup:
  "distinct (map fst s) \<Longrightarrow> map_of (snd (pruneExpired (Some t) s)) k
    = (case map_of s k of None \<Rightarrow> None | Some e \<Rightarrow> if expired t e then None else Some e)"
  by (simp add: pruneExpired_def map_of_filter_values split: option.split)

lemma distinct_filter_keys: "distinct (map fst s) \<Longrightarrow> distinct (map fst (filter P s))"
  by (induction s) auto

lemma accept_distinct: "distinct (map fst s) \<Longrightarrow> distinct (map fst (snd (accept_event now i s)))"
  by (auto simp: accept_event_def Let_def distinct_keys_update split: option.splits sum.splits)

lemma accept_known: "map_of s (wi_eventId i) = Some e \<Longrightarrow> map_of (snd (accept_event now i s)) (wi_eventId i)
    = Some (seen_again (case wi_receivedAt i of None \<Rightarrow> Some now | Some t \<Rightarrow> t) e)"
  by (simp add: accept_event_def Let_def)

lemma accept_other: "wi_eventId i \<noteq> k \<Longrightarrow> map_of (snd (accept_event now i s)) k = map_of s k"
  by (auto simp: accept_event_def Let_def split: option.splits sum.splits)

lemma run_keeps_entry:
  assumes "store_run_before limit k s n s'" and "distinct (map fst s)" and "map_of s k = Some e"
    and "wa_expiresAt (we_audit e) = limit"
  shows "distinct (map fst s') \<and> (\<exists>e'. map_of s' k = Some e' \<and> we_response e' = we_response e
    \<and> we_bodyFingerprint e' = we_bodyFingerprint e \<and> wa_firstSeenAt (we_audit e') = wa_firstSeenAt (we_audit e)
    \<and> wa_expiresAt (we_audit e') = limit \<and> wa_attemptCount (we_audit e') = wa_attemptCount (we_audit e) + int n)"
  using assms
proof (induction rule: store_run_before.induct)
  case (accept s n s' i now)
  then show ?case
    by (cases "wi_eventId i = k")
      (auto simp: accept_distinct accept_known accept_other seen_again_def simp del: map_of_eq_Some_iff)
next
  case (prune s n s' t)
  then show ?case
    by (auto simp: prune_lookup expired_def) (simp add: pruneExpired_def distinct_filter_keys)
qed auto

lemma accept_stored:
  assumes "accept_event now i s = (Inr (Stored resp a), s1)"
  shows "resp = wi_response i" "wa_attemptCount a = 1" "map_of s1 (wi_eventId i) = Some \<lparr>we_response = wi_response i,
      we_bodyFingerprint = wi_bodyFingerprint i, we_audit = a\<rparr>"
  using assms by (auto simp: accept_event_def Let_def split: option.splits sum.splits if_splits)

text \<open>C33. The first response wins: until the event is pruned after its expiry, every further delivery of it gets the
  first response, whatever response the caller offers, and another body under its identifier is a conflict and
  changes nothing of it; the audit counts the deliveries.\<close>

theorem first_response_wins:
  assumes "distinct (map fst s)" and "accept_event now i s = (Inr (Stored resp a), s1)"
    and "store_run_before (wa_expiresAt a) (wi_eventId i) s1 n s2" and "wi_eventId j = wi_eventId i"
  shows "\<exists>a'. fst (accept_event now' j s2) = Inr (if wi_bodyFingerprint j = wi_bodyFingerprint i then Replayed resp a'
        else Conflict conflict_response a')
      \<and> wa_attemptCount a' = int n + 2 \<and> wa_firstSeenAt a' = wa_firstSeenAt a \<and> wa_expiresAt a' = wa_expiresAt a"
proof -
  note stored = accept_stored [OF assms(2)]
  have "distinct (map fst s1)" using accept_distinct [OF assms(1), of now i] assms(2) by simp
  from run_keeps_entry [OF assms(3) this stored(3)] obtain e' where
    "map_of s2 (wi_eventId i) = Some e'" "we_response e' = wi_response i" "we_bodyFingerprint e' = wi_bodyFingerprint i"
    "wa_firstSeenAt (we_audit e') = wa_firstSeenAt a" "wa_expiresAt (we_audit e') = wa_expiresAt a"
    "wa_attemptCount (we_audit e') = 1 + int n"
    using stored(2) by auto
  then show ?thesis using stored(1) assms(4) by (auto simp: accept_event_def Let_def seen_again_def)
qed

text \<open>Pruning removes the expired events and no others, and names them in order.\<close>

theorem prune_removes_expired:
  assumes "distinct (map fst s)" and "pruneExpired (Some t) s = (removed, s')"
  shows "(\<forall>k. map_of s' k = (case map_of s k of None \<Rightarrow> None | Some e \<Rightarrow>
        if wa_expiresAt (we_audit e) \<le> t then None else Some e))
    \<and> sorted removed \<and> distinct removed
    \<and> set removed = {k. \<exists>e. map_of s k = Some e \<and> wa_expiresAt (we_audit e) \<le> t}
    \<and> store_size s = store_size s' + length removed"
proof -
  from assms(2) have s': "s' = snd (pruneExpired (Some t) s)" and
    removed: "removed = sort (map fst (filter (\<lambda>(i, e). expired t e) s))" by (simp_all add: pruneExpired_def)
  have "length (filter (\<lambda>(i, e). expired t e) s) + length (filter (\<lambda>(i, e). \<not> expired t e) s) = length s"
    by (induction s) auto
  moreover have "k \<in> set removed \<longleftrightarrow> (\<exists>e. map_of s k = Some e \<and> wa_expiresAt (we_audit e) \<le> t)" for k
    using assms(1) by (force simp: removed expired_def)
  ultimately show ?thesis
    using distinct_filter_keys [OF assms(1)] prune_lookup [OF assms(1), of t, unfolded expired_def]
    by (simp add: s' [symmetric] set_eq_iff del: map_of_eq_Some_iff) (simp add: s' removed store_size_def pruneExpired_def)
qed

definition sample_event :: "string \<Rightarrow> webhook_input" where
  "sample_event fp = \<lparr>wi_eventId = ''evt'', wi_bodyFingerprint = fp, wi_response = \<lparr>wr_status = 202, wr_body = JNull\<rparr>,
     wi_receivedAt = None, wi_ttlDays = Some 1\<rparr>"

lemma sample_stored: "accept_event 5 (sample_event ''a'') [] = (Inr (Stored \<lparr>wr_status = 202, wr_body = JNull\<rparr>
    \<lparr>wa_eventId = ''evt'', wa_attemptCount = 1, wa_firstSeenAt = Some 5, wa_lastSeenAt = Some 5,
     wa_expiresAt = 86400005\<rparr>), snd (accept_event 5 (sample_event ''a'') []))"
  by code_simp

theorem first_response_wins_witness:
  "\<exists>a'. fst (accept_event 7 (sample_event ''b'') (snd (pruneExpired (Some 6) (snd (accept_event 5 (sample_event ''a'') [])))))
    = Inr (Conflict conflict_response a') \<and> wa_attemptCount a' = 2"
proof -
  have "wi_eventId (sample_event fp) = ''evt''" "wi_bodyFingerprint (sample_event fp) = fp" for fp
    by (simp_all add: sample_event_def)
  with first_response_wins [OF _ sample_stored store_run_before.prune [OF store_run_before.stay], of 6 "sample_event ''b''" 7]
  show ?thesis by auto
qed

theorem prune_removes_expired_witness:
  "fst (pruneExpired (Some 86400005) (snd (accept_event 5 (sample_event ''a'') []))) = [''evt'']"
proof -
  let ?s = "snd (accept_event 5 (sample_event ''a'') [])"
  have d: "distinct (map fst ?s)" by (rule accept_distinct) simp
  have "store_size ?s = 1" "map_option (\<lambda>e. wa_expiresAt (we_audit e)) (map_of ?s ''evt'') = Some 86400005" by code_simp+
  with prune_removes_expired [OF d, of 86400005 "fst (pruneExpired (Some 86400005) ?s)" "snd (pruneExpired (Some 86400005) ?s)"]
  have "''evt'' \<in> set (fst (pruneExpired (Some 86400005) ?s))" "length (fst (pruneExpired (Some 86400005) ?s)) \<le> 1" by auto
  then show ?thesis by (cases "fst (pruneExpired (Some 86400005) ?s)") auto
qed

end
