(* ===== verification/Ship_Sql.thy ===== *)
theory Ship_Sql
  imports AGID_Prelude
begin

section \<open>What the shipping stores share\<close>

text \<open>
  The checks of arguments in \<open>src/src/server/shipping/veygritShipStore.ts\<close> and \<open>veygritShipWorkerStore.ts\<close>,
  and what their SQL statements need. A table is a list of rows in the order of their identities; a statement
  reads the clock of the database once.
\<close>

subsection \<open>Arguments\<close>

definition invalid :: "string \<Rightarrow> js_error" where
  "invalid name = JsTypeError (name @ '' is invalid.'')"

definition required :: "string \<Rightarrow> string \<Rightarrow> nat \<Rightarrow> string result" where
  "required value name mx =
     (let normalized = js_trim value
      in if normalized = [] \<or> mx < length normalized then Inl (invalid name) else Inr normalized)"

text \<open>A date argument: the result of \<open>new Date(value)\<close>, or none.\<close>

definition iso_date :: "int option \<Rightarrow> string \<Rightarrow> int result" where
  "iso_date value name = (case value of None \<Rightarrow> Inl (invalid name) | Some t \<Rightarrow> Inr t)"

definition is_hex64 :: "string \<Rightarrow> bool" where
  "is_hex64 s \<longleftrightarrow> length s = 64 \<and> list_all (\<lambda>c. is_digit_char c \<or> char_in_range (CHR ''a'') (CHR ''f'') c) s"

definition assertHash :: "string \<Rightarrow> string \<Rightarrow> string result" where
  "assertHash value name =
     (let normalized = js_lower (js_trim value)
      in if \<not> is_hex64 normalized then Inl (JsTypeError (name @ '' must be a SHA-256 hex digest.'')) else Inr normalized)"

lemma required_Inr: "required v n m = Inr x \<longleftrightarrow> x = js_trim v \<and> js_trim v \<noteq> [] \<and> length (js_trim v) \<le> m"
  by (auto simp: required_def Let_def)

lemma iso_date_Inr [simp]: "iso_date v n = Inr t \<longleftrightarrow> v = Some t"
  by (auto simp: iso_date_def split: option.split)

lemma assertHash_Inr: "assertHash v n = Inr x \<longleftrightarrow> x = js_lower (js_trim v) \<and> is_hex64 (js_lower (js_trim v))"
  by (auto simp: assertHash_def Let_def)

subsection \<open>Rows\<close>

text \<open>\<open>UPDATE ... WHERE\<close>: the rows as the statement leaves them, and those it returns.\<close>

definition sql_update :: "('r \<Rightarrow> bool) \<Rightarrow> ('r \<Rightarrow> 'r) \<Rightarrow> 'r list \<Rightarrow> 'r list" where
  "sql_update P f rows = map (\<lambda>r. if P r then f r else r) rows"

definition sql_updated :: "('r \<Rightarrow> bool) \<Rightarrow> ('r \<Rightarrow> 'r) \<Rightarrow> 'r list \<Rightarrow> 'r list" where
  "sql_updated P f rows = map f (filter P rows)"

definition first_row :: "'r list \<Rightarrow> 'r option" where
  "first_row rows = (case rows of [] \<Rightarrow> None | r # _ \<Rightarrow> Some r)"

lemma first_row_simps [simp]: "first_row [] = None" "first_row (r # rs) = Some r"
  by (simp_all add: first_row_def)

lemma first_row_Some: "first_row rows = Some r \<Longrightarrow> r \<in> set rows"
  by (cases rows) auto

lemma first_row_None: "first_row rows = None \<longleftrightarrow> rows = []"
  by (cases rows) auto

lemma first_row_filter: "first_row (filter P rows) = Some r \<Longrightarrow> r \<in> set rows \<and> P r"
  by (drule first_row_Some) auto

lemma sql_update_id [simp]: "(\<And>r. r \<in> set rows \<Longrightarrow> \<not> P r) \<Longrightarrow> sql_update P f rows = rows"
  unfolding sql_update_def by (induction rows) auto

lemma length_sql_update [simp]: "length (sql_update P f rows) = length rows"
  by (simp add: sql_update_def)

lemma map_sql_update: "(\<And>r. g (f r) = g r) \<Longrightarrow> map g (sql_update P f rows) = map g rows"
  by (simp add: sql_update_def)

lemma mem_sql_update: "r \<in> set rows \<Longrightarrow> (if P r then f r else r) \<in> set (sql_update P f rows)"
  by (auto simp: sql_update_def)

text \<open>The one row with a key.\<close>

lemma unique_row: "distinct (map k rows) \<Longrightarrow> r \<in> set rows \<Longrightarrow> k r = x \<Longrightarrow> filter (\<lambda>y. k y = x) rows = [r]"
proof (induction rows)
  case (Cons y rows)
  then show ?case by (cases "r = y") (auto simp: filter_empty_conv image_iff)
qed simp

lemma unique_row_and: "distinct (map k rows) \<Longrightarrow> r \<in> set rows \<Longrightarrow> k r = x
    \<Longrightarrow> filter (\<lambda>y. k y = x \<and> Q y) rows = (if Q r then [r] else [])"
proof -
  assume "distinct (map k rows)" "r \<in> set rows" "k r = x"
  then have "filter Q (filter (\<lambda>y. k y = x) rows) = (if Q r then [r] else [])" by (simp add: unique_row)
  then show ?thesis by (simp add: conj_commute)
qed

end
