(* ===== verification/Ship_Idempotency.thy ===== *)
theory Ship_Idempotency
  imports Ship_Sql
begin

section \<open>Idempotency records of the shipping service\<close>

text \<open>
  \<open>reserveIdempotency\<close> and \<open>finishIdempotency\<close> of \<open>src/src/server/shipping/veygritShipStore.ts\<close>, with
  \<open>resolveOwner\<close>: a request is carried out by the one that reserves its key, under a lease that another
  may take over when it has run out; the recorded response is replayed. The three statements of a reservation
  are steps of their own, so that other requests can come between them. The hash is a parameter.
\<close>

subsection \<open>Tables\<close>

datatype ship_owner = MerchantOwner string | GuestOwner string

record owner_ids =
  oi_merchantId :: "int option"
  oi_guestSessionId :: "int option"

datatype idem_state = InProgress | Completed | FailedState

record idem_row =
  ir_idempotency_ref :: string
  ir_owner :: owner_ids
  ir_operation :: string
  ir_idempotency_key_hash :: string
  ir_request_hash :: string
  ir_state :: idem_state
  ir_response_status :: "int option"
  ir_response_body_ref :: "string option"
  ir_response_body_sha256 :: "string option"
  ir_lease_expires_at :: int
  ir_expires_at :: int
  ir_completed_at :: "int option"

text \<open>Merchants and guest sessions with the columns the shipping stores use.\<close>

datatype business_type = Individual | SoleProprietor | Company
datatype merchant_status = MerchantActive | MerchantRestricted | MerchantClosed

record merchant_row =
  mr_id :: int
  mr_merchant_ref :: string
  mr_display_name :: string
  mr_legal_name :: "string option"
  mr_business_type :: business_type
  mr_country_code :: string
  mr_language_tag :: string
  mr_email :: string
  mr_phone_e164 :: string
  mr_status :: merchant_status

datatype session_status = SessionActive | SessionClaimed | SessionExpired | SessionRevoked

record session_row =
  ss_id :: int
  ss_session_ref :: string
  ss_token_hash :: string
  ss_status :: session_status
  ss_expires_at :: int
  ss_last_seen_at :: int

record idem_db =
  db_merchants :: "merchant_row list"
  db_guests :: "session_row list"
  db_records :: "idem_row list"

definition active_merchant :: "string \<Rightarrow> merchant_row \<Rightarrow> bool" where
  "active_merchant r m \<longleftrightarrow> mr_merchant_ref m = r \<and> mr_status m = MerchantActive"

definition open_session :: "string \<Rightarrow> int \<Rightarrow> session_row \<Rightarrow> bool" where
  "open_session r now g \<longleftrightarrow> ss_session_ref g = r \<and> ss_status g = SessionActive \<and> now < ss_expires_at g"

definition resolveOwner :: "ship_owner \<Rightarrow> int \<Rightarrow> idem_db \<Rightarrow> owner_ids result" where
  "resolveOwner owner now db = (case owner of
     MerchantOwner r \<Rightarrow> sbind (required r ''merchantRef'' 100) (\<lambda>r'.
       case first_row (filter (active_merchant r') (db_merchants db)) of
         Some m \<Rightarrow> Inr \<lparr>oi_merchantId = Some (mr_id m), oi_guestSessionId = None\<rparr>
       | None \<Rightarrow> Inl (JsError ''Active merchant was not found.''))
   | GuestOwner r \<Rightarrow> sbind (required r ''guestSessionRef'' 100) (\<lambda>r'.
       case first_row (filter (open_session r' now) (db_guests db)) of
         Some g \<Rightarrow> Inr \<lparr>oi_merchantId = None, oi_guestSessionId = Some (ss_id g)\<rparr>
       | None \<Rightarrow> Inl (JsError ''Active guest session was not found.'')))"

subsection \<open>Reservation\<close>

record reserve_input =
  rv_owner :: ship_owner
  rv_idempotencyRef :: string
  rv_operation :: string
  rv_idempotencyKey :: string
  rv_requestHash :: string
  rv_leaseExpiresAt :: "int option"
  rv_expiresAt :: "int option"

datatype reservation =
    Acquired string
  | Busy string
  | KeyConflict string
  | Replay string idem_state "int option" "string option" "string option"

text \<open>The key of a record: owner, operation and hash of the idempotency key, unique in the table.\<close>

type_synonym idem_key = "owner_ids \<times> string \<times> string"

definition row_key :: "idem_row \<Rightarrow> idem_key" where
  "row_key r = (ir_owner r, ir_operation r, ir_idempotency_key_hash r)"

text \<open>The arguments of the first statement, in the order they are checked.\<close>

definition reserve_row :: "(string \<Rightarrow> string) \<Rightarrow> reserve_input \<Rightarrow> int \<Rightarrow> idem_db \<Rightarrow> idem_row result" where
  "reserve_row sha i now db =
     sbind (resolveOwner (rv_owner i) now db) (\<lambda>owner.
     sbind (required (rv_idempotencyRef i) ''idempotencyRef'' 100) (\<lambda>ref.
     sbind (required (rv_operation i) ''operation'' 150) (\<lambda>operation.
     sbind (required (rv_idempotencyKey i) ''idempotencyKey'' 500) (\<lambda>key.
     sbind (assertHash (rv_requestHash i) ''requestHash'') (\<lambda>requestHash.
     sbind (iso_date (rv_leaseExpiresAt i) ''leaseExpiresAt'') (\<lambda>lease.
     sbind (iso_date (rv_expiresAt i) ''expiresAt'') (\<lambda>expires.
       Inr \<lparr>ir_idempotency_ref = ref, ir_owner = owner, ir_operation = operation,
         ir_idempotency_key_hash = sha key, ir_request_hash = requestHash, ir_state = InProgress,
         ir_response_status = None, ir_response_body_ref = None, ir_response_body_sha256 = None,
         ir_lease_expires_at = lease, ir_expires_at = expires, ir_completed_at = None\<rparr>)))))))"

text \<open>\<open>INSERT ... ON CONFLICT DO NOTHING\<close>: a check that fails raises, a key or reference in use inserts nothing.\<close>

definition insert_record :: "idem_row \<Rightarrow> int \<Rightarrow> idem_db \<Rightarrow> bool result \<times> idem_db" where
  "insert_record row now db =
     (if ir_expires_at row \<le> now then (Inl (JsError ''check constraint''), db)
      else if list_ex (\<lambda>r. row_key r = row_key row \<or> ir_idempotency_ref r = ir_idempotency_ref row) (db_records db)
      then (Inr False, db)
      else (Inr True, db\<lparr>db_records := db_records db @ [row]\<rparr>))"

text \<open>What the row that was there says, or none when its lease may be taken over.\<close>

definition judge_record :: "idem_row \<Rightarrow> string \<Rightarrow> reservation option" where
  "judge_record row requestHash =
     (if ir_request_hash row \<noteq> requestHash then Some (KeyConflict (ir_idempotency_ref row))
      else if ir_state row \<noteq> InProgress
      then Some (Replay (ir_idempotency_ref row) (ir_state row) (ir_response_status row)
        (ir_response_body_ref row) (ir_response_body_sha256 row))
      else None)"

definition reclaimable :: "idem_key \<Rightarrow> int \<Rightarrow> idem_row \<Rightarrow> bool" where
  "reclaimable k now r \<longleftrightarrow> row_key r = k \<and> ir_state r = InProgress \<and> ir_lease_expires_at r \<le> now"

definition reclaim_record :: "idem_row \<Rightarrow> int \<Rightarrow> int \<Rightarrow> idem_db \<Rightarrow> reservation \<times> idem_db" where
  "reclaim_record row lease now db =
     (if filter (reclaimable (row_key row) now) (db_records db) = []
      then (Busy (ir_idempotency_ref row), db)
      else (Acquired (ir_idempotency_ref row), db\<lparr>db_records := sql_update (reclaimable (row_key row) now)
        (\<lambda>r. r\<lparr>ir_lease_expires_at := lease\<rparr>) (db_records db)\<rparr>))"

definition reserveIdempotency ::
  "(string \<Rightarrow> string) \<Rightarrow> reserve_input \<Rightarrow> int \<Rightarrow> idem_db \<Rightarrow> reservation result \<times> idem_db" where
  "reserveIdempotency sha i now db = (case reserve_row sha i now db of
     Inl e \<Rightarrow> (Inl e, db)
   | Inr row \<Rightarrow> (case insert_record row now db of
       (Inl e, db') \<Rightarrow> (Inl e, db')
     | (Inr True, db') \<Rightarrow> (Inr (Acquired (ir_idempotency_ref row)), db')
     | (Inr False, db') \<Rightarrow>
        (case first_row (filter (\<lambda>r. row_key r = row_key row) (db_records db')) of
           None \<Rightarrow> (Inl (JsError ''Idempotency record conflict could not be resolved.''), db')
         | Some old \<Rightarrow> (case judge_record old (ir_request_hash row) of
             Some answer \<Rightarrow> (Inr answer, db')
           | None \<Rightarrow> apfst Inr (reclaim_record old (ir_lease_expires_at row) now db')))))"

subsection \<open>Completion\<close>

record finish_input =
  fi_idempotencyRef :: string
  fi_requestHash :: string
  fi_state :: idem_state
  fi_responseStatus :: "int option"
  fi_responseBodyRef :: "string option"
  fi_responseBodySha256 :: "string option"

definition trimmed_opt :: "string option \<Rightarrow> string option" where
  "trimmed_opt v = (case v of None \<Rightarrow> None | Some t \<Rightarrow> if js_trim t = [] then None else Some (js_trim t))"

definition hash_opt :: "string option \<Rightarrow> string \<Rightarrow> string option result" where
  "hash_opt v name = (case v of None \<Rightarrow> Inr None
     | Some t \<Rightarrow> if t = [] then Inr None else sbind (assertHash t name) (\<lambda>h. Inr (Some h)))"

definition finishable :: "string \<Rightarrow> string \<Rightarrow> idem_row \<Rightarrow> bool" where
  "finishable ref hash r \<longleftrightarrow> ir_idempotency_ref r = ref \<and> ir_request_hash r = hash \<and> ir_state r = InProgress"

definition completed_row :: "finish_input \<Rightarrow> string option \<Rightarrow> int \<Rightarrow> idem_row \<Rightarrow> idem_row" where
  "completed_row i body now r = r\<lparr>ir_state := fi_state i, ir_response_status := fi_responseStatus i,
     ir_response_body_ref := trimmed_opt (fi_responseBodyRef i), ir_response_body_sha256 := body,
     ir_completed_at := (if fi_state i = Completed then Some now else None)\<rparr>"

definition finish_args :: "finish_input \<Rightarrow> (string \<times> string \<times> string option) result" where
  "finish_args i =
     sbind (required (fi_idempotencyRef i) ''idempotencyRef'' 100) (\<lambda>ref.
     sbind (assertHash (fi_requestHash i) ''requestHash'') (\<lambda>hash.
     sbind (hash_opt (fi_responseBodySha256 i) ''responseBodySha256'') (\<lambda>body. Inr (ref, hash, body))))"

text \<open>A status outside 100 to 599 violates a check of the table. The type of the input excludes \<open>InProgress\<close>.\<close>

definition finishIdempotency :: "finish_input \<Rightarrow> int \<Rightarrow> idem_db \<Rightarrow> unit result \<times> idem_db" where
  "finishIdempotency i now db =
     (case finish_args i of
        Inl e \<Rightarrow> (Inl e, db)
      | Inr (ref, hash, body) \<Rightarrow>
         (if filter (finishable ref hash) (db_records db) = []
          then (Inl (JsError ''In-progress idempotency record was not found.''), db)
          else if (case fi_responseStatus i of None \<Rightarrow> False | Some n \<Rightarrow> n < 100 \<or> 599 < n)
          then (Inl (JsError ''check constraint''), db)
          else (Inr (), db\<lparr>db_records := sql_update (finishable ref hash)
            (completed_row i body now) (db_records db)\<rparr>)))"

end
