(* ===== verification/Ship_Idempotency_Props.thy ===== *)
theory Ship_Idempotency_Props
  imports Ship_Idempotency
begin

section \<open>One holder, one answer\<close>

text \<open>
  Runs of the statements of reservations and completions, in any order, with time passing and owners changing
  in between.
\<close>

inductive idem_step :: "int \<times> idem_db \<Rightarrow> int \<times> idem_db \<Rightarrow> bool" where
  tick: "t \<le> t' \<Longrightarrow> idem_step (t, db) (t', db)"
| owners: "idem_step (t, db) (t, db\<lparr>db_merchants := m, db_guests := g\<rparr>)"
| insert: "idem_step (t, db) (t, snd (insert_record row t db))"
| reclaim: "idem_step (t, db) (t, snd (reclaim_record row lease t db))"
| finish: "fi_state i \<noteq> InProgress \<Longrightarrow> idem_step (t, db) (t, snd (finishIdempotency i t db))"

abbreviation idem_run :: "int \<times> idem_db \<Rightarrow> int \<times> idem_db \<Rightarrow> bool" where
  "idem_run \<equiv> idem_step\<^sup>*\<^sup>*"

definition keys_ok :: "idem_db \<Rightarrow> bool" where
  "keys_ok db \<longleftrightarrow> distinct (map row_key (db_records db)) \<and> distinct (map ir_idempotency_ref (db_records db))"

lemma keys_ok_update:
  "(\<And>r. row_key (f r) = row_key r) \<Longrightarrow> (\<And>r. ir_idempotency_ref (f r) = ir_idempotency_ref r)
    \<Longrightarrow> keys_ok (db\<lparr>db_records := sql_update P f (db_records db)\<rparr>) = keys_ok db"
  by (simp add: keys_ok_def map_sql_update)

lemma row_key_simps [simp]:
  "row_key (r\<lparr>ir_lease_expires_at := x\<rparr>) = row_key r"
  "row_key (completed_row i body now r) = row_key r"
  "ir_idempotency_ref (completed_row i body now r) = ir_idempotency_ref r"
  "ir_state (completed_row i body now r) = fi_state i"
  by (simp_all add: row_key_def completed_row_def)

lemma finish_cases:
  obtains (error) e where "finishIdempotency i t db = (Inl e, db)"
    | (finished) body where "finishIdempotency i t db = (Inr (), db\<lparr>db_records :=
        sql_update (finishable (js_trim (fi_idempotencyRef i)) (js_lower (js_trim (fi_requestHash i))))
          (completed_row i body t) (db_records db)\<rparr>)"
proof (cases "finish_args i")
  case (Inl e)
  then show ?thesis using error by (simp add: finishIdempotency_def)
next
  case (Inr v)
  then obtain body where v: "v = (js_trim (fi_idempotencyRef i), js_lower (js_trim (fi_requestHash i)), body)"
    by (auto simp: finish_args_def sbind_Inr_iff required_Inr assertHash_Inr)
  let ?hit = "filter (finishable (js_trim (fi_idempotencyRef i)) (js_lower (js_trim (fi_requestHash i)))) (db_records db)"
  and ?bad = "case fi_responseStatus i of None \<Rightarrow> False | Some n \<Rightarrow> n < 100 \<or> 599 < n"
  consider "?hit = []" | "?hit \<noteq> []" "?bad" | "?hit \<noteq> []" "\<not> ?bad" by blast
  then show ?thesis
  proof cases
    case 1
    then show ?thesis using Inr v error by (simp add: finishIdempotency_def)
  next
    case 2
    then show ?thesis using Inr v error by (simp add: finishIdempotency_def)
  next
    case 3
    then show ?thesis using Inr v finished [of body] by (simp add: finishIdempotency_def)
  qed
qed

lemma step_keys: "idem_step x y \<Longrightarrow> keys_ok (snd x) \<Longrightarrow> keys_ok (snd y)"
proof (induction rule: idem_step.induct)
  case (owners t db m g)
  then show ?case by (simp add: keys_ok_def)
next
  case (insert t db row)
  then show ?case by (auto simp: insert_record_def keys_ok_def list_ex_iff)
next
  case (reclaim t db row lease)
  then show ?case by (simp add: reclaim_record_def keys_ok_update)
next
  case (finish i t db)
  then show ?case by (cases i t db rule: finish_cases) (simp_all add: keys_ok_update)
qed simp

lemma run_keys: "idem_run x y \<Longrightarrow> keys_ok (snd x) \<Longrightarrow> keys_ok (snd y)"
  by (induction rule: rtranclp_induct) (auto intro: step_keys)

lemma run_time: "idem_run x y \<Longrightarrow> fst x \<le> fst y"
  by (induction rule: rtranclp_induct) (auto elim!: idem_step.cases)

text \<open>A record that is finished stays as it is; a record with a running lease keeps it or is finished.\<close>

definition finished_row :: "idem_row \<Rightarrow> bool" where
  "finished_row r \<longleftrightarrow> ir_state r \<noteq> InProgress"

lemma step_finished_row: "idem_step x y \<Longrightarrow> r \<in> set (db_records (snd x)) \<Longrightarrow> finished_row r
    \<Longrightarrow> r \<in> set (db_records (snd y))"
proof (induction rule: idem_step.induct)
  case (insert t db row)
  then show ?case by (simp add: insert_record_def)
next
  case (reclaim t db row lease)
  then have "\<not> reclaimable (row_key row) t r" by (simp add: reclaimable_def finished_row_def)
  then show ?case
    using mem_sql_update [of r "db_records db" "reclaimable (row_key row) t"] reclaim by (simp add: reclaim_record_def)
next
  case (finish i t db)
  then have "\<not> finishable ref hash r" for ref hash by (simp add: finishable_def finished_row_def)
  with finish show ?case
    using mem_sql_update [of r "db_records db"] by (cases i t db rule: finish_cases) (auto, metis)
qed simp_all

lemma run_finished_row: "idem_run x y \<Longrightarrow> r \<in> set (db_records (snd x)) \<Longrightarrow> finished_row r
    \<Longrightarrow> r \<in> set (db_records (snd y))"
  by (induction rule: rtranclp_induct) (auto intro: step_finished_row)

definition held_row :: "idem_key \<Rightarrow> int \<Rightarrow> idem_row \<Rightarrow> bool" where
  "held_row k lease r \<longleftrightarrow> row_key r = k \<and> (finished_row r \<or> ir_lease_expires_at r = lease)"

lemma step_held_row:
  "idem_step x y \<Longrightarrow> fst y < lease \<Longrightarrow> \<exists>r \<in> set (db_records (snd x)). held_row k lease r
    \<Longrightarrow> \<exists>r \<in> set (db_records (snd y)). held_row k lease r"
proof (induction rule: idem_step.induct)
  case (insert t db row)
  then show ?case by (auto simp: insert_record_def)
next
  case (reclaim t db row new)
  then obtain r where r: "r \<in> set (db_records db)" "held_row k lease r" by auto
  with reclaim have "\<not> reclaimable (row_key row) t r" by (auto simp: reclaimable_def held_row_def finished_row_def)
  then show ?case
    using mem_sql_update [of r "db_records db" "reclaimable (row_key row) t"] r by (auto simp: reclaim_record_def)
next
  case (finish i t db)
  then obtain r where r: "r \<in> set (db_records db)" "held_row k lease r" by auto
  show ?case
  proof (cases i t db rule: finish_cases)
    case (finished body)
    let ?P = "finishable (js_trim (fi_idempotencyRef i)) (js_lower (js_trim (fi_requestHash i)))"
    have "(if ?P r then completed_row i body t r else r) \<in> set (db_records (snd (finishIdempotency i t db)))"
      using mem_sql_update [OF r(1), of ?P "completed_row i body t"] finished by simp
    moreover have "held_row k lease (if ?P r then completed_row i body t r else r)"
      using r(2) finish(1) by (auto simp: held_row_def finished_row_def)
    ultimately show ?thesis by (metis snd_conv)
  qed (use r in auto)
qed simp_all

lemma run_held_row:
  assumes "idem_run x y" and "fst y < lease" and "\<exists>r \<in> set (db_records (snd x)). held_row k lease r"
  shows "\<exists>r \<in> set (db_records (snd y)). held_row k lease r"
  using assms
proof (induction rule: rtranclp_induct)
  case (step y z)
  have "fst y \<le> fst z" using run_time [of y z] step(2) by blast
  with step.prems(1) have "fst y < lease" by simp
  then have "\<exists>r \<in> set (db_records (snd y)). held_row k lease r" using step.prems(2) by (rule step.IH)
  with step(2) step.prems(1) show ?case by (rule step_held_row)
qed

subsection \<open>What a reservation answers\<close>

lemma reserve_row_inprogress: "reserve_row sha i now db = Inr row \<Longrightarrow> ir_state row = InProgress
    \<and> rv_leaseExpiresAt i = Some (ir_lease_expires_at row)"
  by (auto simp: reserve_row_def sbind_Inr_iff)

lemma only_row:
  "keys_ok db \<Longrightarrow> r \<in> set (db_records db) \<Longrightarrow> filter (\<lambda>x. row_key x = row_key r) (db_records db) = [r]"
  by (rule unique_row) (simp_all add: keys_ok_def)

lemma reserve_known:
  assumes "keys_ok db" and "reserve_row sha i now db = Inr row" and "r \<in> set (db_records db)" and "row_key r = row_key row"
  shows "reserveIdempotency sha i now db = (if ir_expires_at row \<le> now then (Inl (JsError ''check constraint''), db)
    else case judge_record r (ir_request_hash row) of Some answer \<Rightarrow> (Inr answer, db)
      | None \<Rightarrow> apfst Inr (reclaim_record r (ir_lease_expires_at row) now db))"
proof -
  have "list_ex (\<lambda>x. row_key x = row_key row \<or> ir_idempotency_ref x = ir_idempotency_ref row) (db_records db)"
    using assms(3,4) by (auto simp: list_ex_iff)
  then show ?thesis
    using only_row [OF assms(1,3)] assms(2,4) by (simp add: reserveIdempotency_def insert_record_def split: option.split)
qed

text \<open>A reservation that is acquired leaves the record under the new lease.\<close>

lemma acquired_held:
  assumes "keys_ok db" and "reserve_row sha i now db = Inr row" and "reserveIdempotency sha i now db = (Inr (Acquired ref), db1)"
  shows "\<exists>r \<in> set (db_records db1). held_row (row_key row) (ir_lease_expires_at row) r"
proof (cases "\<exists>r \<in> set (db_records db). row_key r = row_key row")
  case True
  then obtain r where r: "r \<in> set (db_records db)" "row_key r = row_key row" by blast
  from assms(3) reserve_known [OF assms(1,2) r] have reclaim: "judge_record r (ir_request_hash row) = None"
      "reclaim_record r (ir_lease_expires_at row) now db = (Acquired ref, db1)"
    by (auto simp: judge_record_def apfst_def map_prod_def split: if_splits prod.splits option.splits)
  then obtain x where x: "x \<in> set (db_records db)" "reclaimable (row_key r) now x"
    by (auto simp: reclaim_record_def filter_empty_conv split: if_splits)
  from reclaim(2) x(2) mem_sql_update [OF x(1), of "reclaimable (row_key r) now"]
  have "x\<lparr>ir_lease_expires_at := ir_lease_expires_at row\<rparr> \<in> set (db_records db1)"
    by (auto simp: reclaim_record_def split: if_splits)
  moreover have "row_key x = row_key row" using x(2) r(2) by (simp add: reclaimable_def)
  moreover have "row_key (x\<lparr>ir_lease_expires_at := ir_lease_expires_at row\<rparr>) = row_key x" by simp
  ultimately have "held_row (row_key row) (ir_lease_expires_at row) (x\<lparr>ir_lease_expires_at := ir_lease_expires_at row\<rparr>)"
    by (simp add: held_row_def)
  with \<open>_ \<in> set (db_records db1)\<close> show ?thesis by blast
next
  case False
  then have "filter (\<lambda>r. row_key r = row_key row) (db_records db) = []" by (auto simp: filter_empty_conv)
  with assms(2,3) have "db1 = db\<lparr>db_records := db_records db @ [row]\<rparr>"
    by (auto simp: reserveIdempotency_def insert_record_def split: if_splits)
  then show ?thesis by (simp add: held_row_def)
qed

subsection \<open>Guarantees\<close>

definition started_empty :: "idem_db \<Rightarrow> bool" where
  "started_empty db \<longleftrightarrow> db_records db = []"

lemma reachable_keys: "started_empty db0 \<Longrightarrow> idem_run (t0, db0) (t, db) \<Longrightarrow> keys_ok db"
  using run_keys [of "(t0, db0)" "(t, db)"] by (simp add: started_empty_def keys_ok_def)

lemma reserve_time_keys:
  assumes "reserveIdempotency sha i now db = (v, db1)"
  shows "idem_run (now, db) (now, db1)"
proof (cases "reserve_row sha i now db")
  case (Inl e)
  with assms show ?thesis by (simp add: reserveIdempotency_def)
next
  case (Inr row)
  have "idem_step (now, db) (now, snd (insert_record row now db))" by (rule idem_step.insert)
  moreover have "db1 = snd (insert_record row now db)
      \<or> (\<exists>r. db1 = snd (reclaim_record r (ir_lease_expires_at row) now (snd (insert_record row now db))))"
  proof (cases "insert_record row now db")
    case (Pair w db')
    show ?thesis
    proof (cases "first_row (filter (\<lambda>r. row_key r = row_key row) (db_records db'))")
      case None
      then show ?thesis using assms Inr Pair by (auto simp: reserveIdempotency_def split: sum.splits bool.splits)
    next
      case (Some old)
      then show ?thesis using assms Inr Pair
        by (cases "judge_record old (ir_request_hash row)")
          (auto simp: reserveIdempotency_def apfst_def map_prod_def split: sum.splits bool.splits prod.splits
            dest: sym [of _ db1] intro!: exI [of _ old])
    qed
  qed
  ultimately show ?thesis by (auto intro: rtranclp.rtrancl_into_rtrancl idem_step.reclaim)
qed

text \<open>C24. While a lease runs no other request acquires the key, whatever else happens.\<close>

theorem idempotency_single_holder:
  assumes "started_empty db0" and "idem_run (t0, db0) (t, db)"
    and "reserve_row sha i t db = Inr row" and "reserveIdempotency sha i t db = (Inr (Acquired ref), db1)"
    and "idem_run (t, db1) (t', db2)" and "t' < ir_lease_expires_at row"
    and "reserve_row sha j t' db2 = Inr row'" and "row_key row' = row_key row"
  shows "fst (reserveIdempotency sha j t' db2) \<noteq> Inr (Acquired ref')"
proof -
  have "keys_ok db" using assms(1,2) by (rule reachable_keys)
  from acquired_held [OF this assms(3,4)] run_held_row [OF assms(5), of "ir_lease_expires_at row" "row_key row"] assms(6)
  obtain r where r: "r \<in> set (db_records db2)" "held_row (row_key row) (ir_lease_expires_at row) r" by auto
  have "keys_ok db2"
    using reachable_keys [OF assms(1)] assms(2) reserve_time_keys [OF assms(4)] assms(5) rtranclp_trans by metis
  have only: "\<forall>x \<in> set (db_records db2). row_key x = row_key r \<longrightarrow> x = r"
  proof (intro ballI impI)
    fix x
    assume "x \<in> set (db_records db2)" "row_key x = row_key r"
    then have "x \<in> set (filter (\<lambda>x. row_key x = row_key r) (db_records db2))" by simp
    then show "x = r" unfolding only_row [OF \<open>keys_ok db2\<close> r(1)] by simp
  qed
  have "reclaim_record r l t' db2 = (Busy (ir_idempotency_ref r), db2)" if "\<not> finished_row r" for l
    using that r(2) assms(6) only
    by (auto simp: reclaim_record_def filter_empty_conv reclaimable_def held_row_def)
  then show ?thesis
    using reserve_known [OF \<open>keys_ok db2\<close> assms(7) r(1)] r(2) assms(8)
    by (auto simp: held_row_def judge_record_def finished_row_def)
qed


subsection \<open>A sample run\<close>

definition idem_merchant :: merchant_row where
  "idem_merchant = \<lparr>mr_id = 1, mr_merchant_ref = ''m'', mr_display_name = ''M'', mr_legal_name = None, mr_business_type = Company,
     mr_country_code = ''JP'', mr_language_tag = ''en-US'', mr_email = ''m@x'', mr_phone_e164 = ''+81312345678'',
     mr_status = MerchantActive\<rparr>"

definition idem0 :: idem_db where
  "idem0 = \<lparr>db_merchants = [idem_merchant], db_guests = [], db_records = []\<rparr>"

definition sample_reserve :: "int \<Rightarrow> reserve_input" where
  "sample_reserve lease = \<lparr>rv_owner = MerchantOwner ''m'', rv_idempotencyRef = ''idem'', rv_operation = ''label'',
     rv_idempotencyKey = ''key'', rv_requestHash = replicate 64 (CHR ''a''), rv_leaseExpiresAt = Some lease,
     rv_expiresAt = Some 9000\<rparr>"

definition sample_finish :: finish_input where
  "sample_finish = \<lparr>fi_idempotencyRef = ''idem'', fi_requestHash = replicate 64 (CHR ''a''), fi_state = Completed,
     fi_responseStatus = Some 201, fi_responseBodyRef = Some ''body'', fi_responseBodySha256 = None\<rparr>"

definition sample_row :: "int \<Rightarrow> idem_row" where
  "sample_row lease = \<lparr>ir_idempotency_ref = ''idem'', ir_owner = \<lparr>oi_merchantId = Some 1, oi_guestSessionId = None\<rparr>,
     ir_operation = ''label'', ir_idempotency_key_hash = ''key'', ir_request_hash = replicate 64 (CHR ''a''),
     ir_state = InProgress, ir_response_status = None, ir_response_body_ref = None, ir_response_body_sha256 = None,
     ir_lease_expires_at = lease, ir_expires_at = 9000, ir_completed_at = None\<rparr>"

definition idem1 :: idem_db where "idem1 = idem0\<lparr>db_records := [sample_row 1000]\<rparr>"

definition idem2 :: idem_db where "idem2 = snd (finishIdempotency sample_finish 600 idem1)"

lemma idem_row0: "reserve_row (\<lambda>x. x) (sample_reserve 1000) 100 idem0 = Inr (sample_row 1000)"
  by code_simp

lemma idem_row1: "reserve_row (\<lambda>x. x) (sample_reserve 2000) 500 idem1 = Inr (sample_row 2000)"
  by code_simp

lemma idem_row2: "reserve_row (\<lambda>x. x) (sample_reserve 2000) 700 idem2 = Inr (sample_row 2000)"
  by code_simp

lemma idem_acquired: "reserveIdempotency (\<lambda>x. x) (sample_reserve 1000) 100 idem0 = (Inr (Acquired ''idem''), idem1)"
  by code_simp

lemma idem_finished: "finishIdempotency sample_finish 600 idem1 = (Inr (), idem2)"
  by code_simp

lemma idem_started: "started_empty idem0"
  by (simp add: started_empty_def idem0_def)

lemma idem_tick: "t \<le> t' \<Longrightarrow> idem_run (t, db) (t', db)"
  by (blast intro: idem_step.tick r_into_rtranclp)

lemma idem_run1: "idem_run (100, idem0) (600, idem1)"
  by (rule rtranclp_trans [OF reserve_time_keys [OF idem_acquired] idem_tick]) simp

theorem idempotency_single_holder_witness:
  "fst (reserveIdempotency (\<lambda>x. x) (sample_reserve 2000) 500 idem1) \<noteq> Inr (Acquired ''idem'')"
proof (rule idempotency_single_holder [OF idem_started rtranclp.rtrancl_refl idem_row0 idem_acquired idem_tick _ idem_row1])
  show "(100::int) \<le> 500" by simp
qed (simp_all add: sample_row_def row_key_def)


end
