(* ===== verification/Secret_Refs.thy ===== *)
theory Secret_Refs
  imports Ship_Sql Js_Regex
begin

section \<open>References the shipping service accepts\<close>

text \<open>
  The patterns for references to secrets in \<open>veygritShipStore.ts\<close> and \<open>carrierSecretManagement.ts\<close> and for plain
  references in \<open>labelManagement.ts\<close>, over the matcher of \<open>Js_Regex\<close>: anchored at both ends and with regard
  to case.
\<close>

subsection \<open>Anchored patterns\<close>

fun exact :: "string \<Rightarrow> re" where
  "exact [] = Eps"
| "exact (c # cs) = Then (Cls (\<lambda>x. x = c)) (exact cs)"

fun at_least :: "nat \<Rightarrow> (char \<Rightarrow> bool) \<Rightarrow> re" where
  "at_least 0 p = Many p"
| "at_least (Suc n) p = Then (Cls p) (at_least n p)"

fun seq :: "re list \<Rightarrow> re" where
  "seq [] = Eps"
| "seq (r # rs) = Then r (seq rs)"

definition re_full :: "re \<Rightarrow> string \<Rightarrow> bool" where
  "re_full r s \<longleftrightarrow> list_ex (\<lambda>(_, rest). rest = []) (re_match r (None, s))"

definition id_char :: "char \<Rightarrow> bool" where
  "id_char c \<longleftrightarrow> word_char c \<or> c = CHR ''-''"

definition path_char :: "char \<Rightarrow> bool" where
  "path_char c \<longleftrightarrow> id_char c \<or> c = CHR ''.''"

definition host_char :: "char \<Rightarrow> bool" where
  "host_char c \<longleftrightarrow> is_upper_char c \<or> is_lower_char c \<or> is_digit_char c \<or> c = CHR ''.'' \<or> c = CHR ''-''"

definition nonspace :: "char \<Rightarrow> bool" where
  "nonspace c \<longleftrightarrow> \<not> js_ws c"

subsection \<open>References to secrets\<close>

definition opaque_ref :: re where "opaque_ref = Then (exact ''secretref_'') (at_least 8 id_char)"

definition aws_ref :: re where
  "aws_ref = seq [exact ''arn:'', any_of [exact ''aws'', exact ''aws-us-gov'', exact ''aws-cn''],
     exact '':secretsmanager:'', at_least 1 nonspace]"

definition vault_ref :: re where "vault_ref = Then (exact ''vault://'') (at_least 1 nonspace)"

definition azure_host :: re where
  "azure_host = seq [exact ''https://'', at_least 1 host_char, exact ''.vault.azure.net/secrets/'']"

definition gcp_secret :: re where
  "gcp_secret = seq [exact ''projects/'', at_least 1 path_char, exact ''/secrets/'', at_least 1 path_char]"

definition gcp_ref :: re where
  "gcp_ref = seq [gcp_secret, exact ''/versions/'', at_least 1 path_char]"

definition credentialSecretReference :: "string \<Rightarrow> string result" where
  "credentialSecretReference value = sbind (required value ''credentialSecretRef'' 500) (\<lambda>v.
     if list_ex (\<lambda>r. re_full r v) [opaque_ref, aws_ref, vault_ref, Then azure_host (at_least 1 nonspace), gcp_ref]
     then Inr v
     else Inl (JsTypeError (''credentialSecretRef must be an opaque Secrets Manager reference; ''
       @ ''raw carrier credentials are forbidden.'')))"

subsection \<open>References of a provider\<close>

datatype secret_provider = AwsSecretsManager | GcpSecretManager | AzureKeyVault | ExternalVault

fun vault_text :: "secret_provider \<Rightarrow> string" where
  "vault_text AwsSecretsManager = ''aws-secrets-manager''"
| "vault_text GcpSecretManager = ''gcp-secret-manager''"
| "vault_text AzureKeyVault = ''azure-key-vault''"
| "vault_text ExternalVault = ''external''"

fun secret_pattern :: "secret_provider \<Rightarrow> re" where
  "secret_pattern AwsSecretsManager = aws_ref"
| "secret_pattern GcpSecretManager = gcp_ref"
| "secret_pattern AzureKeyVault = seq [azure_host, at_least 1 path_char,
     opt (Then (exact ''/'') (at_least 1 path_char))]"
| "secret_pattern ExternalVault = opaque_ref"

fun version_matches :: "secret_provider \<Rightarrow> string \<Rightarrow> bool" where
  "version_matches AwsSecretsManager v = (8 \<le> length v \<and> length v \<le> 128 \<and> list_all id_char v)"
| "version_matches GcpSecretManager v = re_full (seq [gcp_secret, exact ''/versions/'', at_least 1 is_digit_char]) v"
| "version_matches AzureKeyVault v = re_full (seq [azure_host, at_least 1 path_char, exact ''/'', at_least 1 path_char]) v"
| "version_matches ExternalVault v = re_full (Then (exact ''versionref_'') (at_least 8 id_char)) v"

definition validateProviderSecretReference :: "secret_provider \<Rightarrow> string \<Rightarrow> string result" where
  "validateProviderSecretReference p value = sbind (required value ''secretRef'' 500) (\<lambda>v.
     if re_full (secret_pattern p) v then Inr v
     else Inl (JsTypeError (''secretRef is not valid for '' @ vault_text p @ ''.'')))"

definition validateProviderVersionReference :: "secret_provider \<Rightarrow> string \<Rightarrow> string result" where
  "validateProviderVersionReference p value = sbind (required value ''versionRef'' 500) (\<lambda>v.
     if version_matches p v then Inr v
     else Inl (JsTypeError (''versionRef is not valid for '' @ vault_text p @ ''.'')))"

subsection \<open>Plain references\<close>

definition safeRef :: "string \<Rightarrow> string \<Rightarrow> nat \<Rightarrow> string result" where
  "safeRef value name mx = sbind (required value name mx) (\<lambda>v.
     if list_all id_char v then Inr v else Inl (invalid name))"

lemma safeRef_Inr: "safeRef v n m = Inr x
    \<longleftrightarrow> x = js_trim v \<and> js_trim v \<noteq> [] \<and> length (js_trim v) \<le> m \<and> list_all id_char (js_trim v)"
  by (auto simp: safeRef_def sbind_Inr_iff required_Inr split: if_splits)

subsection \<open>What a pattern begins with\<close>

lemma exact_match: "(d, t) \<in> set (re_match (exact u) (c, s)) \<Longrightarrow> s = u @ t"
  by (induction u arbitrary: c s) (auto split: list.splits if_splits)

lemma exact_first: "(d, t) \<in> set (re_match (Then (exact u) r) (c, s)) \<Longrightarrow> js_starts_with u s"
  by (auto simp: js_starts_with_def dest!: exact_match)

lemma re_fullE:
  assumes "re_full r s" obtains d where "(d, []) \<in> set (re_match r (None, s))"
  using assms by (auto simp: re_full_def list_ex_iff)

fun scheme :: "secret_provider \<Rightarrow> string" where
  "scheme AwsSecretsManager = ''arn:''"
| "scheme GcpSecretManager = ''projects/''"
| "scheme AzureKeyVault = ''https://''"
| "scheme ExternalVault = ''secretref_''"

lemma secret_scheme: "re_full (secret_pattern p) v \<Longrightarrow> js_starts_with (scheme p) v"
  by (cases p)
    (auto simp del: exact.simps re_match.simps(2) simp: aws_ref_def gcp_ref_def gcp_secret_def azure_host_def opaque_ref_def
      js_starts_with_def elim!: re_fullE dest!: exact_match)

lemma validated_secret: "validateProviderSecretReference p v = Inr r \<Longrightarrow> js_starts_with (scheme p) r"
  by (auto simp: validateProviderSecretReference_def sbind_Inr_iff secret_scheme split: if_splits)

text \<open>A reference that is valid for one provider is valid for no other.\<close>

lemma provider_unique:
  assumes "validateProviderSecretReference p v = Inr r" and "validateProviderSecretReference q v = Inr r'"
  shows "p = q"
proof -
  have "r = js_trim v" "r' = js_trim v"
    using assms by (auto simp: validateProviderSecretReference_def sbind_Inr_iff required_Inr split: if_splits)
  then have "js_starts_with (scheme p) r" "js_starts_with (scheme q) r"
    using validated_secret assms by metis+
  then show ?thesis
    by (cases p; cases q; cases r) (auto simp: js_starts_with_def)
qed

end
