(* ===== verification/Ship_Tables.thy ===== *)
theory Ship_Tables
  imports Ship_Idempotency Secret_Refs
begin

section \<open>Tables of the shipping service\<close>

text \<open>
  The rows of \<open>src/db/veygrit-ship-core.postgres.sql\<close> with the columns that \<open>veygrit-ship-workers.postgres.sql\<close>
  \<open>veygrit-ship-label-management.postgres.sql\<close>
  and \<open>veygrit-ship-secret-management.postgres.sql\<close> add, as far as the stores under
  \<open>src/src/server/shipping\<close> read or write them. Carriers and adapters are texts. Identities are drawn from one
  sequence: only their order within a table is ever used. An attempted insertion takes an identity, as a
  sequence of the database does.
\<close>

subsection \<open>Shipments and what hangs on them\<close>

datatype ship_direction = Outbound | ReturnShipment
datatype ship_mode = TestMode | LiveMode

datatype ship_status =
  Draft | Rating | Rated | Creating | Created | InTransit | Delivered | VoidPendingShipment | VoidedShipment | FailedShipment

datatype label_outcome = NotRequested | OutcomePending | Confirmed | OutcomeUnknown | Reconciling | OutcomeNotFound

record ship_row =
  sh_id :: int
  sh_shipment_ref :: string
  sh_merchant_id :: "int option"
  sh_guest_session_id :: "int option"
  sh_connection_id :: "int option"
  sh_carrier :: "string option"
  sh_adapter :: "string option"
  sh_carrier_shipment_id :: "string option"
  sh_product_id_code :: "string option"
  sh_direction :: ship_direction
  sh_mode :: ship_mode
  sh_status :: ship_status
  sh_origin_country_code :: string
  sh_destination_country_code :: string
  sh_origin_address_ref :: string
  sh_destination_address_ref :: string
  sh_request_fingerprint :: "string option"
  sh_label_outcome :: label_outcome
  sh_label_request_id :: "string option"
  sh_label_requested_at :: "int option"
  sh_deadline_at :: "int option"
  sh_next_tracking_poll_at :: "int option"
  sh_last_reconciled_at :: "int option"
  sh_next_reconcile_at :: "int option"
  sh_error_count :: int
  sh_origin_snapshot_ref :: "string option"
  sh_destination_snapshot_ref :: "string option"

datatype connection_status = PendingConnection | ActiveConnection | ReauthorizationRequired | DisabledConnection



record connection_row =
  cn_id :: int
  cn_connection_ref :: string
  cn_merchant_id :: int
  cn_carrier :: string
  cn_status :: connection_status
  cn_token_expires_at :: "int option"
  cn_next_token_refresh_at :: "int option"
  cn_failure_count :: int
  cn_last_verified_at :: "int option"
  cn_account_alias :: string
  cn_account_number_last4 :: "string option"
  cn_credential_secret_ref :: string
  cn_oauth_scopes :: "string list"
  cn_credential_provider :: secret_provider
  cn_credential_version_ref :: "string option"
  cn_credential_display_last4 :: "string option"
  cn_credential_rotated_at :: "int option"
  cn_credential_next_rotation_at :: "int option"

datatype label_status = ActiveLabel | VoidPending | Voided | VoidFailed | Superseded
datatype object_provider = AwsS3 | GcpCloudStorage | AzureBlob | ExternalStore
datatype label_format = Pdf | Png | Zpl | Gif | Epl

record label_row =
  lb_id :: int
  lb_label_ref :: string
  lb_shipment_id :: int
  lb_package_id :: "int option"
  lb_carrier :: string
  lb_tracking_number :: string
  lb_format :: label_format
  lb_artifact_key :: string
  lb_artifact_sha256 :: string
  lb_artifact_size :: "int option"
  lb_status :: label_status
  lb_created_at :: int
  lb_object_store_provider :: object_provider
  lb_object_version_ref :: "string option"
  lb_download_count :: int
  lb_print_count :: int
  lb_reprint_count :: int
  lb_last_downloaded_at :: "int option"
  lb_last_printed_at :: "int option"
  lb_void_requested_at :: "int option"
  lb_void_failure_code :: "string option"
  lb_voided_at :: "int option"
  lb_retention_until :: "int option"

datatype weight_unit = Lb | Kg
datatype dimension_unit = Inch | Cm

text \<open>Numeric columns hold thousandths (weights and lengths) and ten-thousandths (amounts).\<close>

record package_row =
  pk_id :: int
  pk_package_ref :: string
  pk_shipment_id :: int
  pk_sequence_no :: int
  pk_packaging_code :: "string option"
  pk_weight_value :: int
  pk_weight_unit :: weight_unit
  pk_length_value :: "int option"
  pk_width_value :: "int option"
  pk_height_value :: "int option"
  pk_dimension_unit :: "dimension_unit option"
  pk_declared_value :: "int option"
  pk_declared_value_currency :: "string option"

datatype quote_status = Offered | Selected | ExpiredQuote | Rejected

record quote_row =
  qt_id :: int
  qt_quote_ref :: string
  qt_shipment_id :: int
  qt_expires_at :: int
  qt_status :: quote_status
  qt_connection_id :: "int option"
  qt_carrier :: string
  qt_adapter :: "string option"
  qt_product_id_code :: string
  qt_amount :: int
  qt_currency :: string
  qt_delivery_days :: "int option"
  qt_estimated_delivery_at :: "int option"
  qt_carrier_response_ref :: "string option"

datatype status_category =
  PreTransit | CategoryInTransit | OutForDelivery | CategoryDelivered | Exceptional | ReturnToSender | UnknownCategory

record event_row =
  te_event_ref :: string
  te_shipment_id :: int
  te_label_id :: "int option"
  te_carrier :: string
  te_carrier_event_id :: "string option"
  te_fingerprint :: string
  te_status_code :: string
  te_status_category :: status_category
  te_occurred_at :: int

subsection \<open>Jobs and webhook deliveries\<close>

datatype job_type = TrackingUpdate | CarrierReconciliation | LabelOutcomeReconciliation | UpsTokenRefresh
datatype job_status = Queued | Running | Retry | Succeeded | DeadLetter | Cancelled

record job_row =
  jb_id :: int
  jb_job_ref :: string
  jb_merchant_id :: "int option"
  jb_shipment_id :: "int option"
  jb_label_id :: "int option"
  jb_connection_id :: "int option"
  jb_job_type :: job_type
  jb_dedupe_key :: string
  jb_status :: job_status
  jb_priority :: int
  jb_attempt_count :: int
  jb_max_attempts :: int
  jb_run_after :: int
  jb_lease_expires_at :: "int option"
  jb_worker_ref :: "string option"
  jb_last_error_code :: "string option"
  jb_last_error_message :: "string option"
  jb_last_error_retryable :: "bool option"
  jb_started_at :: "int option"
  jb_completed_at :: "int option"
  jb_dead_lettered_at :: "int option"

datatype delivery_status = PendingDelivery | Delivering | DeliverySucceeded | DeliveryRetry | DeliveryDeadLetter

record delivery_row =
  dl_id :: int
  dl_delivery_ref :: string
  dl_merchant_id :: int
  dl_shipment_id :: "int option"
  dl_endpoint_ref :: string
  dl_event_type :: string
  dl_event_ref :: string
  dl_payload_ref :: string
  dl_payload_sha256 :: string
  dl_status :: delivery_status
  dl_attempt_count :: int
  dl_max_attempts :: int
  dl_next_attempt_at :: int
  dl_lease_expires_at :: "int option"
  dl_response_status :: "int option"
  dl_last_error_code :: "string option"
  dl_delivered_at :: "int option"
  dl_dead_lettered_at :: "int option"

text \<open>The audit rows of dead letters: action, reference, merchant, error code and attempts.\<close>

record dead_letter_audit =
  da_action :: string
  da_ref :: string
  da_merchant_id :: "int option"
  da_error_code :: "string option"
  da_attempt_count :: int

text \<open>The append-only tables of label accesses and of credential rotations.\<close>

datatype access_action = UrlIssued | PrintLabel | ReprintLabel | VoidRequested | VoidSucceeded | VoidFailedEvent

record access_row =
  ae_event_ref :: string
  ae_merchant_id :: int
  ae_label_id :: int
  ae_actor_ref :: string
  ae_action :: access_action
  ae_ttl_seconds :: "int option"
  ae_failure_code :: "string option"
  ae_occurred_at :: int

datatype credential_operation = StoreCredential | RotateCredential
datatype mfa_method = Totp | Webauthn | Passkey | SecurityKey | OtherMfa

record rotation_row =
  ro_rotation_ref :: string
  ro_merchant_id :: int
  ro_connection_id :: int
  ro_provider :: secret_provider
  ro_operation :: credential_operation
  ro_previous_secret_ref :: "string option"
  ro_next_secret_ref :: "string option"
  ro_previous_version_ref :: "string option"
  ro_next_version_ref :: "string option"
  ro_actor_ref :: string
  ro_mfa_method :: mfa_method
  ro_mfa_session_ref_hash :: string
  ro_failure_code :: "string option"
  ro_requested_at :: int
  ro_completed_at :: int

record ship_db =
  sd_access :: idem_db
  sd_next_id :: int
  sd_connections :: "connection_row list"
  sd_shipments :: "ship_row list"
  sd_packages :: "package_row list"
  sd_quotes :: "quote_row list"
  sd_labels :: "label_row list"
  sd_events :: "event_row list"
  sd_jobs :: "job_row list"
  sd_deliveries :: "delivery_row list"
  sd_audit :: "dead_letter_audit list"
  sd_accesses :: "access_row list"
  sd_rotations :: "rotation_row list"

subsection \<open>Joins\<close>

definition shipment_of :: "ship_db \<Rightarrow> int option \<Rightarrow> ship_row option" where
  "shipment_of db i = first_row (filter (\<lambda>s. Some (sh_id s) = i) (sd_shipments db))"

definition connection_of :: "ship_db \<Rightarrow> int option \<Rightarrow> connection_row option" where
  "connection_of db i = first_row (filter (\<lambda>c. Some (cn_id c) = i) (sd_connections db))"

definition label_of :: "ship_db \<Rightarrow> int option \<Rightarrow> label_row option" where
  "label_of db i = first_row (filter (\<lambda>l. Some (lb_id l) = i) (sd_labels db))"

definition shipment_named :: "ship_db \<Rightarrow> string \<Rightarrow> ship_row option" where
  "shipment_named db r = first_row (filter (\<lambda>s. sh_shipment_ref s = r) (sd_shipments db))"

definition merchant_named :: "ship_db \<Rightarrow> string \<Rightarrow> merchant_row option" where
  "merchant_named db r = first_row (filter (\<lambda>m. mr_merchant_ref m = r) (db_merchants (sd_access db)))"

text \<open>\<open>value?.trim() || null\<close> is \<open>trimmed_opt\<close> of \<open>Ship_Idempotency\<close>. An update of the shipments:\<close>

definition update_shipments :: "(ship_row \<Rightarrow> bool) \<Rightarrow> (ship_row \<Rightarrow> ship_row) \<Rightarrow> ship_db \<Rightarrow> ship_db" where
  "update_shipments P f db = db\<lparr>sd_shipments := sql_update P f (sd_shipments db)\<rparr>"

lemma update_shipments_frame [simp]:
  "sd_jobs (update_shipments P f db) = sd_jobs db"
  "sd_next_id (update_shipments P f db) = sd_next_id db"
  "sd_deliveries (update_shipments P f db) = sd_deliveries db"
  "sd_labels (update_shipments P f db) = sd_labels db"
  "sd_shipments (update_shipments P f db) = sql_update P f (sd_shipments db)"
  by (simp_all add: update_shipments_def)

end
