(* ===== verification/Ship_Jobs.thy ===== *)
theory Ship_Jobs
  imports Ship_Tables
begin

section \<open>The job queue of the shipping workers\<close>

text \<open>
  The queue of \<open>src/src/server/shipping/veygritShipWorkerStore.ts\<close>: jobs are scheduled once per active key,
  claimed under a lease, completed, retried or dead-lettered, and replayed by an operator. One statement is one
  function of the tables and the time of the database. Random job references are a function from the identity
  of the row.
\<close>

subsection \<open>Arguments\<close>

text \<open>\<open>ref\<close> and \<open>date\<close> of the worker store are the same checks as \<open>required\<close> and \<open>iso\<close> of the other store.\<close>

definition ref_arg :: "string \<Rightarrow> string \<Rightarrow> nat \<Rightarrow> string result" where
  "ref_arg value name mx =
     (let normalized = js_trim value
      in if normalized = [] \<or> mx < length normalized then Inl (invalid name) else Inr normalized)"

definition date_arg :: "int option \<Rightarrow> string \<Rightarrow> int result" where
  "date_arg value name = (case value of None \<Rightarrow> Inl (invalid name) | Some t \<Rightarrow> Inr t)"

lemma ref_arg_Inr: "ref_arg v n m = Inr x \<longleftrightarrow> x = js_trim v \<and> js_trim v \<noteq> [] \<and> length (js_trim v) \<le> m"
  by (auto simp: ref_arg_def Let_def)

lemma date_arg_Inr [simp]: "date_arg v n = Inr t \<longleftrightarrow> v = Some t"
  by (auto simp: date_arg_def split: option.split)

subsection \<open>Scheduling\<close>

definition active_job :: "job_row \<Rightarrow> bool" where
  "active_job r \<longleftrightarrow> jb_status r \<in> {Queued, Running, Retry}"

record job_seed =
  js_merchant :: "int option"
  js_shipment :: "int option"
  js_label :: "int option"
  js_connection :: "int option"
  js_type :: job_type
  js_dedupe :: string
  js_priority :: int
  js_max :: int

definition new_job :: "(int \<Rightarrow> string) \<Rightarrow> int \<Rightarrow> int \<Rightarrow> job_seed \<Rightarrow> job_row" where
  "new_job rnd i now s = \<lparr>jb_id = i, jb_job_ref = rnd i, jb_merchant_id = js_merchant s, jb_shipment_id = js_shipment s,
     jb_label_id = js_label s, jb_connection_id = js_connection s, jb_job_type = js_type s,
     jb_dedupe_key = js_dedupe s, jb_status = Queued, jb_priority = js_priority s, jb_attempt_count = 0,
     jb_max_attempts = js_max s, jb_run_after = now, jb_lease_expires_at = None, jb_worker_ref = None,
     jb_last_error_code = None, jb_last_error_message = None, jb_last_error_retryable = None,
     jb_started_at = None, jb_completed_at = None, jb_dead_lettered_at = None\<rparr>"

text \<open>The unique keys of the table: the reference, and type and key among the active jobs.\<close>

definition same_work :: "job_row \<Rightarrow> job_row \<Rightarrow> bool" where
  "same_work r x \<longleftrightarrow> jb_job_type x = jb_job_type r \<and> jb_dedupe_key x = jb_dedupe_key r"

definition job_conflicts :: "job_row \<Rightarrow> job_row list \<Rightarrow> bool" where
  "job_conflicts r rows \<longleftrightarrow> list_ex (\<lambda>x. jb_job_ref x = jb_job_ref r \<or> (active_job x \<and> same_work r x)) rows"

text \<open>\<open>INSERT ... ON CONFLICT DO NOTHING RETURNING\<close> for one row and for the rows of a query.\<close>

definition insert_job :: "(int \<Rightarrow> string) \<Rightarrow> int \<Rightarrow> job_seed \<Rightarrow> ship_db \<Rightarrow> string option \<times> ship_db" where
  "insert_job rnd now s db =
     (let row = new_job rnd (sd_next_id db) now s; db' = db\<lparr>sd_next_id := sd_next_id db + 1\<rparr>
      in if job_conflicts row (sd_jobs db) then (None, db')
         else (Some (jb_job_ref row), db'\<lparr>sd_jobs := sd_jobs db @ [row]\<rparr>))"

fun insert_jobs :: "(int \<Rightarrow> string) \<Rightarrow> int \<Rightarrow> job_seed list \<Rightarrow> ship_db \<Rightarrow> nat \<times> ship_db" where
  "insert_jobs rnd now [] db = (0, db)"
| "insert_jobs rnd now (s # ss) db =
     (let (r, db1) = insert_job rnd now s db; (n, db2) = insert_jobs rnd now ss db1
      in ((if r = None then n else Suc n), db2))"

text \<open>\<open>COALESCE(t, now()) <= now()\<close>.\<close>

definition is_due :: "int \<Rightarrow> int option \<Rightarrow> bool" where
  "is_due now t = (case t of None \<Rightarrow> True | Some t' \<Rightarrow> t' \<le> now)"

definition tracking_seeds :: "int \<Rightarrow> ship_db \<Rightarrow> job_seed list" where
  "tracking_seeds now db =
     [\<lparr>js_merchant = sh_merchant_id s, js_shipment = Some (sh_id s), js_label = Some (lb_id l),
       js_connection = sh_connection_id s, js_type = TrackingUpdate,
       js_dedupe = lb_carrier l @ '':'' @ lb_tracking_number l, js_priority = 50, js_max = 12\<rparr>.
      s \<leftarrow> sd_shipments db, l \<leftarrow> sd_labels db,
      lb_shipment_id l = sh_id s \<and> lb_status l = ActiveLabel \<and> sh_status s \<in> {Created, InTransit}
        \<and> sh_label_outcome s = Confirmed \<and> is_due now (sh_next_tracking_poll_at s)]"

definition shipment_seed :: "job_type \<Rightarrow> int \<Rightarrow> int \<Rightarrow> ship_row \<Rightarrow> job_seed" where
  "shipment_seed t priority mx s = \<lparr>js_merchant = sh_merchant_id s, js_shipment = Some (sh_id s), js_label = None,
     js_connection = sh_connection_id s, js_type = t, js_dedupe = sh_shipment_ref s,
     js_priority = priority, js_max = mx\<rparr>"

definition reconciliation_seeds :: "int \<Rightarrow> ship_db \<Rightarrow> job_seed list" where
  "reconciliation_seeds now db = map (shipment_seed CarrierReconciliation 80 8)
     (filter (\<lambda>s. sh_status s \<in> {Created, InTransit, VoidPendingShipment} \<and> is_due now (sh_next_reconcile_at s))
       (sd_shipments db))"

definition label_outcome_seeds :: "ship_db \<Rightarrow> job_seed list" where
  "label_outcome_seeds db = map (shipment_seed LabelOutcomeReconciliation 10 10)
     (filter (\<lambda>s. sh_label_outcome s \<in> {OutcomeUnknown, Reconciling}) (sd_shipments db))"

definition token_due :: "int \<Rightarrow> connection_row \<Rightarrow> bool" where
  "token_due now c = (case cn_next_token_refresh_at c of Some t \<Rightarrow> t \<le> now
     | None \<Rightarrow> (case cn_token_expires_at c of Some t \<Rightarrow> t - 300000 \<le> now | None \<Rightarrow> True))"

definition token_seeds :: "int \<Rightarrow> ship_db \<Rightarrow> job_seed list" where
  "token_seeds now db = map (\<lambda>c. \<lparr>js_merchant = Some (cn_merchant_id c), js_shipment = None, js_label = None,
       js_connection = Some (cn_id c), js_type = UpsTokenRefresh, js_dedupe = cn_connection_ref c,
       js_priority = 20, js_max = 8\<rparr>)
     (filter (\<lambda>c. cn_carrier c = ''ups'' \<and> cn_status c = ActiveConnection \<and> token_due now c) (sd_connections db))"

record schedule_counts =
  sc_acquired :: bool
  sc_tracking :: nat
  sc_carrierReconciliation :: nat
  sc_labelOutcome :: nat
  sc_upsTokenRefresh :: nat

text \<open>The advisory lock is granted or not; a transaction reads the clock once.\<close>

definition scheduleDueJobs :: "bool \<Rightarrow> (int \<Rightarrow> string) \<Rightarrow> int \<Rightarrow> ship_db \<Rightarrow> schedule_counts \<times> ship_db" where
  "scheduleDueJobs lock rnd now db =
     (if \<not> lock then (\<lparr>sc_acquired = False, sc_tracking = 0, sc_carrierReconciliation = 0, sc_labelOutcome = 0,
        sc_upsTokenRefresh = 0\<rparr>, db)
      else let (a, db1) = insert_jobs rnd now (tracking_seeds now db) db;
        (b, db2) = insert_jobs rnd now (reconciliation_seeds now db1) db1;
        (c, db3) = insert_jobs rnd now (label_outcome_seeds db2) db2;
        (d, db4) = insert_jobs rnd now (token_seeds now db3) db3
      in (\<lparr>sc_acquired = True, sc_tracking = a, sc_carrierReconciliation = b, sc_labelOutcome = c,
        sc_upsTokenRefresh = d\<rparr>, db4))"

subsection \<open>Claiming\<close>

record claimed_job =
  cj_jobRef :: string
  cj_jobType :: job_type
  cj_attemptCount :: int
  cj_maxAttempts :: int
  cj_shipmentRef :: "string option"
  cj_labelRef :: "string option"
  cj_connectionRef :: "string option"
  cj_carrier :: "string option"
  cj_adapter :: "string option"
  cj_trackingNumber :: "string option"
  cj_labelRequestId :: "string option"
  cj_deadlineAt :: "int option"

definition claimable :: "int \<Rightarrow> job_row \<Rightarrow> bool" where
  "claimable now r \<longleftrightarrow> jb_status r \<in> {Queued, Retry} \<and> jb_run_after r \<le> now
     \<or> jb_status r = Running \<and> (case jb_lease_expires_at r of None \<Rightarrow> False | Some t \<Rightarrow> t \<le> now)"

definition claim_candidates :: "nat \<Rightarrow> int \<Rightarrow> job_row list \<Rightarrow> job_row list" where
  "claim_candidates n now rows = take n
     (sort_key jb_priority (sort_key jb_run_after (sort_key jb_id (filter (claimable now) rows))))"

definition claimed_row :: "string \<Rightarrow> int \<Rightarrow> int \<Rightarrow> job_row \<Rightarrow> job_row" where
  "claimed_row worker lease now r = r\<lparr>jb_status := Running, jb_worker_ref := Some worker,
     jb_attempt_count := jb_attempt_count r + 1,
     jb_started_at := (case jb_started_at r of None \<Rightarrow> Some now | t \<Rightarrow> t),
     jb_lease_expires_at := Some (now + lease * 1000)\<rparr>"

text \<open>The label of a job, or the latest active one of its shipment.\<close>

definition latest_label :: "ship_db \<Rightarrow> int option \<Rightarrow> label_row option" where
  "latest_label db sid = first_row (rev (sort_key lb_created_at (sort_key lb_id
     (filter (\<lambda>l. Some (lb_shipment_id l) = sid \<and> lb_status l = ActiveLabel) (sd_labels db)))))"

definition label_of_job :: "ship_db \<Rightarrow> job_row \<Rightarrow> label_row option" where
  "label_of_job db r = (case jb_label_id r of
     Some i \<Rightarrow> label_of db (Some i) | None \<Rightarrow> latest_label db (jb_shipment_id r))"

definition or_else :: "'a option \<Rightarrow> 'a option \<Rightarrow> 'a option" where
  "or_else a b = (case a of None \<Rightarrow> b | Some x \<Rightarrow> Some x)"

definition nonempty :: "string option \<Rightarrow> string option" where
  "nonempty v = (if v = Some [] then None else v)"

definition mapJob :: "ship_db \<Rightarrow> job_row \<Rightarrow> claimed_job" where
  "mapJob db r = (let s = shipment_of db (jb_shipment_id r); l = label_of_job db r;
       c = connection_of db (jb_connection_id r)
     in \<lparr>cj_jobRef = jb_job_ref r, cj_jobType = jb_job_type r, cj_attemptCount = jb_attempt_count r,
       cj_maxAttempts = jb_max_attempts r, cj_shipmentRef = nonempty (map_option sh_shipment_ref s),
       cj_labelRef = nonempty (map_option lb_label_ref l), cj_connectionRef = nonempty (map_option cn_connection_ref c),
       cj_carrier = nonempty (or_else (Option.bind s sh_carrier) (map_option cn_carrier c)),
       cj_adapter = nonempty (Option.bind s sh_adapter),
       cj_trackingNumber = nonempty (map_option lb_tracking_number l),
       cj_labelRequestId = nonempty (Option.bind s sh_label_request_id),
       cj_deadlineAt = Option.bind s sh_deadline_at\<rparr>)"

definition claimJobs :: "string \<Rightarrow> int \<Rightarrow> int \<Rightarrow> int \<Rightarrow> ship_db \<Rightarrow> claimed_job list result \<times> ship_db" where
  "claimJobs workerRef limit leaseSeconds now db = (case ref_arg workerRef ''workerRef'' 100 of
     Inl e \<Rightarrow> (Inl e, db)
   | Inr worker \<Rightarrow>
      (let ids = map jb_id (claim_candidates (nat (clamp 1 100 limit)) now (sd_jobs db));
         hit = (\<lambda>r. jb_id r \<in> set ids); upd = claimed_row worker (clamp 10 900 leaseSeconds) now
       in (Inr (map (mapJob db) (sort_key jb_priority (sort_key jb_id (sql_updated hit upd (sd_jobs db))))),
         db\<lparr>sd_jobs := sql_update hit upd (sd_jobs db)\<rparr>)))"

subsection \<open>Completion, failure, replay\<close>

definition running_job :: "string \<Rightarrow> job_row \<Rightarrow> bool" where
  "running_job r x \<longleftrightarrow> jb_job_ref x = r \<and> jb_status x = Running"

definition completed_job :: "int \<Rightarrow> job_row \<Rightarrow> job_row" where
  "completed_job now x = x\<lparr>jb_status := Succeeded, jb_completed_at := Some now, jb_lease_expires_at := None,
     jb_worker_ref := None, jb_last_error_code := None, jb_last_error_message := None,
     jb_last_error_retryable := None\<rparr>"

definition completeJob :: "string \<Rightarrow> int \<Rightarrow> ship_db \<Rightarrow> unit result \<times> ship_db" where
  "completeJob jobRef now db = (case ref_arg jobRef ''jobRef'' 100 of
     Inl e \<Rightarrow> (Inl e, db)
   | Inr r \<Rightarrow> (if filter (running_job r) (sd_jobs db) = []
       then (Inl (JsError ''Running worker job was not found.''), db)
       else (Inr (), db\<lparr>sd_jobs := sql_update (running_job r) (completed_job now) (sd_jobs db)\<rparr>)))"

record fail_input =
  fj_jobRef :: string
  fj_errorCode :: string
  fj_errorMessage :: string
  fj_retryable :: bool
  fj_nextRunAt :: "int option"

definition exhausted :: "bool \<Rightarrow> job_row \<Rightarrow> bool" where
  "exhausted retryable x \<longleftrightarrow> \<not> retryable \<or> jb_max_attempts x \<le> jb_attempt_count x"

definition failed_job :: "string \<Rightarrow> string \<Rightarrow> bool \<Rightarrow> int \<Rightarrow> int \<Rightarrow> job_row \<Rightarrow> job_row" where
  "failed_job code msg retryable next now x = x\<lparr>
     jb_status := (if exhausted retryable x then DeadLetter else Retry), jb_run_after := next,
     jb_lease_expires_at := None, jb_worker_ref := None, jb_last_error_code := Some code,
     jb_last_error_message := Some msg, jb_last_error_retryable := Some retryable,
     jb_dead_lettered_at := (if exhausted retryable x then Some now else None)\<rparr>"

text \<open>The further parts of the statement: the counters of the shipment and of the connection, and the audit.\<close>

definition count_shipment_failure :: "job_row \<Rightarrow> ship_db \<Rightarrow> ship_db" where
  "count_shipment_failure f = update_shipments (\<lambda>s. Some (sh_id s) = jb_shipment_id f)
     (\<lambda>s. s\<lparr>sh_error_count := sh_error_count s + 1\<rparr>)"

definition count_connection_failure :: "job_row \<Rightarrow> ship_db \<Rightarrow> ship_db" where
  "count_connection_failure f db = db\<lparr>sd_connections := sql_update
     (\<lambda>c. Some (cn_id c) = jb_connection_id f \<and> jb_job_type f = UpsTokenRefresh)
     (\<lambda>c. c\<lparr>cn_failure_count := cn_failure_count c + 1,
        cn_status := (if jb_status f = DeadLetter then ReauthorizationRequired else cn_status c)\<rparr>)
     (sd_connections db)\<rparr>"

definition audit_dead_letter :: "job_row \<Rightarrow> string \<Rightarrow> ship_db \<Rightarrow> ship_db" where
  "audit_dead_letter f code db = (if jb_status f = DeadLetter
     then db\<lparr>sd_audit := sd_audit db @ [\<lparr>da_action = ''worker.job.dead_lettered'', da_ref = jb_job_ref f,
       da_merchant_id = jb_merchant_id f, da_error_code = Some code, da_attempt_count = jb_attempt_count f\<rparr>]\<rparr>
     else db)"

definition fail_args :: "fail_input \<Rightarrow> (string \<times> string \<times> string \<times> int) result" where
  "fail_args i =
     sbind (ref_arg (fj_jobRef i) ''jobRef'' 100) (\<lambda>r.
     sbind (ref_arg (fj_errorCode i) ''errorCode'' 100) (\<lambda>code.
     sbind (ref_arg (fj_errorMessage i) ''errorMessage'' 500) (\<lambda>msg.
     sbind (date_arg (fj_nextRunAt i) ''nextRunAt'') (\<lambda>next. Inr (r, code, msg, next)))))"

definition failJob :: "fail_input \<Rightarrow> int \<Rightarrow> ship_db \<Rightarrow> job_status result \<times> ship_db" where
  "failJob i now db = (case fail_args i of
     Inl e \<Rightarrow> (Inl e, db)
   | Inr (r, code, msg, next) \<Rightarrow>
      (let upd = failed_job code msg (fj_retryable i) next now
       in case first_row (sql_updated (running_job r) upd (sd_jobs db)) of
          None \<Rightarrow> (Inl (JsError ''Running worker job was not found.''), db)
        | Some f \<Rightarrow> (Inr (jb_status f), audit_dead_letter f code (count_connection_failure f (count_shipment_failure f
            (db\<lparr>sd_jobs := sql_update (running_job r) upd (sd_jobs db)\<rparr>))))))"

definition dead_job :: "string \<Rightarrow> job_row \<Rightarrow> bool" where
  "dead_job r x \<longleftrightarrow> jb_job_ref x = r \<and> jb_status x = DeadLetter"

definition replayed_job :: "int \<Rightarrow> job_row \<Rightarrow> job_row" where
  "replayed_job runAfter x = x\<lparr>jb_status := Queued, jb_attempt_count := 0, jb_run_after := runAfter,
     jb_dead_lettered_at := None, jb_completed_at := None, jb_last_error_code := None,
     jb_last_error_message := None, jb_last_error_retryable := None, jb_worker_ref := None,
     jb_lease_expires_at := None\<rparr>"

text \<open>The job becomes active again, so the unique key of the active jobs may refuse it.\<close>

definition replayDeadLetter :: "string \<Rightarrow> int option \<Rightarrow> ship_db \<Rightarrow> unit result \<times> ship_db" where
  "replayDeadLetter jobRef runAfter db =
     (case sbind (ref_arg jobRef ''jobRef'' 100) (\<lambda>r. sbind (date_arg runAfter ''runAfter'') (\<lambda>t. Inr (r, t))) of
        Inl e \<Rightarrow> (Inl e, db)
      | Inr (r, t) \<Rightarrow> (case first_row (filter (dead_job r) (sd_jobs db)) of
          None \<Rightarrow> (Inl (JsError ''Dead-letter job was not found.''), db)
        | Some x \<Rightarrow> if list_ex (\<lambda>y. active_job y \<and> same_work x y) (sd_jobs db)
            then (Inl (JsError ''unique constraint''), db)
            else (Inr (), db\<lparr>sd_jobs := sql_update (dead_job r) (replayed_job t) (sd_jobs db)\<rparr>)))"

record dead_letter =
  de_job_ref :: string
  de_job_type :: job_type
  de_attempt_count :: int
  de_max_attempts :: int
  de_last_error_code :: "string option"
  de_last_error_message :: "string option"
  de_last_error_retryable :: "bool option"
  de_dead_lettered_at :: "int option"
  de_shipment_ref :: "string option"
  de_connection_ref :: "string option"

definition dead_letter_of :: "ship_db \<Rightarrow> job_row \<Rightarrow> dead_letter" where
  "dead_letter_of db x = \<lparr>de_job_ref = jb_job_ref x, de_job_type = jb_job_type x,
     de_attempt_count = jb_attempt_count x, de_max_attempts = jb_max_attempts x,
     de_last_error_code = jb_last_error_code x, de_last_error_message = jb_last_error_message x,
     de_last_error_retryable = jb_last_error_retryable x, de_dead_lettered_at = jb_dead_lettered_at x,
     de_shipment_ref = map_option sh_shipment_ref (shipment_of db (jb_shipment_id x)),
     de_connection_ref = map_option cn_connection_ref (connection_of db (jb_connection_id x))\<rparr>"

definition dead_time :: "job_row \<Rightarrow> int" where
  "dead_time x = (case jb_dead_lettered_at x of None \<Rightarrow> 0 | Some t \<Rightarrow> t)"

definition listDeadLetters :: "int \<Rightarrow> ship_db \<Rightarrow> dead_letter list" where
  "listDeadLetters limit db = map (dead_letter_of db) (take (nat (clamp 1 500 limit))
     (rev (sort_key dead_time (sort_key jb_id (filter (\<lambda>x. jb_status x = DeadLetter) (sd_jobs db))))))"

subsection \<open>Outcomes of labels\<close>

record unknown_input =
  un_shipmentRef :: string
  un_carrierRequestId :: string
  un_deadlineAt :: "int option"

definition unknown_args :: "unknown_input \<Rightarrow> (string \<times> string \<times> int) result" where
  "unknown_args i =
     sbind (ref_arg (un_shipmentRef i) ''shipmentRef'' 100) (\<lambda>r.
     sbind (ref_arg (un_carrierRequestId i) ''carrierRequestId'' 100) (\<lambda>rid.
     sbind (date_arg (un_deadlineAt i) ''deadlineAt'') (\<lambda>t. Inr (r, rid, t))))"

definition unconfirmed :: "string \<Rightarrow> ship_row \<Rightarrow> bool" where
  "unconfirmed r s \<longleftrightarrow> sh_shipment_ref s = r \<and> sh_label_outcome s \<noteq> Confirmed"

definition unknown_row :: "string \<Rightarrow> int \<Rightarrow> int \<Rightarrow> ship_row \<Rightarrow> ship_row" where
  "unknown_row rid deadline now s = s\<lparr>sh_label_outcome := OutcomeUnknown, sh_label_request_id := Some rid,
     sh_label_requested_at := (case sh_label_requested_at s of None \<Rightarrow> Some now | t \<Rightarrow> t),
     sh_deadline_at := Some deadline\<rparr>"

text \<open>A transaction: an error leaves the tables as they were. The key of the job is the argument as given.\<close>

definition markLabelOutcomeUnknown ::
  "(int \<Rightarrow> string) \<Rightarrow> unknown_input \<Rightarrow> int \<Rightarrow> ship_db \<Rightarrow> string result \<times> ship_db" where
  "markLabelOutcomeUnknown rnd i now db = (case unknown_args i of
     Inl e \<Rightarrow> (Inl e, db)
   | Inr (r, rid, deadline) \<Rightarrow> (case first_row (filter (unconfirmed r) (sd_shipments db)) of
       None \<Rightarrow> (Inl (JsError ''Shipment was not found or already has a confirmed label.''), db)
     | Some s \<Rightarrow>
        (let db1 = update_shipments (unconfirmed r) (unknown_row rid deadline now) db;
             seed = (shipment_seed LabelOutcomeReconciliation 10 10 s)\<lparr>js_dedupe := un_shipmentRef i\<rparr>
         in case insert_job rnd now seed db1 of
            (Some jobRef, db2) \<Rightarrow> (Inr jobRef, db2)
          | (None, db2) \<Rightarrow> (case first_row (filter (\<lambda>x. jb_job_type x = LabelOutcomeReconciliation
                \<and> jb_dedupe_key x = un_shipmentRef i \<and> active_job x) (sd_jobs db2)) of
              Some x \<Rightarrow> (Inr (jb_job_ref x), db2)
            | None \<Rightarrow> (Inl (JsError ''Label reconciliation job conflict could not be resolved.''), db)))))"

definition markLabelReconciling :: "string \<Rightarrow> ship_db \<Rightarrow> unit result \<times> ship_db" where
  "markLabelReconciling shipmentRef db = (case ref_arg shipmentRef ''shipmentRef'' 100 of
     Inl e \<Rightarrow> (Inl e, db)
   | Inr r \<Rightarrow> (Inr (), update_shipments
       (\<lambda>s. sh_shipment_ref s = r \<and> sh_label_outcome s \<in> {OutcomeUnknown, Reconciling})
       (\<lambda>s. s\<lparr>sh_label_outcome := Reconciling\<rparr>) db))"

definition recordLabelNotFound :: "string \<Rightarrow> ship_db \<Rightarrow> unit result \<times> ship_db" where
  "recordLabelNotFound shipmentRef db = (case ref_arg shipmentRef ''shipmentRef'' 100 of
     Inl e \<Rightarrow> (Inl e, db)
   | Inr r \<Rightarrow> (Inr (), update_shipments (unconfirmed r)
       (\<lambda>s. s\<lparr>sh_label_outcome := OutcomeNotFound, sh_status := FailedShipment, sh_deadline_at := None\<rparr>) db))"

subsection \<open>What the carriers report\<close>

definition optional_date :: "int option option \<Rightarrow> string \<Rightarrow> int option result" where
  "optional_date v name = (case v of None \<Rightarrow> Inr None
     | Some d \<Rightarrow> (case date_arg d name of Inl e \<Rightarrow> Inl e | Inr t \<Rightarrow> Inr (Some t)))"

record reconciliation_input =
  rc_shipmentRef :: string
  rc_status :: "ship_status option"
  rc_nextReconcileAt :: "int option option"

definition reconciled_row :: "ship_status option \<Rightarrow> int option \<Rightarrow> int \<Rightarrow> ship_row \<Rightarrow> ship_row" where
  "reconciled_row status next now s = s\<lparr>sh_status := (case status of None \<Rightarrow> sh_status s | Some v \<Rightarrow> v),
     sh_last_reconciled_at := Some now, sh_next_reconcile_at := next, sh_error_count := 0\<rparr>"

definition recordCarrierReconciliation :: "reconciliation_input \<Rightarrow> int \<Rightarrow> ship_db \<Rightarrow> unit result \<times> ship_db" where
  "recordCarrierReconciliation i now db =
     (case sbind (ref_arg (rc_shipmentRef i) ''shipmentRef'' 100) (\<lambda>r.
         sbind (if rc_status i \<in> {Some Delivered, Some VoidedShipment} then Inr None
           else optional_date (rc_nextReconcileAt i) ''nextReconcileAt'') (\<lambda>t. Inr (r, t))) of
        Inl e \<Rightarrow> (Inl e, db)
      | Inr (r, t) \<Rightarrow> (Inr (), update_shipments (\<lambda>s. sh_shipment_ref s = r) (reconciled_row (rc_status i) t now) db))"

definition refreshed_connection :: "int \<Rightarrow> int \<Rightarrow> connection_row \<Rightarrow> connection_row" where
  "refreshed_connection expires now c = c\<lparr>cn_token_expires_at := Some expires,
     cn_next_token_refresh_at := Some (expires - 300000), cn_failure_count := 0,
     cn_last_verified_at := Some now, cn_status := ActiveConnection\<rparr>"

definition recordUpsTokenRefresh :: "string \<Rightarrow> int option \<Rightarrow> int \<Rightarrow> ship_db \<Rightarrow> unit result \<times> ship_db" where
  "recordUpsTokenRefresh connectionRef expiresAt now db =
     (case sbind (ref_arg connectionRef ''connectionRef'' 100) (\<lambda>r.
         sbind (date_arg expiresAt ''expiresAt'') (\<lambda>t. Inr (r, t))) of
        Inl e \<Rightarrow> (Inl e, db)
      | Inr (r, t) \<Rightarrow>
         (let hit = (\<lambda>c. cn_connection_ref c = r \<and> cn_carrier c = ''ups'')
          in if filter hit (sd_connections db) = []
             then (Inl (JsError ''Active UPS carrier connection was not found.''), db)
             else (Inr (), db\<lparr>sd_connections := sql_update hit (refreshed_connection t now) (sd_connections db)\<rparr>)))"

end
