(* ===== verification/Ship_Labels.thy ===== *)
theory Ship_Labels
  imports Ship_Jobs
begin

section \<open>Labels, tracking events and quotes\<close>

text \<open>
  \<open>saveLabel\<close>, \<open>appendTrackingEvent\<close> and \<open>selectRateQuote\<close> of \<open>src/src/server/shipping/veygritShipStore.ts\<close>
  and the two operations of \<open>veygritShipWorkerStore.ts\<close> that use them, with the unique indexes and the trigger
  the tables have.
\<close>

subsection \<open>Codes\<close>

definition code_char :: "char \<Rightarrow> bool" where
  "code_char c \<longleftrightarrow> is_upper_char c \<or> is_digit_char c \<or> c = CHR ''_'' \<or> c = CHR ''-''"

definition upperCode :: "string \<Rightarrow> string \<Rightarrow> nat \<Rightarrow> string result" where
  "upperCode value name n = sbind (required value name n) (\<lambda>v. let normalized = js_upper v
     in if list_all code_char normalized
          \<and> (if n = 2 \<or> n = 3 then length normalized = n else 1 \<le> length normalized \<and> length normalized \<le> n)
        then Inr normalized else Inl (invalid name))"

subsection \<open>Labels\<close>

record label_input =
  li_labelRef :: string
  li_shipmentRef :: string
  li_packageRef :: "string option"
  li_carrier :: string
  li_trackingNumber :: string
  li_format :: label_format
  li_artifactKey :: string
  li_artifactSha256 :: string
  li_artifactSize :: "int option"
  li_carrierShipmentId :: "string option"

record label_args =
  la_labelRef :: string
  la_shipmentRef :: string
  la_packageRef :: "string option"
  la_trackingNumber :: string
  la_artifactKey :: string
  la_artifactSha256 :: string

definition label_arguments :: "label_input \<Rightarrow> label_args result" where
  "label_arguments i =
     sbind (required (li_labelRef i) ''labelRef'' 100) (\<lambda>l.
     sbind (required (li_shipmentRef i) ''shipmentRef'' 100) (\<lambda>s.
     sbind (required (li_trackingNumber i) ''carrierTrackingNumber'' 100) (\<lambda>t.
     sbind (required (li_artifactKey i) ''artifactKey'' 500) (\<lambda>k.
     sbind (assertHash (li_artifactSha256 i) ''artifactSha256'') (\<lambda>h.
       Inr \<lparr>la_labelRef = l, la_shipmentRef = s, la_packageRef = trimmed_opt (li_packageRef i),
         la_trackingNumber = t, la_artifactKey = k, la_artifactSha256 = h\<rparr>)))))"

text \<open>The row of the insertion, when shipment and package are found.\<close>

definition label_target :: "label_args \<Rightarrow> ship_db \<Rightarrow> (ship_row \<times> int option) option" where
  "label_target a db = (case shipment_named db (la_shipmentRef a) of
     None \<Rightarrow> None
   | Some s \<Rightarrow> (case la_packageRef a of
       None \<Rightarrow> Some (s, None)
     | Some p \<Rightarrow> (case first_row (filter (\<lambda>k. pk_package_ref k = p \<and> pk_shipment_id k = sh_id s) (sd_packages db)) of
         None \<Rightarrow> None | Some k \<Rightarrow> Some (s, Some (pk_id k)))))"

definition open_label :: "label_row \<Rightarrow> bool" where
  "open_label l \<longleftrightarrow> lb_status l \<in> {ActiveLabel, VoidPending}"

text \<open>The trigger: labels for the shipment and for its packages exclude each other. The checks of the table.\<close>

definition scope_conflict :: "int \<Rightarrow> int option \<Rightarrow> label_row list \<Rightarrow> bool" where
  "scope_conflict sid pid rows \<longleftrightarrow> list_ex (\<lambda>l. open_label l \<and> lb_shipment_id l = sid
     \<and> (lb_package_id l = None) \<noteq> (pid = None)) rows"

definition label_checked :: "label_input \<Rightarrow> bool" where
  "label_checked i \<longleftrightarrow> li_format i \<in> {Pdf, Zpl} \<and> (case li_artifactSize i of None \<Rightarrow> True | Some n \<Rightarrow> 0 \<le> n)"

text \<open>The unique indexes besides the reference: one open label per shipment or package, one active label per
  tracking number.\<close>

definition label_taken :: "int \<Rightarrow> int option \<Rightarrow> string \<Rightarrow> string \<Rightarrow> label_row list \<Rightarrow> bool" where
  "label_taken sid pid carrier tracking rows \<longleftrightarrow> list_ex (\<lambda>l.
     (lb_status l = ActiveLabel \<and> lb_carrier l = carrier \<and> lb_tracking_number l = tracking)
     \<or> (open_label l \<and> lb_package_id l = pid \<and> (pid = None \<longrightarrow> lb_shipment_id l = sid))) rows"

definition same_label :: "label_input \<Rightarrow> label_args \<Rightarrow> int \<Rightarrow> label_row \<Rightarrow> bool" where
  "same_label i a sid l \<longleftrightarrow> lb_shipment_id l = sid \<and> lb_carrier l = li_carrier i
     \<and> lb_tracking_number l = la_trackingNumber a \<and> lb_artifact_sha256 l = la_artifactSha256 a"

definition new_label :: "label_input \<Rightarrow> label_args \<Rightarrow> int \<Rightarrow> int \<Rightarrow> int option \<Rightarrow> int \<Rightarrow> label_row" where
  "new_label i a ident sid pid now = \<lparr>lb_id = ident, lb_label_ref = la_labelRef a, lb_shipment_id = sid,
     lb_package_id = pid, lb_carrier = li_carrier i, lb_tracking_number = la_trackingNumber a,
     lb_format = li_format i, lb_artifact_key = la_artifactKey a, lb_artifact_sha256 = la_artifactSha256 a,
     lb_artifact_size = li_artifactSize i, lb_status = ActiveLabel, lb_created_at = now,
     lb_object_store_provider = ExternalStore, lb_object_version_ref = None, lb_download_count = 0,
     lb_print_count = 0, lb_reprint_count = 0, lb_last_downloaded_at = None, lb_last_printed_at = None,
     lb_void_requested_at = None, lb_void_failure_code = None, lb_voided_at = None, lb_retention_until = None\<rparr>"

definition insert_label :: "label_input \<Rightarrow> label_args \<Rightarrow> int \<Rightarrow> ship_db \<Rightarrow> unit result \<times> ship_db" where
  "insert_label i a now db =
     (let missing = (Inl (JsError ''Label identity conflicts, or shipment/package was not found.''), db);
          db' = db\<lparr>sd_next_id := sd_next_id db + 1\<rparr>
      in case label_target a db of
        None \<Rightarrow> missing
      | Some (s, pid) \<Rightarrow>
         (if scope_conflict (sh_id s) pid (sd_labels db) then (Inl (JsError ''label scope''), db)
          else if \<not> label_checked i then (Inl (JsError ''check constraint''), db)
          else case first_row (filter (\<lambda>l. lb_label_ref l = la_labelRef a) (sd_labels db)) of
            Some l \<Rightarrow> (if same_label i a (sh_id s) l then (Inr (), db') else missing)
          | None \<Rightarrow> (if label_taken (sh_id s) pid (li_carrier i) (la_trackingNumber a) (sd_labels db)
              then (Inl (JsError ''unique constraint''), db)
              else (Inr (), db'\<lparr>sd_labels := sd_labels db @ [new_label i a (sd_next_id db) (sh_id s) pid now]\<rparr>))))"

text \<open>The shipment is updated under the reference as it was given. Carrier and carrier's identifier are unique.\<close>

definition labelled_row :: "label_input \<Rightarrow> int \<Rightarrow> ship_row \<Rightarrow> ship_row" where
  "labelled_row i now s = s\<lparr>sh_status := Created, sh_carrier := Some (li_carrier i),
     sh_carrier_shipment_id := or_else (trimmed_opt (li_carrierShipmentId i)) (sh_carrier_shipment_id s),
     sh_label_outcome := Confirmed, sh_next_tracking_poll_at := Some now, sh_next_reconcile_at := Some now\<rparr>"

definition carrier_id_taken :: "ship_row \<Rightarrow> ship_row list \<Rightarrow> bool" where
  "carrier_id_taken s rows \<longleftrightarrow> sh_carrier s \<noteq> None \<and> sh_carrier_shipment_id s \<noteq> None
     \<and> list_ex (\<lambda>x. sh_id x \<noteq> sh_id s \<and> sh_carrier x = sh_carrier s
         \<and> sh_carrier_shipment_id x = sh_carrier_shipment_id s) rows"

definition saveLabel :: "label_input \<Rightarrow> int \<Rightarrow> ship_db \<Rightarrow> unit result \<times> ship_db" where
  "saveLabel i now db = (case label_arguments i of
     Inl e \<Rightarrow> (Inl e, db)
   | Inr a \<Rightarrow> (case insert_label i a now db of
       (Inl e, _) \<Rightarrow> (Inl e, db)
     | (Inr _, db1) \<Rightarrow>
        (let hit = (\<lambda>s. sh_shipment_ref s = li_shipmentRef i)
         in if list_ex (\<lambda>s. hit s \<and> carrier_id_taken (labelled_row i now s) (sd_shipments db1)) (sd_shipments db1)
            then (Inl (JsError ''unique constraint''), db)
            else (Inr (), update_shipments hit (labelled_row i now) db1))))"

definition recordLabelFound :: "label_input \<Rightarrow> int \<Rightarrow> ship_db \<Rightarrow> unit result \<times> ship_db" where
  "recordLabelFound i now db = (case saveLabel i now db of
     (Inl e, db1) \<Rightarrow> (Inl e, db1)
   | (Inr _, db1) \<Rightarrow> (case ref_arg (li_shipmentRef i) ''shipmentRef'' 100 of
       Inl e \<Rightarrow> (Inl e, db1)
     | Inr r \<Rightarrow> (Inr (), update_shipments (\<lambda>s. sh_shipment_ref s = r)
         (\<lambda>s. s\<lparr>sh_label_outcome := Confirmed, sh_deadline_at := None, sh_error_count := 0\<rparr>) db1)))"

subsection \<open>Tracking events\<close>

record event_input =
  ei_eventRef :: string
  ei_shipmentRef :: string
  ei_labelRef :: "string option"
  ei_carrier :: string
  ei_carrierEventId :: "string option"
  ei_fingerprint :: string
  ei_statusCode :: string
  ei_statusCategory :: status_category
  ei_countryCode :: "string option"
  ei_occurredAt :: "int option"
  ei_payloadSha256 :: "string option"

text \<open>The arguments in the order of the list; the free texts of the place are not kept in the model's row.\<close>

definition event_args :: "event_input \<Rightarrow> (string \<times> string \<times> string \<times> string \<times> int) result" where
  "event_args i =
     sbind (required (ei_eventRef i) ''eventRef'' 100) (\<lambda>e.
     sbind (required (ei_shipmentRef i) ''shipmentRef'' 100) (\<lambda>s.
     sbind (assertHash (ei_fingerprint i) ''eventFingerprint'') (\<lambda>f.
     sbind (required (ei_statusCode i) ''statusCode'' 50) (\<lambda>c.
     sbind (case nonempty (ei_countryCode i) of None \<Rightarrow> Inr [] | Some v \<Rightarrow> upperCode v ''locationCountryCode'' 2) (\<lambda>_.
     sbind (iso_date (ei_occurredAt i) ''occurredAt'') (\<lambda>t.
     sbind (case nonempty (ei_payloadSha256 i) of None \<Rightarrow> Inr [] | Some v \<Rightarrow> assertHash v ''carrierPayloadSha256'') (\<lambda>_.
       Inr (e, s, f, c, t))))))))"

definition event_label :: "string option \<Rightarrow> ship_row \<Rightarrow> ship_db \<Rightarrow> int option option" where
  "event_label r s db = (case r of None \<Rightarrow> Some None
     | Some l \<Rightarrow> (case first_row (filter (\<lambda>x. lb_label_ref x = l \<and> lb_shipment_id x = sh_id s) (sd_labels db)) of
         None \<Rightarrow> None | Some x \<Rightarrow> Some (Some (lb_id x))))"

definition same_event :: "event_row \<Rightarrow> event_row \<Rightarrow> bool" where
  "same_event r x \<longleftrightarrow> te_event_ref x = te_event_ref r
     \<or> (te_shipment_id x = te_shipment_id r \<and> te_fingerprint x = te_fingerprint r)
     \<or> (te_carrier_event_id r \<noteq> None \<and> te_carrier x = te_carrier r \<and> te_carrier_event_id x = te_carrier_event_id r)"

definition new_event ::
  "event_input \<Rightarrow> string \<times> string \<times> string \<times> string \<times> int \<Rightarrow> ship_row \<Rightarrow> int option \<Rightarrow> event_row" where
  "new_event i args s l = (case args of (e, _, f, c, t) \<Rightarrow>
     \<lparr>te_event_ref = e, te_shipment_id = sh_id s, te_label_id = l, te_carrier = ei_carrier i,
      te_carrier_event_id = trimmed_opt (ei_carrierEventId i), te_fingerprint = f, te_status_code = c,
      te_status_category = ei_statusCategory i, te_occurred_at = t\<rparr>)"

definition appendTrackingEvent :: "event_input \<Rightarrow> ship_db \<Rightarrow> bool result \<times> ship_db" where
  "appendTrackingEvent i db = (case event_args i of
     Inl e \<Rightarrow> (Inl e, db)
   | Inr args \<Rightarrow> (case shipment_named db (fst (snd args)) of
       None \<Rightarrow> (Inr False, db)
     | Some s \<Rightarrow> (case event_label (trimmed_opt (ei_labelRef i)) s db of
         None \<Rightarrow> (Inr False, db)
       | Some l \<Rightarrow>
          (let row = new_event i args s l
           in if list_ex (same_event row) (sd_events db) then (Inr False, db)
              else (Inr True, db\<lparr>sd_events := sd_events db @ [row]\<rparr>)))))"

fun append_events :: "event_input list \<Rightarrow> ship_db \<Rightarrow> unit result \<times> ship_db" where
  "append_events [] db = (Inr (), db)"
| "append_events (e # es) db = (case appendTrackingEvent e db of
     (Inl x, db1) \<Rightarrow> (Inl x, db1) | (Inr _, db1) \<Rightarrow> append_events es db1)"

record tracking_sync =
  ts_shipmentRef :: string
  ts_status :: "ship_status option"
  ts_nextPollAt :: "int option option"
  ts_nextReconcileAt :: "int option option"
  ts_events :: "event_input list"

definition synced_row :: "ship_status option \<Rightarrow> int option \<Rightarrow> int option \<Rightarrow> int \<Rightarrow> ship_row \<Rightarrow> ship_row" where
  "synced_row status poll reconcile now s = s\<lparr>
     sh_status := (case status of None \<Rightarrow> sh_status s | Some v \<Rightarrow> v), sh_next_tracking_poll_at := poll,
     sh_next_reconcile_at := or_else reconcile (sh_next_reconcile_at s), sh_last_reconciled_at := Some now,
     sh_error_count := 0\<rparr>"

text \<open>The events are appended one by one before the shipment is updated; an event that is refused ends the call.\<close>

definition recordTrackingSync :: "tracking_sync \<Rightarrow> int \<Rightarrow> ship_db \<Rightarrow> unit result \<times> ship_db" where
  "recordTrackingSync i now db = (case append_events (ts_events i) db of
     (Inl e, db1) \<Rightarrow> (Inl e, db1)
   | (Inr _, db1) \<Rightarrow>
      (case sbind (ref_arg (ts_shipmentRef i) ''shipmentRef'' 100) (\<lambda>r.
         sbind (if ts_status i = Some Delivered then Inr None else optional_date (ts_nextPollAt i) ''nextPollAt'') (\<lambda>p.
         sbind (optional_date (ts_nextReconcileAt i) ''nextReconcileAt'') (\<lambda>q. Inr (r, p, q)))) of
        Inl e \<Rightarrow> (Inl e, db1)
      | Inr (r, p, q) \<Rightarrow> (Inr (), update_shipments (\<lambda>s. sh_shipment_ref s = r)
          (synced_row (ts_status i) p q now) db1)))"

subsection \<open>Selection of a quote\<close>

definition offered_quote :: "string \<Rightarrow> int \<Rightarrow> quote_row \<Rightarrow> bool" where
  "offered_quote r now q \<longleftrightarrow> qt_quote_ref q = r \<and> qt_status q = Offered \<and> now < qt_expires_at q"

definition choose_quote :: "quote_row \<Rightarrow> quote_row \<Rightarrow> quote_row" where
  "choose_quote sel q = q\<lparr>qt_status := (if qt_id q = qt_id sel then Selected
     else if qt_status q = Selected then Rejected else qt_status q)\<rparr>"

text \<open>
  A unique index is checked row by row while the statement visits the table, here in the order of the list: a row
  may not become selected while another row of its shipment still is.
\<close>

fun update_quotes :: "int \<Rightarrow> quote_row \<Rightarrow> quote_row list \<Rightarrow> quote_row list \<Rightarrow> quote_row list option" where
  "update_quotes sid sel done_rows [] = Some done_rows"
| "update_quotes sid sel done_rows (x # xs) =
     (let x' = (if qt_shipment_id x = sid then choose_quote sel x else x)
      in if qt_shipment_id x = sid \<and> qt_status x' = Selected
           \<and> list_ex (\<lambda>y. qt_shipment_id y = sid \<and> qt_status y = Selected) (done_rows @ xs)
         then None else update_quotes sid sel (done_rows @ [x']) xs)"

definition selectRateQuote :: "string \<Rightarrow> string \<Rightarrow> int \<Rightarrow> ship_db \<Rightarrow> unit result \<times> ship_db" where
  "selectRateQuote quoteRef shipmentRef now db =
     (case sbind (required quoteRef ''quoteRef'' 100) (\<lambda>q.
         sbind (required shipmentRef ''shipmentRef'' 100) (\<lambda>s. Inr (q, s))) of
        Inl e \<Rightarrow> (Inl e, db)
      | Inr (q, sref) \<Rightarrow> (case shipment_named db sref of
          None \<Rightarrow> (Inl (JsError ''Available rate quote was not found.''), db)
        | Some s \<Rightarrow> (case first_row (filter (\<lambda>x. qt_shipment_id x = sh_id s \<and> offered_quote q now x) (sd_quotes db)) of
            None \<Rightarrow> (Inl (JsError ''Available rate quote was not found.''), db)
          | Some sel \<Rightarrow> (case update_quotes (sh_id s) sel [] (sd_quotes db) of
              None \<Rightarrow> (Inl (JsError ''unique constraint''), db)
            | Some rows \<Rightarrow> (Inr (), update_shipments (\<lambda>x. sh_shipment_ref x = sref) (\<lambda>x. x\<lparr>sh_status := Rated\<rparr>)
                (db\<lparr>sd_quotes := rows\<rparr>))))))"

end
