(* ===== verification/Ship_Deliveries.thy ===== *)
theory Ship_Deliveries
  imports Ship_Labels
begin

section \<open>The queue of webhook deliveries\<close>

text \<open>
  \<open>enqueueWebhookDelivery\<close>, \<open>claimWebhookDeliveries\<close>, \<open>finishWebhookDelivery\<close>,
  \<open>listDeadLetterWebhookDeliveries\<close> and \<open>replayWebhookDeadLetter\<close> of
  \<open>src/src/server/shipping/veygritShipStore.ts\<close>.
\<close>

record delivery_input =
  di_deliveryRef :: string
  di_merchantRef :: string
  di_shipmentRef :: "string option"
  di_endpointRef :: string
  di_eventType :: string
  di_eventRef :: string
  di_payloadRef :: string
  di_payloadSha256 :: string
  di_nextAttemptAt :: "int option option"

definition optional_iso :: "int option option \<Rightarrow> string \<Rightarrow> int option result" where
  "optional_iso v name = (case v of None \<Rightarrow> Inr None
     | Some d \<Rightarrow> (case iso_date d name of Inl e \<Rightarrow> Inl e | Inr t \<Rightarrow> Inr (Some t)))"

text \<open>The row the insertion would add, without the identities that come from the joins.\<close>

definition delivery_row_of :: "delivery_input \<Rightarrow> int \<Rightarrow> int \<Rightarrow> (string \<times> delivery_row) result" where
  "delivery_row_of i ident now =
     sbind (required (di_deliveryRef i) ''deliveryRef'' 100) (\<lambda>d.
     sbind (required (di_merchantRef i) ''merchantRef'' 100) (\<lambda>m.
     sbind (required (di_endpointRef i) ''endpointRef'' 200) (\<lambda>e.
     sbind (required (di_eventType i) ''eventType'' 100) (\<lambda>t.
     sbind (required (di_eventRef i) ''eventRef'' 100) (\<lambda>v.
     sbind (required (di_payloadRef i) ''payloadRef'' 500) (\<lambda>p.
     sbind (assertHash (di_payloadSha256 i) ''payloadSha256'') (\<lambda>h.
     sbind (optional_iso (di_nextAttemptAt i) ''nextAttemptAt'') (\<lambda>n.
       Inr (m, \<lparr>dl_id = ident, dl_delivery_ref = d, dl_merchant_id = 0, dl_shipment_id = None, dl_endpoint_ref = e,
         dl_event_type = t, dl_event_ref = v, dl_payload_ref = p, dl_payload_sha256 = h,
         dl_status = PendingDelivery, dl_attempt_count = 0, dl_max_attempts = 12,
         dl_next_attempt_at = (case n of None \<Rightarrow> now | Some x \<Rightarrow> x), dl_lease_expires_at = None,
         dl_response_status = None, dl_last_error_code = None, dl_delivered_at = None,
         dl_dead_lettered_at = None\<rparr>)))))))))"

text \<open>The merchant, and its shipment when one is named.\<close>

definition delivery_target :: "string \<Rightarrow> string option \<Rightarrow> ship_db \<Rightarrow> (int \<times> int option) option" where
  "delivery_target m s db = (case merchant_named db m of
     None \<Rightarrow> None
   | Some mr \<Rightarrow> (case s of
       None \<Rightarrow> Some (mr_id mr, None)
     | Some r \<Rightarrow> (case first_row (filter (\<lambda>x. sh_shipment_ref x = r \<and> sh_merchant_id x = Some (mr_id mr)) (sd_shipments db)) of
         None \<Rightarrow> None | Some x \<Rightarrow> Some (mr_id mr, Some (sh_id x)))))"

definition same_delivery :: "delivery_row \<Rightarrow> delivery_row \<Rightarrow> bool" where
  "same_delivery r x \<longleftrightarrow> dl_merchant_id x = dl_merchant_id r \<and> dl_endpoint_ref x = dl_endpoint_ref r
     \<and> dl_event_ref x = dl_event_ref r"

definition enqueueWebhookDelivery :: "delivery_input \<Rightarrow> int \<Rightarrow> ship_db \<Rightarrow> bool result \<times> ship_db" where
  "enqueueWebhookDelivery i now db = (case delivery_row_of i (sd_next_id db) now of
     Inl e \<Rightarrow> (Inl e, db)
   | Inr (m, row0) \<Rightarrow> (case delivery_target m (trimmed_opt (di_shipmentRef i)) db of
       None \<Rightarrow> (Inr False, db)
     | Some (mid, sid) \<Rightarrow>
        (let row = row0\<lparr>dl_merchant_id := mid, dl_shipment_id := sid\<rparr>; db' = db\<lparr>sd_next_id := sd_next_id db + 1\<rparr>
         in if list_ex (same_delivery row) (sd_deliveries db) then (Inr False, db')
            else if list_ex (\<lambda>x. dl_delivery_ref x = dl_delivery_ref row) (sd_deliveries db)
            then (Inl (JsError ''unique constraint''), db')
            else (Inr True, db'\<lparr>sd_deliveries := sd_deliveries db @ [row]\<rparr>))))"

subsection \<open>Claiming\<close>

definition deliverable :: "int \<Rightarrow> delivery_row \<Rightarrow> bool" where
  "deliverable now r \<longleftrightarrow> dl_status r \<in> {PendingDelivery, DeliveryRetry} \<and> dl_next_attempt_at r \<le> now
     \<or> dl_status r = Delivering \<and> (case dl_lease_expires_at r of None \<Rightarrow> False | Some t \<Rightarrow> t \<le> now)"

definition delivery_order :: "delivery_row \<Rightarrow> int" where
  "delivery_order r = (case dl_lease_expires_at r of None \<Rightarrow> dl_next_attempt_at r | Some t \<Rightarrow> t)"

definition claimed_delivery :: "int \<Rightarrow> int \<Rightarrow> delivery_row \<Rightarrow> delivery_row" where
  "claimed_delivery lease now r = r\<lparr>dl_status := Delivering, dl_attempt_count := dl_attempt_count r + 1,
     dl_lease_expires_at := Some (now + lease * 1000)\<rparr>"

definition claimWebhookDeliveries :: "int \<Rightarrow> int \<Rightarrow> int \<Rightarrow> ship_db \<Rightarrow> delivery_row list \<times> ship_db" where
  "claimWebhookDeliveries limit leaseSeconds now db =
     (let ids = map dl_id (take (nat (clamp 1 100 limit))
          (sort_key delivery_order (sort_key dl_id (filter (deliverable now) (sd_deliveries db)))));
        hit = (\<lambda>r. dl_id r \<in> set ids); upd = claimed_delivery (clamp 10 900 leaseSeconds) now
      in (sql_updated hit upd (sd_deliveries db),
        db\<lparr>sd_deliveries := sql_update hit upd (sd_deliveries db)\<rparr>))"

subsection \<open>Completion and replay\<close>

datatype delivery_outcome = OutSucceeded | OutRetry | OutDeadLetter

record finish_delivery =
  fd_deliveryRef :: string
  fd_outcome :: delivery_outcome
  fd_nextAttemptAt :: "int option option"
  fd_responseStatus :: "int option"
  fd_errorCode :: "string option"

definition delivering :: "string \<Rightarrow> delivery_row \<Rightarrow> bool" where
  "delivering r x \<longleftrightarrow> dl_delivery_ref x = r \<and> dl_status x = Delivering"

definition stored_outcome :: "delivery_outcome \<Rightarrow> delivery_row \<Rightarrow> delivery_outcome" where
  "stored_outcome out x = (if out = OutRetry \<and> dl_max_attempts x \<le> dl_attempt_count x then OutDeadLetter else out)"

fun outcome_status :: "delivery_outcome \<Rightarrow> delivery_status" where
  "outcome_status OutSucceeded = DeliverySucceeded"
| "outcome_status OutRetry = DeliveryRetry"
| "outcome_status OutDeadLetter = DeliveryDeadLetter"

definition finished_delivery :: "finish_delivery \<Rightarrow> int option \<Rightarrow> int \<Rightarrow> delivery_row \<Rightarrow> delivery_row" where
  "finished_delivery i next now x = x\<lparr>dl_status := outcome_status (stored_outcome (fd_outcome i) x),
     dl_next_attempt_at := (case next of None \<Rightarrow> dl_next_attempt_at x | Some t \<Rightarrow> t),
     dl_response_status := fd_responseStatus i, dl_last_error_code := trimmed_opt (fd_errorCode i),
     dl_lease_expires_at := None,
     dl_delivered_at := (if fd_outcome i = OutSucceeded then Some now else None),
     dl_dead_lettered_at := (if stored_outcome (fd_outcome i) x = OutDeadLetter then Some now else None)\<rparr>"

definition finish_delivery_args :: "finish_delivery \<Rightarrow> (string \<times> int option) result" where
  "finish_delivery_args i =
     (if fd_outcome i = OutRetry \<and> fd_nextAttemptAt i = None
      then Inl (JsTypeError ''nextAttemptAt is required for a webhook retry.'')
      else sbind (required (fd_deliveryRef i) ''deliveryRef'' 100) (\<lambda>r.
        sbind (optional_iso (fd_nextAttemptAt i) ''nextAttemptAt'') (\<lambda>t. Inr (r, t))))"

text \<open>What the columns accept: a status from 100 to 599, a code of 100 characters.\<close>

definition delivery_checked :: "finish_delivery \<Rightarrow> bool" where
  "delivery_checked i \<longleftrightarrow> (case fd_responseStatus i of None \<Rightarrow> True | Some n \<Rightarrow> 100 \<le> n \<and> n \<le> 599)
     \<and> (case trimmed_opt (fd_errorCode i) of None \<Rightarrow> True | Some c \<Rightarrow> length c \<le> 100)"

definition finishWebhookDelivery :: "finish_delivery \<Rightarrow> int \<Rightarrow> ship_db \<Rightarrow> delivery_outcome result \<times> ship_db" where
  "finishWebhookDelivery i now db = (case finish_delivery_args i of
     Inl e \<Rightarrow> (Inl e, db)
   | Inr (r, next) \<Rightarrow> (case first_row (filter (delivering r) (sd_deliveries db)) of
       None \<Rightarrow> (Inl (JsError ''Claimed webhook delivery was not found.''), db)
     | Some x \<Rightarrow>
        (if \<not> delivery_checked i then (Inl (JsError ''check constraint''), db)
         else let f = finished_delivery i next now x;
           db1 = db\<lparr>sd_deliveries := sql_update (delivering r) (finished_delivery i next now) (sd_deliveries db)\<rparr>
         in (Inr (stored_outcome (fd_outcome i) x),
           (if dl_status f = DeliveryDeadLetter
            then db1\<lparr>sd_audit := sd_audit db @ [\<lparr>da_action = ''webhook.delivery.dead_lettered'', da_ref = dl_delivery_ref f,
              da_merchant_id = Some (dl_merchant_id f), da_error_code = dl_last_error_code f,
              da_attempt_count = dl_attempt_count f\<rparr>]\<rparr>
            else db1)))))"

definition listDeadLetterWebhookDeliveries :: "int \<Rightarrow> ship_db \<Rightarrow> delivery_row list" where
  "listDeadLetterWebhookDeliveries limit db = take (nat (clamp 1 500 limit))
     (rev (sort_key (\<lambda>x. case dl_dead_lettered_at x of None \<Rightarrow> 0 | Some t \<Rightarrow> t) (sort_key dl_id
       (filter (\<lambda>x. dl_status x = DeliveryDeadLetter) (sd_deliveries db)))))"

definition dead_delivery :: "string \<Rightarrow> delivery_row \<Rightarrow> bool" where
  "dead_delivery r x \<longleftrightarrow> dl_delivery_ref x = r \<and> dl_status x = DeliveryDeadLetter"

definition replayed_delivery :: "int \<Rightarrow> delivery_row \<Rightarrow> delivery_row" where
  "replayed_delivery next x = x\<lparr>dl_status := PendingDelivery, dl_attempt_count := 0, dl_next_attempt_at := next,
     dl_lease_expires_at := None, dl_response_status := None, dl_last_error_code := None,
     dl_delivered_at := None, dl_dead_lettered_at := None\<rparr>"

definition replayWebhookDeadLetter :: "string \<Rightarrow> int option \<Rightarrow> ship_db \<Rightarrow> unit result \<times> ship_db" where
  "replayWebhookDeadLetter deliveryRef nextAttemptAt db =
     (case sbind (required deliveryRef ''deliveryRef'' 100) (\<lambda>r.
         sbind (iso_date nextAttemptAt ''nextAttemptAt'') (\<lambda>t. Inr (r, t))) of
        Inl e \<Rightarrow> (Inl e, db)
      | Inr (r, t) \<Rightarrow> (if filter (dead_delivery r) (sd_deliveries db) = []
          then (Inl (JsError ''Dead-letter webhook delivery was not found.''), db)
          else (Inr (), db\<lparr>sd_deliveries := sql_update (dead_delivery r) (replayed_delivery t) (sd_deliveries db)\<rparr>)))"

end
