(* ===== verification/Ship_Shipments.thy ===== *)
theory Ship_Shipments
  imports Complex_Main Ship_Labels
begin

section \<open>Merchants, connections, shipments and quotes\<close>

text \<open>
  The operations of \<open>src/src/server/shipping/veygritShipStore.ts\<close> that fill the tables: \<open>upsertMerchant\<close>,
  \<open>createGuestSession\<close>, \<open>upsertCarrierConnection\<close>, \<open>createShipmentWithPackages\<close> and \<open>saveRateQuote\<close>. The
  constraints of the tables are checked; the table of adapters a carrier may have is not.
\<close>

subsection \<open>Columns\<close>

definition letters_code :: "nat \<Rightarrow> string \<Rightarrow> bool" where
  "letters_code n s \<longleftrightarrow> length s = n \<and> list_all is_upper_char s"

definition phone_ok :: "string \<Rightarrow> bool" where
  "phone_ok s \<longleftrightarrow> (case s of p # d # ds \<Rightarrow> p = CHR ''+'' \<and> is_digit_char d \<and> d \<noteq> CHR ''0'' \<and> 6 \<le> length ds
     \<and> length ds \<le> 14 \<and> list_all is_digit_char ds | _ \<Rightarrow> False)"

definition fits :: "string option \<Rightarrow> nat \<Rightarrow> bool" where
  "fits s n \<longleftrightarrow> (case s of None \<Rightarrow> True | Some t \<Rightarrow> length t \<le> n)"

text \<open>A number in a column with \<open>d\<close> decimals, rounded half away from zero.\<close>

definition numeric :: "nat \<Rightarrow> rat \<Rightarrow> int" where
  "numeric d x = (if 0 \<le> x then \<lfloor>x * 10 ^ d + 1 / 2\<rfloor> else - \<lfloor>- x * 10 ^ d + 1 / 2\<rfloor>)"

definition code_opt :: "string option \<Rightarrow> string \<Rightarrow> nat \<Rightarrow> string option result" where
  "code_opt v name n = (case v of None \<Rightarrow> Inr None
     | Some t \<Rightarrow> if t = [] then Inr None else sbind (upperCode t name n) (\<lambda>c. Inr (Some c)))"

definition iso_opt :: "int option option \<Rightarrow> string \<Rightarrow> int option result" where
  "iso_opt v name = (case v of None \<Rightarrow> Inr None | Some d \<Rightarrow> sbind (iso_date d name) (\<lambda>t. Inr (Some t)))"

definition violated :: js_error where "violated = JsError ''constraint violated''"

subsection \<open>Merchants and guests\<close>

record merchant_input =
  mi_merchantRef :: string
  mi_displayName :: string
  mi_legalName :: "string option"
  mi_businessType :: business_type
  mi_countryCode :: string
  mi_languageTag :: "string option"
  mi_email :: string
  mi_phoneE164 :: string

definition merchant_of :: "merchant_input \<Rightarrow> int \<Rightarrow> merchant_row result" where
  "merchant_of i ident =
     sbind (required (mi_merchantRef i) ''merchantRef'' 100) (\<lambda>r.
     sbind (required (mi_displayName i) ''displayName'' 200) (\<lambda>d.
     sbind (upperCode (mi_countryCode i) ''countryCode'' 2) (\<lambda>c.
     sbind (required (mi_email i) ''email'' 320) (\<lambda>e.
     sbind (required (mi_phoneE164 i) ''phoneE164'' 20) (\<lambda>p.
       Inr \<lparr>mr_id = ident, mr_merchant_ref = r, mr_display_name = d, mr_legal_name = trimmed_opt (mi_legalName i),
         mr_business_type = mi_businessType i, mr_country_code = c,
         mr_language_tag = (case trimmed_opt (mi_languageTag i) of None \<Rightarrow> ''en-US'' | Some t \<Rightarrow> t),
         mr_email = js_lower e, mr_phone_e164 = p, mr_status = MerchantActive\<rparr>)))))"

definition merchant_checked :: "merchant_row \<Rightarrow> bool" where
  "merchant_checked m \<longleftrightarrow> letters_code 2 (mr_country_code m) \<and> phone_ok (mr_phone_e164 m)
     \<and> fits (mr_legal_name m) 200 \<and> length (mr_language_tag m) \<le> 35"

text \<open>The update keeps identity and status; the address of a merchant that is not closed is unique.\<close>

definition email_taken :: "merchant_row \<Rightarrow> merchant_row list \<Rightarrow> bool" where
  "email_taken m rows \<longleftrightarrow> mr_status m \<noteq> MerchantClosed \<and> list_ex (\<lambda>x. mr_id x \<noteq> mr_id m
     \<and> mr_status x \<noteq> MerchantClosed \<and> js_lower (mr_email x) = js_lower (mr_email m)) rows"

definition update_access :: "(idem_db \<Rightarrow> idem_db) \<Rightarrow> ship_db \<Rightarrow> ship_db" where
  "update_access f db = db\<lparr>sd_access := f (sd_access db)\<rparr>"

definition upsertMerchant :: "merchant_input \<Rightarrow> ship_db \<Rightarrow> unit result \<times> ship_db" where
  "upsertMerchant i db = (case merchant_of i (sd_next_id db) of
     Inl e \<Rightarrow> (Inl e, db)
   | Inr m \<Rightarrow>
      (let rows = db_merchants (sd_access db); db' = db\<lparr>sd_next_id := sd_next_id db + 1\<rparr>
       in if \<not> merchant_checked m then (Inl violated, db')
          else case merchant_named db (mr_merchant_ref m) of
            None \<Rightarrow> (if email_taken m rows then (Inl violated, db')
              else (Inr (), update_access (\<lambda>a. a\<lparr>db_merchants := rows @ [m]\<rparr>) db'))
          | Some old \<Rightarrow>
              (let new = m\<lparr>mr_id := mr_id old, mr_status := mr_status old\<rparr>
               in if email_taken new rows then (Inl violated, db')
                  else (Inr (), update_access (\<lambda>a. a\<lparr>db_merchants :=
                    sql_update (\<lambda>x. mr_merchant_ref x = mr_merchant_ref m) (\<lambda>_. new) rows\<rparr>) db'))))"

record guest_session_input =
  gu_sessionRef :: string
  gu_token :: string
  gu_expiresAt :: "int option"

definition createGuestSession :: "(string \<Rightarrow> string) \<Rightarrow> guest_session_input \<Rightarrow> int \<Rightarrow> ship_db \<Rightarrow> (string \<times> string) result \<times> ship_db" where
  "createGuestSession sha i now db =
     (case sbind (required (gu_sessionRef i) ''sessionRef'' 100) (\<lambda>r.
         sbind (required (gu_token i) ''token'' 2000) (\<lambda>t.
         sbind (iso_date (gu_expiresAt i) ''expiresAt'') (\<lambda>x. Inr (r, sha t, x)))) of
        Inl e \<Rightarrow> (Inl e, db)
      | Inr (r, h, x) \<Rightarrow>
         (let rows = db_guests (sd_access db); db' = db\<lparr>sd_next_id := sd_next_id db + 1\<rparr>;
              same = (\<lambda>g. ss_session_ref g = r \<and> ss_token_hash g = h)
          in if list_ex (\<lambda>g. ss_session_ref g = r) rows then
               (if list_ex same rows then (Inr (r, h), update_access (\<lambda>a. a\<lparr>db_guests :=
                    sql_update same (\<lambda>g. g\<lparr>ss_last_seen_at := now\<rparr>) rows\<rparr>) db')
                else (Inl (JsError ''Guest session reference is already bound to another token.''), db'))
             else if list_ex (\<lambda>g. ss_token_hash g = h) rows then (Inl violated, db')
             else (Inr (r, h), update_access (\<lambda>a. a\<lparr>db_guests := rows @ [\<lparr>ss_id = sd_next_id db, ss_session_ref = r,
               ss_token_hash = h, ss_status = SessionActive, ss_expires_at = x, ss_last_seen_at = now\<rparr>]\<rparr>) db')))"

subsection \<open>Connections to carriers\<close>

record connection_input =
  ci_connectionRef :: string
  ci_merchantRef :: string
  ci_carrier :: string
  ci_accountAlias :: "string option"
  ci_accountNumberLast4 :: "string option"
  ci_credentialSecretRef :: string
  ci_oauthScopes :: "string list option"
  ci_tokenExpiresAt :: "int option option"
  ci_status :: "connection_status option"

definition connection_args :: "connection_input \<Rightarrow> (string \<times> string \<times> string \<times> int option) result" where
  "connection_args i =
     sbind (required (ci_connectionRef i) ''connectionRef'' 100) (\<lambda>r.
     sbind (required (ci_merchantRef i) ''merchantRef'' 100) (\<lambda>m.
     sbind (credentialSecretReference (ci_credentialSecretRef i)) (\<lambda>s.
     sbind (iso_opt (ci_tokenExpiresAt i) ''tokenExpiresAt'') (\<lambda>t. Inr (r, m, s, t)))))"

definition connection_of_input ::
  "connection_input \<Rightarrow> string \<Rightarrow> string \<Rightarrow> int option \<Rightarrow> int \<Rightarrow> int \<Rightarrow> int \<Rightarrow> connection_row" where
  "connection_of_input i r s t mid ident now = \<lparr>cn_id = ident, cn_connection_ref = r, cn_merchant_id = mid,
     cn_carrier = ci_carrier i, cn_status = (case ci_status i of None \<Rightarrow> PendingConnection | Some x \<Rightarrow> x),
     cn_token_expires_at = t,
     cn_next_token_refresh_at = (if ci_carrier i = ''ups'' then Some (case t of None \<Rightarrow> now | Some x \<Rightarrow> x - 5 * 60000) else None),
     cn_failure_count = 0, cn_last_verified_at = None,
     cn_account_alias = (case trimmed_opt (ci_accountAlias i) of None \<Rightarrow> ''default'' | Some a \<Rightarrow> a),
     cn_account_number_last4 = trimmed_opt (ci_accountNumberLast4 i), cn_credential_secret_ref = s,
     cn_oauth_scopes = (case ci_oauthScopes i of None \<Rightarrow> [] | Some x \<Rightarrow> x), cn_credential_provider = ExternalVault,
     cn_credential_version_ref = None, cn_credential_display_last4 = None, cn_credential_rotated_at = None,
     cn_credential_next_rotation_at = None\<rparr>"

text \<open>What \<open>DO UPDATE\<close> takes from the row that was to be inserted.\<close>

definition merged_connection :: "connection_row \<Rightarrow> connection_row \<Rightarrow> connection_row" where
  "merged_connection new old = old\<lparr>cn_carrier := cn_carrier new, cn_account_alias := cn_account_alias new,
     cn_account_number_last4 := cn_account_number_last4 new, cn_credential_secret_ref := cn_credential_secret_ref new,
     cn_oauth_scopes := cn_oauth_scopes new, cn_token_expires_at := cn_token_expires_at new,
     cn_status := cn_status new, cn_next_token_refresh_at := cn_next_token_refresh_at new\<rparr>"

definition alias_taken :: "connection_row \<Rightarrow> connection_row list \<Rightarrow> bool" where
  "alias_taken c rows \<longleftrightarrow> list_ex (\<lambda>x. cn_id x \<noteq> cn_id c \<and> cn_merchant_id x = cn_merchant_id c
     \<and> cn_carrier x = cn_carrier c \<and> cn_account_alias x = cn_account_alias c) rows"

definition upsertCarrierConnection :: "connection_input \<Rightarrow> int \<Rightarrow> ship_db \<Rightarrow> unit result \<times> ship_db" where
  "upsertCarrierConnection i now db = (case connection_args i of
     Inl e \<Rightarrow> (Inl e, db)
   | Inr (r, m, s, t) \<Rightarrow>
      (let missing = Inl (JsError ''Merchant was not found for carrier connection.'');
           db' = db\<lparr>sd_next_id := sd_next_id db + 1\<rparr>; rows = sd_connections db
       in case merchant_named db m of
          None \<Rightarrow> (missing, db)
        | Some mr \<Rightarrow>
           (let new = connection_of_input i r s t (mr_id mr) (sd_next_id db) now
            in if 100 < length (cn_account_alias new) \<or> \<not> fits (cn_account_number_last4 new) 4 then (Inl violated, db')
               else case first_row (filter (\<lambda>c. cn_connection_ref c = r) rows) of
                 None \<Rightarrow> (if alias_taken new rows then (Inl violated, db')
                   else (Inr (), db'\<lparr>sd_connections := rows @ [new]\<rparr>))
               | Some old \<Rightarrow>
                   (if cn_merchant_id old \<noteq> mr_id mr then (missing, db')
                    else if alias_taken (merged_connection new old) rows then (Inl violated, db')
                    else (Inr (), db'\<lparr>sd_connections := sql_update (\<lambda>c. cn_connection_ref c = r)
                      (merged_connection new) rows\<rparr>)))))"

subsection \<open>Shipments\<close>

record package_input =
  pi_packageRef :: string
  pi_packagingCode :: "string option"
  pi_weightValue :: rat
  pi_weightUnit :: weight_unit
  pi_lengthValue :: "rat option"
  pi_widthValue :: "rat option"
  pi_heightValue :: "rat option"
  pi_dimensionUnit :: "dimension_unit option"
  pi_declaredValue :: "rat option"
  pi_declaredValueCurrency :: "string option"

record shipment_input =
  si_owner :: ship_owner
  si_shipmentRef :: string
  si_connectionRef :: "string option"
  si_carrier :: "string option"
  si_adapter :: "string option"
  si_productIdCode :: "string option"
  si_direction :: "ship_direction option"
  si_mode :: "ship_mode option"
  si_originCountryCode :: string
  si_destinationCountryCode :: string
  si_originAddressRef :: string
  si_destinationAddressRef :: string
  si_originSnapshotRef :: "string option"
  si_destinationSnapshotRef :: "string option"
  si_requestFingerprint :: "string option"
  si_packages :: "package_input list"

text \<open>The connection of a shipment: that of the merchant, active, and of the carrier that is asked for.\<close>

definition shipment_connection :: "shipment_input \<Rightarrow> owner_ids \<Rightarrow> ship_db \<Rightarrow> int option result" where
  "shipment_connection i owner db =
     (if si_mode i = Some LiveMode \<and> oi_merchantId owner = None
      then Inl (JsTypeError ''A Merchant account is required for live shipments and real label purchases.'')
      else if si_mode i = Some LiveMode \<and> si_connectionRef i \<in> {None, Some []}
      then Inl (JsTypeError ''An active Merchant carrier connection is required for live shipments.'')
      else case si_connectionRef i of
        Some (c # cs) \<Rightarrow>
          (if oi_merchantId owner = None
           then Inl (JsTypeError ''Guest shipments cannot use a merchant carrier connection.'')
           else sbind (required (c # cs) ''carrierConnectionRef'' 100) (\<lambda>r.
             case first_row (filter (\<lambda>x. cn_connection_ref x = r \<and> Some (cn_merchant_id x) = oi_merchantId owner
                 \<and> cn_status x = ActiveConnection) (sd_connections db)) of
               None \<Rightarrow> Inl (JsError ''Active carrier connection was not found.'')
             | Some x \<Rightarrow> (case si_carrier i of
                 Some (k # ks) \<Rightarrow> (if k # ks \<noteq> cn_carrier x
                   then Inl (JsTypeError ''Shipment carrier does not match carrier connection.'') else Inr (Some (cn_id x)))
               | _ \<Rightarrow> Inr (Some (cn_id x)))))
      | _ \<Rightarrow> Inr None)"

definition shipment_row_of :: "shipment_input \<Rightarrow> owner_ids \<Rightarrow> int option \<Rightarrow> int \<Rightarrow> ship_row result" where
  "shipment_row_of i owner conn ident =
     sbind (required (si_shipmentRef i) ''shipmentRef'' 100) (\<lambda>r.
     sbind (code_opt (si_productIdCode i) ''productIdCode'' 20) (\<lambda>p.
     sbind (upperCode (si_originCountryCode i) ''originCountryCode'' 2) (\<lambda>oc.
     sbind (upperCode (si_destinationCountryCode i) ''destinationCountryCode'' 2) (\<lambda>dc.
     sbind (required (si_originAddressRef i) ''originAddressRef'' 200) (\<lambda>oa.
     sbind (required (si_destinationAddressRef i) ''destinationAddressRef'' 200) (\<lambda>da.
     sbind (hash_opt (si_requestFingerprint i) ''requestFingerprint'') (\<lambda>f.
       Inr \<lparr>sh_id = ident, sh_shipment_ref = r, sh_merchant_id = oi_merchantId owner,
         sh_guest_session_id = oi_guestSessionId owner, sh_connection_id = conn, sh_carrier = si_carrier i,
         sh_adapter = si_adapter i, sh_carrier_shipment_id = None, sh_product_id_code = p,
         sh_direction = (case si_direction i of None \<Rightarrow> Outbound | Some d \<Rightarrow> d),
         sh_mode = (case si_mode i of None \<Rightarrow> TestMode | Some m \<Rightarrow> m), sh_status = Draft,
         sh_origin_country_code = oc, sh_destination_country_code = dc, sh_origin_address_ref = oa,
         sh_destination_address_ref = da, sh_request_fingerprint = f, sh_label_outcome = NotRequested,
         sh_label_request_id = None, sh_label_requested_at = None, sh_deadline_at = None,
         sh_next_tracking_poll_at = None, sh_last_reconciled_at = None, sh_next_reconcile_at = None,
         sh_error_count = 0, sh_origin_snapshot_ref = trimmed_opt (si_originSnapshotRef i),
         sh_destination_snapshot_ref = trimmed_opt (si_destinationSnapshotRef i)\<rparr>)))))))"

definition shipment_checked :: "ship_row \<Rightarrow> ship_row list \<Rightarrow> bool" where
  "shipment_checked s rows \<longleftrightarrow> letters_code 2 (sh_origin_country_code s) \<and> letters_code 2 (sh_destination_country_code s)
     \<and> (sh_adapter s = None \<or> sh_carrier s \<noteq> None) \<and> fits (sh_origin_snapshot_ref s) 500
     \<and> fits (sh_destination_snapshot_ref s) 500 \<and> \<not> list_ex (\<lambda>x. sh_shipment_ref x = sh_shipment_ref s) rows"

text \<open>A package: its row, and the constraints of the table.\<close>

definition package_of :: "package_input \<Rightarrow> int \<Rightarrow> int \<Rightarrow> int \<Rightarrow> package_row result" where
  "package_of p sid seqno ident =
     sbind (required (pi_packageRef p) ''packageRef'' 100) (\<lambda>r.
     sbind (code_opt (pi_declaredValueCurrency p) ''declaredValueCurrency'' 3) (\<lambda>c.
       Inr \<lparr>pk_id = ident, pk_package_ref = r, pk_shipment_id = sid, pk_sequence_no = seqno,
         pk_packaging_code = trimmed_opt (pi_packagingCode p), pk_weight_value = numeric 3 (pi_weightValue p),
         pk_weight_unit = pi_weightUnit p, pk_length_value = map_option (numeric 3) (pi_lengthValue p),
         pk_width_value = map_option (numeric 3) (pi_widthValue p),
         pk_height_value = map_option (numeric 3) (pi_heightValue p), pk_dimension_unit = pi_dimensionUnit p,
         pk_declared_value = map_option (numeric 4) (pi_declaredValue p), pk_declared_value_currency = c\<rparr>))"

definition size_ok :: "int option \<Rightarrow> bool" where
  "size_ok v \<longleftrightarrow> (case v of None \<Rightarrow> True | Some x \<Rightarrow> 0 < x \<and> x < 10 ^ 12)"

definition package_checked :: "package_row \<Rightarrow> package_row list \<Rightarrow> bool" where
  "package_checked k rows \<longleftrightarrow> size_ok (Some (pk_weight_value k)) \<and> size_ok (pk_length_value k)
     \<and> size_ok (pk_width_value k) \<and> size_ok (pk_height_value k) \<and> fits (pk_packaging_code k) 30
     \<and> (pk_length_value k = None) = (pk_width_value k = None) \<and> (pk_length_value k = None) = (pk_height_value k = None)
     \<and> (pk_length_value k = None) = (pk_dimension_unit k = None)
     \<and> (case pk_declared_value k of None \<Rightarrow> True | Some x \<Rightarrow> 0 \<le> x \<and> x < 10 ^ 19)
     \<and> (pk_declared_value k = None) = (pk_declared_value_currency k = None)
     \<and> (case pk_declared_value_currency k of None \<Rightarrow> True | Some c \<Rightarrow> letters_code 3 c)
     \<and> pk_sequence_no k < 2 ^ 15
     \<and> \<not> list_ex (\<lambda>x. pk_package_ref x = pk_package_ref k \<or> pk_shipment_id x = pk_shipment_id k \<and> pk_sequence_no x = pk_sequence_no k) rows"

fun insert_packages :: "int \<Rightarrow> int \<Rightarrow> package_input list \<Rightarrow> ship_db \<Rightarrow> unit result \<times> ship_db" where
  "insert_packages sid n [] db = (Inr (), db)"
| "insert_packages sid n (p # ps) db = (case package_of p sid n (sd_next_id db) of
     Inl e \<Rightarrow> (Inl e, db)
   | Inr k \<Rightarrow> (if \<not> package_checked k (sd_packages db) then (Inl violated, db)
       else insert_packages sid (n + 1) ps
         (db\<lparr>sd_next_id := sd_next_id db + 1, sd_packages := sd_packages db @ [k]\<rparr>)))"

text \<open>The transaction: an error leaves the tables as they were. The references in the answer are those given.\<close>

definition createShipmentWithPackages :: "shipment_input \<Rightarrow> int \<Rightarrow> ship_db \<Rightarrow> (string \<times> string list) result \<times> ship_db" where
  "createShipmentWithPackages i now db =
     (if si_packages i = [] then (Inl (JsTypeError ''At least one package is required.''), db)
      else case sbind (resolveOwner (si_owner i) now (sd_access db)) (\<lambda>owner.
          sbind (shipment_connection i owner db) (\<lambda>conn. shipment_row_of i owner conn (sd_next_id db))) of
        Inl e \<Rightarrow> (Inl e, db)
      | Inr s \<Rightarrow>
         (if \<not> shipment_checked s (sd_shipments db) then (Inl violated, db)
          else case insert_packages (sh_id s) 1 (si_packages i)
              (db\<lparr>sd_next_id := sd_next_id db + 1, sd_shipments := sd_shipments db @ [s]\<rparr>) of
            (Inl e, _) \<Rightarrow> (Inl e, db)
          | (Inr _, db') \<Rightarrow> (Inr (sh_shipment_ref s, map pi_packageRef (si_packages i)), db')))"

subsection \<open>Rate quotes\<close>

record quote_input =
  qi_quoteRef :: string
  qi_shipmentRef :: string
  qi_connectionRef :: "string option"
  qi_carrier :: string
  qi_adapter :: "string option"
  qi_productIdCode :: string
  qi_amount :: rat
  qi_currency :: string
  qi_deliveryDays :: "int option"
  qi_estimatedDeliveryAt :: "int option option"
  qi_expiresAt :: "int option"
  qi_carrierResponseRef :: "string option"

definition quote_of :: "quote_input \<Rightarrow> int \<Rightarrow> (string \<times> quote_row) result" where
  "quote_of i ident =
     sbind (required (qi_quoteRef i) ''quoteRef'' 100) (\<lambda>q.
     sbind (required (qi_shipmentRef i) ''shipmentRef'' 100) (\<lambda>s.
     sbind (upperCode (qi_productIdCode i) ''productIdCode'' 20) (\<lambda>p.
     sbind (upperCode (qi_currency i) ''currency'' 3) (\<lambda>c.
     sbind (iso_opt (qi_estimatedDeliveryAt i) ''estimatedDeliveryAt'') (\<lambda>e.
     sbind (iso_date (qi_expiresAt i) ''expiresAt'') (\<lambda>x.
       Inr (s, \<lparr>qt_id = ident, qt_quote_ref = q, qt_shipment_id = 0, qt_expires_at = x, qt_status = Offered,
         qt_connection_id = None, qt_carrier = qi_carrier i, qt_adapter = qi_adapter i, qt_product_id_code = p,
         qt_amount = numeric 4 (qi_amount i), qt_currency = c, qt_delivery_days = qi_deliveryDays i,
         qt_estimated_delivery_at = e, qt_carrier_response_ref = trimmed_opt (qi_carrierResponseRef i)\<rparr>)))))))"

text \<open>The shipment and the connection; a connection that is named must belong to the merchant of the shipment.\<close>

definition quote_target :: "string \<Rightarrow> string option \<Rightarrow> ship_db \<Rightarrow> (int \<times> int option) option" where
  "quote_target sref cref db = (case shipment_named db sref of
     None \<Rightarrow> None
   | Some s \<Rightarrow> (case cref of
       None \<Rightarrow> Some (sh_id s, None)
     | Some r \<Rightarrow> (case first_row (filter (\<lambda>c. cn_connection_ref c = r \<and> Some (cn_merchant_id c) = sh_merchant_id s)
           (sd_connections db)) of
         None \<Rightarrow> None | Some c \<Rightarrow> Some (sh_id s, Some (cn_id c)))))"

definition quote_checked :: "quote_row \<Rightarrow> bool" where
  "quote_checked q \<longleftrightarrow> 0 \<le> qt_amount q \<and> qt_amount q < 10 ^ 19 \<and> letters_code 3 (qt_currency q)
     \<and> (case qt_delivery_days q of None \<Rightarrow> True | Some d \<Rightarrow> 0 \<le> d \<and> d < 2 ^ 15)
     \<and> fits (qt_carrier_response_ref q) 500"

definition requoted :: "quote_row \<Rightarrow> quote_row \<Rightarrow> quote_row" where
  "requoted new old = old\<lparr>qt_amount := qt_amount new, qt_currency := qt_currency new,
     qt_delivery_days := qt_delivery_days new, qt_estimated_delivery_at := qt_estimated_delivery_at new,
     qt_expires_at := qt_expires_at new, qt_carrier_response_ref := qt_carrier_response_ref new\<rparr>"

definition saveRateQuote :: "quote_input \<Rightarrow> ship_db \<Rightarrow> unit result \<times> ship_db" where
  "saveRateQuote i db = (case quote_of i (sd_next_id db) of
     Inl e \<Rightarrow> (Inl e, db)
   | Inr (sref, q) \<Rightarrow> (case quote_target sref (trimmed_opt (qi_connectionRef i)) db of
       None \<Rightarrow> (Inl (JsError ''Shipment or matching carrier connection was not found for rate quote.''), db)
     | Some (sid, cid) \<Rightarrow>
        (let new = q\<lparr>qt_shipment_id := sid, qt_connection_id := cid\<rparr>; db' = db\<lparr>sd_next_id := sd_next_id db + 1\<rparr>
         in if \<not> quote_checked new then (Inl violated, db')
            else if list_ex (\<lambda>x. qt_quote_ref x = qt_quote_ref q) (sd_quotes db)
            then (Inr (), db'\<lparr>sd_quotes := sql_update (\<lambda>x. qt_quote_ref x = qt_quote_ref q) (requoted new) (sd_quotes db)\<rparr>)
            else (Inr (), db'\<lparr>sd_quotes := sd_quotes db @ [new]\<rparr>))))"

end
