(* ===== verification/Ship_Label_Store.thy ===== *)
theory Ship_Label_Store
  imports Ship_Shipments
begin

section \<open>The store of managed labels\<close>

text \<open>
  \<open>PostgresLabelMetadataStore\<close> of \<open>src/src/server/shipping/labelManagement.ts\<close>: labels whose files are private
  objects, the log of their accesses, and the two halves of a void. Each method is one statement; a label is
  visible to the merchant of its shipment only.
\<close>

subsection \<open>Saving a label\<close>

record managed_input =
  ml_labelRef :: string
  ml_shipmentRef :: string
  ml_packageRef :: "string option"
  ml_merchantRef :: string
  ml_carrier :: string
  ml_trackingNumber :: string
  ml_format :: label_format
  ml_objectStoreProvider :: object_provider
  ml_objectKey :: string
  ml_objectVersionRef :: "string option"
  ml_artifactSha256 :: string
  ml_artifactSizeBytes :: int
  ml_retentionUntil :: "int option option"

definition ref_opt :: "string option \<Rightarrow> (string \<Rightarrow> string result) \<Rightarrow> string option result" where
  "ref_opt v f = (case v of None \<Rightarrow> Inr None | Some t \<Rightarrow> if t = [] then Inr None else sbind (f t) (\<lambda>r. Inr (Some r)))"

record managed_args =
  ma_labelRef :: string
  ma_shipmentRef :: string
  ma_merchantRef :: string
  ma_packageRef :: "string option"
  ma_trackingNumber :: string
  ma_objectKey :: string
  ma_objectVersionRef :: "string option"
  ma_retentionUntil :: "int option"

definition managed_arguments :: "managed_input \<Rightarrow> managed_args result" where
  "managed_arguments i =
     sbind (safeRef (ml_labelRef i) ''labelRef'' 100) (\<lambda>l.
     sbind (safeRef (ml_shipmentRef i) ''shipmentRef'' 100) (\<lambda>s.
     sbind (safeRef (ml_merchantRef i) ''merchantRef'' 100) (\<lambda>m.
     sbind (ref_opt (ml_packageRef i) (\<lambda>t. safeRef t ''packageRef'' 100)) (\<lambda>p.
     sbind (required (ml_trackingNumber i) ''trackingNumber'' 100) (\<lambda>t.
     sbind (required (ml_objectKey i) ''objectKey'' 500) (\<lambda>k.
     sbind (ref_opt (ml_objectVersionRef i) (\<lambda>t. required t ''objectVersionRef'' 500)) (\<lambda>v.
     sbind (iso_opt (ml_retentionUntil i) ''retentionUntil'') (\<lambda>u.
       Inr \<lparr>ma_labelRef = l, ma_shipmentRef = s, ma_merchantRef = m, ma_packageRef = p, ma_trackingNumber = t,
         ma_objectKey = k, ma_objectVersionRef = v, ma_retentionUntil = u\<rparr>))))))))"

text \<open>The shipment of an active merchant, and the package when one is named.\<close>

definition managed_target :: "managed_args \<Rightarrow> ship_db \<Rightarrow> (ship_row \<times> int option) option" where
  "managed_target a db = (case first_row (filter (active_merchant (ma_merchantRef a)) (db_merchants (sd_access db))) of
     None \<Rightarrow> None
   | Some m \<Rightarrow> (case first_row (filter (\<lambda>s. sh_shipment_ref s = ma_shipmentRef a \<and> sh_merchant_id s = Some (mr_id m)) (sd_shipments db)) of
       None \<Rightarrow> None
     | Some s \<Rightarrow> (case ma_packageRef a of
         None \<Rightarrow> Some (s, None)
       | Some p \<Rightarrow> (case first_row (filter (\<lambda>k. pk_package_ref k = p \<and> pk_shipment_id k = sh_id s) (sd_packages db)) of
           None \<Rightarrow> None | Some k \<Rightarrow> Some (s, Some (pk_id k))))))"

definition managed_label :: "managed_input \<Rightarrow> managed_args \<Rightarrow> int \<Rightarrow> int \<Rightarrow> int option \<Rightarrow> int \<Rightarrow> label_row" where
  "managed_label i a ident sid pid now = \<lparr>lb_id = ident, lb_label_ref = ma_labelRef a, lb_shipment_id = sid,
     lb_package_id = pid, lb_carrier = ml_carrier i, lb_tracking_number = ma_trackingNumber a,
     lb_format = ml_format i, lb_artifact_key = ma_objectKey a, lb_artifact_sha256 = ml_artifactSha256 i,
     lb_artifact_size = Some (ml_artifactSizeBytes i), lb_status = ActiveLabel, lb_created_at = now,
     lb_object_store_provider = ml_objectStoreProvider i, lb_object_version_ref = ma_objectVersionRef a,
     lb_download_count = 0, lb_print_count = 0, lb_reprint_count = 0, lb_last_downloaded_at = None,
     lb_last_printed_at = None, lb_void_requested_at = None, lb_void_failure_code = None, lb_voided_at = None,
     lb_retention_until = ma_retentionUntil a\<rparr>"

definition managed_checked :: "managed_input \<Rightarrow> bool" where
  "managed_checked i \<longleftrightarrow> ml_format i \<in> {Pdf, Zpl} \<and> is_hex64 (ml_artifactSha256 i) \<and> 0 \<le> ml_artifactSizeBytes i"

definition managed_shipment :: "managed_input \<Rightarrow> int \<Rightarrow> ship_row \<Rightarrow> ship_row" where
  "managed_shipment i now s = s\<lparr>sh_status := Created, sh_carrier := Some (ml_carrier i), sh_label_outcome := Confirmed,
     sh_next_tracking_poll_at := Some now, sh_next_reconcile_at := Some now\<rparr>"

definition saveManagedLabel :: "managed_input \<Rightarrow> int \<Rightarrow> ship_db \<Rightarrow> unit result \<times> ship_db" where
  "saveManagedLabel i now db = (case managed_arguments i of
     Inl e \<Rightarrow> (Inl e, db)
   | Inr a \<Rightarrow>
      (let missing = Inl (JsError ''Merchant shipment/package was not found or labelRef already exists.'');
           db' = db\<lparr>sd_next_id := sd_next_id db + 1\<rparr>
       in case managed_target a db of
          None \<Rightarrow> (missing, db)
        | Some (s, pid) \<Rightarrow>
           (if scope_conflict (sh_id s) pid (sd_labels db) \<or> \<not> managed_checked i then (Inl violated, db')
            else if list_ex (\<lambda>l. lb_label_ref l = ma_labelRef a) (sd_labels db) then (missing, db')
            else if label_taken (sh_id s) pid (ml_carrier i) (ma_trackingNumber a) (sd_labels db)
              \<or> carrier_id_taken (managed_shipment i now s) (sd_shipments db)
            then (Inl violated, db')
            else (Inr (), update_shipments (\<lambda>x. sh_id x = sh_id s) (managed_shipment i now)
              (db'\<lparr>sd_labels := sd_labels db @ [managed_label i a (sd_next_id db) (sh_id s) pid now]\<rparr>)))))"

subsection \<open>Reading a label\<close>

text \<open>The label of a merchant: joined over its shipment. The descriptor asks for an active merchant, the other
  methods do not.\<close>

definition owned_label :: "string \<Rightarrow> merchant_row \<Rightarrow> ship_db \<Rightarrow> label_row \<Rightarrow> bool" where
  "owned_label r m db l \<longleftrightarrow> lb_label_ref l = r
     \<and> list_ex (\<lambda>s. sh_id s = lb_shipment_id l \<and> sh_merchant_id s = Some (mr_id m)) (sd_shipments db)"

record label_descriptor =
  ld_objectKey :: string
  ld_objectVersionRef :: "string option"
  ld_format :: label_format
  ld_status :: label_status

definition label_refs :: "string \<Rightarrow> string \<Rightarrow> (string \<times> string) result" where
  "label_refs labelRef merchantRef =
     sbind (safeRef labelRef ''labelRef'' 100) (\<lambda>l.
     sbind (safeRef merchantRef ''merchantRef'' 100) (\<lambda>m. Inr (l, m)))"

definition getDownloadDescriptor :: "string \<Rightarrow> string \<Rightarrow> ship_db \<Rightarrow> label_descriptor result" where
  "getDownloadDescriptor labelRef merchantRef db =
     sbind (label_refs labelRef merchantRef) (\<lambda>(r, m).
     case first_row (filter (active_merchant m) (db_merchants (sd_access db))) of
       None \<Rightarrow> Inl (JsError ''Label was not found.'')
     | Some mr \<Rightarrow> (case first_row (filter (owned_label r mr db) (sd_labels db)) of
         None \<Rightarrow> Inl (JsError ''Label was not found.'')
       | Some l \<Rightarrow> Inr \<lparr>ld_objectKey = lb_artifact_key l, ld_objectVersionRef = nonempty (lb_object_version_ref l),
           ld_format = lb_format l, ld_status = lb_status l\<rparr>))"

subsection \<open>Statements on a label and its log\<close>

text \<open>The common part of the three statements: the label of the merchant in a state that admits the change, its
  update, and one row of the log; a reference of the log that is in use fails the statement.\<close>

record access_input =
  ac_eventRef :: string
  ac_labelRef :: string
  ac_merchantRef :: string
  ac_actorRef :: string

definition access_args :: "access_input \<Rightarrow> (string \<times> string \<times> string \<times> string) result" where
  "access_args i =
     sbind (safeRef (ac_labelRef i) ''labelRef'' 100) (\<lambda>l.
     sbind (safeRef (ac_merchantRef i) ''merchantRef'' 100) (\<lambda>m.
     sbind (safeRef (ac_eventRef i) ''eventRef'' 100) (\<lambda>e.
     sbind (safeRef (ac_actorRef i) ''actorRef'' 200) (\<lambda>a. Inr (l, m, e, a)))))"

definition access_target :: "string \<Rightarrow> string \<Rightarrow> label_status list \<Rightarrow> ship_db \<Rightarrow> (merchant_row \<times> label_row) option" where
  "access_target r m states db = (case merchant_named db m of
     None \<Rightarrow> None
   | Some mr \<Rightarrow> map_option (\<lambda>l. (mr, l))
       (first_row (filter (\<lambda>l. owned_label r mr db l \<and> lb_status l \<in> set states) (sd_labels db))))"

definition log_access ::
  "access_input \<Rightarrow> label_status list \<Rightarrow> (label_row \<Rightarrow> label_row) \<Rightarrow> (ship_db \<Rightarrow> label_row \<Rightarrow> bool) \<Rightarrow> access_action \<Rightarrow>
   int option \<Rightarrow> string option \<Rightarrow> string \<Rightarrow> int \<Rightarrow> ship_db \<Rightarrow> unit result \<times> ship_db" where
  "log_access i states upd refused action ttl failure missing now db = (case access_args i of
     Inl e \<Rightarrow> (Inl e, db)
   | Inr (r, m, e, actor) \<Rightarrow> (case access_target r m states db of
       None \<Rightarrow> (Inl (JsError missing), db)
     | Some (mr, l) \<Rightarrow>
        (let db' = db\<lparr>sd_next_id := sd_next_id db + 1\<rparr>
         in if refused db l \<or> list_ex (\<lambda>x. ae_event_ref x = e) (sd_accesses db) then (Inl violated, db')
            else (Inr (), db'\<lparr>sd_labels := sql_update (\<lambda>x. lb_id x = lb_id l) upd (sd_labels db),
              sd_accesses := sd_accesses db @ [\<lparr>ae_event_ref = e, ae_merchant_id = mr_id mr, ae_label_id = lb_id l,
                ae_actor_ref = actor, ae_action = action, ae_ttl_seconds = ttl, ae_failure_code = failure,
                ae_occurred_at = now\<rparr>]\<rparr>))))"

datatype label_purpose = DownloadUrlIssued | PrintPurpose | ReprintPurpose

fun purpose_action :: "label_purpose \<Rightarrow> access_action" where
  "purpose_action DownloadUrlIssued = UrlIssued"
| "purpose_action PrintPurpose = PrintLabel"
| "purpose_action ReprintPurpose = ReprintLabel"

definition downloaded_label :: "label_purpose \<Rightarrow> int \<Rightarrow> label_row \<Rightarrow> label_row" where
  "downloaded_label purpose now l = l\<lparr>lb_download_count := lb_download_count l + 1, lb_last_downloaded_at := Some now,
     lb_print_count := lb_print_count l + (if purpose \<in> {PrintPurpose, ReprintPurpose} then 1 else 0),
     lb_reprint_count := lb_reprint_count l + (if purpose = ReprintPurpose then 1 else 0),
     lb_last_printed_at := (if purpose \<in> {PrintPurpose, ReprintPurpose} then Some now else lb_last_printed_at l)\<rparr>"

definition recordAccess :: "access_input \<Rightarrow> label_purpose \<Rightarrow> int \<Rightarrow> int \<Rightarrow> ship_db \<Rightarrow> unit result \<times> ship_db" where
  "recordAccess i purpose ttl now db = log_access i [ActiveLabel] (downloaded_label purpose now)
     (\<lambda>_ _. ttl < 1 \<or> 300 < ttl) (purpose_action purpose) (Some ttl) None ''Active label was not found.'' now db"

text \<open>A label whose void failed is not open; asking for its void again makes it so, which the trigger and the
  indexes may refuse.\<close>

definition reopen_conflict :: "ship_db \<Rightarrow> label_row \<Rightarrow> bool" where
  "reopen_conflict db l \<longleftrightarrow> list_ex (\<lambda>x. open_label x \<and> lb_id x \<noteq> lb_id l
     \<and> (lb_shipment_id x = lb_shipment_id l \<and> (lb_package_id x = None) \<noteq> (lb_package_id l = None)
       \<or> lb_package_id x = lb_package_id l \<and> (lb_package_id l = None \<longrightarrow> lb_shipment_id x = lb_shipment_id l))) (sd_labels db)"

definition void_requested :: "int \<Rightarrow> label_row \<Rightarrow> label_row" where
  "void_requested now l = l\<lparr>lb_status := VoidPending, lb_void_requested_at := Some now, lb_void_failure_code := None\<rparr>"

definition requestVoid :: "access_input \<Rightarrow> int \<Rightarrow> ship_db \<Rightarrow> unit result \<times> ship_db" where
  "requestVoid i now db = log_access i [ActiveLabel, VoidFailed] (void_requested now)
     reopen_conflict VoidRequested None None ''Voidable label was not found.'' now db"

definition errorCode :: "string \<Rightarrow> string" where
  "errorCode value = (let normalized = take 100 (map (\<lambda>c. if id_char c then c else CHR ''_'') (js_trim value))
     in if normalized = [] then ''carrier_void_failed'' else normalized)"

definition void_finished :: "string option \<Rightarrow> int \<Rightarrow> label_row \<Rightarrow> label_row" where
  "void_finished failure now l = l\<lparr>lb_status := (if failure = None then Voided else VoidFailed),
     lb_voided_at := (if failure = None then Some now else None), lb_void_failure_code := failure\<rparr>"

text \<open>The outcome: voided, or failed with the code of the carrier when there is one.\<close>

datatype void_outcome = OutcomeVoided | OutcomeVoidFailed "string option"

definition finishVoid :: "access_input \<Rightarrow> void_outcome \<Rightarrow> int \<Rightarrow> ship_db \<Rightarrow> unit result \<times> ship_db" where
  "finishVoid i out now db =
     (let failure = (case out of OutcomeVoided \<Rightarrow> None
          | OutcomeVoidFailed c \<Rightarrow> Some (errorCode (case c of None \<Rightarrow> [] | Some t \<Rightarrow> t)))
      in log_access i [VoidPending] (void_finished failure now) (\<lambda>_ _. False)
        (if failure = None then VoidSucceeded else VoidFailedEvent) None failure ''Pending Void label was not found.'' now db)"

subsection \<open>The log and the counters\<close>

lemma log_access_frame [simp]:
  "sd_jobs (snd (log_access i st u rf ac ttl fl ms now db)) = sd_jobs db"
  "sd_deliveries (snd (log_access i st u rf ac ttl fl ms now db)) = sd_deliveries db"
  "sd_shipments (snd (log_access i st u rf ac ttl fl ms now db)) = sd_shipments db"
  "sd_connections (snd (log_access i st u rf ac ttl fl ms now db)) = sd_connections db"
  "sd_access (snd (log_access i st u rf ac ttl fl ms now db)) = sd_access db"
  "sd_next_id db \<le> sd_next_id (snd (log_access i st u rf ac ttl fl ms now db))"
  by (auto simp: log_access_def Let_def split: sum.splits option.splits)

end
