(* ===== verification/Ship_Credentials.thy ===== *)
theory Ship_Credentials
  imports Ship_Label_Store
begin

section \<open>The ledger of carrier credentials\<close>

text \<open>
  \<open>PostgresCarrierCredentialMetadataStore\<close> of \<open>src/src/server/shipping/carrierSecretManagement.ts\<close>: a write to the
  vault that succeeded moves the connection to the new secret and adds a row to the append-only ledger, one that
  failed adds a row only. The times of the service are compared with the clock of the database.
\<close>

record rotation_input =
  ri_rotationRef :: string
  ri_merchantRef :: string
  ri_connectionRef :: string
  ri_provider :: secret_provider
  ri_operation :: credential_operation
  ri_actorRef :: string
  ri_mfaMethod :: mfa_method
  ri_mfaSessionRefHash :: string
  ri_requestedAt :: int

record success_part =
  sp_secretRef :: string
  sp_versionRef :: string
  sp_displayLast4 :: string
  sp_nextRotationAt :: int

record success_args =
  su_merchantRef :: string
  su_connectionRef :: string
  su_secretRef :: string
  su_versionRef :: string
  su_displayLast4 :: string
  su_rotationRef :: string
  su_actorRef :: string

definition success_arguments :: "rotation_input \<Rightarrow> success_part \<Rightarrow> success_args result" where
  "success_arguments i p =
     sbind (required (ri_merchantRef i) ''merchantRef'' 100) (\<lambda>m.
     sbind (required (ri_connectionRef i) ''connectionRef'' 100) (\<lambda>c.
     sbind (validateProviderSecretReference (ri_provider i) (sp_secretRef p)) (\<lambda>s.
     sbind (validateProviderVersionReference (ri_provider i) (sp_versionRef p)) (\<lambda>v.
     sbind (required (sp_displayLast4 p) ''displayLast4'' 4) (\<lambda>d.
     sbind (required (ri_rotationRef i) ''rotationRef'' 100) (\<lambda>r.
     sbind (required (ri_actorRef i) ''requestedByActorRef'' 200) (\<lambda>a.
       Inr \<lparr>su_merchantRef = m, su_connectionRef = c, su_secretRef = s, su_versionRef = v, su_displayLast4 = d,
         su_rotationRef = r, su_actorRef = a\<rparr>)))))))"

text \<open>The connection of an active merchant that is not disabled; for a failure, that of any merchant.\<close>

definition usable_connection :: "string \<Rightarrow> string \<Rightarrow> ship_db \<Rightarrow> connection_row option" where
  "usable_connection m c db = (case first_row (filter (active_merchant m) (db_merchants (sd_access db))) of
     None \<Rightarrow> None
   | Some mr \<Rightarrow> first_row (filter (\<lambda>x. cn_connection_ref x = c \<and> cn_merchant_id x = mr_id mr
       \<and> cn_status x \<noteq> DisabledConnection) (sd_connections db)))"

definition known_connection :: "string \<Rightarrow> string \<Rightarrow> ship_db \<Rightarrow> connection_row option" where
  "known_connection m c db = (case merchant_named db m of
     None \<Rightarrow> None
   | Some mr \<Rightarrow> first_row (filter (\<lambda>x. cn_connection_ref x = c \<and> cn_merchant_id x = mr_id mr) (sd_connections db)))"

definition rotated_connection :: "rotation_input \<Rightarrow> success_part \<Rightarrow> success_args \<Rightarrow> connection_row \<Rightarrow> connection_row" where
  "rotated_connection i p a c = c\<lparr>cn_credential_provider := ri_provider i, cn_credential_secret_ref := su_secretRef a,
     cn_credential_version_ref := Some (su_versionRef a), cn_credential_display_last4 := Some (su_displayLast4 a),
     cn_credential_rotated_at := Some (ri_requestedAt i), cn_credential_next_rotation_at := Some (sp_nextRotationAt p)\<rparr>"

definition success_row :: "rotation_input \<Rightarrow> success_args \<Rightarrow> connection_row \<Rightarrow> int \<Rightarrow> rotation_row" where
  "success_row i a c now = \<lparr>ro_rotation_ref = su_rotationRef a, ro_merchant_id = cn_merchant_id c,
     ro_connection_id = cn_id c, ro_provider = ri_provider i, ro_operation = ri_operation i,
     ro_previous_secret_ref = Some (cn_credential_secret_ref c), ro_next_secret_ref = Some (su_secretRef a),
     ro_previous_version_ref = cn_credential_version_ref c, ro_next_version_ref = Some (su_versionRef a),
     ro_actor_ref = su_actorRef a, ro_mfa_method = ri_mfaMethod i, ro_mfa_session_ref_hash = ri_mfaSessionRefHash i,
     ro_failure_code = None, ro_requested_at = ri_requestedAt i, ro_completed_at = now\<rparr>"

text \<open>The constraints of the ledger: completed no earlier than requested, one row per reference and per version.\<close>

definition rotation_refused :: "rotation_row \<Rightarrow> rotation_row list \<Rightarrow> bool" where
  "rotation_refused r rows \<longleftrightarrow> ro_completed_at r < ro_requested_at r \<or> \<not> is_hex64 (ro_mfa_session_ref_hash r)
     \<or> list_ex (\<lambda>x. ro_rotation_ref x = ro_rotation_ref r \<or> ro_connection_id x = ro_connection_id r
         \<and> ro_next_version_ref x = ro_next_version_ref r \<and> ro_next_version_ref r \<noteq> None) rows"

definition display_refused :: "success_part \<Rightarrow> success_args \<Rightarrow> int \<Rightarrow> bool" where
  "display_refused p a requested \<longleftrightarrow> length (su_displayLast4 a) \<noteq> 4 \<or> \<not> list_all id_char (su_displayLast4 a)
     \<or> sp_nextRotationAt p \<le> requested"

record credential_record =
  cr_connectionRef :: string
  cr_provider :: secret_provider
  cr_displayLast4 :: string
  cr_rotatedAt :: int
  cr_nextRotationAt :: int

definition recordSuccess :: "rotation_input \<Rightarrow> success_part \<Rightarrow> int \<Rightarrow> ship_db \<Rightarrow> credential_record result \<times> ship_db" where
  "recordSuccess i p now db = (case success_arguments i p of
     Inl e \<Rightarrow> (Inl e, db)
   | Inr a \<Rightarrow> (case usable_connection (su_merchantRef a) (su_connectionRef a) db of
       None \<Rightarrow> (Inl (JsError ''Active Merchant carrier connection was not found.''), db)
     | Some c \<Rightarrow>
        (let row = success_row i a c now
         in if rotation_refused row (sd_rotations db) \<or> display_refused p a (ri_requestedAt i) then (Inl violated, db)
            else (Inr \<lparr>cr_connectionRef = cn_connection_ref c, cr_provider = ri_provider i,
                cr_displayLast4 = su_displayLast4 a, cr_rotatedAt = ri_requestedAt i, cr_nextRotationAt = sp_nextRotationAt p\<rparr>,
              db\<lparr>sd_connections := sql_update (\<lambda>x. cn_id x = cn_id c) (rotated_connection i p a) (sd_connections db),
                sd_rotations := sd_rotations db @ [row]\<rparr>))))"

definition failure_arguments :: "rotation_input \<Rightarrow> string \<Rightarrow> (string \<times> string \<times> string \<times> string \<times> string) result" where
  "failure_arguments i code =
     sbind (required (ri_merchantRef i) ''merchantRef'' 100) (\<lambda>m.
     sbind (required (ri_connectionRef i) ''connectionRef'' 100) (\<lambda>c.
     sbind (required (ri_rotationRef i) ''rotationRef'' 100) (\<lambda>r.
     sbind (required (ri_actorRef i) ''requestedByActorRef'' 200) (\<lambda>a.
     sbind (required code ''failureCode'' 100) (\<lambda>f. Inr (m, c, r, a, f))))))"

definition failure_row :: "rotation_input \<Rightarrow> string \<Rightarrow> string \<Rightarrow> string \<Rightarrow> connection_row \<Rightarrow> int \<Rightarrow> rotation_row" where
  "failure_row i r a f c now = \<lparr>ro_rotation_ref = r, ro_merchant_id = cn_merchant_id c, ro_connection_id = cn_id c,
     ro_provider = ri_provider i, ro_operation = ri_operation i, ro_previous_secret_ref = None,
     ro_next_secret_ref = None, ro_previous_version_ref = None, ro_next_version_ref = None, ro_actor_ref = a,
     ro_mfa_method = ri_mfaMethod i, ro_mfa_session_ref_hash = ri_mfaSessionRefHash i, ro_failure_code = Some f,
     ro_requested_at = ri_requestedAt i, ro_completed_at = now\<rparr>"

definition recordFailure :: "rotation_input \<Rightarrow> string \<Rightarrow> int \<Rightarrow> ship_db \<Rightarrow> unit result \<times> ship_db" where
  "recordFailure i code now db = (case failure_arguments i code of
     Inl e \<Rightarrow> (Inl e, db)
   | Inr (m, c, r, a, f) \<Rightarrow> (case known_connection m c db of
       None \<Rightarrow> (Inl (JsError ''Carrier connection was not found while recording credential failure.''), db)
     | Some x \<Rightarrow>
        (let row = failure_row i r a f x now
         in if rotation_refused row (sd_rotations db) then (Inl violated, db)
            else (Inr (), db\<lparr>sd_rotations := sd_rotations db @ [row]\<rparr>))))"

lemma rotation_frame [simp]:
  "sd_jobs (snd (recordSuccess i p now db)) = sd_jobs db" "sd_deliveries (snd (recordSuccess i p now db)) = sd_deliveries db"
  "sd_shipments (snd (recordSuccess i p now db)) = sd_shipments db" "sd_next_id (snd (recordSuccess i p now db)) = sd_next_id db"
  "sd_labels (snd (recordSuccess i p now db)) = sd_labels db" "sd_accesses (snd (recordSuccess i p now db)) = sd_accesses db"
  "sd_jobs (snd (recordFailure i code now db)) = sd_jobs db" "sd_deliveries (snd (recordFailure i code now db)) = sd_deliveries db"
  "sd_shipments (snd (recordFailure i code now db)) = sd_shipments db" "sd_next_id (snd (recordFailure i code now db)) = sd_next_id db"
  "sd_labels (snd (recordFailure i code now db)) = sd_labels db" "sd_accesses (snd (recordFailure i code now db)) = sd_accesses db"
  "sd_connections (snd (recordFailure i code now db)) = sd_connections db"
  by (auto simp: recordSuccess_def recordFailure_def Let_def split: sum.splits option.splits)

end
