(* ===== verification/Ship_Registry.thy ===== *)
theory Ship_Registry
  imports Ship_Credentials
begin

section \<open>The operations that fill the shipping tables\<close>

text \<open>
  The statements of \<open>Ship_Shipments\<close>, \<open>Ship_Label_Store\<close> and \<open>Ship_Credentials\<close> as one type of operations, and what
  they leave alone: the jobs, the deliveries and the labels that are confirmed.
\<close>

datatype registry_op =
    UpsertMerchant merchant_input
  | CreateSession "string \<Rightarrow> string" guest_session_input
  | UpsertConnection connection_input
  | CreateShipment shipment_input
  | SaveQuote quote_input
  | SaveManaged managed_input
  | RecordAccess access_input label_purpose int
  | RequestVoid access_input
  | FinishVoid access_input void_outcome
  | RecordRotation rotation_input success_part
  | RecordRotationFailure rotation_input string

fun apply_registry :: "registry_op \<Rightarrow> int \<Rightarrow> ship_db \<Rightarrow> ship_db" where
  "apply_registry (UpsertMerchant i) now db = snd (upsertMerchant i db)"
| "apply_registry (CreateSession sha i) now db = snd (createGuestSession sha i now db)"
| "apply_registry (UpsertConnection i) now db = snd (upsertCarrierConnection i now db)"
| "apply_registry (CreateShipment i) now db = snd (createShipmentWithPackages i now db)"
| "apply_registry (SaveQuote i) now db = snd (saveRateQuote i db)"
| "apply_registry (SaveManaged i) now db = snd (saveManagedLabel i now db)"
| "apply_registry (RecordAccess i a ttl) now db = snd (recordAccess i a ttl now db)"
| "apply_registry (RequestVoid i) now db = snd (requestVoid i now db)"
| "apply_registry (FinishVoid i out) now db = snd (finishVoid i out now db)"
| "apply_registry (RecordRotation i p) now db = snd (recordSuccess i p now db)"
| "apply_registry (RecordRotationFailure i c) now db = snd (recordFailure i c now db)"

lemma update_access_frame [simp]:
  "sd_jobs (update_access f db) = sd_jobs db" "sd_deliveries (update_access f db) = sd_deliveries db"
  "sd_shipments (update_access f db) = sd_shipments db" "sd_next_id (update_access f db) = sd_next_id db"
  "sd_labels (update_access f db) = sd_labels db" "sd_connections (update_access f db) = sd_connections db"
  "sd_packages (update_access f db) = sd_packages db" "sd_accesses (update_access f db) = sd_accesses db"
  by (simp_all add: update_access_def)

lemma insert_packages_frame:
  "sd_jobs (snd (insert_packages sid n ps db)) = sd_jobs db \<and> sd_deliveries (snd (insert_packages sid n ps db)) = sd_deliveries db
   \<and> sd_shipments (snd (insert_packages sid n ps db)) = sd_shipments db
   \<and> sd_connections (snd (insert_packages sid n ps db)) = sd_connections db
   \<and> sd_labels (snd (insert_packages sid n ps db)) = sd_labels db
   \<and> sd_accesses (snd (insert_packages sid n ps db)) = sd_accesses db
   \<and> sd_access (snd (insert_packages sid n ps db)) = sd_access db
   \<and> sd_next_id db \<le> sd_next_id (snd (insert_packages sid n ps db))"
proof (induction ps arbitrary: n db)
  case (Cons p ps)
  show ?case
  proof (cases "package_of p sid n (sd_next_id db)")
    case (Inr k)
    then show ?thesis using Cons.IH [of "n + 1" "db\<lparr>sd_next_id := sd_next_id db + 1, sd_packages := sd_packages db @ [k]\<rparr>"]
      by simp
  qed simp
qed simp

text \<open>What creating a shipment does: nothing, or one new row with its packages.\<close>

lemma createShipment_cases:
  obtains e where "createShipmentWithPackages i now db = (Inl e, db)"
  | owner conn s db' where "si_packages i \<noteq> []" and "resolveOwner (si_owner i) now (sd_access db) = Inr owner"
    and "shipment_connection i owner db = Inr conn" and "shipment_row_of i owner conn (sd_next_id db) = Inr s"
    and "shipment_checked s (sd_shipments db)"
    and "insert_packages (sh_id s) 1 (si_packages i)
      (db\<lparr>sd_next_id := sd_next_id db + 1, sd_shipments := sd_shipments db @ [s]\<rparr>) = (Inr (), db')"
    and "createShipmentWithPackages i now db = (Inr (sh_shipment_ref s, map pi_packageRef (si_packages i)), db')"
proof (cases "si_packages i = []")
  case False
  show thesis
  proof (cases "sbind (resolveOwner (si_owner i) now (sd_access db)) (\<lambda>owner.
          sbind (shipment_connection i owner db) (\<lambda>conn. shipment_row_of i owner conn (sd_next_id db)))")
    case (Inr s)
    then obtain owner conn where *: "resolveOwner (si_owner i) now (sd_access db) = Inr owner"
      "shipment_connection i owner db = Inr conn" "shipment_row_of i owner conn (sd_next_id db) = Inr s"
      by (auto simp: sbind_Inr_iff)
    obtain r db' where p: "insert_packages (sh_id s) 1 (si_packages i)
        (db\<lparr>sd_next_id := sd_next_id db + 1, sd_shipments := sd_shipments db @ [s]\<rparr>) = (r, db')" by fastforce
    show thesis
    proof (cases "r = Inr () \<and> shipment_checked s (sd_shipments db)")
      case True
      then have "createShipmentWithPackages i now db = (Inr (sh_shipment_ref s, map pi_packageRef (si_packages i)), db')"
        using \<open>sbind _ _ = Inr s\<close> False p by (simp add: createShipmentWithPackages_def)
      then show thesis using that(2) [OF False * _ _] True p by blast
    next
      case no: False
      then have "\<exists>e. createShipmentWithPackages i now db = (Inl e, db)"
        using \<open>sbind _ _ = Inr s\<close> False p by (cases r) (auto simp: createShipmentWithPackages_def)
      then show thesis using that(1) by blast
    qed
  qed (use that(1) False in \<open>auto simp: createShipmentWithPackages_def\<close>)
qed (use that(1) in \<open>auto simp: createShipmentWithPackages_def\<close>)

lemma create_frame:
  "sd_jobs (snd (createShipmentWithPackages i now db)) = sd_jobs db"
  "sd_deliveries (snd (createShipmentWithPackages i now db)) = sd_deliveries db"
  "sd_next_id db \<le> sd_next_id (snd (createShipmentWithPackages i now db))"
  "\<exists>new. sd_shipments (snd (createShipmentWithPackages i now db)) = sd_shipments db @ new"
proof -
  have "sd_jobs (snd (createShipmentWithPackages i now db)) = sd_jobs db
    \<and> sd_deliveries (snd (createShipmentWithPackages i now db)) = sd_deliveries db
    \<and> sd_next_id db \<le> sd_next_id (snd (createShipmentWithPackages i now db))
    \<and> (\<exists>new. sd_shipments (snd (createShipmentWithPackages i now db)) = sd_shipments db @ new)"
  proof (rule createShipment_cases [of i now db])
    fix s db' owner conn
    assume "insert_packages (sh_id s) 1 (si_packages i)
        (db\<lparr>sd_next_id := sd_next_id db + 1, sd_shipments := sd_shipments db @ [s]\<rparr>) = (Inr (), db')"
      and "createShipmentWithPackages i now db = (Inr (sh_shipment_ref s, map pi_packageRef (si_packages i)), db')"
    then show ?thesis
      using insert_packages_frame [of "sh_id s" 1 "si_packages i"
        "db\<lparr>sd_next_id := sd_next_id db + 1, sd_shipments := sd_shipments db @ [s]\<rparr>"] by simp
  qed simp
  then show "sd_jobs (snd (createShipmentWithPackages i now db)) = sd_jobs db"
    "sd_deliveries (snd (createShipmentWithPackages i now db)) = sd_deliveries db"
    "sd_next_id db \<le> sd_next_id (snd (createShipmentWithPackages i now db))"
    "\<exists>new. sd_shipments (snd (createShipmentWithPackages i now db)) = sd_shipments db @ new" by simp_all
qed

lemma registry_frame:
  "sd_jobs (apply_registry op now db) = sd_jobs db"
  "sd_deliveries (apply_registry op now db) = sd_deliveries db"
  "sd_next_id db \<le> sd_next_id (apply_registry op now db)"
  by (cases op; auto simp: create_frame upsertMerchant_def createGuestSession_def upsertCarrierConnection_def
      saveRateQuote_def saveManagedLabel_def recordAccess_def requestVoid_def finishVoid_def Let_def
      split: sum.splits option.splits)+

text \<open>The shipments: rows appended, or those of a label that is saved.\<close>

lemma registry_shipments:
  "(\<exists>new. sd_shipments (apply_registry op now db) = sd_shipments db @ new)
   \<or> (\<exists>i k. op = SaveManaged i
       \<and> sd_shipments (apply_registry op now db) = sql_update (\<lambda>x. sh_id x = k) (managed_shipment i now) (sd_shipments db))"
proof (cases op)
  case (CreateShipment i)
  then show ?thesis using create_frame(4) by simp
next
  case (SaveManaged i)
  then show ?thesis by (auto simp: saveManagedLabel_def Let_def split: sum.splits option.splits)
qed (auto simp: upsertMerchant_def createGuestSession_def upsertCarrierConnection_def saveRateQuote_def
    recordAccess_def requestVoid_def finishVoid_def Let_def split: sum.splits option.splits)

end
