(* ===== verification/Lease_Queue.thy ===== *)
theory Lease_Queue
  imports AGID_Prelude
begin

section \<open>Queues with leases\<close>

text \<open>
  What a queue promises that hands out its entries under a lease. \<open>exec\<close> carries out one operation at the time
  of the clock, \<open>claims\<close> lists the entries the operation hands out, \<open>held\<close> says that an entry is out under a
  lease that lasts until a given time, and \<open>releases\<close> which operations give an entry back. A run is a list of
  operations of any callers, in the order in which the database carries them out.
\<close>

locale lease_queue =
  fixes exec :: "'o \<Rightarrow> int \<times> 'db \<Rightarrow> int \<times> 'db"
    and inv :: "'db \<Rightarrow> bool"
    and claims :: "'o \<Rightarrow> int \<times> 'db \<Rightarrow> string list"
    and lease :: "'o \<Rightarrow> int"
    and held :: "string \<Rightarrow> int \<Rightarrow> 'db \<Rightarrow> bool"
    and releases :: "'o \<Rightarrow> string \<Rightarrow> bool"
  assumes clock: "fst s \<le> fst (exec op s)"
    and inv_exec: "inv (snd s) \<Longrightarrow> inv (snd (exec op s))"
    and held_exec: "inv (snd s) \<Longrightarrow> held k l (snd s) \<Longrightarrow> fst s < l \<Longrightarrow> \<not> releases op k
      \<Longrightarrow> held k l (snd (exec op s))"
    and not_claimed: "inv (snd s) \<Longrightarrow> held k l (snd s) \<Longrightarrow> fst s < l \<Longrightarrow> k \<notin> set (claims op s)"
    and claimed_held: "inv (snd s) \<Longrightarrow> k \<in> set (claims op s) \<Longrightarrow> held k (fst s + lease op) (snd (exec op s))"
    and claims_once: "inv (snd s) \<Longrightarrow> distinct (claims op s)"
begin

definition run :: "'o list \<Rightarrow> int \<times> 'db \<Rightarrow> int \<times> 'db" where
  "run ops s = fold exec ops s"

lemma run_simps [simp]: "run [] s = s" "run (op # ops) s = run ops (exec op s)"
  by (simp_all add: run_def)

lemma run_clock: "fst s \<le> fst (run ops s)"
proof (induction ops arbitrary: s)
  case (Cons op ops)
  show ?case using clock [of s op] Cons.IH [of "exec op s"] by simp
qed simp

lemma lease_run_inv: "inv (snd s) \<Longrightarrow> inv (snd (run ops s))"
  by (induction ops arbitrary: s) (simp_all add: inv_exec)

lemma run_held:
  assumes "inv (snd s)" and "held k l (snd s)" and "fst (run ops s) < l" and "\<forall>op \<in> set ops. \<not> releases op k"
  shows "held k l (snd (run ops s))"
  using assms
proof (induction ops arbitrary: s)
  case (Cons op ops)
  have "fst (exec op s) < l" using Cons.prems(3) run_clock [of "exec op s" ops] by simp
  then have "fst s < l" using clock [of s op] by linarith
  with Cons show ?case by (simp add: inv_exec held_exec)
qed simp

text \<open>An entry that is handed out is handed out to nobody else before its lease ends, unless it is given back.\<close>

lemma exclusive:
  assumes "inv (snd s)" and "k \<in> set (claims op s)" and "\<forall>op' \<in> set ops. \<not> releases op' k"
    and "fst (run ops (exec op s)) < fst s + lease op"
  shows "k \<notin> set (claims op' (run ops (exec op s)))"
proof (rule not_claimed)
  show "inv (snd (run ops (exec op s)))" using assms(1) by (intro lease_run_inv inv_exec)
  show "held k (fst s + lease op) (snd (run ops (exec op s)))"
    using assms by (intro run_held inv_exec claimed_held)
qed (fact assms(4))

end

end
