(* ===== verification/Ship_Steps.thy ===== *)
theory Ship_Steps
  imports Ship_Deliveries Ship_Registry Lease_Queue
begin

section \<open>Operations on the shipping tables as steps\<close>

text \<open>
  Every operation of the stores as one step of the tables, at the
  time of the database. What callers do concurrently is a list of such operations; time passes by \<open>Tick\<close>.
\<close>

datatype ship_op =
    Tick nat
  | Schedule bool "int \<Rightarrow> string"
  | ClaimJobs string int int
  | CompleteJob string
  | FailJob fail_input
  | ReplayJob string "int option"
  | MarkUnknown "int \<Rightarrow> string" unknown_input
  | MarkReconciling string
  | LabelFound label_input
  | LabelNotFound string
  | TrackingSynced tracking_sync
  | CarrierReconciled reconciliation_input
  | TokenRefreshed string "int option"
  | SaveLabel label_input
  | SelectQuote string string
  | EnqueueDelivery delivery_input
  | ClaimDeliveries int int
  | FinishDelivery finish_delivery
  | ReplayDelivery string "int option"
  | Registry registry_op

fun apply_op :: "ship_op \<Rightarrow> int \<Rightarrow> ship_db \<Rightarrow> ship_db" where
  "apply_op (Tick d) now db = db"
| "apply_op (Schedule lock rnd) now db = snd (scheduleDueJobs lock rnd now db)"
| "apply_op (ClaimJobs w n l) now db = snd (claimJobs w n l now db)"
| "apply_op (CompleteJob r) now db = snd (completeJob r now db)"
| "apply_op (FailJob i) now db = snd (failJob i now db)"
| "apply_op (ReplayJob r t) now db = snd (replayDeadLetter r t db)"
| "apply_op (MarkUnknown rnd i) now db = snd (markLabelOutcomeUnknown rnd i now db)"
| "apply_op (MarkReconciling r) now db = snd (markLabelReconciling r db)"
| "apply_op (LabelFound i) now db = snd (recordLabelFound i now db)"
| "apply_op (LabelNotFound r) now db = snd (recordLabelNotFound r db)"
| "apply_op (TrackingSynced i) now db = snd (recordTrackingSync i now db)"
| "apply_op (CarrierReconciled i) now db = snd (recordCarrierReconciliation i now db)"
| "apply_op (TokenRefreshed r t) now db = snd (recordUpsTokenRefresh r t now db)"
| "apply_op (SaveLabel i) now db = snd (saveLabel i now db)"
| "apply_op (SelectQuote q s) now db = snd (selectRateQuote q s now db)"
| "apply_op (EnqueueDelivery i) now db = snd (enqueueWebhookDelivery i now db)"
| "apply_op (ClaimDeliveries n l) now db = snd (claimWebhookDeliveries n l now db)"
| "apply_op (FinishDelivery i) now db = snd (finishWebhookDelivery i now db)"
| "apply_op (ReplayDelivery r t) now db = snd (replayWebhookDeadLetter r t db)"
| "apply_op (Registry r) now db = apply_registry r now db"

fun elapsed :: "ship_op \<Rightarrow> int" where
  "elapsed (Tick d) = int d"
| "elapsed _ = 0"

definition exec :: "ship_op \<Rightarrow> int \<times> ship_db \<Rightarrow> int \<times> ship_db" where
  "exec op s = (fst s + elapsed op, apply_op op (fst s) (snd s))"

definition run_ops :: "ship_op list \<Rightarrow> int \<times> ship_db \<Rightarrow> int \<times> ship_db" where
  "run_ops ops s = fold exec ops s"

text \<open>What every operation of a kind keeps, a run of such operations keeps.\<close>

lemma run_ops_keeps:
  assumes "\<And>op now db. ok op \<Longrightarrow> I db \<Longrightarrow> I (apply_op op now db)" and "list_all ok ops" and "I (snd s)"
  shows "I (snd (run_ops ops s))"
  using assms(2,3) by (induction ops arbitrary: s) (simp_all add: run_ops_def exec_def assms(1))

lemma run_ops_invariant:
  assumes "I (snd s)" and "\<And>op now db. I db \<Longrightarrow> I (apply_op op now db)"
  shows "I (snd (run_ops ops s))"
  by (rule run_ops_keeps [where ok = "\<lambda>_. True"]) (simp_all add: assms list_all_iff)

subsection \<open>What an operation does to the jobs\<close>

text \<open>The jobs as an operation leaves them: rows rewritten in place, rows appended, or as they were.\<close>

definition same_identity :: "(job_row \<Rightarrow> job_row) \<Rightarrow> bool" where
  "same_identity f \<longleftrightarrow> (\<forall>r. jb_id (f r) = jb_id r \<and> jb_job_ref (f r) = jb_job_ref r
     \<and> jb_job_type (f r) = jb_job_type r \<and> jb_dedupe_key (f r) = jb_dedupe_key r)"

inductive job_effect :: "ship_op \<Rightarrow> int \<Rightarrow> ship_db \<Rightarrow> ship_db \<Rightarrow> bool" where
  same: "job_effect op now db db"
| quiet: "job_effect op now db db0 \<Longrightarrow> sd_jobs db' = sd_jobs db0 \<Longrightarrow> sd_next_id db0 \<le> sd_next_id db'
    \<Longrightarrow> job_effect op now db db'"
| inserted: "insert_job rnd now s db0 = (Some r, db1) \<Longrightarrow> job_effect op now db db0
    \<Longrightarrow> sd_jobs db' = sd_jobs db1 \<Longrightarrow> sd_next_id db' = sd_next_id db1 \<Longrightarrow> job_effect op now db db'"
| claimed: "op = ClaimJobs w n l \<Longrightarrow> ref_arg w ''workerRef'' 100 = Inr worker \<Longrightarrow> sd_next_id db' = sd_next_id db
    \<Longrightarrow> ids = map jb_id (claim_candidates (nat (clamp 1 100 n)) now (sd_jobs db))
    \<Longrightarrow> sd_jobs db' = sql_update (\<lambda>r. jb_id r \<in> set ids) (claimed_row worker (clamp 10 900 l) now) (sd_jobs db)
    \<Longrightarrow> job_effect op now db db'"
| completed: "op = CompleteJob v \<Longrightarrow> r = js_trim v \<Longrightarrow> sd_next_id db' = sd_next_id db
    \<Longrightarrow> sd_jobs db' = sql_update (running_job r) (completed_job now) (sd_jobs db) \<Longrightarrow> job_effect op now db db'"
| failed: "op = FailJob i \<Longrightarrow> fail_args i = Inr (r, code, msg, next) \<Longrightarrow> sd_next_id db' = sd_next_id db
    \<Longrightarrow> sd_jobs db' = sql_update (running_job r) (failed_job code msg (fj_retryable i) next now) (sd_jobs db)
    \<Longrightarrow> job_effect op now db db'"
| replayed: "op = ReplayJob v t0 \<Longrightarrow> r = js_trim v \<Longrightarrow> sd_next_id db' = sd_next_id db
    \<Longrightarrow> x \<in> set (sd_jobs db) \<Longrightarrow> dead_job r x
    \<Longrightarrow> \<not> list_ex (\<lambda>y. active_job y \<and> same_work x y) (sd_jobs db)
    \<Longrightarrow> sd_jobs db' = sql_update (dead_job r) (replayed_job t) (sd_jobs db) \<Longrightarrow> job_effect op now db db'"

lemma insert_job_effect: "job_effect op now db db0 \<Longrightarrow> job_effect op now db (snd (insert_job rnd now s db0))"
  by (cases "insert_job rnd now s db0")
    (auto simp: insert_job_def Let_def split: if_splits intro: job_effect.inserted job_effect.quiet)

lemma insert_jobs_effect: "job_effect op now db db0 \<Longrightarrow> job_effect op now db (snd (insert_jobs rnd now ss db0))"
proof (induction ss arbitrary: db0)
  case (Cons s ss)
  show ?case using Cons.IH [OF insert_job_effect [OF Cons.prems, of rnd s]] by (simp add: case_prod_unfold Let_def)
qed simp

lemma schedule_effect: "job_effect op now db (snd (scheduleDueJobs lock rnd now db))"
  by (simp add: scheduleDueJobs_def Let_def case_prod_unfold insert_jobs_effect job_effect.same)

lemma mark_unknown_effect: "job_effect op now db (snd (markLabelOutcomeUnknown rnd i now db))"
proof -
  have "job_effect op now db (update_shipments P f db)" for P f
    by (rule job_effect.quiet [OF job_effect.same]) simp_all
  then have "job_effect op now db (snd (insert_job rnd now s (update_shipments P f db)))" for s P f
    by (rule insert_job_effect)
  then show ?thesis
    unfolding markLabelOutcomeUnknown_def
    by (auto simp: Let_def case_prod_unfold job_effect.same split: sum.splits option.splits prod.splits)
qed

lemma append_events_jobs:
  "sd_jobs (snd (append_events es db)) = sd_jobs db \<and> sd_next_id (snd (append_events es db)) = sd_next_id db"
proof (induction es arbitrary: db)
  case (Cons e es)
  have "sd_jobs (snd (appendTrackingEvent e db)) = sd_jobs db
      \<and> sd_next_id (snd (appendTrackingEvent e db)) = sd_next_id db"
    by (auto simp: appendTrackingEvent_def Let_def split: sum.splits option.splits)
  then show ?case using Cons.IH by (auto split: sum.splits prod.splits)
qed simp

lemma save_label_jobs:
  "sd_jobs (snd (saveLabel i now db)) = sd_jobs db \<and> sd_next_id db \<le> sd_next_id (snd (saveLabel i now db))"
  by (auto simp: saveLabel_def insert_label_def Let_def split: sum.splits option.splits prod.splits if_splits)

lemma quiet_effect: "sd_jobs db' = sd_jobs db \<Longrightarrow> sd_next_id db \<le> sd_next_id db' \<Longrightarrow> job_effect op now db db'"
  by (rule job_effect.quiet [OF job_effect.same])

lemma sync_jobs: "sd_jobs (snd (recordTrackingSync i now db)) = sd_jobs db
    \<and> sd_next_id (snd (recordTrackingSync i now db)) = sd_next_id db"
  using append_events_jobs [of "ts_events i" db]
  by (auto simp: recordTrackingSync_def split: sum.splits prod.splits)

lemma found_jobs: "sd_jobs (snd (recordLabelFound i now db)) = sd_jobs db
    \<and> sd_next_id db \<le> sd_next_id (snd (recordLabelFound i now db))"
  using save_label_jobs [of i now db]
  by (auto simp: recordLabelFound_def split: sum.splits prod.splits)

lemma delivery_ops_jobs [simp]:
  "sd_jobs (snd (claimWebhookDeliveries n l now db)) = sd_jobs db"
  "sd_next_id (snd (claimWebhookDeliveries n l now db)) = sd_next_id db"
  "sd_jobs (snd (finishWebhookDelivery f now db)) = sd_jobs db"
  "sd_next_id (snd (finishWebhookDelivery f now db)) = sd_next_id db"
  "sd_jobs (snd (replayWebhookDeadLetter r t db)) = sd_jobs db"
  "sd_next_id (snd (replayWebhookDeadLetter r t db)) = sd_next_id db"
  "sd_jobs (snd (enqueueWebhookDelivery d now db)) = sd_jobs db"
  "sd_next_id db \<le> sd_next_id (snd (enqueueWebhookDelivery d now db))"
  by (auto simp: claimWebhookDeliveries_def finishWebhookDelivery_def replayWebhookDeadLetter_def
      enqueueWebhookDelivery_def Let_def split: sum.splits option.splits prod.splits)

lemma shipment_ops_jobs [simp]:
  "sd_jobs (snd (markLabelReconciling r db)) = sd_jobs db" "sd_next_id (snd (markLabelReconciling r db)) = sd_next_id db"
  "sd_jobs (snd (recordLabelNotFound r db)) = sd_jobs db" "sd_next_id (snd (recordLabelNotFound r db)) = sd_next_id db"
  "sd_jobs (snd (recordCarrierReconciliation c now db)) = sd_jobs db"
  "sd_next_id (snd (recordCarrierReconciliation c now db)) = sd_next_id db"
  "sd_jobs (snd (recordUpsTokenRefresh r t now db)) = sd_jobs db"
  "sd_next_id (snd (recordUpsTokenRefresh r t now db)) = sd_next_id db"
  "sd_jobs (snd (selectRateQuote q s now db)) = sd_jobs db"
  "sd_next_id (snd (selectRateQuote q s now db)) = sd_next_id db"
  by (auto simp: markLabelReconciling_def recordLabelNotFound_def recordCarrierReconciliation_def
      recordUpsTokenRefresh_def selectRateQuote_def Let_def split: sum.splits option.splits)

lemma complete_effect: "op = CompleteJob r \<Longrightarrow> job_effect op now db (snd (completeJob r now db))"
  by (auto simp: completeJob_def ref_arg_Inr job_effect.same split: sum.splits intro: job_effect.completed)

lemma fail_frame: "sd_jobs (audit_dead_letter f c (count_connection_failure f (count_shipment_failure f d))) = sd_jobs d"
  "sd_next_id (audit_dead_letter f c (count_connection_failure f (count_shipment_failure f d))) = sd_next_id d"
  by (simp_all add: audit_dead_letter_def count_connection_failure_def count_shipment_failure_def)

lemma fail_effect: "op = FailJob i \<Longrightarrow> job_effect op now db (snd (failJob i now db))"
  by (auto simp: failJob_def Let_def job_effect.same fail_frame split: sum.splits option.splits
      intro: job_effect.failed)

lemma replay_cases:
  assumes "\<And>e. snd (replayDeadLetter v t0 db) = db \<Longrightarrow> P"
    and "\<And>r t x. r = js_trim v \<Longrightarrow> x \<in> set (sd_jobs db) \<Longrightarrow> dead_job r x
      \<Longrightarrow> \<not> list_ex (\<lambda>y. active_job y \<and> same_work x y) (sd_jobs db)
      \<Longrightarrow> replayDeadLetter v t0 db = (Inr (), db\<lparr>sd_jobs := sql_update (dead_job r) (replayed_job t) (sd_jobs db)\<rparr>) \<Longrightarrow> P"
  shows P
proof (cases "sbind (ref_arg v ''jobRef'' 100) (\<lambda>r. sbind (date_arg t0 ''runAfter'') (\<lambda>t. Inr (r, t)))")
  case (Inl e)
  then show ?thesis using assms(1) by (simp add: replayDeadLetter_def)
next
  case (Inr a)
  then obtain t where a: "a = (js_trim v, t)" by (auto simp: sbind_Inr_iff ref_arg_Inr)
  show ?thesis
  proof (cases "first_row (filter (dead_job (js_trim v)) (sd_jobs db))")
    case None
    then show ?thesis using assms(1) Inr a by (simp add: replayDeadLetter_def)
  next
    case (Some x)
    then have x: "x \<in> set (sd_jobs db)" "dead_job (js_trim v) x" using first_row_filter [OF Some] by simp_all
    show ?thesis
    proof (cases "list_ex (\<lambda>y. active_job y \<and> same_work x y) (sd_jobs db)")
      case True
      then show ?thesis using assms(1) Inr a Some by (simp add: replayDeadLetter_def)
    next
      case False
      then show ?thesis using assms(2) [OF refl x False] Inr a Some by (simp add: replayDeadLetter_def)
    qed
  qed
qed

lemma replay_effect: "op = ReplayJob r t \<Longrightarrow> job_effect op now db (snd (replayDeadLetter r t db))"
  by (rule replay_cases [of r t db]) (simp_all add: job_effect.same job_effect.replayed)

lemma claim_effect: "op = ClaimJobs w n l \<Longrightarrow> job_effect op now db (snd (claimJobs w n l now db))"
  by (auto simp: claimJobs_def Let_def job_effect.same split: sum.splits intro: job_effect.claimed)

lemma apply_op_effect: "job_effect op now db (apply_op op now db)"
proof (cases op)
  case (LabelFound i)
  then show ?thesis using found_jobs [of i now db] by (auto intro: quiet_effect)
next
  case (TrackingSynced i)
  then show ?thesis using sync_jobs [of i now db] by (auto intro: quiet_effect)
next
  case (SaveLabel i)
  then show ?thesis using save_label_jobs [of i now db] by (auto intro: quiet_effect)
next
  case (Registry r)
  then show ?thesis by (auto intro: quiet_effect simp: registry_frame)
qed (auto intro: quiet_effect schedule_effect mark_unknown_effect complete_effect fail_effect replay_effect
  claim_effect job_effect.same)

end
