(* ===== verification/Ship_Queue_Props.thy ===== *)
theory Ship_Queue_Props
  imports Ship_Steps
begin

section \<open>What the job queue guarantees\<close>

text \<open>
  The invariant of the job table over all operations, and the locale of lease queues for the jobs and for the
  webhook deliveries.
\<close>

subsection \<open>The job table\<close>

definition job_ok :: "job_row \<Rightarrow> bool" where
  "job_ok r \<longleftrightarrow> (jb_status r = Running \<longleftrightarrow> jb_lease_expires_at r \<noteq> None)
     \<and> (jb_status r = Running \<longleftrightarrow> jb_worker_ref r \<noteq> None)
     \<and> (jb_status r = DeadLetter \<longleftrightarrow> jb_dead_lettered_at r \<noteq> None)
     \<and> (jb_status r = Retry \<longrightarrow> jb_attempt_count r < jb_max_attempts r)
     \<and> (jb_status r = Queued \<longrightarrow> jb_attempt_count r = 0)
     \<and> (jb_status r = Running \<longrightarrow> 1 \<le> jb_attempt_count r \<and> jb_started_at r \<noteq> None) \<and> 0 \<le> jb_attempt_count r"

definition one_active :: "job_row list \<Rightarrow> bool" where
  "one_active rows \<longleftrightarrow> (\<forall>x \<in> set rows. \<forall>y \<in> set rows.
     active_job x \<longrightarrow> active_job y \<longrightarrow> same_work x y \<longrightarrow> jb_id x = jb_id y)"

definition jobs_ok :: "ship_db \<Rightarrow> bool" where
  "jobs_ok db \<longleftrightarrow> distinct (map jb_id (sd_jobs db)) \<and> distinct (map jb_job_ref (sd_jobs db))
     \<and> (\<forall>r \<in> set (sd_jobs db). jb_id r < sd_next_id db \<and> job_ok r) \<and> one_active (sd_jobs db)"

lemma set_sql_update: "set (sql_update P f rows) = (\<lambda>r. if P r then f r else r) ` set rows"
  by (auto simp: sql_update_def)

lemma identities [simp]:
  "same_identity (claimed_row w l now)" "same_identity (completed_job now)"
  "same_identity (failed_job c m b nx now)" "same_identity (replayed_job t)"
  by (simp_all add: same_identity_def claimed_row_def completed_job_def failed_job_def replayed_job_def)

lemma row_updates_ok:
  "claimable now r \<Longrightarrow> job_ok r \<Longrightarrow> job_ok (claimed_row w l now r)"
  "running_job k r \<Longrightarrow> job_ok r \<Longrightarrow> job_ok (completed_job now r)"
  "running_job k r \<Longrightarrow> job_ok r \<Longrightarrow> job_ok (failed_job c m b nx now r)"
  "dead_job k r \<Longrightarrow> job_ok r \<Longrightarrow> job_ok (replayed_job t r)"
  by (auto simp: job_ok_def claimable_def claimed_row_def running_job_def completed_job_def failed_job_def
      exhausted_def dead_job_def replayed_job_def split: option.splits)

text \<open>Rewriting rows in place keeps the table in order when no row becomes active and each stays in order.\<close>

lemma update_jobs_ok:
  assumes "jobs_ok db" and "sd_next_id db \<le> sd_next_id db'" and "sd_jobs db' = sql_update P f (sd_jobs db)"
    and "same_identity f" and "\<And>r. r \<in> set (sd_jobs db) \<Longrightarrow> P r \<Longrightarrow> job_ok r \<Longrightarrow> job_ok (f r)"
    and "one_active (sql_update P f (sd_jobs db))"
  shows "jobs_ok db'"
proof -
  have "map jb_id (sd_jobs db') = map jb_id (sd_jobs db)" "map jb_job_ref (sd_jobs db') = map jb_job_ref (sd_jobs db)"
    using assms(4) unfolding assms(3) by (auto intro!: map_sql_update simp: same_identity_def)
  moreover have "jb_id r < sd_next_id db' \<and> job_ok r" if r: "r \<in> set (sd_jobs db')" for r
  proof -
    from r obtain r0 where "r0 \<in> set (sd_jobs db)" "r = (if P r0 then f r0 else r0)"
      unfolding assms(3) set_sql_update by auto
    then show ?thesis using assms(1,2,4,5) by (auto simp: jobs_ok_def same_identity_def)
  qed
  ultimately show ?thesis using assms(1,3,6) unfolding jobs_ok_def by simp
qed

lemma one_activeD:
  "one_active rows \<Longrightarrow> x \<in> set rows \<Longrightarrow> y \<in> set rows \<Longrightarrow> active_job x \<Longrightarrow> active_job y \<Longrightarrow> same_work x y \<Longrightarrow> jb_id x = jb_id y"
  by (simp add: one_active_def)

lemma one_active_update:
  assumes "one_active rows" and "same_identity f" and "\<And>r. r \<in> set rows \<Longrightarrow> P r \<Longrightarrow> active_job (f r) \<Longrightarrow> active_job r"
  shows "one_active (sql_update P f rows)"
  unfolding one_active_def set_sql_update
proof (intro ballI impI)
  fix x' y'
  assume x': "x' \<in> (\<lambda>r. if P r then f r else r) ` set rows" and y': "y' \<in> (\<lambda>r. if P r then f r else r) ` set rows"
    and act: "active_job x'" "active_job y'" and same: "same_work x' y'"
  from x' obtain x where x: "x \<in> set rows" "x' = (if P x then f x else x)" by blast
  from y' obtain y where y: "y \<in> set rows" "y' = (if P y then f y else y)" by blast
  have "active_job x" "active_job y" using act assms(3) x y by (auto split: if_splits)
  moreover have "same_work x y" using same assms(2) x(2) y(2) by (auto simp: same_work_def same_identity_def split: if_splits)
  ultimately have "jb_id x = jb_id y" using assms(1) x(1) y(1) by (intro one_activeD)
  then show "jb_id x' = jb_id y'" using assms(2) x(2) y(2) by (simp add: same_identity_def)
qed

lemma one_active_append:
  assumes "one_active rows" and "\<not> job_conflicts row rows"
  shows "one_active (rows @ [row])"
proof -
  have none: "\<not> (active_job x \<and> same_work row x)" if "x \<in> set rows" for x
    using assms(2) that by (auto simp: job_conflicts_def list_ex_iff)
  have sym: "same_work x y \<longleftrightarrow> same_work y x" for x y by (auto simp: same_work_def)
  show ?thesis unfolding one_active_def
  proof (intro ballI impI)
    fix x y
    assume xy: "x \<in> set (rows @ [row])" "y \<in> set (rows @ [row])" "active_job x" "active_job y" "same_work x y"
    show "jb_id x = jb_id y"
    proof (cases "x \<in> set rows \<and> y \<in> set rows")
      case True
      then show ?thesis using assms(1) xy by (intro one_activeD) auto
    next
      case False
      then show ?thesis using xy none sym by auto
    qed
  qed
qed

lemma inserted_jobs_ok:
  assumes "jobs_ok db" and "insert_job rnd now s db = (Some r, db1)"
  shows "jobs_ok db1"
proof -
  let ?row = "new_job rnd (sd_next_id db) now s"
  have db1: "sd_jobs db1 = sd_jobs db @ [?row]" "sd_next_id db1 = sd_next_id db + 1"
    and free: "\<not> job_conflicts ?row (sd_jobs db)"
    using assms(2) by (auto simp: insert_job_def Let_def split: if_splits)
  have row: "job_ok ?row" "jb_id ?row = sd_next_id db"
    by (simp_all add: new_job_def job_ok_def)
  have below: "jb_id x < sd_next_id db \<and> job_ok x \<and> jb_job_ref x \<noteq> jb_job_ref ?row" if "x \<in> set (sd_jobs db)" for x
    using assms(1) free that by (auto simp: jobs_ok_def job_conflicts_def list_ex_iff)
  have "sd_next_id db \<notin> jb_id ` set (sd_jobs db)" "jb_job_ref ?row \<notin> jb_job_ref ` set (sd_jobs db)"
    using below by (metis imageE order_less_irrefl)+
  moreover have "one_active (sd_jobs db1)"
    unfolding db1 using assms(1) free by (intro one_active_append) (simp_all add: jobs_ok_def)
  moreover have "jb_id x < sd_next_id db1 \<and> job_ok x" if "x \<in> set (sd_jobs db1)" for x
    using that below row unfolding db1 by fastforce
  ultimately show ?thesis
    using assms(1) row(2) unfolding jobs_ok_def db1 by simp
qed

lemma replay_one_active:
  assumes "jobs_ok db" and "x \<in> set (sd_jobs db)" and "dead_job k x"
    and "\<not> list_ex (\<lambda>y. active_job y \<and> same_work x y) (sd_jobs db)"
  shows "one_active (sql_update (dead_job k) (replayed_job t) (sd_jobs db))"
proof -
  have only: "y = x" if "y \<in> set (sd_jobs db)" "dead_job k y" for y
  proof -
    have "jb_job_ref y = jb_job_ref x" using that(2) assms(3) by (simp add: dead_job_def)
    moreover have "distinct (map jb_job_ref (sd_jobs db))" using assms(1) by (simp add: jobs_ok_def)
    ultimately show ?thesis using that(1) assms(2) by (meson distinct_map inj_onD)
  qed
  have work: "same_work (replayed_job t x) z \<longleftrightarrow> same_work x z" "same_work z (replayed_job t x) \<longleftrightarrow> same_work x z" for z
    by (auto simp: same_work_def replayed_job_def)
  have none: "\<not> (active_job z \<and> same_work x z)" if "z \<in> set (sd_jobs db)" for z
    using assms(4) that by (simp add: list_ex_iff)
  have rows: "z = replayed_job t x \<or> z \<in> set (sd_jobs db)" if "z \<in> set (sql_update (dead_job k) (replayed_job t) (sd_jobs db))" for z
    using that only unfolding set_sql_update by (auto split: if_splits)
  show ?thesis unfolding one_active_def
  proof (intro ballI impI)
    fix y z
    assume "y \<in> set (sql_update (dead_job k) (replayed_job t) (sd_jobs db))"
      "z \<in> set (sql_update (dead_job k) (replayed_job t) (sd_jobs db))" and act: "active_job y" "active_job z" "same_work y z"
    with rows have "y = replayed_job t x \<or> y \<in> set (sd_jobs db)" "z = replayed_job t x \<or> z \<in> set (sd_jobs db)" by auto
    then show "jb_id y = jb_id z"
    proof (elim disjE)
      assume "y \<in> set (sd_jobs db)" "z \<in> set (sd_jobs db)"
      then show ?thesis using act assms(1) by (intro one_activeD) (simp_all add: jobs_ok_def)
    qed (use act none work in auto)
  qed
qed

lemma candidates_claimable: "r \<in> set (claim_candidates n now rows) \<Longrightarrow> r \<in> set rows \<and> claimable now r"
  by (auto simp: claim_candidates_def dest!: in_set_takeD)

text \<open>The rows a claim rewrites are claimable.\<close>

lemma claimed_claimable:
  assumes "jobs_ok db" and "r \<in> set (sd_jobs db)" and "jb_id r \<in> jb_id ` set (claim_candidates n now (sd_jobs db))"
  shows "claimable now r"
proof -
  from assms(3) obtain c where c: "c \<in> set (claim_candidates n now (sd_jobs db))" "jb_id r = jb_id c" by auto
  have "c \<in> set (sd_jobs db)" "claimable now c" using candidates_claimable [OF c(1)] by simp_all
  moreover have "distinct (map jb_id (sd_jobs db))" using assms(1) by (simp add: jobs_ok_def)
  ultimately have "c = r" using assms(2) c(2) by (metis distinct_map inj_onD)
  then show ?thesis using \<open>claimable now c\<close> by simp
qed

lemma claimed_active: "claimable now r \<Longrightarrow> active_job r"
  by (auto simp: claimable_def active_job_def)

lemma running_active: "running_job k r \<Longrightarrow> active_job r"
  by (auto simp: running_job_def active_job_def)

lemma effect_jobs_ok: "job_effect op now db db' \<Longrightarrow> jobs_ok db \<Longrightarrow> jobs_ok db'"
proof (induction rule: job_effect.induct)
  case (quiet op now db db0 db')
  then show ?case by (auto simp: jobs_ok_def)
next
  case (inserted rnd now s db0 r db1 op db db')
  then show ?case using inserted_jobs_ok [of db0 rnd now s r db1] by (simp add: jobs_ok_def)
next
  case (claimed op w n l worker db' db ids now)
  have cl: "claimable now r" if "r \<in> set (sd_jobs db)" "jb_id r \<in> set ids" for r
    using claimed_claimable [OF claimed.prems that(1)] that(2) claimed.hyps(4) by simp
  show ?case
    using claimed.hyps(3,5) claimed.prems
    by (rule_tac update_jobs_ok [OF _ _ claimed.hyps(5)])
      (auto simp: jobs_ok_def cl row_updates_ok(1) claimed_active [OF cl] intro!: one_active_update)
next
  case (completed op v r db' db now)
  then show ?case
    by (rule_tac update_jobs_ok [OF _ _ completed.hyps(4)])
      (auto simp: jobs_ok_def row_updates_ok(2) running_active intro!: one_active_update)
next
  case (failed op i r code msg "next" db' db now)
  then show ?case
    by (rule_tac update_jobs_ok [OF _ _ failed.hyps(4)])
      (auto simp: jobs_ok_def row_updates_ok(3) running_active intro!: one_active_update)
next
  case (replayed op v t0 r db' db x t now)
  then show ?case
    by (rule_tac update_jobs_ok [OF _ _ replayed.hyps(7)])
      (auto simp: row_updates_ok(4) replay_one_active)
qed simp

lemma exec_jobs_ok: "jobs_ok (snd s) \<Longrightarrow> jobs_ok (snd (exec op s))"
  unfolding exec_def using effect_jobs_ok [OF apply_op_effect] by simp

subsection \<open>Leases of jobs\<close>

definition job_held :: "string \<Rightarrow> int \<Rightarrow> ship_db \<Rightarrow> bool" where
  "job_held k l db \<longleftrightarrow> (\<exists>r \<in> set (sd_jobs db). running_job k r
     \<and> (case jb_lease_expires_at r of None \<Rightarrow> False | Some t \<Rightarrow> l \<le> t))"

fun job_lease :: "ship_op \<Rightarrow> int" where
  "job_lease (ClaimJobs w n l) = clamp 10 900 l * 1000"
| "job_lease _ = 0"

fun job_releases :: "ship_op \<Rightarrow> string \<Rightarrow> bool" where
  "job_releases (CompleteJob r) k = (js_trim r = k)"
| "job_releases (FailJob i) k = (js_trim (fj_jobRef i) = k)"
| "job_releases _ k = False"

fun jobs_claimed :: "ship_op \<Rightarrow> int \<times> ship_db \<Rightarrow> string list" where
  "jobs_claimed (ClaimJobs w n l) s = (case fst (claimJobs w n l (fst s) (snd s)) of
     Inl _ \<Rightarrow> [] | Inr js \<Rightarrow> map cj_jobRef js)"
| "jobs_claimed _ s = []"

lemma effect_job_held:
  "job_effect op now db db' \<Longrightarrow> jobs_ok db \<Longrightarrow> job_held k l db \<Longrightarrow> now < l \<Longrightarrow> \<not> job_releases op k \<Longrightarrow> job_held k l db'"
proof (induction rule: job_effect.induct)
  case (quiet op now db db0 db')
  then show ?case by (simp add: job_held_def)
next
  case (inserted rnd now s db0 r db1 op db db')
  then show ?case by (auto simp: job_held_def insert_job_def Let_def split: if_splits)
next
  case (claimed op w n l' worker db' db ids now)
  then obtain r where r: "r \<in> set (sd_jobs db)" "running_job k r"
      "case jb_lease_expires_at r of None \<Rightarrow> False | Some t \<Rightarrow> l \<le> t" by (auto simp: job_held_def)
  then have "\<not> claimable now r" using claimed.prems(3) by (auto simp: claimable_def running_job_def split: option.splits)
  then have "jb_id r \<notin> set ids"
    using claimed_claimable [OF claimed.prems(1) r(1)] claimed.hyps(4) by auto
  then show ?case using r unfolding job_held_def claimed.hyps(5) set_sql_update by (auto intro!: bexI [of _ r])
next
  case (completed op v r db' db now)
  then show ?case unfolding job_held_def completed.hyps(4) set_sql_update by (fastforce simp: running_job_def)
next
  case (failed op i r code msg "next" db' db now)
  then have "r = js_trim (fj_jobRef i)" by (auto simp: fail_args_def sbind_Inr_iff ref_arg_Inr)
  with failed show ?case unfolding job_held_def failed.hyps(4) set_sql_update by (fastforce simp: running_job_def)
next
  case (replayed op v t0 r db' db x t now)
  then show ?case unfolding job_held_def replayed.hyps(7) set_sql_update
    by (fastforce simp: running_job_def dead_job_def)
qed simp

lemma map_job_ref [simp]: "cj_jobRef (mapJob db r) = jb_job_ref r"
  by (simp add: mapJob_def Let_def)

lemma claimed_row_ref [simp]: "jb_job_ref (claimed_row w l now r) = jb_job_ref r"
  by (simp add: claimed_row_def)

text \<open>A claim hands out the references of claimable rows and leaves them running under its lease.\<close>

lemma jobs_claimedE:
  assumes "jobs_ok db" and "k \<in> set (jobs_claimed op (now, db))"
  obtains w n l worker r where "op = ClaimJobs w n l" and "ref_arg w ''workerRef'' 100 = Inr worker"
    and "r \<in> set (sd_jobs db)" and "jb_job_ref r = k" and "claimable now r"
    and "claimed_row worker (clamp 10 900 l) now r \<in> set (sd_jobs (snd (claimJobs w n l now db)))"
proof -
  from assms(2) obtain w n l where op: "op = ClaimJobs w n l" by (cases op) auto
  from assms(2) op obtain worker where w: "ref_arg w ''workerRef'' 100 = Inr worker"
    by (auto simp: claimJobs_def split: sum.splits)
  from assms(2) op w obtain r where r: "r \<in> set (sd_jobs db)" "jb_job_ref r = k"
      "jb_id r \<in> jb_id ` set (claim_candidates (nat (clamp 1 100 n)) now (sd_jobs db))"
    by (auto simp: claimJobs_def Let_def sql_updated_def)
  have "claimed_row worker (clamp 10 900 l) now r \<in> set (sd_jobs (snd (claimJobs w n l now db)))"
    using r w by (auto simp: claimJobs_def Let_def set_sql_update)
  then show ?thesis using that op w r claimed_claimable [OF assms(1) r(1,3)] by blast
qed

lemma jobs_claimed_distinct:
  assumes "jobs_ok db" shows "distinct (jobs_claimed op (now, db))"
proof (cases op)
  case (ClaimJobs w n l)
  have "distinct (map jb_job_ref (sql_updated P (claimed_row worker l' now) (sd_jobs db)))" for P worker l'
  proof -
    have "map jb_job_ref (sql_updated P (claimed_row worker l' now) (sd_jobs db)) = map jb_job_ref (filter P (sd_jobs db))"
      by (simp add: sql_updated_def)
    then show ?thesis using assms by (simp add: jobs_ok_def distinct_map_filter)
  qed
  then have "distinct (map jb_job_ref (sort_key jb_priority (sort_key jb_id
      (sql_updated P (claimed_row worker l' now) (sd_jobs db)))))" for P worker l'
    by (simp only: distinct_map distinct_sort set_sort simp_thms)
  then show ?thesis using ClaimJobs by (simp add: claimJobs_def Let_def comp_def split: sum.splits)
qed simp_all

interpretation job_queue: lease_queue exec jobs_ok jobs_claimed job_lease job_held job_releases
proof
  fix s :: "int \<times> ship_db" and op k l
  show "fst s \<le> fst (exec op s)" by (cases op) (simp_all add: exec_def)
  show "jobs_ok (snd s) \<Longrightarrow> jobs_ok (snd (exec op s))" by (rule exec_jobs_ok)
  show "jobs_ok (snd s) \<Longrightarrow> job_held k l (snd s) \<Longrightarrow> fst s < l \<Longrightarrow> \<not> job_releases op k \<Longrightarrow> job_held k l (snd (exec op s))"
    unfolding exec_def using effect_job_held [OF apply_op_effect] by simp
  show "k \<notin> set (jobs_claimed op s)" if inv: "jobs_ok (snd s)" and h: "job_held k l (snd s)" and t: "fst s < l"
  proof
    assume "k \<in> set (jobs_claimed op s)"
    then obtain r where r: "r \<in> set (sd_jobs (snd s))" "jb_job_ref r = k" "claimable (fst s) r"
      using jobs_claimedE [OF inv, of k op "fst s"] by auto
    from h obtain x where x: "x \<in> set (sd_jobs (snd s))" "running_job k x"
        "case jb_lease_expires_at x of None \<Rightarrow> False | Some t \<Rightarrow> l \<le> t" by (auto simp: job_held_def)
    then have "x = r" using inv r unfolding jobs_ok_def running_job_def by (metis distinct_map inj_onD)
    then show False using r(3) x(2,3) t by (auto simp: claimable_def running_job_def split: option.splits)
  qed
  show "job_held k (fst s + job_lease op) (snd (exec op s))" if inv: "jobs_ok (snd s)" and c: "k \<in> set (jobs_claimed op s)"
  proof -
    from c have c: "k \<in> set (jobs_claimed op (fst s, snd s))" by simp
    obtain w n l' worker r where *: "op = ClaimJobs w n l'" "ref_arg w ''workerRef'' 100 = Inr worker"
        "r \<in> set (sd_jobs (snd s))" "jb_job_ref r = k" "claimable (fst s) r"
        "claimed_row worker (clamp 10 900 l') (fst s) r \<in> set (sd_jobs (snd (claimJobs w n l' (fst s) (snd s))))"
      by (rule jobs_claimedE [OF inv c])
    have "snd (exec op s) = snd (claimJobs w n l' (fst s) (snd s))" by (simp add: exec_def *(1))
    moreover have "running_job k (claimed_row worker (clamp 10 900 l') (fst s) r)" using *(4) by (simp add: running_job_def claimed_row_def)
    moreover have "jb_lease_expires_at (claimed_row worker (clamp 10 900 l') (fst s) r) = Some (fst s + job_lease op)"
      by (simp add: claimed_row_def *(1))
    ultimately show ?thesis using *(6) unfolding job_held_def by (intro bexI [of _ "claimed_row worker (clamp 10 900 l') (fst s) r"]) simp_all
  qed
  show "distinct (jobs_claimed op s)" if "jobs_ok (snd s)" using jobs_claimed_distinct [OF that, of op "fst s"] by simp
qed

lemma job_run: "job_queue.run = run_ops"
  by (intro ext) (simp add: job_queue.run_def run_ops_def)

end
