(* ===== verification/Ship_Delivery_Props.thy ===== *)
theory Ship_Delivery_Props
  imports Ship_Queue_Props
begin

section \<open>What the delivery queue guarantees\<close>

subsection \<open>The other operations leave the deliveries alone\<close>

lemma insert_job_deliveries [simp]: "sd_deliveries (snd (insert_job rnd now s db)) = sd_deliveries db"
  by (simp add: insert_job_def Let_def)

lemma insert_jobs_deliveries [simp]: "sd_deliveries (snd (insert_jobs rnd now ss db)) = sd_deliveries db"
  by (induction ss arbitrary: db) (simp_all add: Let_def case_prod_unfold)

lemma append_events_deliveries: "sd_deliveries (snd (append_events es db)) = sd_deliveries db"
proof (induction es arbitrary: db)
  case (Cons e es)
  have "sd_deliveries (snd (appendTrackingEvent e db)) = sd_deliveries db"
    by (auto simp: appendTrackingEvent_def Let_def split: sum.splits option.splits)
  then show ?case using Cons.IH by (auto split: sum.splits prod.splits)
qed simp

lemma save_label_deliveries: "sd_deliveries (snd (saveLabel i now db)) = sd_deliveries db"
  by (auto simp: saveLabel_def insert_label_def Let_def split: sum.splits option.splits prod.splits if_splits)

lemma mark_unknown_deliveries [simp]: "sd_deliveries (snd (markLabelOutcomeUnknown rnd i now db)) = sd_deliveries db"
proof -
  have "sd_deliveries db2 = sd_deliveries db" if "insert_job rnd now s (update_shipments P f db) = (r, db2)" for s P f r db2
    using insert_job_deliveries [of rnd now s "update_shipments P f db"] that by simp
  then show ?thesis
    by (auto simp: markLabelOutcomeUnknown_def Let_def split: sum.splits option.splits prod.splits)
qed

lemma fail_job_deliveries [simp]: "sd_deliveries (snd (failJob i now db)) = sd_deliveries db"
  by (auto simp: failJob_def Let_def audit_dead_letter_def count_connection_failure_def count_shipment_failure_def
      split: sum.splits option.splits)

lemma replay_job_deliveries [simp]: "sd_deliveries (snd (replayDeadLetter r t db)) = sd_deliveries db"
  by (rule replay_cases [of r t db]) simp_all

lemma found_deliveries [simp]: "sd_deliveries (snd (recordLabelFound i now db)) = sd_deliveries db"
  using save_label_deliveries [of i now db] by (auto simp: recordLabelFound_def split: sum.splits prod.splits)

lemma sync_deliveries [simp]: "sd_deliveries (snd (recordTrackingSync i now db)) = sd_deliveries db"
  using append_events_deliveries [of "ts_events i" db] by (auto simp: recordTrackingSync_def split: sum.splits prod.splits)

lemma other_deliveries [simp]:
  "sd_deliveries (snd (scheduleDueJobs lock rnd now db)) = sd_deliveries db"
  "sd_deliveries (snd (claimJobs w n l now db)) = sd_deliveries db"
  "sd_deliveries (snd (completeJob r now db)) = sd_deliveries db"
  "sd_deliveries (snd (markLabelReconciling r db)) = sd_deliveries db"
  "sd_deliveries (snd (recordLabelNotFound r db)) = sd_deliveries db"
  "sd_deliveries (snd (recordCarrierReconciliation c now db)) = sd_deliveries db"
  "sd_deliveries (snd (recordUpsTokenRefresh r t now db)) = sd_deliveries db"
  "sd_deliveries (snd (selectRateQuote q s now db)) = sd_deliveries db"
  by (auto simp: scheduleDueJobs_def claimJobs_def completeJob_def markLabelReconciling_def recordLabelNotFound_def
      recordCarrierReconciliation_def recordUpsTokenRefresh_def selectRateQuote_def Let_def case_prod_unfold
      split: sum.splits option.splits)

lemma effect_next_id: "job_effect op now db db' \<Longrightarrow> sd_next_id db \<le> sd_next_id db'"
  by (induction rule: job_effect.induct) (auto simp: insert_job_def Let_def split: if_splits)

subsection \<open>The delivery table\<close>

definition delivery_ok :: "delivery_row \<Rightarrow> bool" where
  "delivery_ok r \<longleftrightarrow> (dl_status r = Delivering \<longleftrightarrow> dl_lease_expires_at r \<noteq> None)
     \<and> (dl_status r = DeliveryDeadLetter \<longleftrightarrow> dl_dead_lettered_at r \<noteq> None)
     \<and> (dl_status r = DeliverySucceeded \<longleftrightarrow> dl_delivered_at r \<noteq> None)
     \<and> (dl_status r = DeliveryRetry \<longrightarrow> dl_attempt_count r < dl_max_attempts r)
     \<and> is_hex64 (dl_payload_sha256 r)"

definition one_delivery :: "delivery_row list \<Rightarrow> bool" where
  "one_delivery rows \<longleftrightarrow> distinct (map (\<lambda>r. (dl_merchant_id r, dl_endpoint_ref r, dl_event_ref r)) rows)"

definition deliveries_ok :: "ship_db \<Rightarrow> bool" where
  "deliveries_ok db \<longleftrightarrow> distinct (map dl_id (sd_deliveries db)) \<and> distinct (map dl_delivery_ref (sd_deliveries db))
     \<and> (\<forall>r \<in> set (sd_deliveries db). dl_id r < sd_next_id db \<and> delivery_ok r) \<and> one_delivery (sd_deliveries db)"

definition same_delivery_identity :: "(delivery_row \<Rightarrow> delivery_row) \<Rightarrow> bool" where
  "same_delivery_identity f \<longleftrightarrow> (\<forall>r. dl_id (f r) = dl_id r \<and> dl_delivery_ref (f r) = dl_delivery_ref r
     \<and> dl_merchant_id (f r) = dl_merchant_id r \<and> dl_endpoint_ref (f r) = dl_endpoint_ref r
     \<and> dl_event_ref (f r) = dl_event_ref r)"

lemma delivery_identities [simp]:
  "same_delivery_identity (claimed_delivery l now)" "same_delivery_identity (finished_delivery i nx now)"
  "same_delivery_identity (replayed_delivery t)"
  by (simp_all add: same_delivery_identity_def claimed_delivery_def finished_delivery_def replayed_delivery_def)

lemma delivery_updates_ok:
  "deliverable now r \<Longrightarrow> delivery_ok r \<Longrightarrow> delivery_ok (claimed_delivery l now r)"
  "delivering k r \<Longrightarrow> delivery_ok r \<Longrightarrow> delivery_ok (finished_delivery i nx now r)"
  "dead_delivery k r \<Longrightarrow> delivery_ok r \<Longrightarrow> delivery_ok (replayed_delivery t r)"
  by (auto simp: delivery_ok_def deliverable_def claimed_delivery_def delivering_def dead_delivery_def
      replayed_delivery_def)
    (cases "fd_outcome i"; auto simp: finished_delivery_def stored_outcome_def split: if_splits)+

lemma update_deliveries_ok:
  assumes "deliveries_ok db" and "sd_next_id db \<le> sd_next_id db'" and "sd_deliveries db' = sql_update P f (sd_deliveries db)"
    and "same_delivery_identity f"
    and "\<And>r. r \<in> set (sd_deliveries db) \<Longrightarrow> P r \<Longrightarrow> delivery_ok r \<Longrightarrow> delivery_ok (f r)"
  shows "deliveries_ok db'"
proof -
  have keys: "map k (sd_deliveries db') = map k (sd_deliveries db)" if "\<And>r. k (f r) = k r" for k :: "delivery_row \<Rightarrow> 'k"
    unfolding assms(3) using that by (rule map_sql_update)
  have "dl_id r < sd_next_id db' \<and> delivery_ok r" if r: "r \<in> set (sd_deliveries db')" for r
  proof -
    from r obtain r0 where "r0 \<in> set (sd_deliveries db)" "r = (if P r0 then f r0 else r0)"
      unfolding assms(3) set_sql_update by auto
    then show ?thesis using assms(1,2,4,5) by (auto simp: deliveries_ok_def same_delivery_identity_def)
  qed
  moreover have "map dl_id (sd_deliveries db') = map dl_id (sd_deliveries db)"
    "map dl_delivery_ref (sd_deliveries db') = map dl_delivery_ref (sd_deliveries db)"
    "map (\<lambda>r. (dl_merchant_id r, dl_endpoint_ref r, dl_event_ref r)) (sd_deliveries db')
     = map (\<lambda>r. (dl_merchant_id r, dl_endpoint_ref r, dl_event_ref r)) (sd_deliveries db)"
    using assms(4) by (auto intro!: keys simp: same_delivery_identity_def)
  ultimately show ?thesis using assms(1) unfolding deliveries_ok_def one_delivery_def by simp
qed

subsection \<open>The queue\<close>

lemma delivery_unchanged: "deliveries_ok db \<Longrightarrow> sd_deliveries db' = sd_deliveries db \<Longrightarrow> sd_next_id db \<le> sd_next_id db' \<Longrightarrow> deliveries_ok db'"
  by (auto simp: deliveries_ok_def)

text \<open>The rows a claim takes.\<close>

definition delivery_hit :: "int \<Rightarrow> int \<Rightarrow> ship_db \<Rightarrow> delivery_row \<Rightarrow> bool" where
  "delivery_hit n now db r \<longleftrightarrow> dl_id r \<in> dl_id ` set (take (nat (clamp 1 100 n))
     (sort_key delivery_order (sort_key dl_id (filter (deliverable now) (sd_deliveries db)))))"

lemma claim_deliveries: "claimWebhookDeliveries n l now db =
    (sql_updated (delivery_hit n now db) (claimed_delivery (clamp 10 900 l) now) (sd_deliveries db),
     db\<lparr>sd_deliveries := sql_update (delivery_hit n now db) (claimed_delivery (clamp 10 900 l) now) (sd_deliveries db)\<rparr>)"
  by (simp add: claimWebhookDeliveries_def Let_def delivery_hit_def [abs_def])

lemma delivery_candidate:
  assumes "deliveries_ok db" and "r \<in> set (sd_deliveries db)" and "delivery_hit n now db r"
  shows "deliverable now r"
proof -
  from assms(3) obtain c where c: "c \<in> set (sd_deliveries db)" "deliverable now c" "dl_id r = dl_id c"
    by (auto simp: delivery_hit_def dest!: in_set_takeD)
  moreover have "distinct (map dl_id (sd_deliveries db))" using assms(1) by (simp add: deliveries_ok_def)
  ultimately have "c = r" using assms(2) by (metis distinct_map inj_onD)
  then show ?thesis using c by simp
qed

lemma enqueue_deliveries_ok:
  assumes "deliveries_ok db" shows "deliveries_ok (snd (enqueueWebhookDelivery i now db))"
proof -
  have *: "deliveries_ok (db\<lparr>sd_next_id := sd_next_id db + 1, sd_deliveries := sd_deliveries db @ [row]\<rparr>)"
    if "\<not> list_ex (same_delivery row) (sd_deliveries db)" and "\<not> list_ex (\<lambda>x. dl_delivery_ref x = dl_delivery_ref row) (sd_deliveries db)"
      and "dl_id row = sd_next_id db" and "delivery_ok row" for row
  proof -
    have below: "dl_id x < sd_next_id db \<and> delivery_ok x \<and> dl_delivery_ref x \<noteq> dl_delivery_ref row
        \<and> (dl_merchant_id x, dl_endpoint_ref x, dl_event_ref x) \<noteq> (dl_merchant_id row, dl_endpoint_ref row, dl_event_ref row)"
      if "x \<in> set (sd_deliveries db)" for x
      using assms \<open>\<not> list_ex (same_delivery row) _\<close> \<open>\<not> list_ex (\<lambda>x. dl_delivery_ref x = _) _\<close> that
      by (auto simp: deliveries_ok_def list_ex_iff same_delivery_def)
    have "sd_next_id db \<notin> dl_id ` set (sd_deliveries db)" "dl_delivery_ref row \<notin> dl_delivery_ref ` set (sd_deliveries db)"
      "(dl_merchant_id row, dl_endpoint_ref row, dl_event_ref row)
        \<notin> (\<lambda>r. (dl_merchant_id r, dl_endpoint_ref r, dl_event_ref r)) ` set (sd_deliveries db)"
      using below by (metis (no_types, lifting) imageE order_less_irrefl)+
    moreover have "dl_id x < sd_next_id db + 1 \<and> delivery_ok x" if "x \<in> set (sd_deliveries db @ [row])" for x
      using that below \<open>dl_id row = _\<close> \<open>delivery_ok row\<close> by fastforce
    ultimately show ?thesis using assms \<open>dl_id row = _\<close> by (simp add: deliveries_ok_def one_delivery_def)
  qed
  have row: "dl_id r0 = sd_next_id db \<and> dl_status r0 = PendingDelivery \<and> dl_lease_expires_at r0 = None
      \<and> dl_dead_lettered_at r0 = None \<and> dl_delivered_at r0 = None \<and> is_hex64 (dl_payload_sha256 r0)"
    if "delivery_row_of i (sd_next_id db) now = Inr (m, r0)" for m r0
    using that by (auto simp: delivery_row_of_def sbind_Inr_iff assertHash_Inr)
  then have "delivery_ok (r0\<lparr>dl_merchant_id := mid, dl_shipment_id := sid\<rparr>)" "dl_id r0 = sd_next_id db"
    if "delivery_row_of i (sd_next_id db) now = Inr (m, r0)" for m r0 mid sid
    using that by (auto simp: delivery_ok_def)
  then show ?thesis
    using assms by (auto simp: enqueueWebhookDelivery_def Let_def split: sum.splits option.splits
      intro: * delivery_unchanged)
qed

lemma exec_deliveries_ok: "deliveries_ok db \<Longrightarrow> deliveries_ok (apply_op op now db)"
proof -
  assume ok: "deliveries_ok db"
  have mono: "sd_next_id db \<le> sd_next_id (apply_op op now db)"
    using effect_next_id [OF apply_op_effect] .
  show ?thesis
  proof (cases op)
    case (EnqueueDelivery i)
    then show ?thesis using enqueue_deliveries_ok [OF ok] by simp
  next
    case (ClaimDeliveries n l)
    have eq: "sd_deliveries (apply_op op now db) = sql_update (delivery_hit n now db) (claimed_delivery (clamp 10 900 l) now)
        (sd_deliveries db)"
      using ClaimDeliveries by (simp add: claim_deliveries)
    show ?thesis
      by (rule update_deliveries_ok [OF ok mono eq]) (simp_all add: delivery_updates_ok(1) delivery_candidate [OF ok])
  next
    case (FinishDelivery i)
    then show ?thesis
    proof (cases "sd_deliveries (apply_op op now db) = sd_deliveries db")
      case False
      then obtain r nx where eq: "sd_deliveries (apply_op op now db) = sql_update (delivering r) (finished_delivery i nx now) (sd_deliveries db)"
        using FinishDelivery by (auto simp: finishWebhookDelivery_def Let_def split: sum.splits option.splits prod.splits if_splits)
      show ?thesis by (rule update_deliveries_ok [OF ok mono eq]) (simp_all add: delivery_updates_ok)
    qed (use ok mono delivery_unchanged in blast)
  next
    case (ReplayDelivery r0 t0)
    then show ?thesis
    proof (cases "sd_deliveries (apply_op op now db) = sd_deliveries db")
      case False
      then obtain r t where eq: "sd_deliveries (apply_op op now db) = sql_update (dead_delivery r) (replayed_delivery t) (sd_deliveries db)"
        using ReplayDelivery by (auto simp: replayWebhookDeadLetter_def split: sum.splits if_splits)
      show ?thesis by (rule update_deliveries_ok [OF ok mono eq]) (simp_all add: delivery_updates_ok)
    qed (use ok mono delivery_unchanged in blast)
  qed (use ok mono in \<open>auto intro!: delivery_unchanged [OF ok] simp: save_label_deliveries registry_frame\<close>)
qed

subsection \<open>Leases of deliveries\<close>

definition delivery_held :: "string \<Rightarrow> int \<Rightarrow> ship_db \<Rightarrow> bool" where
  "delivery_held k l db \<longleftrightarrow> (\<exists>r \<in> set (sd_deliveries db). delivering k r
     \<and> (case dl_lease_expires_at r of None \<Rightarrow> False | Some t \<Rightarrow> l \<le> t))"

fun delivery_lease :: "ship_op \<Rightarrow> int" where
  "delivery_lease (ClaimDeliveries n l) = clamp 10 900 l * 1000"
| "delivery_lease _ = 0"

fun delivery_releases :: "ship_op \<Rightarrow> string \<Rightarrow> bool" where
  "delivery_releases (FinishDelivery i) k = (js_trim (fd_deliveryRef i) = k)"
| "delivery_releases _ k = False"

fun deliveries_claimed :: "ship_op \<Rightarrow> int \<times> ship_db \<Rightarrow> string list" where
  "deliveries_claimed (ClaimDeliveries n l) s = map dl_delivery_ref (fst (claimWebhookDeliveries n l (fst s) (snd s)))"
| "deliveries_claimed _ s = []"

lemma held_not_hit:
  assumes "deliveries_ok db" and "r \<in> set (sd_deliveries db)" and "delivering k r"
    and "case dl_lease_expires_at r of None \<Rightarrow> False | Some t \<Rightarrow> l \<le> t" and "now < l"
  shows "\<not> delivery_hit n now db r"
  using delivery_candidate [OF assms(1,2), of n now] assms(3-5)
  by (auto simp: deliverable_def delivering_def split: option.splits)

text \<open>The operations that touch a delivery leave one that is held where it is.\<close>

lemma held_stays:
  assumes "sd_deliveries db' = sql_update P f (sd_deliveries db)" and "r \<in> set (sd_deliveries db)" and "\<not> P r"
  shows "r \<in> set (sd_deliveries db')"
  using assms by (auto simp: set_sql_update intro!: image_eqI [of _ _ r])

lemma exec_delivery_held:
  assumes ok: "deliveries_ok db" and held: "delivery_held k l db" and "now < l" and free: "\<not> delivery_releases op k"
  shows "delivery_held k l (apply_op op now db)"
proof -
  from held obtain r where r: "r \<in> set (sd_deliveries db)" "delivering k r"
      "case dl_lease_expires_at r of None \<Rightarrow> False | Some t \<Rightarrow> l \<le> t" by (auto simp: delivery_held_def)
  have keep: ?thesis if "r \<in> set (sd_deliveries (apply_op op now db))"
    using that r(2,3) unfolding delivery_held_def by blast
  show ?thesis
  proof (cases op)
    case (EnqueueDelivery i)
    have "r \<in> set (sd_deliveries (snd (enqueueWebhookDelivery i now db)))"
      using r(1) by (auto simp: enqueueWebhookDelivery_def Let_def split: sum.splits option.splits)
    then show ?thesis using EnqueueDelivery by (intro keep) simp
  next
    case (ClaimDeliveries n l')
    show ?thesis using ClaimDeliveries held_not_hit [OF ok r \<open>now < l\<close>]
      by (intro keep held_stays [OF _ r(1)]) (simp_all add: claim_deliveries)
  next
    case (FinishDelivery i)
    have "sd_deliveries (apply_op op now db) = sd_deliveries db
        \<or> (\<exists>nx. sd_deliveries (apply_op op now db)
            = sql_update (delivering (js_trim (fd_deliveryRef i))) (finished_delivery i nx now) (sd_deliveries db))"
      using FinishDelivery by (auto simp: finishWebhookDelivery_def finish_delivery_args_def sbind_Inr_iff required_Inr Let_def
          split: sum.splits option.splits prod.splits if_splits)
    moreover have "\<not> delivering (js_trim (fd_deliveryRef i)) r" using free r(2) FinishDelivery by (simp add: delivering_def)
    ultimately show ?thesis using r(1) held_stays by (metis keep)
  next
    case (ReplayDelivery v t0)
    have "sd_deliveries (apply_op op now db) = sd_deliveries db
        \<or> (\<exists>w t. sd_deliveries (apply_op op now db) = sql_update (dead_delivery w) (replayed_delivery t) (sd_deliveries db))"
      using ReplayDelivery by (auto simp: replayWebhookDeadLetter_def split: sum.splits if_splits)
    moreover have "\<not> dead_delivery w r" for w using r(2) by (simp add: delivering_def dead_delivery_def)
    ultimately show ?thesis using r(1) held_stays by (metis keep)
  qed (rule keep; simp add: r(1) save_label_deliveries registry_frame)+
qed

interpretation delivery_queue: lease_queue exec deliveries_ok deliveries_claimed delivery_lease delivery_held delivery_releases
proof
  fix s :: "int \<times> ship_db" and op k l
  show "fst s \<le> fst (exec op s)" by (cases op) (simp_all add: exec_def)
  show "deliveries_ok (snd s) \<Longrightarrow> deliveries_ok (snd (exec op s))" by (simp add: exec_def exec_deliveries_ok)
  show "deliveries_ok (snd s) \<Longrightarrow> delivery_held k l (snd s) \<Longrightarrow> fst s < l \<Longrightarrow> \<not> delivery_releases op k
      \<Longrightarrow> delivery_held k l (snd (exec op s))"
    by (simp add: exec_def exec_delivery_held)
  show "k \<notin> set (deliveries_claimed op s)" if ok: "deliveries_ok (snd s)" and h: "delivery_held k l (snd s)" and t: "fst s < l"
  proof (cases op)
    case (ClaimDeliveries n l')
    from h obtain x where x: "x \<in> set (sd_deliveries (snd s))" "delivering k x"
        "case dl_lease_expires_at x of None \<Rightarrow> False | Some t \<Rightarrow> l \<le> t" by (auto simp: delivery_held_def)
    have "y = x" if "y \<in> set (sd_deliveries (snd s))" "dl_delivery_ref y = k" for y
      using ok that x(1,2) unfolding deliveries_ok_def delivering_def by (metis distinct_map inj_onD)
    then show ?thesis
      using ClaimDeliveries held_not_hit [OF ok x t, of n] x(2)
      by (auto simp: claim_deliveries sql_updated_def claimed_delivery_def)
  qed simp_all
  show "delivery_held k (fst s + delivery_lease op) (snd (exec op s))"
    if ok: "deliveries_ok (snd s)" and c: "k \<in> set (deliveries_claimed op s)"
  proof (cases op)
    case (ClaimDeliveries n l')
    let ?f = "claimed_delivery (clamp 10 900 l') (fst s)"
    from c ClaimDeliveries obtain r where r: "r \<in> set (sd_deliveries (snd s))" "delivery_hit n (fst s) (snd s) r" "dl_delivery_ref r = k"
      by (auto simp: claim_deliveries sql_updated_def claimed_delivery_def)
    have "?f r \<in> set (sd_deliveries (snd (exec op s)))"
      using r ClaimDeliveries by (auto simp: exec_def claim_deliveries set_sql_update)
    moreover have "delivering k (?f r)" "dl_lease_expires_at (?f r) = Some (fst s + delivery_lease op)"
      using r(3) ClaimDeliveries by (simp_all add: delivering_def claimed_delivery_def)
    ultimately show ?thesis unfolding delivery_held_def by (intro bexI [of _ "?f r"]) simp_all
  qed (use c in simp_all)
  show "distinct (deliveries_claimed op s)" if "deliveries_ok (snd s)"
  proof (cases op)
    case (ClaimDeliveries n l')
    have "map dl_delivery_ref (sql_updated P (claimed_delivery l2 t) rows) = map dl_delivery_ref (filter P rows)" for P l2 t rows
      by (simp add: sql_updated_def claimed_delivery_def)
    then show ?thesis using that ClaimDeliveries by (simp add: claim_deliveries deliveries_ok_def distinct_map_filter)
  qed simp_all
qed

lemma delivery_run: "delivery_queue.run = run_ops"
  by (intro ext) (simp add: delivery_queue.run_def run_ops_def)

end
