(* ===== verification/Ship_Props.thy ===== *)
theory Ship_Props
  imports Ship_Delivery_Props
begin

section \<open>Guarantees of the shipping tables\<close>

text \<open>
  Runs are lists of operations of any callers, from tables whose queues are empty. The theorems on leases come
  from the two interpretations of the locale of lease queues.
\<close>

definition empty_queues :: "ship_db \<Rightarrow> bool" where
  "empty_queues db \<longleftrightarrow> sd_jobs db = [] \<and> sd_deliveries db = []"

lemma empty_ok: "empty_queues db \<Longrightarrow> jobs_ok db" "empty_queues db \<Longrightarrow> deliveries_ok db"
  by (simp_all add: empty_queues_def jobs_ok_def one_active_def deliveries_ok_def one_delivery_def)

lemma run_ops_jobs_ok: "jobs_ok (snd s) \<Longrightarrow> jobs_ok (snd (run_ops ops s))"
  using job_queue.lease_run_inv [of s ops] by (simp add: job_run)

lemma run_ops_deliveries_ok: "deliveries_ok (snd s) \<Longrightarrow> deliveries_ok (snd (run_ops ops s))"
  using delivery_queue.lease_run_inv [of s ops] by (simp add: delivery_run)

text \<open>C10. The job table keeps its order over every run: references are unique, no two active jobs do the same work,
  a job has a lease and a worker exactly while it runs, a time of death exactly as a dead letter, and a job that
  waits for another attempt has attempts left.\<close>

theorem job_table_invariant:
  assumes "empty_queues db0"
  shows "jobs_ok (snd (run_ops ops (t0, db0)))"
  using assms by (intro run_ops_jobs_ok) (simp add: empty_ok)

text \<open>The delivery table keeps its order over every run, with one delivery per merchant, endpoint and event.\<close>

theorem delivery_table_invariant:
  assumes "empty_queues db0"
  shows "deliveries_ok (snd (run_ops ops (t0, db0)))"
  using assms by (intro run_ops_deliveries_ok) (simp add: empty_ok)

text \<open>C3. A claimed job is in the hands of one worker: until its lease ends no claim hands it out again, whatever
  else happens, unless it is completed or failed in between.\<close>

theorem job_leased_once:
  assumes "empty_queues db0" and "run_ops before (t0, db0) = s" and "k \<in> set (jobs_claimed op s)"
    and "\<forall>x \<in> set ops. \<not> job_releases x k"
    and "fst (run_ops ops (exec op s)) < fst s + job_lease op"
  shows "k \<notin> set (jobs_claimed op' (run_ops ops (exec op s)))"
proof -
  have "jobs_ok (snd s)" using run_ops_jobs_ok [of "(t0, db0)" before] empty_ok(1) [OF assms(1)] assms(2) by simp
  from job_queue.exclusive [OF this assms(3,4)] assms(5) show ?thesis by (simp add: job_run)
qed

text \<open>C23. A claimed webhook delivery is in the hands of one worker until its lease ends, unless it is finished.\<close>

theorem delivery_leased_once:
  assumes "empty_queues db0" and "run_ops before (t0, db0) = s" and "k \<in> set (deliveries_claimed op s)"
    and "\<forall>x \<in> set ops. \<not> delivery_releases x k"
    and "fst (run_ops ops (exec op s)) < fst s + delivery_lease op"
  shows "k \<notin> set (deliveries_claimed op' (run_ops ops (exec op s)))"
proof -
  have "deliveries_ok (snd s)" using run_ops_deliveries_ok [of "(t0, db0)" before] empty_ok(2) [OF assms(1)] assms(2) by simp
  from delivery_queue.exclusive [OF this assms(3,4)] assms(5) show ?thesis by (simp add: delivery_run)
qed

subsection \<open>Confirmed labels\<close>

definition label_confirmed :: "int \<Rightarrow> ship_db \<Rightarrow> bool" where
  "label_confirmed i db \<longleftrightarrow> (\<exists>s \<in> set (sd_shipments db). sh_id s = i \<and> sh_label_outcome s = Confirmed)"

lemma insert_job_shipments [simp]: "sd_shipments (snd (insert_job rnd now s db)) = sd_shipments db"
  by (simp add: insert_job_def Let_def)

lemma insert_jobs_shipments [simp]: "sd_shipments (snd (insert_jobs rnd now ss db)) = sd_shipments db"
  by (induction ss arbitrary: db) (simp_all add: Let_def case_prod_unfold)

lemma append_events_shipments: "sd_shipments (snd (append_events es db)) = sd_shipments db"
proof (induction es arbitrary: db)
  case (Cons e es)
  have "sd_shipments (snd (appendTrackingEvent e db)) = sd_shipments db"
    by (auto simp: appendTrackingEvent_def Let_def split: sum.splits option.splits)
  then show ?case using Cons.IH by (auto split: sum.splits prod.splits)
qed simp

text \<open>Updates that leave confirmed rows confirmed.\<close>

lemma confirmed_update:
  assumes "label_confirmed i db"
    and "\<And>s. P s \<Longrightarrow> sh_label_outcome s = Confirmed \<Longrightarrow> sh_id (f s) = sh_id s \<and> sh_label_outcome (f s) = Confirmed"
  shows "label_confirmed i (update_shipments P f db)"
proof -
  from assms(1) obtain s where s: "s \<in> set (sd_shipments db)" "sh_id s = i" "sh_label_outcome s = Confirmed"
    by (auto simp: label_confirmed_def)
  then have "sh_id (if P s then f s else s) = i" "sh_label_outcome (if P s then f s else s) = Confirmed"
    using assms(2) by simp_all
  then show ?thesis unfolding label_confirmed_def using mem_sql_update [OF s(1), of P f] by auto
qed

lemma confirmed_same: "label_confirmed i db \<Longrightarrow> sd_shipments db' = sd_shipments db \<Longrightarrow> label_confirmed i db'"
  by (simp add: label_confirmed_def)

lemma confirmed_saved: "label_confirmed j db \<Longrightarrow> label_confirmed j (snd (saveLabel i now db))"
proof -
  assume c: "label_confirmed j db"
  have "sd_shipments db1 = sd_shipments db" if "insert_label i a now db = (r, db1)" for a r db1
    using that by (auto simp: insert_label_def Let_def split: option.splits prod.splits if_splits)
  then show ?thesis
    using c by (auto simp: saveLabel_def Let_def labelled_row_def split: sum.splits prod.splits
      intro!: confirmed_update intro: confirmed_same)
qed

lemma confirmed_found: "label_confirmed j db \<Longrightarrow> label_confirmed j (snd (recordLabelFound i now db))"
  using confirmed_saved [of j db i now]
  by (auto simp: recordLabelFound_def split: sum.splits prod.splits intro!: confirmed_update)

lemma confirmed_synced: "label_confirmed j db \<Longrightarrow> label_confirmed j (snd (recordTrackingSync i now db))"
  using confirmed_same [of j db "snd (append_events (ts_events i) db)"] append_events_shipments [of "ts_events i" db]
  by (auto simp: recordTrackingSync_def synced_row_def split: sum.splits prod.splits intro!: confirmed_update)

lemma confirmed_marked: "label_confirmed j db \<Longrightarrow> label_confirmed j (snd (markLabelOutcomeUnknown rnd i now db))"
proof -
  assume c: "label_confirmed j db"
  have "label_confirmed j db2" if "insert_job rnd now s (update_shipments (unconfirmed r) f db) = (x, db2)" for s r f x db2
  proof -
    have "label_confirmed j (update_shipments (unconfirmed r) f db)"
      by (rule confirmed_update [OF c]) (simp add: unconfirmed_def)
    then show ?thesis
      using insert_job_shipments [of rnd now s "update_shipments (unconfirmed r) f db"] that
      by (metis confirmed_same snd_conv)
  qed
  then show ?thesis
    using c by (auto simp: markLabelOutcomeUnknown_def Let_def split: sum.splits option.splits prod.splits)
qed

lemma confirmed_failed: "label_confirmed j db \<Longrightarrow> label_confirmed j (snd (failJob i now db))"
proof -
  assume c: "label_confirmed j db"
  have "label_confirmed j (count_shipment_failure f d)" if "sd_shipments d = sd_shipments db" for f d
    unfolding count_shipment_failure_def by (rule confirmed_update [OF confirmed_same [OF c that]]) simp
  then show ?thesis
    using c by (auto simp: failJob_def Let_def audit_dead_letter_def count_connection_failure_def label_confirmed_def
      split: sum.splits option.splits)
qed

lemma quiet_shipments:
  "sd_shipments (snd (scheduleDueJobs lock rnd now db)) = sd_shipments db"
  "sd_shipments (snd (claimJobs w n l now db)) = sd_shipments db"
  "sd_shipments (snd (completeJob r now db)) = sd_shipments db"
  "sd_shipments (snd (replayDeadLetter r t db)) = sd_shipments db"
  "sd_shipments (snd (recordUpsTokenRefresh r t now db)) = sd_shipments db"
  "sd_shipments (snd (claimWebhookDeliveries n l now db)) = sd_shipments db"
  "sd_shipments (snd (finishWebhookDelivery f now db)) = sd_shipments db"
  "sd_shipments (snd (replayWebhookDeadLetter r t db)) = sd_shipments db"
  "sd_shipments (snd (enqueueWebhookDelivery d now db)) = sd_shipments db"
  by (auto simp: scheduleDueJobs_def Let_def case_prod_unfold claimJobs_def completeJob_def recordUpsTokenRefresh_def
      claimWebhookDeliveries_def finishWebhookDelivery_def replayWebhookDeadLetter_def enqueueWebhookDelivery_def
      split: sum.splits option.splits intro: replay_cases [of r t db])

lemma confirmed_updates:
  assumes "label_confirmed i db"
  shows "label_confirmed i (snd (markLabelReconciling r db))" "label_confirmed i (snd (recordLabelNotFound r db))"
    "label_confirmed i (snd (recordCarrierReconciliation c now db))"
    "label_confirmed i (snd (selectRateQuote q sref now db))"
proof -
  note upd = confirmed_update [OF assms]
  show "label_confirmed i (snd (markLabelReconciling r db))"
    using assms by (auto simp: markLabelReconciling_def split: sum.splits intro!: upd)
  show "label_confirmed i (snd (recordLabelNotFound r db))"
    using assms by (auto simp: recordLabelNotFound_def unconfirmed_def split: sum.splits intro!: upd)
  show "label_confirmed i (snd (recordCarrierReconciliation c now db))"
    using assms by (auto simp: recordCarrierReconciliation_def reconciled_row_def split: sum.splits intro!: upd)
  have "label_confirmed i (db\<lparr>sd_quotes := rows\<rparr>)" for rows using assms by (rule confirmed_same) simp
  then show "label_confirmed i (snd (selectRateQuote q sref now db))"
    using assms by (auto simp: selectRateQuote_def split: sum.splits option.splits intro!: confirmed_update)
qed

lemma confirmed_registry: "label_confirmed i db \<Longrightarrow> label_confirmed i (apply_registry op now db)"
proof -
  assume c: "label_confirmed i db"
  have "label_confirmed i (update_shipments P (managed_shipment m now) db)" for P m
    by (rule confirmed_update [OF c]) (simp add: managed_shipment_def)
  then show ?thesis
    using registry_shipments [of op now db] c by (auto simp: label_confirmed_def)
qed

lemma confirmed_step: "label_confirmed i db \<Longrightarrow> label_confirmed i (apply_op op now db)"
  by (cases op) (simp_all add: confirmed_saved confirmed_found confirmed_synced confirmed_marked confirmed_failed
      confirmed_updates confirmed_registry confirmed_same [OF _ quiet_shipments(1)] confirmed_same [OF _ quiet_shipments(2)]
      confirmed_same [OF _ quiet_shipments(3)] confirmed_same [OF _ quiet_shipments(4)]
      confirmed_same [OF _ quiet_shipments(5)] confirmed_same [OF _ quiet_shipments(6)]
      confirmed_same [OF _ quiet_shipments(7)] confirmed_same [OF _ quiet_shipments(8)]
      confirmed_same [OF _ quiet_shipments(9)])

text \<open>C7. No operation takes a confirmed label back: not the reconciliation of an unknown outcome that comes late, not
  a carrier that does not find the label, not a failed job.\<close>

theorem confirmed_label_stays:
  assumes "label_confirmed i (snd s)"
  shows "label_confirmed i (snd (run_ops ops s))"
  using assms unfolding run_ops_def
  by (induction ops arbitrary: s) (simp_all add: exec_def confirmed_step)

subsection \<open>Failed jobs\<close>

lemma fail_result:
  assumes "jobs_ok db" and "r \<in> set (sd_jobs db)" and "running_job k r" and "fail_args i = Inr (k, code, msg, due)"
    and "f = failed_job code msg (fj_retryable i) due now"
  shows "failJob i now db = (Inr (jb_status (f r)), audit_dead_letter (f r) code (count_connection_failure (f r)
      (count_shipment_failure (f r) (db\<lparr>sd_jobs := sql_update (running_job k) f (sd_jobs db)\<rparr>))))"
    and "f r \<in> set (sql_update (running_job k) f (sd_jobs db))"
proof -
  have "distinct (map jb_job_ref (sd_jobs db))" "jb_job_ref r = k" "jb_status r = Running"
    using assms(1,3) by (simp_all add: jobs_ok_def running_job_def)
  from unique_row_and [OF this(1) assms(2) this(2), of "\<lambda>x. jb_status x = Running"] this(3)
  have one: "filter (running_job k) (sd_jobs db) = [r]" by (simp add: running_job_def [abs_def])
  then show "failJob i now db = (Inr (jb_status (f r)), audit_dead_letter (f r) code (count_connection_failure (f r)
      (count_shipment_failure (f r) (db\<lparr>sd_jobs := sql_update (running_job k) f (sd_jobs db)\<rparr>))))"
    using assms(4,5) by (simp add: failJob_def Let_def sql_updated_def)
  show "f r \<in> set (sql_update (running_job k) f (sd_jobs db))"
    using mem_sql_update [OF assms(2), of "running_job k" f] assms(3) by simp
qed

text \<open>C25. What becomes of a running job that fails: another attempt at the given time when the error allows it and
  attempts are left, and otherwise a dead letter; either way it is no longer leased, and the answer says which.\<close>

theorem failed_job_settled:
  assumes "jobs_ok db" and "r \<in> set (sd_jobs db)" and "running_job k r" and "fail_args i = Inr (k, code, msg, due)"
  shows "\<exists>db'. failJob i now db = (Inr (if fj_retryable i \<and> jb_attempt_count r < jb_max_attempts r then Retry else DeadLetter), db')
    \<and> (\<exists>r' \<in> set (sd_jobs db'). jb_job_ref r' = k \<and> jb_worker_ref r' = None \<and> jb_attempt_count r' = jb_attempt_count r
        \<and> (\<forall>t. claimable t r' \<longleftrightarrow> fj_retryable i \<and> jb_attempt_count r < jb_max_attempts r \<and> due \<le> t))
    \<and> (filter (\<lambda>a. da_ref a = k) (drop (length (sd_audit db)) (sd_audit db')) \<noteq> []
        \<longleftrightarrow> \<not> (fj_retryable i \<and> jb_attempt_count r < jb_max_attempts r))"
proof -
  let ?f = "failed_job code msg (fj_retryable i) due now"
  let ?db = "audit_dead_letter (?f r) code (count_connection_failure (?f r) (count_shipment_failure (?f r)
      (db\<lparr>sd_jobs := sql_update (running_job k) ?f (sd_jobs db)\<rparr>)))"
  have k: "jb_job_ref r = k" using assms(3) by (simp add: running_job_def)
  note fj = fail_result(1) [OF assms refl]
  have "?f r \<in> set (sd_jobs ?db)" using fail_result(2) [OF assms refl] by (simp add: fail_frame)
  moreover have "claimable t (?f r) \<longleftrightarrow> fj_retryable i \<and> jb_attempt_count r < jb_max_attempts r \<and> due \<le> t" for t
    by (auto simp: claimable_def failed_job_def exhausted_def)
  ultimately show ?thesis
    using k unfolding fj
    by (intro exI [of _ ?db] conjI bexI [of _ "?f r"])
      (auto simp: failed_job_def exhausted_def audit_dead_letter_def count_connection_failure_def
        count_shipment_failure_def update_shipments_def)
qed

end
