(* ===== verification/Ship_Schedule.thy ===== *)
theory Ship_Schedule
  imports Ship_Props
begin

section \<open>Scheduling, dead letters and crashes\<close>

subsection \<open>Due work is scheduled\<close>

text \<open>References not yet drawn are not in use: the random part of a reference does not collide.\<close>

definition fresh_refs :: "(int \<Rightarrow> string) \<Rightarrow> ship_db \<Rightarrow> bool" where
  "fresh_refs rnd db \<longleftrightarrow> (\<forall>i j. sd_next_id db \<le> i \<longrightarrow> sd_next_id db \<le> j \<longrightarrow> rnd i = rnd j \<longrightarrow> i = j)
     \<and> (\<forall>i \<ge> sd_next_id db. rnd i \<notin> jb_job_ref ` set (sd_jobs db))"

definition has_job :: "job_seed \<Rightarrow> ship_db \<Rightarrow> bool" where
  "has_job s db \<longleftrightarrow> (\<exists>x \<in> set (sd_jobs db). active_job x \<and> jb_job_type x = js_type s \<and> jb_dedupe_key x = js_dedupe s)"

text \<open>What an insertion leaves of the other tables.\<close>

definition grows :: "ship_db \<Rightarrow> ship_db \<Rightarrow> bool" where
  "grows db db' \<longleftrightarrow> set (sd_jobs db) \<subseteq> set (sd_jobs db') \<and> sd_shipments db' = sd_shipments db
     \<and> sd_labels db' = sd_labels db \<and> sd_connections db' = sd_connections db"

lemma grows_refl [simp]: "grows db db" and grows_trans: "grows a b \<Longrightarrow> grows b c \<Longrightarrow> grows a c"
  by (auto simp: grows_def)

lemma grows_has_job: "grows db db' \<Longrightarrow> has_job s db \<Longrightarrow> has_job s db'"
  by (auto simp: grows_def has_job_def)

lemma insert_job_covers:
  assumes "fresh_refs rnd db"
  shows "fresh_refs rnd (snd (insert_job rnd now s db)) \<and> has_job s (snd (insert_job rnd now s db))
    \<and> grows db (snd (insert_job rnd now s db))"
proof (cases "job_conflicts (new_job rnd (sd_next_id db) now s) (sd_jobs db)")
  case True
  have "rnd (sd_next_id db) \<notin> jb_job_ref ` set (sd_jobs db)" using assms by (simp add: fresh_refs_def)
  then have "has_job s db"
    using True by (auto simp: job_conflicts_def list_ex_iff new_job_def same_work_def has_job_def image_iff)
  then show ?thesis using True assms by (auto simp: insert_job_def Let_def fresh_refs_def has_job_def grows_def)
next
  case False
  have "rnd i \<noteq> rnd (sd_next_id db)" if "sd_next_id db + 1 \<le> i" for i
  proof
    assume "rnd i = rnd (sd_next_id db)"
    moreover have "sd_next_id db \<le> i" using that by simp
    ultimately have "i = sd_next_id db" using assms unfolding fresh_refs_def by blast
    then show False using that by simp
  qed
  then show ?thesis using assms False
    by (auto simp: insert_job_def Let_def fresh_refs_def has_job_def grows_def new_job_def active_job_def)
qed

lemma insert_jobs_covers:
  "fresh_refs rnd db \<Longrightarrow> fresh_refs rnd (snd (insert_jobs rnd now ss db))
    \<and> (\<forall>s \<in> set ss. has_job s (snd (insert_jobs rnd now ss db))) \<and> grows db (snd (insert_jobs rnd now ss db))"
proof (induction ss arbitrary: db)
  case (Cons s ss)
  let ?db1 = "snd (insert_job rnd now s db)"
  have 1: "fresh_refs rnd ?db1" "has_job s ?db1" "grows db ?db1" using insert_job_covers [OF Cons.prems] by simp_all
  have "snd (insert_jobs rnd now (s # ss) db) = snd (insert_jobs rnd now ss ?db1)"
    by (simp add: Let_def case_prod_unfold)
  then show ?case using Cons.IH [OF 1(1)] 1(2,3) by (auto intro: grows_has_job grows_trans)
qed simp

lemma seeds_grow: "grows db db' \<Longrightarrow> tracking_seeds now db' = tracking_seeds now db"
  "grows db db' \<Longrightarrow> reconciliation_seeds now db' = reconciliation_seeds now db"
  "grows db db' \<Longrightarrow> label_outcome_seeds db' = label_outcome_seeds db"
  "grows db db' \<Longrightarrow> token_seeds now db' = token_seeds now db"
  by (simp_all add: grows_def tracking_seeds_def reconciliation_seeds_def label_outcome_seeds_def token_seeds_def)

lemma schedule_covers:
  assumes "fresh_refs rnd db" and db4_def: "db4 = snd (scheduleDueJobs True rnd now db)"
  shows "grows db db4" and "\<And>s. s \<in> set (tracking_seeds now db @ reconciliation_seeds now db
    @ label_outcome_seeds db @ token_seeds now db) \<Longrightarrow> has_job s db4"
proof -
  define db1 where "db1 = snd (insert_jobs rnd now (tracking_seeds now db) db)"
  define db2 where "db2 = snd (insert_jobs rnd now (reconciliation_seeds now db1) db1)"
  define db3 where "db3 = snd (insert_jobs rnd now (label_outcome_seeds db2) db2)"
  have db4: "db4 = snd (insert_jobs rnd now (token_seeds now db3) db3)"
    by (simp add: db4_def scheduleDueJobs_def Let_def case_prod_unfold db1_def db2_def db3_def)
  note cover = insert_jobs_covers [where rnd = rnd and now = now]
  have 1: "fresh_refs rnd db1" "\<forall>s \<in> set (tracking_seeds now db). has_job s db1" "grows db db1"
    using cover [OF assms(1)] unfolding db1_def by simp_all
  have 2: "fresh_refs rnd db2" "\<forall>s \<in> set (reconciliation_seeds now db1). has_job s db2" "grows db1 db2"
    using cover [OF 1(1)] unfolding db2_def by simp_all
  have 3: "fresh_refs rnd db3" "\<forall>s \<in> set (label_outcome_seeds db2). has_job s db3" "grows db2 db3"
    using cover [OF 2(1)] unfolding db3_def by simp_all
  have 4: "\<forall>s \<in> set (token_seeds now db3). has_job s db4" "grows db3 db4"
    using cover [OF 3(1)] unfolding db4 by simp_all
  have g: "grows db db2" "grows db db3" "grows db1 db4" "grows db2 db4"
    using 1(3) 2(3) 3(3) 4(2) by (blast intro: grows_trans)+
  show "grows db db4" using g(2) 4(2) by (rule grows_trans)
  show "has_job s db4" if "s \<in> set (tracking_seeds now db @ reconciliation_seeds now db
    @ label_outcome_seeds db @ token_seeds now db)" for s
    using that 1(2) 2(2) 3(2) 4 g
    by (auto simp: seeds_grow [OF 1(3)] seeds_grow [OF g(1)] seeds_grow [OF g(2)] intro: grows_has_job)
qed

text \<open>C29. All work that is due has an active job once the scheduler held its lock.\<close>

theorem due_work_scheduled:
  assumes "fresh_refs rnd db"
    and "s \<in> set (tracking_seeds now db @ reconciliation_seeds now db @ label_outcome_seeds db @ token_seeds now db)"
  shows "has_job s (snd (scheduleDueJobs True rnd now db))"
  using schedule_covers(2) [OF assms(1) refl assms(2)] .

subsection \<open>A dead letter that comes back\<close>

lemma fail_tables:
  assumes "failJob i now db = (Inr st, db1)" and "s \<in> set (sd_shipments db)"
  shows "\<exists>s' \<in> set (sd_shipments db1). sh_shipment_ref s' = sh_shipment_ref s \<and> sh_label_outcome s' = sh_label_outcome s"
proof -
  have *: "\<exists>s' \<in> set (sd_shipments (count_shipment_failure f d)). sh_shipment_ref s' = sh_shipment_ref s
      \<and> sh_label_outcome s' = sh_label_outcome s" if "sd_shipments d = sd_shipments db" for f d
    unfolding count_shipment_failure_def update_shipments_frame that
    by (rule bexI [OF _ mem_sql_update [OF assms(2)]]) simp
  have "sd_shipments (audit_dead_letter f c (count_connection_failure f d)) = sd_shipments d" for f c d
    by (simp add: audit_dead_letter_def count_connection_failure_def)
  then show ?thesis
    using assms(1) * by (auto simp: failJob_def Let_def split: sum.splits option.splits)
qed

text \<open>A job that gives up on the outcome of a label leaves the shipment as it is, so the next run of the scheduler
  makes a new job for it, and the dead letter can no longer be replayed.\<close>

theorem given_up_outcome_rescheduled:
  assumes "jobs_ok db" and "r \<in> set (sd_jobs db)" and "running_job (js_trim (fj_jobRef i)) r"
    and "failJob i now db = (Inr DeadLetter, db1)"
    and "s \<in> set (sd_shipments db)" and "sh_label_outcome s \<in> {OutcomeUnknown, Reconciling}"
    and "jb_job_type r = LabelOutcomeReconciliation" and "jb_dedupe_key r = sh_shipment_ref s"
    and "fresh_refs rnd db1" and "db2 = snd (scheduleDueJobs True rnd now' db1)"
  shows "has_job (shipment_seed LabelOutcomeReconciliation 10 10 s) db2
    \<and> (\<exists>e. replayDeadLetter (fj_jobRef i) t db2 = (Inl e, db2))"
proof -
  let ?k = "js_trim (fj_jobRef i)"
  have "jobs_ok db1" using effect_jobs_ok [OF fail_effect [OF refl, of i now db] assms(1)] assms(4) by simp
  then have ok: "jobs_ok db2" unfolding assms(10) by (rule effect_jobs_ok [OF schedule_effect])
  from fail_tables [OF assms(4,5)] obtain s' where s': "s' \<in> set (sd_shipments db1)"
      "sh_shipment_ref s' = sh_shipment_ref s" "sh_label_outcome s' = sh_label_outcome s" by blast
  then have "shipment_seed LabelOutcomeReconciliation 10 10 s' \<in> set (label_outcome_seeds db1)"
    using assms(6) by (auto simp: label_outcome_seeds_def)
  then have "has_job (shipment_seed LabelOutcomeReconciliation 10 10 s') db2"
    by (intro schedule_covers(2) [OF assms(9,10), of _]) simp
  then have job: "has_job (shipment_seed LabelOutcomeReconciliation 10 10 s) db2"
    using s'(2) by (simp add: has_job_def shipment_seed_def)
  from assms(4) obtain code msg due where args: "fail_args i = Inr (?k, code, msg, due)"
    by (auto simp: failJob_def fail_args_def sbind_Inr_iff ref_arg_Inr split: sum.splits)
  define x where "x = failed_job code msg (fj_retryable i) due now r"
  have "jb_status x = DeadLetter" "x \<in> set (sd_jobs db1)"
    using fail_result [OF assms(1-3) args refl] assms(4) by (auto simp: x_def fail_frame)
  then have x: "x \<in> set (sd_jobs db2)" "jb_job_ref x = ?k" "jb_status x = DeadLetter" "jb_job_type x = LabelOutcomeReconciliation"
      "jb_dedupe_key x = sh_shipment_ref s"
    using schedule_covers(1) [OF assms(9,10)] assms(3,7,8,10)
    by (auto simp: x_def grows_def failed_job_def running_job_def)
  have "distinct (map jb_job_ref (sd_jobs db2))" using ok by (simp add: jobs_ok_def)
  from unique_row_and [OF this x(1,2), of "\<lambda>y. jb_status y = DeadLetter"] x(3)
  have "filter (dead_job ?k) (sd_jobs db2) = [x]" by (simp add: dead_job_def [abs_def])
  moreover have "list_ex (\<lambda>y. active_job y \<and> same_work x y) (sd_jobs db2)"
    using job x(4,5) by (auto simp: has_job_def shipment_seed_def list_ex_iff same_work_def)
  ultimately show ?thesis using job
    by (auto simp: replayDeadLetter_def sbind_Inr_iff ref_arg_Inr split: sum.splits)
qed

end
