(* ===== verification/Ship_Workers.thy ===== *)
theory Ship_Workers
  imports Complex_Main Ship_Schedule
begin

section \<open>The workers of the shipping jobs\<close>

text \<open>
  \<open>src/src/server/shipping/veygritShipWorkers.ts\<close>: what a worker does with a job, how errors become retries, and
  the pool of loops that share the cursor of a batch. Carriers are reached through a gateway, whose answers are
  parameters. The clock of the worker and the clock of the database are two numbers. Times and random numbers
  are exact: the product in \<open>retryDelay\<close> is one of rationals where the code rounds doubles.
\<close>

subsection \<open>Errors\<close>

record worker_error =
  er_code :: string
  er_message :: string
  er_retryable :: bool
  er_retryAfterMs :: "int option"
  er_responseStatus :: "int option"

text \<open>What can be thrown: an error of the workers, an object with a carrier's \<open>common.error\<close> (its code and
  message when they are texts, whether \<open>retryable\<close> is true, its delay when it is a number), any other error, and
  anything else.\<close>

datatype thrown =
    WorkerError worker_error
  | CommonError "string option" "string option" bool "int option"
  | ErrorThrown string
  | OtherThrown

definition worker_failure :: "string \<Rightarrow> string \<Rightarrow> bool \<Rightarrow> thrown" where
  "worker_failure code msg retryable = WorkerError \<lparr>er_code = code, er_message = msg, er_retryable = retryable,
     er_retryAfterMs = None, er_responseStatus = None\<rparr>"

fun normalizedError :: "thrown \<Rightarrow> worker_error" where
  "normalizedError (WorkerError e) = e"
| "normalizedError (CommonError code msg retryable ms) =
     \<lparr>er_code = (case code of Some c \<Rightarrow> c | None \<Rightarrow> ''CARRIER_ERROR''),
      er_message = (case msg of Some m \<Rightarrow> m | None \<Rightarrow> ''Carrier worker request failed.''),
      er_retryable = retryable, er_retryAfterMs = ms, er_responseStatus = None\<rparr>"
| "normalizedError (ErrorThrown m) = \<lparr>er_code = ''WORKER_UNEXPECTED_ERROR'', er_message = m, er_retryable = True,
     er_retryAfterMs = None, er_responseStatus = None\<rparr>"
| "normalizedError OtherThrown = \<lparr>er_code = ''WORKER_UNEXPECTED_ERROR'', er_message = ''Worker operation failed.'',
     er_retryable = True, er_retryAfterMs = None, er_responseStatus = None\<rparr>"

fun of_js_error :: "js_error \<Rightarrow> thrown" where
  "of_js_error (JsError m) = ErrorThrown m"
| "of_js_error (JsTypeError m) = ErrorThrown m"

definition jobRequirement :: "string option \<Rightarrow> string \<Rightarrow> thrown + string" where
  "jobRequirement value name = (case value of
     Some (c # cs) \<Rightarrow> Inr (c # cs)
   | _ \<Rightarrow> Inl (worker_failure ''WORKER_JOB_INVALID'' (name @ '' is missing from worker job.'') False))"

subsection \<open>Delays\<close>

definition six_hours :: int where "six_hours = 6 * 60 * 60000"

definition retry_base :: "int \<Rightarrow> int" where
  "retry_base attempt = min six_hours (5000 * 2 ^ nat (max 0 (attempt - 1)))"

definition jittered :: "int \<Rightarrow> rat \<Rightarrow> int" where
  "jittered base u = \<lceil>of_int base * (4 / 5 + u * (2 / 5))\<rceil>"

definition retryDelay :: "int \<Rightarrow> int option \<Rightarrow> rat \<Rightarrow> int" where
  "retryDelay attempt retryAfterMs u = (case retryAfterMs of
     Some ms \<Rightarrow> max 1000 (min six_hours ms) | None \<Rightarrow> jittered (retry_base attempt) u)"

subsection \<open>The gateway to the carriers\<close>

record tracking_result =
  tr_status :: "ship_status option"
  tr_events :: "event_input list"
  tr_nextPollAt :: "int option option"
  tr_nextReconcileAt :: "int option option"

record reconciliation_result =
  rr_status :: "ship_status option"
  rr_nextReconcileAt :: "int option option"

datatype label_result = FoundLabel label_input | NoLabel | PendingLabel

record gateway =
  gw_fetchTracking :: "claimed_job \<Rightarrow> thrown + tracking_result"
  gw_reconcileCarrierState :: "claimed_job \<Rightarrow> thrown + reconciliation_result"
  gw_reconcileLabelOutcome :: "claimed_job \<Rightarrow> thrown + label_result"
  gw_refreshUpsToken :: "claimed_job \<Rightarrow> thrown + int option"

text \<open>\<open>ConnectorCarrierWorkerGateway\<close>: UPS through a connector, DHL through a function, other carriers refused.
  A connector is its tracking and its token refresh.\<close>

record 'response connectors =
  cd_resolveUpsConnector :: "string \<Rightarrow> thrown + ((string \<Rightarrow> thrown + 'response) \<times> (thrown + int option))"
  cd_normalizeUpsTracking :: "'response \<Rightarrow> claimed_job \<Rightarrow> thrown + tracking_result"
  cd_fetchDhlTracking :: "claimed_job \<Rightarrow> thrown + tracking_result"
  cd_reconcileLabelOutcome :: "claimed_job \<Rightarrow> thrown + label_result"
  cd_reconcileCarrierState :: "(claimed_job \<Rightarrow> thrown + reconciliation_result) option"

definition fetchTracking :: "'response connectors \<Rightarrow> claimed_job \<Rightarrow> thrown + tracking_result" where
  "fetchTracking d job =
     (if cj_carrier job = Some ''ups'' then
        sbind (jobRequirement (cj_connectionRef job) ''connectionRef'') (\<lambda>c.
        sbind (cd_resolveUpsConnector d c) (\<lambda>connector.
        sbind (jobRequirement (cj_trackingNumber job) ''trackingNumber'') (\<lambda>t.
        sbind (fst connector t) (\<lambda>response. cd_normalizeUpsTracking d response job))))
      else if cj_carrier job = Some ''dhl'' then cd_fetchDhlTracking d job
      else Inl (worker_failure ''WORKER_CARRIER_UNSUPPORTED'' ''Tracking job has no supported carrier.'' False))"

definition reconcileCarrierState :: "'response connectors \<Rightarrow> claimed_job \<Rightarrow> thrown + reconciliation_result" where
  "reconcileCarrierState d job = (case cd_reconcileCarrierState d of
     Some f \<Rightarrow> f job
   | None \<Rightarrow> (if cj_trackingNumber job \<in> {None, Some []}
       then Inl (worker_failure ''CARRIER_RECONCILIATION_REFERENCE_MISSING''
         ''Carrier reconciliation needs a tracking reference.'' False)
       else sbind (fetchTracking d job) (\<lambda>t. Inr \<lparr>rr_status = tr_status t, rr_nextReconcileAt = tr_nextReconcileAt t\<rparr>)))"

definition refreshUpsToken :: "'response connectors \<Rightarrow> claimed_job \<Rightarrow> thrown + int option" where
  "refreshUpsToken d job =
     (if cj_carrier job \<noteq> Some ''ups'' then Inl (worker_failure ''WORKER_JOB_INVALID'' ''Token refresh job is not for UPS.'' False)
      else sbind (jobRequirement (cj_connectionRef job) ''connectionRef'') (\<lambda>c.
        sbind (cd_resolveUpsConnector d c) (\<lambda>connector. snd connector)))"

definition connector_gateway :: "'response connectors \<Rightarrow> gateway" where
  "connector_gateway d = \<lparr>gw_fetchTracking = fetchTracking d, gw_reconcileCarrierState = reconcileCarrierState d,
     gw_reconcileLabelOutcome = cd_reconcileLabelOutcome d, gw_refreshUpsToken = refreshUpsToken d\<rparr>"

subsection \<open>Processing a job\<close>

text \<open>A statement of the store in the worker: its error is thrown.\<close>

definition stored :: "'a result \<times> ship_db \<Rightarrow> (thrown + unit) \<times> ship_db" where
  "stored r = (case r of (Inl e, db) \<Rightarrow> (Inl (of_js_error e), db) | (Inr _, db) \<Rightarrow> (Inr (), db))"

definition or_default :: "int option option \<Rightarrow> int \<Rightarrow> int option option" where
  "or_default v t = (case v of None \<Rightarrow> Some (Some t) | Some x \<Rightarrow> Some x)"

definition process_tracking :: "gateway \<Rightarrow> int \<Rightarrow> int \<Rightarrow> claimed_job \<Rightarrow> ship_db \<Rightarrow> (thrown + unit) \<times> ship_db" where
  "process_tracking gw clk now job db =
     (case sbind (jobRequirement (cj_shipmentRef job) ''shipmentRef'') (\<lambda>s.
         sbind (jobRequirement (cj_trackingNumber job) ''trackingNumber'') (\<lambda>_.
         sbind (gw_fetchTracking gw job) (\<lambda>r. Inr (s, r)))) of
        Inl e \<Rightarrow> (Inl e, db)
      | Inr (s, r) \<Rightarrow> stored (recordTrackingSync \<lparr>ts_shipmentRef = s, ts_status = tr_status r,
          ts_nextPollAt = (if tr_status r = Some Delivered then tr_nextPollAt r
            else or_default (tr_nextPollAt r) (clk + 15 * 60000)),
          ts_nextReconcileAt = or_default (tr_nextReconcileAt r) (clk + six_hours), ts_events = tr_events r\<rparr> now db))"

definition process_reconciliation :: "gateway \<Rightarrow> int \<Rightarrow> int \<Rightarrow> claimed_job \<Rightarrow> ship_db \<Rightarrow> (thrown + unit) \<times> ship_db" where
  "process_reconciliation gw clk now job db =
     (case sbind (jobRequirement (cj_shipmentRef job) ''shipmentRef'') (\<lambda>s.
         sbind (gw_reconcileCarrierState gw job) (\<lambda>r. Inr (s, r))) of
        Inl e \<Rightarrow> (Inl e, db)
      | Inr (s, r) \<Rightarrow> stored (recordCarrierReconciliation \<lparr>rc_shipmentRef = s, rc_status = rr_status r,
          rc_nextReconcileAt = (if rr_status r \<in> {Some Delivered, Some VoidedShipment} then rr_nextReconcileAt r
            else or_default (rr_nextReconcileAt r) (clk + six_hours))\<rparr> now db))"

definition deadline_passed :: "claimed_job \<Rightarrow> int \<Rightarrow> bool" where
  "deadline_passed job clk = (case cj_deadlineAt job of None \<Rightarrow> False | Some t \<Rightarrow> t \<le> clk)"

definition pending_label :: "claimed_job \<Rightarrow> int \<Rightarrow> thrown" where
  "pending_label job clk = (if deadline_passed job clk
     then worker_failure ''LABEL_RECONCILIATION_DEADLINE_EXCEEDED''
       ''Carrier could not determine the label outcome before the reconciliation deadline. Manual review is required.'' False
     else WorkerError \<lparr>er_code = ''LABEL_OUTCOME_PENDING'', er_message = ''Carrier has not exposed the label result yet.'',
       er_retryable = True, er_retryAfterMs = Some 30000, er_responseStatus = None\<rparr>)"

definition process_label :: "gateway \<Rightarrow> int \<Rightarrow> int \<Rightarrow> claimed_job \<Rightarrow> ship_db \<Rightarrow> (thrown + unit) \<times> ship_db" where
  "process_label gw clk now job db =
     (case sbind (jobRequirement (cj_shipmentRef job) ''shipmentRef'') (\<lambda>s.
         sbind (jobRequirement (cj_labelRequestId job) ''labelRequestId'') (\<lambda>_. Inr s)) of
        Inl e \<Rightarrow> (Inl e, db)
      | Inr s \<Rightarrow> (case stored (markLabelReconciling s db) of
          (Inl e, db1) \<Rightarrow> (Inl e, db1)
        | (Inr _, db1) \<Rightarrow> (case gw_reconcileLabelOutcome gw job of
            Inl e \<Rightarrow> (Inl e, db1)
          | Inr (FoundLabel label) \<Rightarrow> (if li_shipmentRef label \<noteq> s
              then (Inl (worker_failure ''LABEL_RECONCILIATION_MISMATCH'' ''Reconciled label belongs to another shipment.'' False), db1)
              else stored (recordLabelFound label now db1))
          | Inr NoLabel \<Rightarrow> stored (recordLabelNotFound s db1)
          | Inr PendingLabel \<Rightarrow> (Inl (pending_label job clk), db1))))"

definition process_token :: "gateway \<Rightarrow> int \<Rightarrow> claimed_job \<Rightarrow> ship_db \<Rightarrow> (thrown + unit) \<times> ship_db" where
  "process_token gw now job db =
     (case sbind (jobRequirement (cj_connectionRef job) ''connectionRef'') (\<lambda>c.
         if cj_carrier job \<noteq> Some ''ups''
         then Inl (worker_failure ''WORKER_JOB_INVALID'' ''UPS token job has a non-UPS connection.'' False)
         else sbind (gw_refreshUpsToken gw job) (\<lambda>t. Inr (c, t))) of
        Inl e \<Rightarrow> (Inl e, db)
      | Inr (c, t) \<Rightarrow> stored (recordUpsTokenRefresh c t now db))"

definition process :: "gateway \<Rightarrow> int \<Rightarrow> int \<Rightarrow> claimed_job \<Rightarrow> ship_db \<Rightarrow> (thrown + unit) \<times> ship_db" where
  "process gw clk now job db = (case cj_jobType job of
     TrackingUpdate \<Rightarrow> process_tracking gw clk now job db
   | CarrierReconciliation \<Rightarrow> process_reconciliation gw clk now job db
   | LabelOutcomeReconciliation \<Rightarrow> process_label gw clk now job db
   | UpsTokenRefresh \<Rightarrow> process_token gw now job db)"

definition fail_request :: "claimed_job \<Rightarrow> thrown \<Rightarrow> int \<Rightarrow> rat \<Rightarrow> fail_input" where
  "fail_request job raw clk u = (let e = normalizedError raw
     in \<lparr>fj_jobRef = cj_jobRef job, fj_errorCode = er_code e, fj_errorMessage = er_message e,
       fj_retryable = er_retryable e,
       fj_nextRunAt = Some (clk + retryDelay (cj_attemptCount job) (er_retryAfterMs e) u)\<rparr>)"

subsection \<open>The pool of \<open>runOnce\<close>\<close>

text \<open>
  The loops share jobs, cursor, counters and tables. A loop takes a job, processes it, completes it, and records
  a failure of either; an error of the recording ends the loop with a rejection. Between the steps of one loop
  come those of the others and of other processes.
\<close>

datatype loop_state =
    Idle
  | Working claimed_job
  | Completing claimed_job
  | Failing claimed_job thrown
  | Finished
  | Broken js_error

record pool =
  pl_jobs :: "claimed_job list"
  pl_cursor :: nat
  pl_loops :: "loop_state list"
  pl_succeeded :: nat
  pl_retried :: nat
  pl_deadLettered :: nat
  pl_db :: ship_db

definition start_pool :: "int \<Rightarrow> claimed_job list \<Rightarrow> ship_db \<Rightarrow> pool" where
  "start_pool concurrency jobs db = \<lparr>pl_jobs = jobs, pl_cursor = 0,
     pl_loops = replicate (min (nat (clamp 1 20 concurrency)) (max 1 (length jobs))) Idle,
     pl_succeeded = 0, pl_retried = 0, pl_deadLettered = 0, pl_db = db\<rparr>"

definition set_loop :: "nat \<Rightarrow> loop_state \<Rightarrow> ship_db \<Rightarrow> pool \<Rightarrow> pool" where
  "set_loop n st db p = p\<lparr>pl_loops := (pl_loops p)[n := st], pl_db := db\<rparr>"

text \<open>One step of a loop; a loop that has ended has none.\<close>

fun loop_step :: "gateway \<Rightarrow> int \<Rightarrow> int \<Rightarrow> rat \<Rightarrow> nat \<Rightarrow> loop_state \<Rightarrow> pool \<Rightarrow> pool option" where
  "loop_step gw clk now u n Idle p =
     (if pl_cursor p < length (pl_jobs p)
      then Some (set_loop n (Working (pl_jobs p ! pl_cursor p)) (pl_db p) (p\<lparr>pl_cursor := pl_cursor p + 1\<rparr>))
      else Some (set_loop n Finished (pl_db p) p))"
| "loop_step gw clk now u n (Working job) p = Some (case process gw clk now job (pl_db p) of
     (Inl e, db) \<Rightarrow> set_loop n (Failing job e) db p
   | (Inr _, db) \<Rightarrow> set_loop n (Completing job) db p)"
| "loop_step gw clk now u n (Completing job) p = Some (case completeJob (cj_jobRef job) now (pl_db p) of
     (Inl e, db) \<Rightarrow> set_loop n (Failing job (of_js_error e)) db p
   | (Inr _, db) \<Rightarrow> set_loop n Idle db (p\<lparr>pl_succeeded := pl_succeeded p + 1\<rparr>))"
| "loop_step gw clk now u n (Failing job e) p = Some (case failJob (fail_request job e clk u) now (pl_db p) of
     (Inl x, db) \<Rightarrow> set_loop n (Broken x) db p
   | (Inr st, db) \<Rightarrow> set_loop n Idle db (if st = Retry then p\<lparr>pl_retried := pl_retried p + 1\<rparr>
       else p\<lparr>pl_deadLettered := pl_deadLettered p + 1\<rparr>))"
| "loop_step gw clk now u n Finished p = None"
| "loop_step gw clk now u n (Broken x) p = None"

definition pool_step :: "gateway \<Rightarrow> int \<Rightarrow> int \<Rightarrow> rat \<Rightarrow> nat \<Rightarrow> pool \<Rightarrow> pool option" where
  "pool_step gw clk now u n p = (if n < length (pl_loops p) then loop_step gw clk now u n (pl_loops p ! n) p else None)"

text \<open>A run: steps of the loops of this pool, and operations of others on the tables.\<close>

inductive pool_run :: "gateway \<Rightarrow> nat \<Rightarrow> pool \<Rightarrow> pool \<Rightarrow> bool" for gw where
  start: "pool_run gw 0 p p"
| own: "pool_run gw k p q \<Longrightarrow> pool_step gw clk now u n q = Some r \<Longrightarrow> pool_run gw (Suc k) p r"
| other: "pool_run gw k p q \<Longrightarrow> pool_run gw k p (q\<lparr>pl_db := apply_op op now (pl_db q)\<rparr>)"

end
