(* ===== verification/Ship_Samples.thy ===== *)
theory Ship_Samples
  imports Ship_Schedule
begin

section \<open>Crashes, stale workers, and a sample run\<close>

subsection \<open>A job whose worker crashes\<close>

lemma run_ops_simps [simp]: "run_ops [] s = s" "run_ops (x # xs) s = run_ops xs (exec x s)"
  "run_ops (xs @ ys) s = run_ops ys (run_ops xs s)"
  by (simp_all add: run_ops_def)

definition crash_loop :: "nat \<Rightarrow> ship_op list" where
  "crash_loop n = concat (replicate n [ClaimJobs ''w'' 1 10, Tick 10000])"

lemma worker_arg: "ref_arg ''w'' ''workerRef'' 100 = Inr ''w''"
  by code_simp

lemma claim_single:
  assumes "sd_jobs db = [r]" and "claimable t r"
  shows "sd_jobs (snd (exec (ClaimJobs ''w'' 1 10) (t, db))) = [claimed_row ''w'' 10 t r]"
  using assms by (simp add: exec_def claimJobs_def worker_arg claim_candidates_def sql_update_def clamp_def Let_def)

text \<open>A job that is claimed and never finished is claimed again whenever its lease has run out, beyond its largest
  number of attempts; it never becomes a dead letter.\<close>

theorem crashed_job_retried_forever:
  assumes "sd_jobs db = [r]" and "claimable t r"
  shows "\<exists>r'. sd_jobs (snd (run_ops (crash_loop n) (t, db))) = [r'] \<and> jb_job_ref r' = jb_job_ref r
    \<and> jb_attempt_count r' = jb_attempt_count r + int n \<and> claimable (fst (run_ops (crash_loop n) (t, db))) r'"
  using assms
proof (induction n arbitrary: t db r)
  case (Suc n)
  let ?s = "exec (Tick 10000) (exec (ClaimJobs ''w'' 1 10) (t, db))"
  let ?r = "claimed_row ''w'' 10 t r"
  have "snd ?s = snd (exec (ClaimJobs ''w'' 1 10) (t, db))" "fst ?s = t + 10000" by (simp_all add: exec_def)
  then have s: "?s = (t + 10000, snd (exec (ClaimJobs ''w'' 1 10) (t, db)))" by (metis prod.collapse)
  have "claimable (t + 10000) ?r" by (simp add: claimable_def claimed_row_def)
  from Suc.IH [OF claim_single [OF Suc.prems] this] show ?case
    unfolding s [symmetric] by (simp add: crash_loop_def claimed_row_def add.assoc)
qed (simp add: crash_loop_def)

subsection \<open>Sample tables\<close>

definition sample_shipment :: ship_row where
  "sample_shipment = \<lparr>sh_id = 7, sh_shipment_ref = ''s7'', sh_merchant_id = Some 1, sh_guest_session_id = None,
     sh_connection_id = None, sh_carrier = Some ''ups'', sh_adapter = Some ''ups'', sh_carrier_shipment_id = None,
     sh_product_id_code = None, sh_direction = Outbound, sh_mode = TestMode, sh_status = Rated,
     sh_origin_country_code = ''JP'', sh_destination_country_code = ''US'', sh_origin_address_ref = ''a'',
     sh_destination_address_ref = ''b'', sh_request_fingerprint = None, sh_label_outcome = OutcomeUnknown,
     sh_label_request_id = Some ''req'', sh_label_requested_at = Some 0, sh_deadline_at = Some 5000,
     sh_next_tracking_poll_at = None, sh_last_reconciled_at = None, sh_next_reconcile_at = None,
     sh_error_count = 0, sh_origin_snapshot_ref = None, sh_destination_snapshot_ref = None\<rparr>"

definition sample_merchant :: merchant_row where
  "sample_merchant = \<lparr>mr_id = 1, mr_merchant_ref = ''m'', mr_display_name = ''M'', mr_legal_name = None, mr_business_type = Company,
     mr_country_code = ''JP'', mr_language_tag = ''en-US'', mr_email = ''m@x'', mr_phone_e164 = ''+81312345678'',
     mr_status = MerchantActive\<rparr>"

definition ship0 :: ship_db where
  "ship0 = \<lparr>sd_access = \<lparr>db_merchants = [sample_merchant], db_guests = [], db_records = []\<rparr>, sd_next_id = 8,
     sd_connections = [], sd_shipments = [sample_shipment], sd_packages = [], sd_quotes = [], sd_labels = [],
     sd_events = [], sd_jobs = [], sd_deliveries = [], sd_audit = [], sd_accesses = [],
     sd_rotations = []\<rparr>"

definition job_name :: "int \<Rightarrow> string" where
  "job_name i = replicate (nat i) (CHR ''j'')"

lemma job_name_fresh: "0 \<le> sd_next_id db \<Longrightarrow> (\<forall>r \<in> set (sd_jobs db). length (jb_job_ref r) < nat (sd_next_id db))
    \<Longrightarrow> fresh_refs job_name db"
  unfolding fresh_refs_def job_name_def
proof (intro conjI allI impI notI)
  fix i j
  assume "0 \<le> sd_next_id db" "sd_next_id db \<le> i" "sd_next_id db \<le> j" "replicate (nat i) (CHR ''j'') = replicate (nat j) (CHR ''j'')"
  then show "i = j" by (auto dest: arg_cong [of _ _ length])
next
  fix i
  assume "\<forall>r \<in> set (sd_jobs db). length (jb_job_ref r) < nat (sd_next_id db)" "sd_next_id db \<le> i"
    "replicate (nat i) (CHR ''j'') \<in> jb_job_ref ` set (sd_jobs db)"
  then show False by (metis imageE length_replicate leD nat_mono)
qed

abbreviation job8 :: string where "job8 \<equiv> ''jjjjjjjj''"

lemma ship0_empty: "empty_queues ship0"
  by (simp add: empty_queues_def ship0_def)

definition sample_job :: job_row where
  "sample_job = (new_job job_name 8 1000 (shipment_seed LabelOutcomeReconciliation 10 10 sample_shipment))"

lemma scheduled: "run_ops [Schedule True job_name] (1000, ship0) = (1000, ship0\<lparr>sd_next_id := 9, sd_jobs := [sample_job]\<rparr>)"
  by code_simp

definition ship1 :: ship_db where "ship1 = ship0\<lparr>sd_next_id := 9, sd_jobs := [sample_job]\<rparr>"

definition ship2 :: ship_db where
  "ship2 = ship1\<lparr>sd_jobs := [claimed_row ''a'' 60 1000 sample_job]\<rparr>"

lemma claimed8: "jobs_claimed (ClaimJobs ''a'' 10 60) (1000, ship1) = [job8]"
  by code_simp

lemma claimed8_in: "job8 \<in> set (jobs_claimed (ClaimJobs ''a'' 10 60) (1000, ship1))"
  by (simp only: claimed8) simp

lemma claiming8: "snd (claimJobs ''a'' 10 60 1000 ship1) = ship2"
  by code_simp

lemma scheduled1: "run_ops [Schedule True job_name] (1000, ship0) = (1000, ship1)"
  using scheduled by (simp only: ship1_def)

theorem job_table_invariant_witness: "jobs_ok (snd (run_ops [Schedule True job_name] (1000, ship0)))"
  by (rule job_table_invariant [OF ship0_empty])

theorem delivery_table_invariant_witness: "deliveries_ok (snd (run_ops [Tick 5] (1000, ship0)))"
  by (rule delivery_table_invariant [OF ship0_empty])

theorem job_leased_once_witness:
  "job8 \<notin> set (jobs_claimed (ClaimJobs ''c'' 5 10)
     (run_ops [Tick 5000, ClaimJobs ''b'' 10 60] (exec (ClaimJobs ''a'' 10 60) (1000, ship1))))"
  by (rule job_leased_once [OF ship0_empty scheduled1 claimed8_in]) (simp_all add: exec_def clamp_def)

lemma ship2_ok: "jobs_ok ship2"
proof -
  have "jobs_ok (snd (run_ops [Schedule True job_name, ClaimJobs ''a'' 10 60] (1000, ship0)))"
    by (rule run_ops_jobs_ok) (simp add: empty_ok [OF ship0_empty])
  then show ?thesis using scheduled1 by (simp add: exec_def claiming8)
qed

definition sample_fail :: "bool \<Rightarrow> fail_input" where
  "sample_fail b = \<lparr>fj_jobRef = job8, fj_errorCode = ''E'', fj_errorMessage = ''failed'', fj_retryable = b,
     fj_nextRunAt = Some 9000\<rparr>"

lemma running8: "running_job job8 (claimed_row ''a'' 60 1000 sample_job)" "running_job (js_trim (fj_jobRef (sample_fail False))) (claimed_row ''a'' 60 1000 sample_job)"
  by code_simp+

lemma in_ship2: "claimed_row ''a'' 60 1000 sample_job \<in> set (sd_jobs ship2)"
  by (simp add: ship2_def)

lemma sample_fail_args: "fail_args (sample_fail True) = Inr (job8, ''E'', ''failed'', 9000)"
  by code_simp

theorem failed_job_settled_witness:
  "\<exists>db'. failJob (sample_fail True) 2000 ship2 = (Inr (if fj_retryable (sample_fail True)
      \<and> jb_attempt_count (claimed_row ''a'' 60 1000 sample_job) < jb_max_attempts (claimed_row ''a'' 60 1000 sample_job)
      then Retry else DeadLetter), db')"
  using failed_job_settled [OF ship2_ok in_ship2 running8(1) sample_fail_args, of 2000] by blast

definition ship3 :: ship_db where "ship3 = snd (failJob (sample_fail False) 6000 ship2)"

lemma failing8: "failJob (sample_fail False) 6000 ship2 = (Inr DeadLetter, ship3)"
  unfolding ship3_def by code_simp

lemma ship3_fresh: "fresh_refs job_name ship3"
  by (rule job_name_fresh; code_simp)

theorem due_work_scheduled_witness:
  "has_job (shipment_seed LabelOutcomeReconciliation 10 10 sample_shipment) (snd (scheduleDueJobs True job_name 1000 ship0))"
  by (rule due_work_scheduled; (rule job_name_fresh)?; code_simp)

theorem given_up_outcome_rescheduled_witness:
  "has_job (shipment_seed LabelOutcomeReconciliation 10 10 sample_shipment) (snd (scheduleDueJobs True job_name 7000 ship3))
    \<and> (\<exists>e. replayDeadLetter job8 (Some 8000) (snd (scheduleDueJobs True job_name 7000 ship3))
        = (Inl e, snd (scheduleDueJobs True job_name 7000 ship3)))"
proof -
  have "sample_shipment \<in> set (sd_shipments ship2)" "sh_label_outcome sample_shipment \<in> {OutcomeUnknown, Reconciling}"
    "jb_job_type (claimed_row ''a'' 60 1000 sample_job) = LabelOutcomeReconciliation"
    "jb_dedupe_key (claimed_row ''a'' 60 1000 sample_job) = sh_shipment_ref sample_shipment"
    by code_simp+
  from given_up_outcome_rescheduled [OF ship2_ok in_ship2 running8(2) failing8 this ship3_fresh refl, of 7000 "Some 8000"]
  show ?thesis by (simp add: sample_fail_def)
qed

theorem confirmed_label_stays_witness:
  "label_confirmed 7 (snd (run_ops [LabelNotFound ''s7'', MarkReconciling ''s7'']
     (1000, ship0\<lparr>sd_shipments := [sample_shipment\<lparr>sh_label_outcome := Confirmed\<rparr>]\<rparr>)))"
  by (rule confirmed_label_stays) (simp add: label_confirmed_def sample_shipment_def)

theorem crashed_job_retried_forever_witness:
  "\<exists>r'. sd_jobs (snd (run_ops (crash_loop 20) (1000, ship1))) = [r'] \<and> jb_job_ref r' = jb_job_ref sample_job
    \<and> jb_attempt_count r' = jb_attempt_count sample_job + int 20
    \<and> claimable (fst (run_ops (crash_loop 20) (1000, ship1))) r'"
  by (rule crashed_job_retried_forever) (simp add: ship1_def, code_simp)

text \<open>Completion does not ask who claimed the job: a worker whose lease has run out completes the job that another
  one is working on.\<close>

definition ship4 :: ship_db where
  "ship4 = ship2\<lparr>sd_jobs := [claimed_row ''b'' 60 61000 (claimed_row ''a'' 60 1000 sample_job)]\<rparr>"

lemma reclaiming8: "snd (claimJobs ''b'' 10 60 61000 ship2) = ship4"
  by code_simp

lemma stale_run: "run_ops [ClaimJobs ''a'' 10 60, Tick 60000, ClaimJobs ''b'' 10 60] (1000, ship1) = (61000, ship4)"
  by (simp add: exec_def claiming8 reclaiming8)

lemma stale_row: "map (\<lambda>r. (jb_worker_ref r, jb_lease_expires_at r)) (sd_jobs ship4) = [(Some ''b'', Some 121000)]"
  by code_simp

lemma stale_completion: "fst (completeJob job8 61000 ship4) = Inr ()"
  "map jb_status (sd_jobs (snd (completeJob job8 61000 ship4))) = [Succeeded]"
  by code_simp+

theorem stale_worker_completes_job:
  "let s = run_ops [ClaimJobs ''a'' 10 60, Tick 60000, ClaimJobs ''b'' 10 60] (1000, ship1)
   in map (\<lambda>r. (jb_worker_ref r, jb_lease_expires_at r)) (sd_jobs (snd s)) = [(Some ''b'', Some 121000)]
     \<and> fst (completeJob job8 (fst s) (snd s)) = Inr ()
     \<and> map jb_status (sd_jobs (snd (completeJob job8 (fst s) (snd s)))) = [Succeeded]"
  unfolding stale_run by (simp add: stale_row stale_completion)

end
