(* ===== verification/Ship_Worker_Props.thy ===== *)
theory Ship_Worker_Props
  imports Ship_Workers Ship_Samples
begin

section \<open>What a run of the workers does\<close>

subsection \<open>Delays\<close>

lemma retry_base_bounds: "5000 \<le> retry_base a \<and> retry_base a \<le> six_hours"
  by (simp add: retry_base_def six_hours_def)

lemma jittered_bounds:
  assumes "0 \<le> u" and "u < 1" and "0 \<le> base"
  shows "4 * base \<le> 5 * jittered base u" and "5 * jittered base u \<le> 6 * base + 4"
proof -
  have b: "0 \<le> (of_int base :: rat)" using assms(3) by simp
  have "of_int base * (4 / 5) \<le> of_int base * (4 / 5 + u * (2 / 5))"
    using assms b by (intro mult_left_mono) simp_all
  also have "\<dots> \<le> of_int (jittered base u)" by (simp add: jittered_def)
  finally have "of_int (4 * base) \<le> (of_int (5 * jittered base u) :: rat)" by simp
  then show "4 * base \<le> 5 * jittered base u" by (simp only: of_int_le_iff)
  have "of_int base * (4 / 5 + u * (2 / 5)) \<le> of_int base * (6 / 5)"
    using assms b by (intro mult_left_mono) simp_all
  then have "of_int (jittered base u) < of_int base * (6 / 5) + (1 :: rat)"
    unfolding jittered_def by linarith
  then have "of_int (5 * jittered base u) < (of_int (6 * base + 5) :: rat)" by simp
  then show "5 * jittered base u \<le> 6 * base + 4" by (simp only: of_int_less_iff)
qed

text \<open>A retry waits for at least a second and at most a fifth more than six hours; without a delay asked for by the
  carrier the base of the wait doubles from five seconds to six hours.\<close>

theorem retry_delay_bounds:
  assumes "0 \<le> u" and "u < 1"
  shows "1000 \<le> retryDelay attempt ms u \<and> retryDelay attempt ms u \<le> 25920000
    \<and> (ms = None \<longrightarrow> 4000 \<le> retryDelay attempt ms u)
    \<and> (1 \<le> attempt \<longrightarrow> retry_base (attempt + 1) = min six_hours (2 * retry_base attempt))"
proof -
  have "retry_base (attempt + 1) = min six_hours (2 * retry_base attempt)" if "1 \<le> attempt"
  proof -
    have "nat attempt = Suc (nat (attempt - 1))" using that by (simp add: nat_diff_distrib)
    then have "(2 :: int) ^ nat attempt = 2 * 2 ^ nat (attempt - 1)" by simp
    then show ?thesis using that by (simp add: retry_base_def six_hours_def min_def)
  qed
  then show ?thesis
    using jittered_bounds [OF assms, of "retry_base attempt"] retry_base_bounds [of attempt]
    by (cases ms) (auto simp: retryDelay_def six_hours_def)
qed

theorem retry_delay_bounds_witness:
  "1000 \<le> retryDelay 3 None (1 / 2) \<and> retryDelay 3 None (1 / 2) \<le> 25920000"
  using retry_delay_bounds [of "1 / 2" 3 None] by simp

subsection \<open>The pool ends\<close>

fun loop_weight :: "loop_state \<Rightarrow> nat" where
  "loop_weight Idle = 1" | "loop_weight (Working job) = 4" | "loop_weight (Completing job) = 3"
| "loop_weight (Failing job e) = 2" | "loop_weight Finished = 0" | "loop_weight (Broken x) = 0"

definition potential :: "pool \<Rightarrow> nat" where
  "potential p = 4 * (length (pl_jobs p) - pl_cursor p) + sum_list (map loop_weight (pl_loops p))"

fun held_by :: "loop_state \<Rightarrow> nat" where
  "held_by (Working job) = 1" | "held_by (Completing job) = 1" | "held_by (Failing job e) = 1"
| "held_by (Broken x) = 1" | "held_by Idle = 0" | "held_by Finished = 0"

text \<open>Every job taken is settled, in the hands of a loop, or lost with a loop that broke.\<close>

definition pool_ok :: "pool \<Rightarrow> bool" where
  "pool_ok p \<longleftrightarrow> pl_cursor p \<le> length (pl_jobs p)
     \<and> pl_cursor p = pl_succeeded p + pl_retried p + pl_deadLettered p + sum_list (map held_by (pl_loops p))
     \<and> (Finished \<in> set (pl_loops p) \<longrightarrow> pl_cursor p = length (pl_jobs p)) \<and> pl_loops p \<noteq> []"

lemma sum_update: "n < length xs \<Longrightarrow> sum_list (map f (xs[n := y])) + f (xs ! n) = sum_list (map f xs) + (f y :: nat)"
proof (induction xs arbitrary: n)
  case (Cons x xs)
  then show ?case by (cases n) (simp, fastforce simp: algebra_simps)
qed simp

lemma set_loop_simps [simp]:
  "pl_jobs (set_loop n st db p) = pl_jobs p" "pl_cursor (set_loop n st db p) = pl_cursor p"
  "pl_loops (set_loop n st db p) = (pl_loops p)[n := st]" "pl_succeeded (set_loop n st db p) = pl_succeeded p"
  "pl_retried (set_loop n st db p) = pl_retried p" "pl_deadLettered (set_loop n st db p) = pl_deadLettered p"
  "pl_db (set_loop n st db p) = db"
  by (simp_all add: set_loop_def)

lemma finished_update: "n < length xs \<Longrightarrow> Finished \<in> set (xs[n := y]) \<Longrightarrow> y = Finished \<or> Finished \<in> set xs"
  by (metis insert_iff set_update_subset_insert subsetD)

lemma potential_counters [simp]:
  "potential (p\<lparr>pl_succeeded := i\<rparr>) = potential p" "potential (p\<lparr>pl_retried := i\<rparr>) = potential p"
  "potential (p\<lparr>pl_deadLettered := i\<rparr>) = potential p" "potential (p\<lparr>pl_db := db\<rparr>) = potential p"
  by (simp_all add: potential_def)

lemma set_loop_potential:
  assumes "n < length (pl_loops p)" and "loop_weight st < loop_weight (pl_loops p ! n)"
  shows "potential (set_loop n st db p) < potential p"
  using sum_update [OF assms(1), of loop_weight st] assms(2) by (simp add: potential_def)

text \<open>The account after a step of loop \<open>n\<close>: what it holds no longer is counted, or the cursor moved for it.\<close>

lemma set_loop_ok:
  assumes "pool_ok p" and "n < length (pl_loops p)" and "pl_loops q = pl_loops p" and "pl_jobs q = pl_jobs p"
    and "pl_cursor q + held_by (pl_loops p ! n) + pl_succeeded p + pl_retried p + pl_deadLettered p
      = pl_cursor p + held_by st + pl_succeeded q + pl_retried q + pl_deadLettered q"
    and "pl_cursor p \<le> pl_cursor q" and "pl_cursor q \<le> length (pl_jobs p)"
    and "st = Finished \<longrightarrow> pl_cursor q = length (pl_jobs p)"
  shows "pool_ok (set_loop n st db q)"
proof -
  have "sum_list (map held_by ((pl_loops p)[n := st])) + held_by (pl_loops p ! n)
      = sum_list (map held_by (pl_loops p)) + held_by st"
    by (rule sum_update [OF assms(2)])
  then have "pl_cursor q = pl_succeeded q + pl_retried q + pl_deadLettered q + sum_list (map held_by ((pl_loops p)[n := st]))"
    using assms(1,5) unfolding pool_ok_def by linarith
  moreover have "pl_cursor q = length (pl_jobs p)" if "Finished \<in> set ((pl_loops p)[n := st])"
    using finished_update [OF assms(2) that] assms(1,6-8) unfolding pool_ok_def by auto
  ultimately show ?thesis using assms(1,3,4,7) unfolding pool_ok_def by auto
qed

lemma pool_ok_cursor: "pool_ok p \<Longrightarrow> pl_cursor p \<le> length (pl_jobs p)"
  by (simp add: pool_ok_def)

text \<open>A step lowers the potential and keeps the account.\<close>

lemma loop_step_effect:
  assumes n: "n < length (pl_loops p)" and st: "pl_loops p ! n = st" and step: "loop_step gw clk now u n st p = Some q"
  shows "potential q < potential p \<and> (pool_ok p \<longrightarrow> pool_ok q) \<and> length (pl_jobs q) = length (pl_jobs p)"
proof (cases st)
  case Idle
  have "pool_ok p \<longrightarrow> pl_cursor p \<le> length (pl_jobs p)" by (simp add: pool_ok_def)
  then show ?thesis
    using step n st Idle sum_update [OF n, of loop_weight "Working (pl_jobs p ! pl_cursor p)"] sum_update [OF n, of loop_weight Finished]
    by (auto simp: potential_def intro!: set_loop_ok [OF _ n] split: if_splits)
next
  case (Working job)
  show ?thesis
  proof (cases "process gw clk now job (pl_db p)")
    case (Pair r db)
    show ?thesis using step n st Working Pair
      by (cases r) (auto intro!: set_loop_potential set_loop_ok [OF _ n] dest: pool_ok_cursor)
  qed
next
  case (Completing job)
  show ?thesis
  proof (cases "completeJob (cj_jobRef job) now (pl_db p)")
    case (Pair r db)
    show ?thesis using step n st Completing Pair set_loop_potential [of n "p\<lparr>pl_succeeded := Suc (pl_succeeded p)\<rparr>" Idle db]
      by (cases r) (auto intro!: set_loop_potential set_loop_ok [OF _ n] dest: pool_ok_cursor)
  qed
next
  case (Failing job e)
  show ?thesis
  proof (cases "failJob (fail_request job e clk u) now (pl_db p)")
    case (Pair r db)
    show ?thesis using step n st Failing Pair set_loop_potential [of n "p\<lparr>pl_retried := Suc (pl_retried p)\<rparr>" Idle db]
        set_loop_potential [of n "p\<lparr>pl_deadLettered := Suc (pl_deadLettered p)\<rparr>" Idle db]
      by (cases r) (auto intro!: set_loop_potential set_loop_ok [OF _ n] dest: pool_ok_cursor)
  qed
qed (use step in simp_all)

lemma pool_step_effect: "pool_step gw clk now u n p = Some q \<Longrightarrow>
    potential q < potential p \<and> (pool_ok p \<longrightarrow> pool_ok q) \<and> length (pl_jobs q) = length (pl_jobs p)"
  using loop_step_effect [of n p "pl_loops p ! n" gw clk now u q] by (simp add: pool_step_def split: if_splits)

lemma pool_run_effect: "pool_run gw k p q \<Longrightarrow> pool_ok p \<Longrightarrow>
    k + potential q \<le> potential p \<and> pool_ok q \<and> length (pl_jobs q) = length (pl_jobs p)"
proof (induction rule: pool_run.induct)
  case (own k p q clk now u n r)
  then show ?case using pool_step_effect [OF own.hyps(2)] by linarith
next
  case (other k p q op now)
  have "pool_ok (q\<lparr>pl_db := db\<rparr>) = pool_ok q" for db by (simp add: pool_ok_def)
  then show ?case using other.IH [OF other.prems] by simp
qed simp

lemma start_pool_ok: "pool_ok (start_pool c jobs db)" "potential (start_pool c jobs db) \<le> 4 * length jobs + 20"
proof -
  define m where "m = min (nat (clamp 1 20 c)) (max 1 (length jobs))"
  have m: "1 \<le> m" "m \<le> 20" unfolding m_def by (simp_all add: clamp_def)
  have loops: "pl_loops (start_pool c jobs db) = replicate m Idle" by (simp add: start_pool_def m_def)
  have "sum_list (replicate m (Suc 0)) = m" "sum_list (replicate m (0 :: nat)) = 0" by (simp_all add: sum_list_replicate)
  then show "pool_ok (start_pool c jobs db)" "potential (start_pool c jobs db) \<le> 4 * length jobs + 20"
    using m by (simp_all add: pool_ok_def potential_def loops) (simp_all add: start_pool_def)
qed

definition loop_ended :: "loop_state \<Rightarrow> bool" where
  "loop_ended st \<longleftrightarrow> st = Finished \<or> (\<exists>x. st = Broken x)"

lemma loop_step_ended: "loop_step gw clk now u n st p = None \<longleftrightarrow> loop_ended st"
  by (cases st) (simp_all add: loop_ended_def)

text \<open>C19. A run ends: whatever other processes do to the tables, the loops of a batch take at most four steps per job
  and one per loop, and until all of them have ended one of them can take its next step.\<close>

theorem run_once_terminates:
  assumes "pool_run gw k (start_pool concurrency jobs db) q"
  shows "k \<le> 4 * length jobs + 20
    \<and> ((\<forall>st \<in> set (pl_loops q). loop_ended st) \<longleftrightarrow> (\<forall>clk now u n. pool_step gw clk now u n q = None))"
proof -
  have "k \<le> 4 * length jobs + 20"
    using pool_run_effect [OF assms start_pool_ok(1)] start_pool_ok(2) [of concurrency jobs db] by linarith
  moreover have "(\<forall>st \<in> set (pl_loops q). loop_ended st) \<longleftrightarrow> (\<forall>clk now u n. pool_step gw clk now u n q = None)"
    unfolding pool_step_def by (auto simp: all_set_conv_all_nth loop_step_ended)
  ultimately show ?thesis by blast
qed


text \<open>A failure whose message is blank or longer than 500 characters cannot be recorded: the loop breaks, the tables
  stay as they are, and the job remains running.\<close>

theorem unrecordable_error_breaks_loop:
  assumes "n < length (pl_loops p)" and "pl_loops p ! n = Failing job e"
    and "js_trim (er_message (normalizedError e)) = [] \<or> 500 < length (js_trim (er_message (normalizedError e)))"
  shows "\<exists>x. pool_step gw clk now u n p = Some (set_loop n (Broken x) (pl_db p) p)"
proof -
  have "fail_args (fail_request job e clk u) \<noteq> Inr a" for a
    using assms(3) by (cases a) (auto simp: fail_args_def fail_request_def Let_def sbind_Inr_iff ref_arg_Inr)
  then obtain x where "fail_args (fail_request job e clk u) = Inl x" by (cases "fail_args (fail_request job e clk u)") auto
  then show ?thesis using assms(1,2) by (intro exI [of _ x]) (simp add: pool_step_def failJob_def)
qed

subsection \<open>A sample batch\<close>

definition sample_gateway :: gateway where
  "sample_gateway = \<lparr>gw_fetchTracking = (\<lambda>_. Inl OtherThrown), gw_reconcileCarrierState = (\<lambda>_. Inl OtherThrown),
     gw_reconcileLabelOutcome = (\<lambda>_. Inr NoLabel), gw_refreshUpsToken = (\<lambda>_. Inl OtherThrown)\<rparr>"

definition sample_claim :: claimed_job where
  "sample_claim = mapJob ship2 (claimed_row ''a'' 60 1000 sample_job)"

definition pool0 :: pool where "pool0 = start_pool 4 [sample_claim] ship2"
definition pool1 :: pool where "pool1 = the (pool_step sample_gateway 2000 2000 0 0 pool0)"
definition pool2 :: pool where "pool2 = the (pool_step sample_gateway 2000 2000 0 0 pool1)"
definition pool3 :: pool where "pool3 = the (pool_step sample_gateway 2000 2000 0 0 pool2)"
definition pool4 :: pool where "pool4 = the (pool_step sample_gateway 2000 2000 0 0 pool3)"

lemma pool_step1: "pool_step sample_gateway 2000 2000 0 0 pool0 = Some pool1"
  unfolding pool1_def by code_simp

lemma pool_step2: "pool_step sample_gateway 2000 2000 0 0 pool1 = Some pool2"
  unfolding pool2_def by code_simp

lemma pool_step3: "pool_step sample_gateway 2000 2000 0 0 pool2 = Some pool3"
  unfolding pool3_def by code_simp

lemma pool_step4: "pool_step sample_gateway 2000 2000 0 0 pool3 = Some pool4"
  unfolding pool4_def by code_simp

lemma batch_run: "pool_run sample_gateway (Suc (Suc (Suc (Suc 0)))) (start_pool 4 [sample_claim] ship2) pool4"
  unfolding pool0_def [symmetric]
  by (rule pool_run.own [OF pool_run.own [OF pool_run.own [OF pool_run.own [OF pool_run.start pool_step1] pool_step2]
    pool_step3] pool_step4])

lemma sample_finished: "\<forall>st \<in> set (pl_loops pool4). st = Finished"
  by code_simp

theorem run_once_terminates_witness: "list_all loop_ended (pl_loops pool4)
    \<longleftrightarrow> (\<forall>clk now u n. pool_step sample_gateway clk now u n pool4 = None)"
  unfolding list_all_iff using run_once_terminates [OF batch_run] by (rule conjunct2)


definition pool_blank :: pool where
  "pool_blank = pool0\<lparr>pl_loops := [Failing sample_claim (ErrorThrown [])]\<rparr>"

theorem unrecordable_error_breaks_loop_witness:
  "\<exists>x. pool_step sample_gateway 2000 2000 0 0 pool_blank = Some (set_loop 0 (Broken x) (pl_db pool_blank) pool_blank)"
  by (rule unrecordable_error_breaks_loop [where e = "ErrorThrown []" and job = sample_claim])
    (simp_all add: pool_blank_def js_trim_def)

end
