(* ===== verification/Ship_Webhooks.thy ===== *)
theory Ship_Webhooks
  imports Ship_Workers
begin

section \<open>The worker of the webhook deliveries\<close>

text \<open>
  \<open>VeygritShipWebhookWorker\<close> of \<open>src/src/server/shipping/veygritShipWorkers.ts\<close>: claimed deliveries are sent
  one after the other. The resolver of endpoints and secrets, the parser of URLs, the deployment's allowlist,
  the hash, the signature and the transport are parameters, and so is what other processes do to the tables in
  the meantime. The requests that went out are part of the result.
\<close>

subsection \<open>Claims\<close>

record webhook_claim =
  wc_delivery_ref :: string
  wc_endpoint_ref :: string
  wc_event_type :: string
  wc_event_ref :: string
  wc_payload_ref :: string
  wc_payload_sha256 :: string
  wc_attempt_count :: int
  wc_max_attempts :: int

definition requiredString :: "string \<Rightarrow> string \<Rightarrow> thrown + string" where
  "requiredString value key = (if value = [] then Inl (worker_failure ''WEBHOOK_ROW_INVALID'' (key @ '' is missing.'') False)
     else Inr value)"

definition webhookClaim :: "delivery_row \<Rightarrow> thrown + webhook_claim" where
  "webhookClaim r =
     sbind (requiredString (dl_delivery_ref r) ''delivery_ref'') (\<lambda>d.
     sbind (requiredString (dl_endpoint_ref r) ''endpoint_ref'') (\<lambda>e.
     sbind (requiredString (dl_event_type r) ''event_type'') (\<lambda>t.
     sbind (requiredString (dl_event_ref r) ''event_ref'') (\<lambda>v.
     sbind (requiredString (dl_payload_ref r) ''payload_ref'') (\<lambda>p.
     sbind (requiredString (dl_payload_sha256 r) ''payload_sha256'') (\<lambda>h.
       Inr \<lparr>wc_delivery_ref = d, wc_endpoint_ref = e, wc_event_type = t, wc_event_ref = v, wc_payload_ref = p,
         wc_payload_sha256 = h, wc_attempt_count = dl_attempt_count r, wc_max_attempts = dl_max_attempts r\<rparr>))))))"

subsection \<open>Endpoints\<close>

record url =
  url_protocol :: string
  url_username :: string
  url_password :: string
  url_hash :: string
  url_hostname :: string

text \<open>The tests of the host, the last of them \<open>172.(1[6-9]|2\d|3[01])\<close>.\<close>

definition block_172 :: "string \<Rightarrow> bool" where
  "block_172 h \<longleftrightarrow> js_starts_with ''172.'' h \<and> (case drop 4 h of
     a # b # c # _ \<Rightarrow> c = CHR ''.'' \<and> (a = CHR ''1'' \<and> char_in_range (CHR ''6'') (CHR ''9'') b
       \<or> a = CHR ''2'' \<and> is_digit_char b \<or> a = CHR ''3'' \<and> (b = CHR ''0'' \<or> b = CHR ''1''))
   | _ \<Rightarrow> False)"

definition private_host :: "string \<Rightarrow> bool" where
  "private_host host \<longleftrightarrow> host \<in> {''localhost'', ''::1'', ''[::1]''}
     \<or> js_starts_with (rev ''.local'') (rev host) \<or> js_starts_with ''127.'' host \<or> js_starts_with ''10.'' host
     \<or> js_starts_with ''192.168.'' host \<or> js_starts_with ''169.254.'' host \<or> block_172 host"

definition safeWebhookUrl :: "(string \<Rightarrow> url option) \<Rightarrow> string \<Rightarrow> thrown + url" where
  "safeWebhookUrl parse value = (case parse value of
     None \<Rightarrow> Inl (worker_failure ''WEBHOOK_ENDPOINT_DENIED'' ''Webhook endpoint is not a valid URL.'' False)
   | Some u \<Rightarrow> (if url_protocol u \<noteq> ''https:'' \<or> url_username u \<noteq> [] \<or> url_password u \<noteq> [] \<or> url_hash u \<noteq> []
         \<or> private_host (js_lower (url_hostname u))
       then Inl (worker_failure ''WEBHOOK_ENDPOINT_DENIED'' ''Webhook endpoint is not an allowed public HTTPS URL.'' False)
       else Inr u))"

subsection \<open>Responses\<close>

text \<open>The header \<open>retry-after\<close> when it is there: what \<open>Number\<close> reads (whole seconds) and what \<open>Date.parse\<close> reads.\<close>

record response =
  rs_status :: int
  rs_retry_after :: "(int option \<times> int option) option"

definition retryAfter :: "response \<Rightarrow> int \<Rightarrow> int option" where
  "retryAfter r now = (case rs_retry_after r of
     None \<Rightarrow> None
   | Some (seconds, timestamp) \<Rightarrow>
      (if (case seconds of None \<Rightarrow> False | Some s \<Rightarrow> 0 \<le> s)
       then (case seconds of None \<Rightarrow> None | Some s \<Rightarrow> Some (min six_hours (s * 1000)))
       else (case timestamp of None \<Rightarrow> None | Some t \<Rightarrow> Some (max 0 (min six_hours (t - now))))))"

datatype fetch_result = Responded response | TimedOut | Unreachable

subsection \<open>Delivery\<close>

record webhook_resource =
  wr_url :: string
  wr_body :: string
  wr_signingSecret :: string
  wr_headers :: "(string \<times> string) list"

record webhook_request =
  wq_url :: url
  wq_body :: string
  wq_headers :: "(string \<times> string) list"

record webhook_env =
  wv_resolve :: "webhook_claim \<Rightarrow> thrown + webhook_resource"
  wv_parse :: "string \<Rightarrow> url option"
  wv_allow :: "(url \<Rightarrow> bool) option"
  wv_sha256 :: "string \<Rightarrow> string"
  wv_hmac :: "string \<Rightarrow> string \<Rightarrow> string"
  wv_fetch :: "webhook_request \<Rightarrow> fetch_result"

text \<open>\<open>Buffer.from(text, 'hex')\<close>: pairs of hex digits up to the first that is none.\<close>

definition hex_digit :: "char \<Rightarrow> nat option" where
  "hex_digit c = (if is_digit_char c then Some (of_char c - 48)
     else if char_in_range (CHR ''a'') (CHR ''f'') c then Some (of_char c - 87)
     else if char_in_range (CHR ''A'') (CHR ''F'') c then Some (of_char c - 55) else None)"

fun hex_bytes :: "string \<Rightarrow> nat list" where
  "hex_bytes (a # b # cs) = (case (hex_digit a, hex_digit b) of
     (Some x, Some y) \<Rightarrow> (16 * x + y) # hex_bytes cs | _ \<Rightarrow> [])"
| "hex_bytes _ = []"

definition signed_headers :: "webhook_env \<Rightarrow> webhook_claim \<Rightarrow> webhook_resource \<Rightarrow> int \<Rightarrow> (string \<times> string) list" where
  "signed_headers env c res clk = (let timestamp = int_str (clk div 1000);
       signature = wv_hmac env (wr_signingSecret res) (timestamp @ ''.'' @ wr_body res)
     in fold (\<lambda>(k, v). AList.update k v)
       [(''content-type'', ''application/json''), (''user-agent'', ''Veygrit-ship-Webhooks/1.0''),
        (''veygrit-event-id'', wc_event_ref c), (''veygrit-event-type'', wc_event_type c),
        (''veygrit-signature'', ''t='' @ timestamp @ '',v1='' @ signature)] (wr_headers res))"

definition retryable_status :: "int \<Rightarrow> bool" where
  "retryable_status s \<longleftrightarrow> s = 408 \<or> s = 425 \<or> s = 429 \<or> 500 \<le> s"

definition judge_response :: "fetch_result \<Rightarrow> int \<Rightarrow> thrown + int" where
  "judge_response f clk = (case f of
     Responded r \<Rightarrow> (if 200 \<le> rs_status r \<and> rs_status r \<le> 299 then Inr (rs_status r)
       else Inl (WorkerError \<lparr>er_code = ''WEBHOOK_HTTP_'' @ int_str (rs_status r),
         er_message = ''Webhook endpoint rejected the delivery.'', er_retryable = retryable_status (rs_status r),
         er_retryAfterMs = retryAfter r clk, er_responseStatus = Some (rs_status r)\<rparr>))
   | TimedOut \<Rightarrow> Inl (worker_failure ''WEBHOOK_TIMEOUT'' ''Webhook delivery timed out.'' True)
   | Unreachable \<Rightarrow> Inl (worker_failure ''WEBHOOK_NETWORK_ERROR'' ''Webhook endpoint could not be reached.'' True))"

text \<open>Everything before the request goes out, and the delivery with the request it made.\<close>

definition prepare_request :: "webhook_env \<Rightarrow> webhook_claim \<Rightarrow> int \<Rightarrow> thrown + webhook_request" where
  "prepare_request env c clk =
     sbind (wv_resolve env c) (\<lambda>res.
     sbind (safeWebhookUrl (wv_parse env) (wr_url res)) (\<lambda>u.
       if (case wv_allow env of None \<Rightarrow> False | Some f \<Rightarrow> \<not> f u)
       then Inl (worker_failure ''WEBHOOK_ENDPOINT_DENIED'' ''Webhook endpoint was rejected by the deployment allowlist.'' False)
       else if wr_signingSecret res = []
       then Inl (worker_failure ''WEBHOOK_SECRET_MISSING'' ''Webhook signing secret was not resolved.'' False)
       else if hex_bytes (wc_payload_sha256 c) \<noteq> hex_bytes (wv_sha256 env (wr_body res))
       then Inl (worker_failure ''WEBHOOK_PAYLOAD_HASH_MISMATCH'' ''Resolved webhook payload failed integrity verification.'' False)
       else Inr \<lparr>wq_url = u, wq_body = wr_body res, wq_headers = signed_headers env c res clk\<rparr>))"

definition deliver :: "webhook_env \<Rightarrow> webhook_claim \<Rightarrow> int \<Rightarrow> int \<Rightarrow> (thrown + int) \<times> webhook_request list" where
  "deliver env c signed answered = (case prepare_request env c signed of
     Inl e \<Rightarrow> (Inl e, []) | Inr q \<Rightarrow> (judge_response (wv_fetch env q) answered, [q]))"

definition webhookRetryDelay :: "int \<Rightarrow> int option \<Rightarrow> rat \<Rightarrow> int" where
  "webhookRetryDelay attempt retryAfterMs u = (case retryAfterMs of
     Some ms \<Rightarrow> max 1000 ms | None \<Rightarrow> jittered (retry_base attempt) u)"

subsection \<open>A batch\<close>

text \<open>
  What happens around one row: the worker's clock when the request is signed, when the answer is judged and when
  a failure is recorded, the random number, and the operations of others (with the time that passes) before the
  success and before the failure is recorded.
\<close>

record webhook_tick =
  wt_signed :: int
  wt_answered :: int
  wt_failed :: int
  wt_random :: rat
  wt_meanwhile :: "ship_op list"
  wt_before_failure :: "ship_op list"

record webhook_run =
  wn_succeeded :: nat
  wn_retried :: nat
  wn_deadLettered :: nat
  wn_requests :: "webhook_request list"
  wn_tables :: "int \<times> ship_db"

definition success_input :: "delivery_row \<Rightarrow> int \<Rightarrow> finish_delivery" where
  "success_input row status = \<lparr>fd_deliveryRef = dl_delivery_ref row, fd_outcome = OutSucceeded,
     fd_nextAttemptAt = None, fd_responseStatus = Some status, fd_errorCode = None\<rparr>"

definition failure_input :: "delivery_row \<Rightarrow> thrown \<Rightarrow> int \<Rightarrow> rat \<Rightarrow> finish_delivery" where
  "failure_input row raw clk u = (let e = normalizedError raw;
       dead = \<not> er_retryable e \<or> dl_max_attempts row \<le> dl_attempt_count row
     in \<lparr>fd_deliveryRef = dl_delivery_ref row, fd_outcome = (if dead then OutDeadLetter else OutRetry),
       fd_nextAttemptAt = (if dead then None
         else Some (Some (clk + webhookRetryDelay (dl_attempt_count row) (er_retryAfterMs e) u))),
       fd_responseStatus = er_responseStatus e, fd_errorCode = Some (er_code e)\<rparr>)"

text \<open>\<open>finishWebhookDelivery\<close> after what others did; the attempt of a row (claim, delivery, record of the success);
  the record of a failure.\<close>

definition finish_after :: "ship_op list \<Rightarrow> finish_delivery \<Rightarrow> int \<times> ship_db \<Rightarrow> delivery_outcome result \<times> (int \<times> ship_db)" where
  "finish_after others i tables = (let (now, db) = run_ops others tables; (r, db') = finishWebhookDelivery i now db
     in (r, (now, db')))"

definition attempt_row :: "webhook_env \<Rightarrow> webhook_tick \<Rightarrow> delivery_row \<Rightarrow> webhook_run \<Rightarrow> (thrown + unit) \<times> webhook_run" where
  "attempt_row env t row w = (case webhookClaim row of
     Inl e \<Rightarrow> (Inl e, w)
   | Inr c \<Rightarrow> (case deliver env c (wt_signed t) (wt_answered t) of
       (Inl e, qs) \<Rightarrow> (Inl e, w\<lparr>wn_requests := wn_requests w @ qs\<rparr>)
     | (Inr status, qs) \<Rightarrow>
        (case finish_after (wt_meanwhile t) (success_input row status) (wn_tables w) of
          (Inl e, tb) \<Rightarrow> (Inl (of_js_error e), w\<lparr>wn_requests := wn_requests w @ qs, wn_tables := tb\<rparr>)
        | (Inr _, tb) \<Rightarrow> (Inr (), w\<lparr>wn_requests := wn_requests w @ qs, wn_tables := tb, wn_succeeded := wn_succeeded w + 1\<rparr>))))"

definition record_failure :: "webhook_tick \<Rightarrow> delivery_row \<Rightarrow> thrown \<Rightarrow> webhook_run \<Rightarrow> unit result \<times> webhook_run" where
  "record_failure t row e w =
     (case finish_after (wt_before_failure t) (failure_input row e (wt_failed t) (wt_random t)) (wn_tables w) of
        (Inl x, tb) \<Rightarrow> (Inl x, w\<lparr>wn_tables := tb\<rparr>)
      | (Inr out, tb) \<Rightarrow> (Inr (), if out = OutDeadLetter then w\<lparr>wn_tables := tb, wn_deadLettered := wn_deadLettered w + 1\<rparr>
          else w\<lparr>wn_tables := tb, wn_retried := wn_retried w + 1\<rparr>))"

text \<open>The rows in their order; \<open>tick n\<close> is what happens around the row with \<open>n\<close> rows after it.\<close>

fun deliver_rows :: "webhook_env \<Rightarrow> (nat \<Rightarrow> webhook_tick) \<Rightarrow> delivery_row list \<Rightarrow> webhook_run \<Rightarrow> unit result \<times> webhook_run" where
  "deliver_rows env tick [] w = (Inr (), w)"
| "deliver_rows env tick (row # rows) w = (case attempt_row env (tick (length rows)) row w of
     (Inr _, w1) \<Rightarrow> deliver_rows env tick rows w1
   | (Inl e, w1) \<Rightarrow> (case record_failure (tick (length rows)) row e w1 of
       (Inl x, w2) \<Rightarrow> (Inl x, w2) | (Inr _, w2) \<Rightarrow> deliver_rows env tick rows w2))"

definition webhook_runOnce ::
  "webhook_env \<Rightarrow> int \<Rightarrow> int \<Rightarrow> (nat \<Rightarrow> webhook_tick) \<Rightarrow> int \<Rightarrow> ship_db \<Rightarrow> delivery_row list \<times> unit result \<times> webhook_run" where
  "webhook_runOnce env batchSize leaseSeconds tick now db =
     (case claimWebhookDeliveries batchSize leaseSeconds now db of
        (rows, db1) \<Rightarrow> (rows, deliver_rows env tick rows
          \<lparr>wn_succeeded = 0, wn_retried = 0, wn_deadLettered = 0, wn_requests = [], wn_tables = (now, db1)\<rparr>))"

end
