(* ===== verification/Ship_Webhook_Props.thy ===== *)
theory Ship_Webhook_Props
  imports Ship_Webhooks Ship_Samples
begin

section \<open>What the webhook worker sends\<close>

subsection \<open>Digests as bytes\<close>

definition low_hex :: "char \<Rightarrow> bool" where
  "low_hex c \<longleftrightarrow> is_digit_char c \<or> char_in_range (CHR ''a'') (CHR ''f'') c"

lemma low_hex_value:
  assumes "low_hex c"
  obtains x where "hex_digit c = Some x" and "x < 16" and "of_char c = (if x < 10 then x + 48 else x + 87)"
proof -
  from assms have "(48 :: nat) \<le> of_char c \<and> of_char c \<le> (57 :: nat) \<or> (97 :: nat) \<le> of_char c \<and> of_char c \<le> (102 :: nat)"
    by (auto simp: low_hex_def is_digit_char_def char_in_range_def)
  then show ?thesis
  proof
    assume "(48 :: nat) \<le> of_char c \<and> of_char c \<le> (57 :: nat)"
    then show ?thesis by (intro that [of "of_char c - 48"]) (auto simp: hex_digit_def is_digit_char_def char_in_range_def)
  next
    assume "(97 :: nat) \<le> of_char c \<and> of_char c \<le> (102 :: nat)"
    then show ?thesis by (intro that [of "of_char c - 87"]) (auto simp: hex_digit_def is_digit_char_def char_in_range_def)
  qed
qed

lemma low_hex_inj: "low_hex c \<Longrightarrow> low_hex d \<Longrightarrow> hex_digit c = hex_digit d \<Longrightarrow> c = d"
proof (elim low_hex_value)
  fix x y
  assume "hex_digit c = hex_digit d" "hex_digit c = Some x" "hex_digit d = Some y"
    "of_char c = (if x < 10 then x + 48 else x + 87)" "of_char d = (if y < 10 then y + 48 else y + 87)"
  then have "of_char c = (of_char d :: nat)" by simp
  then show "c = d" by (simp only: of_char_eq_iff)
qed

lemma hex_bytes_inj: "list_all low_hex a \<Longrightarrow> list_all low_hex b \<Longrightarrow> length a = length b \<Longrightarrow> even (length a)
    \<Longrightarrow> hex_bytes a = hex_bytes b \<Longrightarrow> a = b"
proof (induction a arbitrary: b rule: hex_bytes.induct)
  case (1 c d cs)
  from 1(4) obtain c' d' cs' where b: "b = c' # d' # cs'" by (cases b rule: hex_bytes.cases) auto
  from 1(2,3) b have low: "low_hex c" "low_hex d" "low_hex c'" "low_hex d'" by simp_all
  obtain w where w: "hex_digit c = Some w" using low(1) by (rule low_hex_value)
  obtain x where x: "hex_digit d = Some x" "x < 16" using low(2) by (rule low_hex_value)
  obtain y where y: "hex_digit c' = Some y" using low(3) by (rule low_hex_value)
  obtain z where z: "hex_digit d' = Some z" "z < 16" using low(4) by (rule low_hex_value)
  from 1(6) b w x y z have eq: "16 * w + x = 16 * y + z" "hex_bytes cs = hex_bytes cs'" by simp_all
  have "w = y" using eq(1) x(2) z(2) by linarith
  then have "x = z" using eq(1) by simp
  have "c = c'" using low_hex_inj [OF low(1,3)] w y \<open>w = y\<close> by simp
  moreover have "d = d'" using low_hex_inj [OF low(2,4)] x z \<open>x = z\<close> by simp
  moreover have "cs = cs'" by (rule 1(1) [OF _ w x(1)]) (use 1(2,3,4,5) b eq(2) in simp_all)
  ultimately show ?case using b by simp
qed auto

lemma digest_equal: "is_hex64 a \<Longrightarrow> is_hex64 b \<Longrightarrow> hex_bytes a = hex_bytes b \<Longrightarrow> a = b"
  by (rule hex_bytes_inj) (auto simp: is_hex64_def list_all_iff low_hex_def)

subsection \<open>Requests\<close>

definition signature_of :: "webhook_env \<Rightarrow> string \<Rightarrow> int \<Rightarrow> string \<Rightarrow> string" where
  "signature_of env secret clk body = ''t='' @ int_str (clk div 1000) @ '',v1='' @ wv_hmac env secret (int_str (clk div 1000) @ ''.'' @ body)"

text \<open>What holds of a request that goes out for a claim.\<close>

definition request_ok :: "webhook_env \<Rightarrow> delivery_row \<Rightarrow> webhook_request \<Rightarrow> bool" where
  "request_ok env row q \<longleftrightarrow> hex_bytes (dl_payload_sha256 row) = hex_bytes (wv_sha256 env (wq_body q))
     \<and> url_protocol (wq_url q) = ''https:'' \<and> \<not> private_host (js_lower (url_hostname (wq_url q)))
     \<and> (\<exists>secret clk. secret \<noteq> [] \<and> map_of (wq_headers q) ''veygrit-signature'' = Some (signature_of env secret clk (wq_body q)))"

lemma signed_header: "map_of (signed_headers env c res clk) ''veygrit-signature''
    = Some (signature_of env (wr_signingSecret res) clk (wr_body res))"
  by (simp add: signed_headers_def Let_def update_conv signature_of_def)

lemma safe_url: "safeWebhookUrl parse v = Inr u \<Longrightarrow> url_protocol u = ''https:'' \<and> \<not> private_host (js_lower (url_hostname u))"
  by (auto simp: safeWebhookUrl_def split: option.splits if_splits)

lemma claim_payload: "webhookClaim row = Inr c \<Longrightarrow> wc_payload_sha256 c = dl_payload_sha256 row"
  by (auto simp: webhookClaim_def sbind_Inr_iff requiredString_def split: if_splits)

lemma prepared_ok:
  assumes "webhookClaim row = Inr c" and "prepare_request env c clk = Inr q"
  shows "request_ok env row q"
proof -
  from assms(2) obtain res u where r: "safeWebhookUrl (wv_parse env) (wr_url res) = Inr u" "wr_signingSecret res \<noteq> []"
      "hex_bytes (wc_payload_sha256 c) = hex_bytes (wv_sha256 env (wr_body res))"
      "q = \<lparr>wq_url = u, wq_body = wr_body res, wq_headers = signed_headers env c res clk\<rparr>"
    by (auto simp: prepare_request_def sbind_Inr_iff split: if_splits)
  show ?thesis
    using safe_url [OF r(1)] r(2,3) claim_payload [OF assms(1)] signed_header [of env c res clk]
    by (auto simp: request_ok_def r(4))
qed

lemma delivered_ok:
  assumes "webhookClaim row = Inr c" and "deliver env c k m = (r, qs)"
  shows "q \<in> set qs \<Longrightarrow> request_ok env row q" and "length qs \<le> 1"
  using assms prepared_ok by (auto simp: deliver_def split: sum.splits)

lemma attempt_requests: "set (wn_requests (snd (attempt_row env t row w))) \<subseteq> set (wn_requests w) \<union> {q. request_ok env row q}"
  "length (wn_requests (snd (attempt_row env t row w))) \<le> length (wn_requests w) + 1"
  by (auto simp: attempt_row_def split: sum.splits prod.splits dest: delivered_ok)

lemma record_failure_requests [simp]: "wn_requests (snd (record_failure t row e w)) = wn_requests w"
  by (auto simp: record_failure_def split: sum.splits prod.splits)

lemma deliver_rows_requests:
  "set (wn_requests (snd (deliver_rows env tick rows w))) \<subseteq> set (wn_requests w) \<union> {q. \<exists>row \<in> set rows. request_ok env row q}
   \<and> length (wn_requests (snd (deliver_rows env tick rows w))) \<le> length (wn_requests w) + length rows"
proof (induction rows arbitrary: w)
  case (Cons row rows)
  let ?t = "tick (length rows)"
  obtain r w1 where a: "attempt_row env ?t row w = (r, w1)" by fastforce
  note 1 = attempt_requests [of env ?t row w, unfolded a snd_conv]
  show ?case
  proof (cases r)
    case (Inr y)
    then show ?thesis using Cons.IH [of w1] 1 a by fastforce
  next
    case (Inl e)
    obtain x w2 where f: "record_failure ?t row e w1 = (x, w2)" by fastforce
    then have "wn_requests w2 = wn_requests w1" using record_failure_requests [of ?t row e w1] by simp
    then show ?thesis using Cons.IH [of w2] 1 a f Inl by (cases x) fastforce+
  qed
qed simp


subsection \<open>Accounts\<close>

definition settled :: "webhook_run \<Rightarrow> nat" where
  "settled w = wn_succeeded w + wn_retried w + wn_deadLettered w"

lemma deliver_rows_settled: "deliver_rows env tick rows w = (Inr (), w') \<Longrightarrow> settled w' = settled w + length rows"
proof (induction rows arbitrary: w)
  case (Cons row rows)
  let ?t = "tick (length rows)"
  obtain r w1 where a: "attempt_row env ?t row w = (r, w1)" by fastforce
  have n: "settled w1 = settled w + (case r of Inl _ \<Rightarrow> 0 | Inr _ \<Rightarrow> 1)"
    using a by (auto simp: attempt_row_def settled_def split: sum.splits prod.splits)
  show ?case
  proof (cases r)
    case (Inr y)
    then show ?thesis using Cons.IH [of w1] Cons.prems a n by simp
  next
    case (Inl e)
    obtain x w2 where f: "record_failure ?t row e w1 = (x, w2)" by fastforce
    then have "x = Inr () \<Longrightarrow> settled w2 = settled w1 + 1"
      by (auto simp: record_failure_def settled_def split: sum.splits prod.splits if_splits)
    then show ?thesis using Cons.IH [of w2] Cons.prems a n f Inl by (cases x) simp_all
  qed
qed simp


subsection \<open>A sample delivery\<close>

definition sample_delivery :: delivery_input where
  "sample_delivery = \<lparr>di_deliveryRef = ''d1'', di_merchantRef = ''m'', di_shipmentRef = None, di_endpointRef = ''e'',
     di_eventType = ''t'', di_eventRef = ''v'', di_payloadRef = ''p'', di_payloadSha256 = replicate 64 (CHR ''a''),
     di_nextAttemptAt = None\<rparr>"

definition dship1 :: ship_db where "dship1 = snd (enqueueWebhookDelivery sample_delivery 1000 ship0)"

lemma enqueued: "run_ops [EnqueueDelivery sample_delivery] (1000, ship0) = (1000, dship1)"
  by (simp add: exec_def dship1_def)

lemma dship1_ok: "deliveries_ok dship1"
proof -
  have "deliveries_ok (snd (run_ops [EnqueueDelivery sample_delivery] (1000, ship0)))"
    by (rule run_ops_deliveries_ok) (simp add: empty_ok [OF ship0_empty])
  then show ?thesis unfolding enqueued by simp
qed

lemma d1_claimed: "''d1'' \<in> set (deliveries_claimed (ClaimDeliveries 20 60) (1000, dship1))"
  by code_simp

theorem delivery_leased_once_witness:
  "''d1'' \<notin> set (deliveries_claimed (ClaimDeliveries 5 10)
     (run_ops [Tick 5000, ClaimDeliveries 20 60] (exec (ClaimDeliveries 20 60) (1000, dship1))))"
  by (rule delivery_leased_once [OF ship0_empty enqueued d1_claimed]) (simp_all add: exec_def clamp_def)

definition sample_env :: webhook_env where
  "sample_env = \<lparr>wv_resolve = (\<lambda>_. Inr \<lparr>wr_url = ''https://x'', wr_body = ''b'', wr_signingSecret = ''s'', wr_headers = []\<rparr>),
     wv_parse = (\<lambda>_. Some \<lparr>url_protocol = ''https:'', url_username = [], url_password = [], url_hash = [], url_hostname = ''x''\<rparr>),
     wv_allow = None, wv_sha256 = (\<lambda>_. replicate 64 (CHR ''a'')), wv_hmac = (\<lambda>_ _. ''h''),
     wv_fetch = (\<lambda>_. Responded \<lparr>rs_status = 200, rs_retry_after = None\<rparr>)\<rparr>"

lemma sample_env_hex: "\<forall>body. is_hex64 (wv_sha256 sample_env body)"
proof -
  have "is_hex64 (replicate 64 (CHR ''a''))" by code_simp
  then show ?thesis by (simp add: sample_env_def)
qed

definition sample_tick :: "nat \<Rightarrow> webhook_tick" where
  "sample_tick n = \<lparr>wt_signed = 1000, wt_answered = 2000, wt_failed = 2000, wt_random = 0, wt_meanwhile = [Tick 900],
     wt_before_failure = []\<rparr>"

definition sample_batch :: "delivery_row list \<times> unit result \<times> webhook_run" where
  "sample_batch = webhook_runOnce sample_env 20 60 sample_tick 1000 dship1"

lemma sample_batch_result: "fst (snd sample_batch) = Inr ()" "length (wn_requests (snd (snd sample_batch))) = 1"
  by code_simp+



text \<open>The checks of an endpoint let the machine's own addresses through when they are written differently.\<close>

definition accepted_host :: "string \<Rightarrow> bool" where
  "accepted_host host \<longleftrightarrow> (case safeWebhookUrl (\<lambda>_. Some \<lparr>url_protocol = ''https:'', url_username = [], url_password = [],
     url_hash = [], url_hostname = host\<rparr>) [] of Inr _ \<Rightarrow> True | Inl _ \<Rightarrow> False)"

theorem local_endpoint_accepted:
  "list_all accepted_host [''0.0.0.0'', ''localhost.'', ''[::ffff:7f00:1]'', ''[fd00::1]'']
    \<and> \<not> accepted_host ''127.0.0.1'' \<and> \<not> accepted_host ''172.16.0.1'' \<and> \<not> accepted_host ''LOCALHOST''"
  by code_simp

end
