(* ===== verification/Ship_Label_Props.thy ===== *)
theory Ship_Label_Props
  imports Ship_Samples
begin

section \<open>Labels and quotes\<close>

subsection \<open>Selection of a quote\<close>

lemma update_quotes_map:
  "update_quotes sid sel done_rows rows = Some rows'
    \<Longrightarrow> rows' = done_rows @ map (\<lambda>x. if qt_shipment_id x = sid then choose_quote sel x else x) rows"
proof (induction rows arbitrary: done_rows)
  case (Cons x xs)
  from Cons.prems have "update_quotes sid sel (done_rows @ [if qt_shipment_id x = sid then choose_quote sel x else x]) xs = Some rows'"
    by (simp only: update_quotes.simps Let_def split: if_splits) simp_all
  from Cons.IH [OF this] show ?case by simp
qed simp

lemma selectRateQuote_cases:
  assumes "selectRateQuote q sref now db = (Inr (), db')"
  obtains s sel where "shipment_named db (js_trim sref) = Some s"
    and "first_row (filter (\<lambda>x. qt_shipment_id x = sh_id s \<and> offered_quote (js_trim q) now x) (sd_quotes db)) = Some sel"
    and "update_quotes (sh_id s) sel [] (sd_quotes db) = Some (sd_quotes db')"
proof (cases "sbind (required q ''quoteRef'' 100) (\<lambda>q. sbind (required sref ''shipmentRef'' 100) (\<lambda>s. Inr (q, s)))")
  case (Inr a)
  then have a: "a = (js_trim q, js_trim sref)" by (auto simp: sbind_Inr_iff required_Inr)
  show ?thesis
  proof (cases "shipment_named db (js_trim sref)")
    case (Some s)
    show ?thesis
    proof (cases "first_row (filter (\<lambda>x. qt_shipment_id x = sh_id s \<and> offered_quote (js_trim q) now x) (sd_quotes db))")
      case first: (Some sel)
      show ?thesis
        using assms Inr a Some first
        by (cases "update_quotes (sh_id s) sel [] (sd_quotes db)")
          (auto simp: selectRateQuote_def update_shipments_def intro!: that [OF Some first])
    qed (use assms Inr a Some in \<open>simp add: selectRateQuote_def\<close>)
  qed (use assms Inr a in \<open>simp add: selectRateQuote_def\<close>)
qed (use assms in \<open>simp add: selectRateQuote_def\<close>)

text \<open>C37. A selection leaves the chosen quote as the only selected one of its shipment, and the quotes of other shipments
  as they were.\<close>

theorem quote_selected_once:
  assumes "distinct (map qt_id (sd_quotes db))" and "selectRateQuote q sref now db = (Inr (), db')"
  shows "\<exists>s sel. shipment_named db (js_trim sref) = Some s \<and> sel \<in> set (sd_quotes db) \<and> qt_quote_ref sel = js_trim q
    \<and> qt_status sel = Offered \<and> now < qt_expires_at sel
    \<and> map qt_id (filter (\<lambda>x. qt_shipment_id x = sh_id s \<and> qt_status x = Selected) (sd_quotes db')) = [qt_id sel]
    \<and> filter (\<lambda>x. qt_shipment_id x \<noteq> sh_id s) (sd_quotes db') = filter (\<lambda>x. qt_shipment_id x \<noteq> sh_id s) (sd_quotes db)"
proof -
  obtain s sel where s: "shipment_named db (js_trim sref) = Some s"
    and first: "first_row (filter (\<lambda>x. qt_shipment_id x = sh_id s \<and> offered_quote (js_trim q) now x) (sd_quotes db)) = Some sel"
    and upd: "update_quotes (sh_id s) sel [] (sd_quotes db) = Some (sd_quotes db')"
    using assms(2) by (rule selectRateQuote_cases)
  let ?f = "\<lambda>x. if qt_shipment_id x = sh_id s then choose_quote sel x else x"
  have sel: "sel \<in> set (sd_quotes db)" "qt_shipment_id sel = sh_id s" "offered_quote (js_trim q) now sel"
    using first_row_filter [OF first] by simp_all
  have rows: "sd_quotes db' = map ?f (sd_quotes db)" using update_quotes_map [OF upd] by simp
  have pick: "qt_shipment_id (?f x) = sh_id s \<and> qt_status (?f x) = Selected \<longleftrightarrow> qt_id x = qt_id sel" if "x \<in> set (sd_quotes db)" for x
  proof -
    have "x = sel" if "qt_id x = qt_id sel" using assms(1) \<open>x \<in> _\<close> sel(1) that by (metis distinct_map inj_onD)
    then show ?thesis using sel(2) by (auto simp: choose_quote_def)
  qed
  have "filter (\<lambda>x. qt_shipment_id x = sh_id s \<and> qt_status x = Selected) (sd_quotes db')
      = map ?f (filter (\<lambda>x. qt_id x = qt_id sel) (sd_quotes db))"
    unfolding rows filter_map comp_def by (rule arg_cong [of _ _ "map ?f"], rule filter_cong [OF refl], rule pick)
  also have "\<dots> = [?f sel]" using unique_row [OF assms(1) sel(1) refl] by simp
  finally have one: "map qt_id (filter (\<lambda>x. qt_shipment_id x = sh_id s \<and> qt_status x = Selected) (sd_quotes db')) = [qt_id sel]"
    by (simp add: choose_quote_def)
  have "filter (\<lambda>x. qt_shipment_id x \<noteq> sh_id s) (map ?f xs) = filter (\<lambda>x. qt_shipment_id x \<noteq> sh_id s) xs" for xs
    by (induction xs) (simp_all add: choose_quote_def)
  then have "filter (\<lambda>x. qt_shipment_id x \<noteq> sh_id s) (sd_quotes db') = filter (\<lambda>x. qt_shipment_id x \<noteq> sh_id s) (sd_quotes db)"
    by (simp only: rows)
  with s sel one show ?thesis unfolding offered_quote_def by (intro exI [of _ s] exI [of _ sel]) simp
qed

text \<open>Another choice is refused: when the quote chosen now comes before the one chosen earlier, the unique index sees
  two selected quotes of the shipment.\<close>

theorem quote_reselection_refused:
  assumes "shipment_named db (js_trim sref) = Some s" and "sd_quotes db = [x, old]"
    and "qt_shipment_id x = sh_id s" and "offered_quote (js_trim q) now x"
    and "qt_shipment_id old = sh_id s" and "qt_status old = Selected"
  shows "\<exists>e. selectRateQuote q sref now db = (Inl e, db)"
proof (cases "sbind (required q ''quoteRef'' 100) (\<lambda>q. sbind (required sref ''shipmentRef'' 100) (\<lambda>s. Inr (q, s)))")
  case (Inr a)
  then have "a = (js_trim q, js_trim sref)" by (auto simp: sbind_Inr_iff required_Inr)
  moreover have "update_quotes (sh_id s) x [] (sd_quotes db) = None"
    using assms by (simp add: choose_quote_def)
  ultimately show ?thesis using Inr assms by (simp add: selectRateQuote_def)
qed (simp add: selectRateQuote_def)

subsection \<open>Labels\<close>

text \<open>A label saved under a reference with blanks around it is stored, but the shipment is looked up by the reference
  as it was given and is not updated.\<close>

theorem untrimmed_label_half_saved:
  assumes "saveLabel i now db = (Inr (), db')" and "\<not> list_ex (\<lambda>s. sh_shipment_ref s = li_shipmentRef i) (sd_shipments db)"
  shows "sd_shipments db' = sd_shipments db
    \<and> (\<exists>l \<in> set (sd_labels db'). lb_label_ref l = js_trim (li_labelRef i)
        \<and> (\<exists>s \<in> set (sd_shipments db). sh_id s = lb_shipment_id l \<and> sh_shipment_ref s = js_trim (li_shipmentRef i)))"
proof -
  from assms(1) obtain a db1 where a: "label_arguments i = Inr a" and ins: "insert_label i a now db = (Inr (), db1)"
    and db': "db' = update_shipments (\<lambda>s. sh_shipment_ref s = li_shipmentRef i) (labelled_row i now) db1"
    by (auto simp: saveLabel_def Let_def split: sum.splits prod.splits if_splits)
  have refs: "la_labelRef a = js_trim (li_labelRef i)" "la_shipmentRef a = js_trim (li_shipmentRef i)"
    using a by (auto simp: label_arguments_def sbind_Inr_iff required_Inr)
  from ins obtain s pid where t: "label_target a db = Some (s, pid)"
    by (auto simp: insert_label_def Let_def split: option.splits)
  have same: "sd_shipments db1 = sd_shipments db"
    using ins t by (auto simp: insert_label_def Let_def split: option.splits if_splits)
  have l: "\<exists>l \<in> set (sd_labels db1). lb_label_ref l = la_labelRef a \<and> lb_shipment_id l = sh_id s"
  proof (cases "first_row (filter (\<lambda>l. lb_label_ref l = la_labelRef a) (sd_labels db))")
    case None
    then show ?thesis using ins t by (auto simp: insert_label_def Let_def new_label_def split: if_splits)
  next
    case (Some l)
    then have "l \<in> set (sd_labels db)" "lb_label_ref l = la_labelRef a" using first_row_filter [OF Some] by simp_all
    then show ?thesis using ins t Some by (auto simp: insert_label_def Let_def same_label_def split: if_splits)
  qed
  have "shipment_named db (la_shipmentRef a) = Some s" using t by (auto simp: label_target_def split: option.splits)
  then have s: "s \<in> set (sd_shipments db)" "sh_shipment_ref s = js_trim (li_shipmentRef i)"
    using refs by (auto simp: shipment_named_def dest!: first_row_filter)
  have "sd_shipments db' = sd_shipments db"
    unfolding db' using assms(2) same by (auto simp: list_ex_iff intro!: sql_update_id)
  moreover from l obtain x where "x \<in> set (sd_labels db')" "lb_label_ref x = la_labelRef a" "lb_shipment_id x = sh_id s"
    by (auto simp: db')
  ultimately show ?thesis using s refs by (intro conjI bexI [of _ x] bexI [of _ s]) simp_all
qed

subsection \<open>Samples\<close>

definition sample_quote :: "int \<Rightarrow> string \<Rightarrow> quote_status \<Rightarrow> quote_row" where
  "sample_quote i r st = \<lparr>qt_id = i, qt_quote_ref = r, qt_shipment_id = 7, qt_expires_at = 9000, qt_status = st,
     qt_connection_id = None, qt_carrier = ''ups'', qt_adapter = None, qt_product_id_code = ''03'', qt_amount = 10,
     qt_currency = ''USD'', qt_delivery_days = None, qt_estimated_delivery_at = None, qt_carrier_response_ref = None\<rparr>"

definition quoted :: ship_db where
  "quoted = ship0\<lparr>sd_quotes := [sample_quote 1 ''q1'' Offered, sample_quote 2 ''q2'' Offered]\<rparr>"

definition chosen :: ship_db where "chosen = snd (selectRateQuote ''q2'' ''s7'' 1000 quoted)"

lemma choosing: "selectRateQuote ''q2'' ''s7'' 1000 quoted = (Inr (), chosen)"
  unfolding chosen_def by code_simp

lemma named7: "shipment_named quoted (js_trim ''s7'') = Some sample_shipment"
  "shipment_named chosen (js_trim ''s7'') = Some (sample_shipment\<lparr>sh_status := Rated\<rparr>)"
  by code_simp+

theorem quote_selected_once_witness:
  "\<exists>s (sel :: quote_row). shipment_named quoted (js_trim ''s7'') = Some s
    \<and> map qt_id (filter (\<lambda>x. qt_shipment_id x = sh_id s \<and> qt_status x = Selected) (sd_quotes chosen)) = [qt_id sel]"
proof -
  have "distinct (map qt_id (sd_quotes quoted))" by code_simp
  from quote_selected_once [OF this choosing] show ?thesis
    by (elim exE conjE, intro exI conjI)
qed

theorem quote_reselection_refused_witness: "\<exists>e. selectRateQuote ''q1'' ''s7'' 1500 chosen = (Inl e, chosen)"
proof (rule quote_reselection_refused [OF named7(2), of "sample_quote 1 ''q1'' Offered" "sample_quote 2 ''q2'' Selected"])
  show "sd_quotes chosen = [sample_quote 1 ''q1'' Offered, sample_quote 2 ''q2'' Selected]" by code_simp
  show "offered_quote (js_trim ''q1'') 1500 (sample_quote 1 ''q1'' Offered)" by code_simp
qed (simp_all add: sample_quote_def sample_shipment_def)

definition padded_label :: label_input where
  "padded_label = \<lparr>li_labelRef = ''l1'', li_shipmentRef = '' s7'', li_packageRef = None, li_carrier = ''ups'',
     li_trackingNumber = ''1Z'', li_format = Pdf, li_artifactKey = ''k'', li_artifactSha256 = replicate 64 (CHR ''a''),
     li_artifactSize = None, li_carrierShipmentId = None\<rparr>"

definition half_saved :: ship_db where "half_saved = snd (saveLabel padded_label 1000 ship0)"

lemma saving: "saveLabel padded_label 1000 ship0 = (Inr (), half_saved)"
  unfolding half_saved_def by code_simp

theorem untrimmed_label_half_saved_witness: "sd_shipments half_saved = sd_shipments ship0"
proof -
  have "\<not> list_ex (\<lambda>s. sh_shipment_ref s = li_shipmentRef padded_label) (sd_shipments ship0)" by code_simp
  from untrimmed_label_half_saved [OF saving this] show ?thesis by blast
qed

end
