(* ===== verification/Ship_Ownership.thy ===== *)
theory Ship_Ownership
  imports Ship_Label_Props
begin

section \<open>Who owns a shipment\<close>

text \<open>
  Over every run of the operations: a shipment has one owner, a merchant or a guest session; a live one has a merchant
  and a connection to a carrier; and the connection of a shipment or of its quotes is its merchant's own.
\<close>

subsection \<open>The columns that do not change\<close>

fun ship_key :: "ship_row \<Rightarrow> int \<times> int option \<times> int option \<times> int option \<times> ship_mode" where
  "ship_key s = (sh_id s, sh_merchant_id s, sh_guest_session_id s, sh_connection_id s, sh_mode s)"

fun conn_key :: "connection_row \<Rightarrow> int \<times> int" where
  "conn_key c = (cn_id c, cn_merchant_id c)"

fun quote_key :: "quote_row \<Rightarrow> int \<times> int option" where
  "quote_key q = (qt_shipment_id q, qt_connection_id q)"

definition keys_kept :: "ship_db \<Rightarrow> ship_db \<Rightarrow> bool" where
  "keys_kept db db' \<longleftrightarrow> map ship_key (sd_shipments db') = map ship_key (sd_shipments db)
     \<and> map conn_key (sd_connections db') = map conn_key (sd_connections db)
     \<and> map quote_key (sd_quotes db') = map quote_key (sd_quotes db)"

lemma keys_kept_refl [simp]: "keys_kept db db"
  by (simp add: keys_kept_def)

lemma keys_kept_trans: "keys_kept a b \<Longrightarrow> keys_kept b c \<Longrightarrow> keys_kept a c"
  by (simp add: keys_kept_def)

lemma keys_kept_shipments:
  "(\<And>s. ship_key (f s) = ship_key s) \<Longrightarrow> keys_kept db (update_shipments P f db)"
  by (simp add: keys_kept_def update_shipments_def map_sql_update)

lemma keys_kept_same:
  "sd_shipments db' = sd_shipments db \<Longrightarrow> sd_connections db' = sd_connections db \<Longrightarrow> sd_quotes db' = sd_quotes db \<Longrightarrow> keys_kept db db'"
  by (simp add: keys_kept_def)

lemma insert_job_keys: "keys_kept db (snd (insert_job rnd now s db))"
  by (rule keys_kept_same) (simp_all add: insert_job_def Let_def)

lemma insert_jobs_keys: "keys_kept db (snd (insert_jobs rnd now ss db))"
proof (induction ss arbitrary: db)
  case (Cons s ss)
  show ?case using keys_kept_trans [OF insert_job_keys Cons.IH] by (simp add: Let_def case_prod_unfold)
qed simp

lemma insert_packages_quotes: "sd_quotes (snd (insert_packages sid n ps db)) = sd_quotes db"
  by (induction ps arbitrary: n db) (auto split: sum.splits)

lemma append_event_keys: "keys_kept db (snd (appendTrackingEvent e db))"
  by (rule keys_kept_same) (auto simp: appendTrackingEvent_def Let_def split: sum.splits option.splits)

lemma append_events_keys: "keys_kept db (snd (append_events es db))"
proof (induction es arbitrary: db)
  case (Cons e es)
  obtain x db1 where one: "appendTrackingEvent e db = (x, db1)" by fastforce
  then have "keys_kept db db1" using append_event_keys [of db e] by simp
  then show ?case using one Cons.IH [of db1] by (cases x) (auto intro: keys_kept_trans)
qed simp

lemma insert_label_keys: "keys_kept db (snd (insert_label i a now db))"
  by (rule keys_kept_same) (auto simp: insert_label_def Let_def split: option.splits)

lemma labelled_keys: "ship_key (labelled_row i now s) = ship_key s"
  by (simp add: labelled_row_def)

lemma save_label_keys: "keys_kept db (snd (saveLabel i now db))"
proof -
  have "keys_kept db (update_shipments P (labelled_row i now) db1)" if "insert_label i a now db = (x, db1)" for P a x db1
    using insert_label_keys [of db i a now] that keys_kept_shipments [OF labelled_keys] by (auto intro: keys_kept_trans)
  then show ?thesis by (auto simp: saveLabel_def Let_def split: sum.splits prod.splits)
qed

lemma found_keys: "keys_kept db (snd (recordLabelFound i now db))"
proof -
  obtain x db1 where one: "saveLabel i now db = (x, db1)" by fastforce
  then have "keys_kept db db1" using save_label_keys [of db i now] by simp
  then show ?thesis using one
    by (auto simp: recordLabelFound_def split: sum.splits intro: keys_kept_trans [OF _ keys_kept_shipments])
qed

lemma unknown_keys: "keys_kept db (snd (markLabelOutcomeUnknown rnd i now db))"
proof -
  have "keys_kept db y" if "insert_job rnd now s (update_shipments P (unknown_row rid d now) db) = (x, y)" for s P rid d x y
    using insert_job_keys [of "update_shipments P (unknown_row rid d now) db" rnd now s] that
      keys_kept_shipments [of "unknown_row rid d now" db P] by (auto simp: unknown_row_def intro: keys_kept_trans)
  then show ?thesis
    by (auto simp: markLabelOutcomeUnknown_def Let_def split: sum.splits option.splits prod.splits)
qed

lemma synced_keys: "ship_key (synced_row st p q now s) = ship_key s"
  by (simp add: synced_row_def)

lemma tracking_keys: "keys_kept db (snd (recordTrackingSync i now db))"
proof -
  obtain x db1 where one: "append_events (ts_events i) db = (x, db1)" by fastforce
  then have "keys_kept db db1" using append_events_keys [of db "ts_events i"] by simp
  then show ?thesis using one
    by (auto simp: recordTrackingSync_def split: sum.splits intro: keys_kept_trans [OF _ keys_kept_shipments [OF synced_keys]])
qed

lemma select_keys: "keys_kept db (snd (selectRateQuote q s now db))"
proof (cases "selectRateQuote q s now db")
  case (Pair x db')
  show ?thesis
  proof (cases x)
    case (Inr u)
    with Pair have "selectRateQuote q s now db = (Inr (), db')" by simp
    then obtain y :: ship_row and sel where "update_quotes (sh_id y) sel [] (sd_quotes db) = Some (sd_quotes db')"
      by (rule selectRateQuote_cases)
    from update_quotes_map [OF this] have "map quote_key (sd_quotes db') = map quote_key (sd_quotes db)"
      by (simp add: choose_quote_def)
    moreover have "map ship_key (sd_shipments db') = map ship_key (sd_shipments db) \<and> sd_connections db' = sd_connections db"
      using Pair Inr by (auto simp: selectRateQuote_def update_shipments_def map_sql_update split: sum.splits option.splits)
    ultimately show ?thesis using Pair by (simp add: keys_kept_def)
  qed (use Pair in \<open>auto simp: selectRateQuote_def split: sum.splits option.splits\<close>)
qed

subsection \<open>The invariant\<close>

definition holds_connection :: "ship_db \<Rightarrow> int option \<Rightarrow> int \<Rightarrow> bool" where
  "holds_connection db m k \<longleftrightarrow> list_ex (\<lambda>c. cn_id c = k \<and> Some (cn_merchant_id c) = m) (sd_connections db)"

definition owned_shipment :: "ship_db \<Rightarrow> ship_row \<Rightarrow> bool" where
  "owned_shipment db s \<longleftrightarrow> (sh_merchant_id s = None) \<noteq> (sh_guest_session_id s = None)
     \<and> (sh_mode s = LiveMode \<longrightarrow> sh_merchant_id s \<noteq> None \<and> sh_connection_id s \<noteq> None)
     \<and> (case sh_connection_id s of None \<Rightarrow> True | Some k \<Rightarrow> holds_connection db (sh_merchant_id s) k)"

definition owned_quote :: "ship_db \<Rightarrow> quote_row \<Rightarrow> bool" where
  "owned_quote db q \<longleftrightarrow> (case qt_connection_id q of None \<Rightarrow> True
     | Some k \<Rightarrow> list_ex (\<lambda>s. sh_id s = qt_shipment_id q \<and> holds_connection db (sh_merchant_id s) k) (sd_shipments db))"

definition ownership_ok :: "ship_db \<Rightarrow> bool" where
  "ownership_ok db \<longleftrightarrow> list_all (owned_shipment db) (sd_shipments db) \<and> list_all (owned_quote db) (sd_quotes db)"

text \<open>The same over the columns.\<close>

fun key_owned :: "(int \<times> int) list \<Rightarrow> int \<times> int option \<times> int option \<times> int option \<times> ship_mode \<Rightarrow> bool" where
  "key_owned hs (sid, m, g, k, mode) \<longleftrightarrow> (m = None) \<noteq> (g = None) \<and> (mode = LiveMode \<longrightarrow> m \<noteq> None \<and> k \<noteq> None)
     \<and> (case k of None \<Rightarrow> True | Some i \<Rightarrow> list_ex (\<lambda>h. fst h = i \<and> Some (snd h) = m) hs)"

fun quote_owned :: "(int \<times> int) list \<Rightarrow> (int \<times> int option \<times> int option \<times> int option \<times> ship_mode) list \<Rightarrow> int \<times> int option \<Rightarrow> bool" where
  "quote_owned hs os (sid, k) \<longleftrightarrow> (case k of None \<Rightarrow> True
     | Some i \<Rightarrow> list_ex (\<lambda>x. fst x = sid \<and> list_ex (\<lambda>h. fst h = i \<and> Some (snd h) = fst (snd x)) hs) os)"

lemma list_ex_map: "list_ex P (map f xs) = list_ex (P \<circ> f) xs"
  by (induction xs) simp_all

lemma ownership_keys:
  "ownership_ok db \<longleftrightarrow> list_all (key_owned (map conn_key (sd_connections db))) (map ship_key (sd_shipments db))
    \<and> list_all (quote_owned (map conn_key (sd_connections db)) (map ship_key (sd_shipments db))) (map quote_key (sd_quotes db))"
  by (simp add: ownership_ok_def owned_shipment_def owned_quote_def holds_connection_def list_all_iff list_ex_map comp_def
      split: option.splits)

lemma keys_kept_ownership: "keys_kept db db' \<Longrightarrow> ownership_ok db' = ownership_ok db"
  by (simp add: keys_kept_def ownership_keys)

lemma key_owned_mono: "key_owned hs x \<Longrightarrow> key_owned (hs @ hs') x"
  by (cases x) (auto split: option.splits)

lemma quote_owned_mono: "quote_owned hs os x \<Longrightarrow> quote_owned (hs @ hs') (os @ os') x"
  by (cases x) (auto simp: list_ex_iff split: option.splits)

text \<open>What the operations that fill the tables add.\<close>

definition keys_grown :: "ship_db \<Rightarrow> ship_db \<Rightarrow> bool" where
  "keys_grown db db' \<longleftrightarrow> (\<exists>os hs qs. map ship_key (sd_shipments db') = map ship_key (sd_shipments db) @ os
     \<and> map conn_key (sd_connections db') = map conn_key (sd_connections db) @ hs
     \<and> map quote_key (sd_quotes db') = map quote_key (sd_quotes db) @ qs
     \<and> list_all (key_owned (map conn_key (sd_connections db))) os
     \<and> list_all (quote_owned (map conn_key (sd_connections db)) (map ship_key (sd_shipments db))) qs)"

lemma keys_grownI:
  assumes "map ship_key (sd_shipments db') = map ship_key (sd_shipments db) @ os"
    and "map conn_key (sd_connections db') = map conn_key (sd_connections db) @ hs"
    and "map quote_key (sd_quotes db') = map quote_key (sd_quotes db) @ qs"
    and "list_all (key_owned (map conn_key (sd_connections db))) os"
    and "list_all (quote_owned (map conn_key (sd_connections db)) (map ship_key (sd_shipments db))) qs"
  shows "keys_grown db db'"
  unfolding keys_grown_def using assms by blast

lemma keys_kept_grown: "keys_kept db db' \<Longrightarrow> keys_grown db db'"
  by (rule keys_grownI [of _ _ "[]" "[]" "[]"]) (simp_all add: keys_kept_def)

lemma grown_owned:
  "list_all (key_owned hs) xs \<Longrightarrow> list_all (key_owned hs) ys \<Longrightarrow> list_all (key_owned (hs @ hs')) (xs @ ys)"
  "list_all (quote_owned hs os) qs \<Longrightarrow> list_all (quote_owned hs os) rs \<Longrightarrow> list_all (quote_owned (hs @ hs') (os @ os')) (qs @ rs)"
  using key_owned_mono quote_owned_mono by (simp_all only: list_all_append) (blast intro: list.pred_mono_strong)+

lemma keys_grown_ownership: "keys_grown db db' \<Longrightarrow> ownership_ok db \<Longrightarrow> ownership_ok db'"
  unfolding keys_grown_def ownership_keys by (elim exE conjE) (simp only: grown_owned simp_thms)

subsection \<open>The operations that fill the tables\<close>

text \<open>The connection a shipment gets.\<close>

lemma carrier_matches:
  "(case c of Some (k # ks) \<Rightarrow> (if k # ks \<noteq> q then Inl e else Inr z) | _ \<Rightarrow> Inr z) = Inr y \<Longrightarrow> y = z"
  by (auto split: option.splits list.splits if_splits)

lemma found_or_missing: "(case v of None \<Rightarrow> Inl e | Some x \<Rightarrow> f x) = Inr y \<longleftrightarrow> (\<exists>x. v = Some x \<and> f x = Inr y)"
  by (cases v) simp_all

lemma connection_chosen:
  assumes "shipment_connection i owner db = Inr conn"
  shows "(si_mode i = Some LiveMode \<longrightarrow> oi_merchantId owner \<noteq> None \<and> conn \<noteq> None)
    \<and> (case conn of None \<Rightarrow> True | Some k \<Rightarrow> list_ex (\<lambda>c. cn_id c = k \<and> Some (cn_merchant_id c) = oi_merchantId owner) (sd_connections db))"
proof (cases "si_connectionRef i \<in> {None, Some []}")
  case True
  then show ?thesis using assms by (auto simp: shipment_connection_def split: if_splits)
next
  case False
  then obtain c cs where ref: "si_connectionRef i = Some (c # cs)" by (metis insertI1 insertI2 list.exhaust option.exhaust)
  with assms obtain r x where x: "first_row (filter (\<lambda>x. cn_connection_ref x = r \<and> Some (cn_merchant_id x) = oi_merchantId owner
      \<and> cn_status x = ActiveConnection) (sd_connections db)) = Some x"
    and check: "(case si_carrier i of Some (k # ks) \<Rightarrow> (if k # ks \<noteq> cn_carrier x
        then Inl (JsTypeError ''Shipment carrier does not match carrier connection.'') else Inr (Some (cn_id x)))
      | _ \<Rightarrow> Inr (Some (cn_id x))) = Inr conn"
    by (simp add: shipment_connection_def sbind_Inr_iff found_or_missing split: if_split_asm) blast+
  have "conn = Some (cn_id x)" using carrier_matches [OF check] .
  moreover have "x \<in> set (sd_connections db)" "oi_merchantId owner = Some (cn_merchant_id x)"
    using first_row_filter [OF x] by simp_all
  ultimately show ?thesis by (auto simp: list_ex_iff)
qed

lemma create_keys: "keys_grown db (snd (createShipmentWithPackages i now db))"
proof (rule createShipment_cases [of i now db])
  fix owner conn s db'
  let ?db = "db\<lparr>sd_next_id := sd_next_id db + 1, sd_shipments := sd_shipments db @ [s]\<rparr>"
  assume owner: "resolveOwner (si_owner i) now (sd_access db) = Inr owner" and conn: "shipment_connection i owner db = Inr conn"
    and s: "shipment_row_of i owner conn (sd_next_id db) = Inr s"
    and ins: "insert_packages (sh_id s) 1 (si_packages i) ?db = (Inr (), db')"
    and eq: "createShipmentWithPackages i now db = (Inr (sh_shipment_ref s, map pi_packageRef (si_packages i)), db')"
  have db': "sd_shipments db' = sd_shipments db @ [s]" "sd_connections db' = sd_connections db"
    using insert_packages_frame [of "sh_id s" 1 "si_packages i" ?db] ins by simp_all
  have quotes: "sd_quotes db' = sd_quotes db" using insert_packages_quotes [of "sh_id s" 1 "si_packages i" ?db] ins by simp
  have one: "(oi_merchantId owner = None) \<noteq> (oi_guestSessionId owner = None)"
    using owner by (auto simp: resolveOwner_def sbind_Inr_iff split: ship_owner.splits option.splits)
  have row: "sh_merchant_id s = oi_merchantId owner" "sh_guest_session_id s = oi_guestSessionId owner" "sh_connection_id s = conn"
    "sh_mode s = LiveMode \<Longrightarrow> si_mode i = Some LiveMode"
    using s by (auto simp: shipment_row_of_def sbind_Inr_iff split: option.splits)
  have "key_owned (map conn_key (sd_connections db)) (ship_key s)"
    using one row connection_chosen [OF conn] by (auto simp: list_ex_map comp_def split: option.splits)
  then show ?thesis unfolding eq
    by (intro keys_grownI [of _ _ "[ship_key s]" "[]" "[]"]) (simp_all add: db' quotes del: ship_key.simps)
qed (simp add: keys_kept_grown)

lemma connection_keys: "keys_grown db (snd (upsertCarrierConnection i now db))"
proof (cases "upsertCarrierConnection i now db")
  case (Pair x db')
  have same: "sd_shipments db' = sd_shipments db" "sd_quotes db' = sd_quotes db"
    using Pair by (auto simp: upsertCarrierConnection_def Let_def split: sum.splits option.splits prod.splits if_splits)
  have "\<exists>hs. map conn_key (sd_connections db') = map conn_key (sd_connections db) @ hs"
    using Pair by (auto simp: upsertCarrierConnection_def Let_def map_sql_update merged_connection_def
        split: sum.splits option.splits prod.splits if_splits)
  then show ?thesis unfolding Pair using same by (auto intro: keys_grownI [of _ _ "[]" _ "[]"])
qed

lemma quote_target_owned:
  assumes "quote_target sref cref db = Some (sid, Some k)"
  shows "list_ex (\<lambda>s. sh_id s = sid \<and> list_ex (\<lambda>c. cn_id c = k \<and> Some (cn_merchant_id c) = sh_merchant_id s) (sd_connections db)) (sd_shipments db)"
  using assms by (auto simp: quote_target_def shipment_named_def list_ex_iff split: option.splits dest!: first_row_filter)

lemma quote_keys: "keys_grown db (snd (saveRateQuote i db))"
proof (cases "saveRateQuote i db")
  case (Pair x db')
  have same: "sd_shipments db' = sd_shipments db" "sd_connections db' = sd_connections db"
    using Pair by (auto simp: saveRateQuote_def Let_def split: sum.splits option.splits prod.splits if_splits)
  have "\<exists>qs. map quote_key (sd_quotes db') = map quote_key (sd_quotes db) @ qs
      \<and> list_all (quote_owned (map conn_key (sd_connections db)) (map ship_key (sd_shipments db))) qs"
    using Pair by (auto simp: saveRateQuote_def Let_def map_sql_update requoted_def list_ex_map comp_def dest: quote_target_owned
        split: sum.splits option.splits prod.splits if_splits)
  then obtain qs where "map quote_key (sd_quotes db') = map quote_key (sd_quotes db) @ qs"
    "list_all (quote_owned (map conn_key (sd_connections db)) (map ship_key (sd_shipments db))) qs" by blast
  then show ?thesis unfolding Pair using same by (intro keys_grownI [of _ _ "[]" "[]" qs]) simp_all
qed

lemma managed_keys: "keys_kept db (snd (saveManagedLabel i now db))"
  by (auto simp: saveManagedLabel_def Let_def keys_kept_def map_sql_update managed_shipment_def update_shipments_def split: sum.splits option.splits)

lemma rotation_keys: "keys_kept db (snd (recordSuccess i p now db))"
  by (auto simp: recordSuccess_def Let_def keys_kept_def map_sql_update rotated_connection_def split: sum.splits option.splits)

lemma registry_keys: "keys_grown db (apply_registry op now db)"
proof (cases op)
  case (CreateShipment i)
  then show ?thesis using create_keys by simp
next
  case (UpsertConnection i)
  then show ?thesis using connection_keys by simp
next
  case (SaveQuote i)
  then show ?thesis using quote_keys by simp
next
  case (SaveManaged i)
  then show ?thesis using managed_keys keys_kept_grown by simp
next
  case (RecordRotation i p)
  then show ?thesis using rotation_keys keys_kept_grown by simp
qed (auto simp: upsertMerchant_def createGuestSession_def update_access_def recordAccess_def requestVoid_def finishVoid_def Let_def
    log_access_def recordFailure_def split: sum.splits option.splits intro!: keys_kept_grown keys_kept_same)

lemma replay_keys: "keys_kept db (snd (replayDeadLetter r t db))"
  by (rule replay_cases [of r t db]) (simp_all add: keys_kept_def)

lemma schedule_keys: "keys_kept db (snd (scheduleDueJobs lock rnd now db))"
  by (auto simp: scheduleDueJobs_def Let_def case_prod_unfold intro!: keys_kept_trans [OF _ insert_jobs_keys])

lemma apply_keys: "keys_grown db (apply_op op now db)"
proof (cases op)
  case (Registry r)
  then show ?thesis using registry_keys by simp
qed (auto intro!: keys_kept_grown save_label_keys found_keys unknown_keys tracking_keys select_keys replay_keys schedule_keys
    simp: claimJobs_def completeJob_def failJob_def audit_dead_letter_def
    count_connection_failure_def count_shipment_failure_def markLabelReconciling_def recordLabelNotFound_def
    recordCarrierReconciliation_def reconciled_row_def recordUpsTokenRefresh_def refreshed_connection_def claimWebhookDeliveries_def
    finishWebhookDelivery_def replayWebhookDeadLetter_def enqueueWebhookDelivery_def Let_def
    keys_kept_def map_sql_update update_shipments_def split: sum.splits option.splits prod.splits)

subsection \<open>What the operations promise\<close>

lemma run_ownership: "ownership_ok (snd s) \<Longrightarrow> ownership_ok (snd (run_ops ops s))"
  by (erule run_ops_invariant) (rule keys_grown_ownership [OF apply_keys])

text \<open>C11. Over every run of the operations of all callers a shipment has exactly one owner, a merchant or a guest session; a live
  one has a merchant and a connection to a carrier; and a connection that a shipment or one of its quotes names is one of
  the shipment's own merchant.\<close>

theorem shipment_ownership:
  assumes "sd_shipments db0 = []" and "sd_quotes db0 = []" and "snd (run_ops ops (t0, db0)) = db"
  shows "list_all (owned_shipment db) (sd_shipments db) \<and> list_all (owned_quote db) (sd_quotes db)"
proof -
  have "ownership_ok db0" by (simp add: ownership_ok_def assms(1,2))
  then show ?thesis using run_ownership [of "(t0, db0)" ops] assms(3) by (simp add: ownership_ok_def)
qed

lemma insert_packages_rows:
  "insert_packages sid n ps db = (Inr (), db') \<Longrightarrow> \<exists>new. sd_packages db' = sd_packages db @ new \<and> length new = length ps
    \<and> map pk_shipment_id new = replicate (length ps) sid \<and> map pk_sequence_no new = map (\<lambda>k. n + int k) [0..<length ps]
    \<and> map pk_package_ref new = map (js_trim \<circ> pi_packageRef) ps"
proof (induction ps arbitrary: n db)
  case (Cons p ps)
  then obtain k where k: "package_of p sid n (sd_next_id db) = Inr k"
    and rest: "insert_packages sid (n + 1) ps (db\<lparr>sd_next_id := sd_next_id db + 1, sd_packages := sd_packages db @ [k]\<rparr>) = (Inr (), db')"
    by (auto split: sum.splits if_splits)
  have row: "pk_shipment_id k = sid" "pk_sequence_no k = n" "pk_package_ref k = js_trim (pi_packageRef p)"
    using k by (auto simp: package_of_def sbind_Inr_iff required_Inr)
  from Cons.IH [OF rest] obtain new where new: "sd_packages db' = (sd_packages db @ [k]) @ new" "length new = length ps"
    "map pk_shipment_id new = replicate (length ps) sid" "map pk_sequence_no new = map (\<lambda>j. n + 1 + int j) [0..<length ps]"
    "map pk_package_ref new = map (js_trim \<circ> pi_packageRef) ps" by auto
  have "map (\<lambda>j. n + int j) [0..<Suc (length ps)] = n # map (\<lambda>j. n + 1 + int j) [0..<length ps]"
    unfolding upt_conv_Cons [OF zero_less_Suc] map_Suc_upt [symmetric] by (simp add: comp_def algebra_simps)
  then show ?case using new row by (intro exI [of _ "k # new"]) (simp del: upt_Suc)
qed simp

text \<open>C27. Creation is all or nothing: it fails and leaves the tables as they were, or adds one draft shipment of the owner
  that is asked for, with one package per input, in order.\<close>

theorem shipment_created_whole:
  assumes "createShipmentWithPackages i now db = (r, db')"
  shows "(\<exists>e. r = Inl e) \<and> db' = db
    \<or> (\<exists>s new owner. r = Inr (sh_shipment_ref s, map pi_packageRef (si_packages i)) \<and> sd_shipments db' = sd_shipments db @ [s]
        \<and> sh_shipment_ref s = js_trim (si_shipmentRef i) \<and> sh_status s = Draft \<and> sh_label_outcome s = NotRequested
        \<and> resolveOwner (si_owner i) now (sd_access db) = Inr owner
        \<and> sh_merchant_id s = oi_merchantId owner \<and> sh_guest_session_id s = oi_guestSessionId owner
        \<and> \<not> list_ex (\<lambda>x. sh_shipment_ref x = sh_shipment_ref s) (sd_shipments db)
        \<and> sd_packages db' = sd_packages db @ new \<and> new \<noteq> []
        \<and> map pk_package_ref new = map (js_trim \<circ> pi_packageRef) (si_packages i)
        \<and> map pk_shipment_id new = replicate (length (si_packages i)) (sh_id s)
        \<and> map pk_sequence_no new = map (\<lambda>k. 1 + int k) [0..<length (si_packages i)])"
proof (rule createShipment_cases [of i now db])
  fix owner conn s db1
  let ?db = "db\<lparr>sd_next_id := sd_next_id db + 1, sd_shipments := sd_shipments db @ [s]\<rparr>"
  assume some: "si_packages i \<noteq> []" and owner: "resolveOwner (si_owner i) now (sd_access db) = Inr owner"
    and s: "shipment_row_of i owner conn (sd_next_id db) = Inr s" and checked: "shipment_checked s (sd_shipments db)"
    and ins: "insert_packages (sh_id s) 1 (si_packages i) ?db = (Inr (), db1)"
    and eq: "createShipmentWithPackages i now db = (Inr (sh_shipment_ref s, map pi_packageRef (si_packages i)), db1)"
  have ships: "sd_shipments db1 = sd_shipments db @ [s]" using insert_packages_frame [of "sh_id s" 1 "si_packages i" ?db] ins by simp
  have row: "sh_shipment_ref s = js_trim (si_shipmentRef i)" "sh_status s = Draft" "sh_label_outcome s = NotRequested"
    "sh_merchant_id s = oi_merchantId owner" "sh_guest_session_id s = oi_guestSessionId owner"
    using s by (auto simp: shipment_row_of_def sbind_Inr_iff required_Inr)
  from insert_packages_rows [OF ins] obtain new where "sd_packages db1 = sd_packages db @ new" "length new = length (si_packages i)"
    "map pk_shipment_id new = replicate (length (si_packages i)) (sh_id s)"
    "map pk_sequence_no new = map (\<lambda>k. 1 + int k) [0..<length (si_packages i)]"
    "map pk_package_ref new = map (js_trim \<circ> pi_packageRef) (si_packages i)" by auto
  then show ?thesis using assms eq ships row owner some checked
    by (intro disjI2 exI [of _ s] exI [of _ new] exI [of _ owner]) (auto simp: shipment_checked_def)
qed (use assms in simp)


subsection \<open>Samples\<close>

definition parcel :: package_input where
  "parcel = \<lparr>pi_packageRef = '' p1'', pi_packagingCode = None, pi_weightValue = 2, pi_weightUnit = Kg, pi_lengthValue = None,
     pi_widthValue = None, pi_heightValue = None, pi_dimensionUnit = None, pi_declaredValue = None, pi_declaredValueCurrency = None\<rparr>"

definition live_shipment :: shipment_input where
  "live_shipment = \<lparr>si_owner = MerchantOwner ''m'', si_shipmentRef = ''s9'', si_connectionRef = Some ''c1'', si_carrier = Some ''ups'',
     si_adapter = None, si_productIdCode = None, si_direction = None, si_mode = Some LiveMode, si_originCountryCode = ''jp'',
     si_destinationCountryCode = ''us'', si_originAddressRef = ''a'', si_destinationAddressRef = ''b'', si_originSnapshotRef = None,
     si_destinationSnapshotRef = None, si_requestFingerprint = None, si_packages = [parcel]\<rparr>"

definition ups_connection :: connection_input where
  "ups_connection = \<lparr>ci_connectionRef = ''c1'', ci_merchantRef = ''m'', ci_carrier = ''ups'', ci_accountAlias = None,
     ci_accountNumberLast4 = None, ci_credentialSecretRef = ''secretref_abcdefgh1'', ci_oauthScopes = None, ci_tokenExpiresAt = None,
     ci_status = Some ActiveConnection\<rparr>"

definition empty_tables :: ship_db where "empty_tables = ship0\<lparr>sd_shipments := []\<rparr>"

definition with_connection :: ship_db where "with_connection = snd (upsertCarrierConnection ups_connection 1000 empty_tables)"

definition shipped :: ship_db where "shipped = snd (createShipmentWithPackages live_shipment 1000 with_connection)"

lemma creating: "createShipmentWithPackages live_shipment 1000 with_connection = (Inr (''s9'', ['' p1'']), shipped)"
  unfolding shipped_def by code_simp

theorem shipment_created_whole_witness:
  "\<exists>s new. sd_shipments shipped = sd_shipments with_connection @ [s] \<and> sh_merchant_id s = Some 1
    \<and> sd_packages shipped = sd_packages with_connection @ new \<and> map pk_package_ref new = [''p1'']"
proof -
  have "resolveOwner (si_owner live_shipment) 1000 (sd_access with_connection) = Inr \<lparr>oi_merchantId = Some 1, oi_guestSessionId = None\<rparr>"
    and "map (js_trim \<circ> pi_packageRef) (si_packages live_shipment) = [''p1'']" by code_simp+
  then show ?thesis using shipment_created_whole [OF creating] by auto
qed

definition live_run :: "ship_op list" where
  "live_run = [Registry (UpsertConnection ups_connection), Registry (CreateShipment live_shipment)]"

theorem shipment_ownership_witness:
  "snd (run_ops live_run (1000, empty_tables)) = shipped \<and> length (sd_shipments shipped) = 1
    \<and> list_all (owned_shipment shipped) (sd_shipments shipped)"
proof -
  have run: "snd (run_ops live_run (1000, empty_tables)) = shipped"
    by (simp add: live_run_def exec_def shipped_def with_connection_def)
  moreover have "sd_shipments empty_tables = []" "sd_quotes empty_tables = []" by (simp_all add: empty_tables_def ship0_def)
  moreover have "length (sd_shipments shipped) = 1" by code_simp
  ultimately show ?thesis using shipment_ownership [OF _ _ run] by simp
qed

definition other_shipment :: ship_row where "other_shipment = sample_shipment\<lparr>sh_id := 6, sh_shipment_ref := ''s6'', sh_merchant_id := Some 2\<rparr>"

definition requoting :: quote_input where
  "requoting = \<lparr>qi_quoteRef = ''q2'', qi_shipmentRef = ''s6'', qi_connectionRef = None, qi_carrier = ''dhl'', qi_adapter = None,
     qi_productIdCode = ''p'', qi_amount = 3, qi_currency = ''USD'', qi_deliveryDays = None, qi_estimatedDeliveryAt = None,
     qi_expiresAt = Some 9000, qi_carrierResponseRef = None\<rparr>"

definition two_shops :: ship_db where "two_shops = chosen\<lparr>sd_shipments := sd_shipments chosen @ [other_shipment]\<rparr>"

definition overwritten :: ship_db where "overwritten = snd (saveRateQuote requoting two_shops)"

lemma overwriting: "saveRateQuote requoting two_shops = (Inr (), overwritten)"
  unfolding overwritten_def by code_simp


end
