(* ===== verification/Label_Service.thy ===== *)
theory Label_Service
  imports Ship_Steps
begin

section \<open>The label management service\<close>

text \<open>
  \<open>LabelManagementService\<close> of \<open>src/src/server/shipping/labelManagement.ts\<close>: a label's file goes to a private
  object store, its row to the tables; a download is a signed URL that is logged before it is handed out; a void
  is asked for, carried out by the carrier and recorded. Object store and carrier are parameters, and so is what
  others do to the tables while they are awaited. What was sent out is part of the result; the metadata of an object,
  the same for all, is left out.
\<close>

subsection \<open>Inputs\<close>

record label_actor =
  la_merchantRef :: string
  la_actorRef :: string

record stored_object =
  so_objectKey :: string
  so_body :: string
  so_contentType :: string
  so_sha256 :: string

record sign_request =
  sr_objectKey :: string
  sr_objectVersionRef :: "string option"
  sr_expiresInSeconds :: int
  sr_contentType :: string
  sr_contentDisposition :: string

record label_env =
  le_provider :: object_provider
  le_put :: "stored_object \<Rightarrow> string option result"
  le_sign :: "sign_request \<Rightarrow> string result"
  le_sha256 :: "string \<Rightarrow> string"
  le_signedUrlSeconds :: "int option"

fun format_text :: "label_format \<Rightarrow> string" where
  "format_text Pdf = ''pdf''"
| "format_text Png = ''png''"
| "format_text Zpl = ''zpl''"
| "format_text Gif = ''gif''"
| "format_text Epl = ''epl''"

definition contentType :: "label_format \<Rightarrow> string" where
  "contentType f = (if f = Pdf then ''application/pdf'' else ''application/vnd.zebra-zpl'')"

subsection \<open>Storing a label\<close>

record store_label_input =
  sl_actor :: label_actor
  sl_labelRef :: string
  sl_shipmentRef :: string
  sl_packageRef :: "string option"
  sl_carrier :: string
  sl_trackingNumber :: string
  sl_format :: label_format
  sl_bytes :: string
  sl_retentionUntil :: "int option option"

record label_summary =
  lm_labelRef :: string
  lm_shipmentRef :: string
  lm_packageRef :: "string option"
  lm_format :: label_format

definition store_refs :: "store_label_input \<Rightarrow> (string \<times> string \<times> string option) result" where
  "store_refs i =
     (if sl_format i \<notin> {Pdf, Zpl} then Inl (JsTypeError ''Only PDF and ZPL labels are supported.'')
      else if int (length (sl_bytes i)) < 1 \<or> 20 * 1024 * 1024 < int (length (sl_bytes i)) then Inl (JsTypeError ''Label size is invalid.'')
      else sbind (safeRef (sl_labelRef i) ''labelRef'' 100) (\<lambda>l.
        sbind (safeRef (sl_shipmentRef i) ''shipmentRef'' 100) (\<lambda>s.
        sbind (ref_opt (sl_packageRef i) (\<lambda>t. safeRef t ''packageRef'' 100)) (\<lambda>p. Inr (l, s, p)))))"

definition label_object :: "label_env \<Rightarrow> string \<Rightarrow> store_label_input \<Rightarrow> stored_object" where
  "label_object env uuid i = \<lparr>so_objectKey = ''restricted-labels/'' @ uuid @ ''.'' @ format_text (sl_format i),
     so_body = sl_bytes i, so_contentType = contentType (sl_format i), so_sha256 = le_sha256 env (sl_bytes i)\<rparr>"

definition managed_of :: "label_env \<Rightarrow> stored_object \<Rightarrow> string option \<Rightarrow> store_label_input \<Rightarrow> string \<times> string \<times> string option \<Rightarrow> managed_input result" where
  "managed_of env obj version i refs = (case refs of (l, s, p) \<Rightarrow>
     sbind (safeRef (la_merchantRef (sl_actor i)) ''merchantRef'' 100) (\<lambda>m.
     sbind (required (sl_trackingNumber i) ''trackingNumber'' 100) (\<lambda>t.
     sbind (iso_opt (sl_retentionUntil i) ''retentionUntil'') (\<lambda>u.
       Inr \<lparr>ml_labelRef = l, ml_shipmentRef = s, ml_packageRef = p, ml_merchantRef = m, ml_carrier = sl_carrier i,
         ml_trackingNumber = t, ml_format = sl_format i, ml_objectStoreProvider = le_provider env,
         ml_objectKey = so_objectKey obj, ml_objectVersionRef = nonempty version, ml_artifactSha256 = so_sha256 obj,
         ml_artifactSizeBytes = int (length (so_body obj)), ml_retentionUntil = map_option Some u\<rparr>))))"

text \<open>The answer, the objects written and the tables; others work between the object store and the tables.\<close>

definition storeLabel ::
  "label_env \<Rightarrow> string \<Rightarrow> store_label_input \<Rightarrow> ship_op list \<Rightarrow> int \<times> ship_db \<Rightarrow> label_summary result \<times> stored_object list \<times> (int \<times> ship_db)" where
  "storeLabel env uuid i others tb = (case store_refs i of
     Inl e \<Rightarrow> (Inl e, [], tb)
   | Inr refs \<Rightarrow>
      (let obj = label_object env uuid i; tb1 = run_ops others tb
       in case le_put env obj of
          Inl e \<Rightarrow> (Inl e, [], tb1)
        | Inr version \<Rightarrow> (case managed_of env obj version i refs of
            Inl e \<Rightarrow> (Inl e, [obj], tb1)
          | Inr m \<Rightarrow> (case saveManagedLabel m (fst tb1) (snd tb1) of
              (Inl e, db) \<Rightarrow> (Inl e, [obj], (fst tb1, db))
            | (Inr _, db) \<Rightarrow> (Inr \<lparr>lm_labelRef = fst refs, lm_shipmentRef = fst (snd refs),
                lm_packageRef = snd (snd refs), lm_format = sl_format i\<rparr>, [obj], (fst tb1, db))))))"

subsection \<open>Downloads\<close>

record download_input =
  dw_actor :: label_actor
  dw_labelRef :: string
  dw_purpose :: "label_purpose option"
  dw_expiresInSeconds :: "int option"

record signed_download =
  sg_labelRef :: string
  sg_format :: label_format
  sg_purpose :: label_purpose
  sg_downloadUrl :: string
  sg_expiresAt :: int

definition url_ttl :: "label_env \<Rightarrow> int option \<Rightarrow> int" where
  "url_ttl env expires = max 1 (min 300 (case expires of Some t \<Rightarrow> t
     | None \<Rightarrow> (case le_signedUrlSeconds env of Some t \<Rightarrow> t | None \<Rightarrow> 60)))"

definition sign_of :: "label_env \<Rightarrow> label_descriptor \<Rightarrow> int option \<Rightarrow> sign_request" where
  "sign_of env d expires = \<lparr>sr_objectKey = ld_objectKey d, sr_objectVersionRef = ld_objectVersionRef d,
     sr_expiresInSeconds = url_ttl env expires, sr_contentType = contentType (ld_format d),
     sr_contentDisposition = ''attachment; filename=\"label.'' @ format_text (ld_format d) @ ''\"''\<rparr>"

definition access_event :: "string \<Rightarrow> string \<Rightarrow> label_actor \<Rightarrow> access_input" where
  "access_event eventRef labelRef actor = \<lparr>ac_eventRef = eventRef, ac_labelRef = labelRef,
     ac_merchantRef = la_merchantRef actor, ac_actorRef = la_actorRef actor\<rparr>"

definition createDownload ::
  "label_env \<Rightarrow> string \<Rightarrow> download_input \<Rightarrow> int \<Rightarrow> ship_op list \<Rightarrow> int \<times> ship_db \<Rightarrow>
   signed_download result \<times> sign_request list \<times> (int \<times> ship_db)" where
  "createDownload env uuid i clk others tb =
     (let purpose = (case dw_purpose i of None \<Rightarrow> DownloadUrlIssued | Some p \<Rightarrow> p)
      in case sbind (label_refs (dw_labelRef i) (la_merchantRef (dw_actor i))) (\<lambda>(l, m).
          sbind (getDownloadDescriptor l m (snd tb)) (\<lambda>d.
            if ld_status d \<noteq> ActiveLabel then Inl (JsError ''Only active labels can be downloaded or printed.'')
            else Inr (l, d))) of
        Inl e \<Rightarrow> (Inl e, [], tb)
      | Inr (l, d) \<Rightarrow>
         (let req = sign_of env d (dw_expiresInSeconds i); tb1 = run_ops others tb
          in case le_sign env req of
             Inl e \<Rightarrow> (Inl e, [req], tb1)
           | Inr u \<Rightarrow>
              (if \<not> js_starts_with ''https://'' u
               then (Inl (JsError ''Object Storage returned an invalid signed URL.''), [req], tb1)
               else case recordAccess (access_event (''label_access_'' @ uuid) l (dw_actor i)) purpose
                   (sr_expiresInSeconds req) (fst tb1) (snd tb1) of
                 (Inl e, db) \<Rightarrow> (Inl e, [req], (fst tb1, db))
               | (Inr _, db) \<Rightarrow> (Inr \<lparr>sg_labelRef = l, sg_format = ld_format d, sg_purpose = purpose,
                   sg_downloadUrl = u, sg_expiresAt = clk + sr_expiresInSeconds req * 1000\<rparr>, [req], (fst tb1, db)))))"

definition createReprint ::
  "label_env \<Rightarrow> string \<Rightarrow> download_input \<Rightarrow> int \<Rightarrow> ship_op list \<Rightarrow> int \<times> ship_db \<Rightarrow>
   signed_download result \<times> sign_request list \<times> (int \<times> ship_db)" where
  "createReprint env uuid i = createDownload env uuid (i\<lparr>dw_purpose := Some ReprintPurpose\<rparr>)"

subsection \<open>Voids\<close>

datatype carrier_answer = VoidOk | VoidRefused string | VoidThrew

definition void_request :: "string \<Rightarrow> string \<Rightarrow> label_actor \<Rightarrow> access_input" where
  "void_request rootRef l actor = access_event (''label_void_request_'' @ rootRef) l actor"

definition void_result :: "string \<Rightarrow> string \<Rightarrow> label_actor \<Rightarrow> access_input" where
  "void_result rootRef l actor = access_event (''label_void_result_'' @ rootRef) l actor"

definition void_outcome_of :: "carrier_answer \<Rightarrow> void_outcome" where
  "void_outcome_of a = (case a of
     VoidOk \<Rightarrow> OutcomeVoided
   | VoidRefused c \<Rightarrow> OutcomeVoidFailed (Some (errorCode c))
   | VoidThrew \<Rightarrow> OutcomeVoidFailed (Some (errorCode ''carrier_void_unavailable'')))"

text \<open>The answer is whether the carrier voided the label; the carrier is asked only when the request was stored.\<close>

definition voidLabel ::
  "(string \<Rightarrow> carrier_answer) \<Rightarrow> string \<Rightarrow> label_actor \<Rightarrow> string \<Rightarrow> ship_op list \<Rightarrow> int \<times> ship_db \<Rightarrow>
   bool result \<times> string list \<times> (int \<times> ship_db)" where
  "voidLabel carrier rootRef actor labelRef others tb = (case safeRef labelRef ''labelRef'' 100 of
     Inl e \<Rightarrow> (Inl e, [], tb)
   | Inr l \<Rightarrow> (case requestVoid (void_request rootRef l actor) (fst tb) (snd tb) of
       (Inl e, db) \<Rightarrow> (Inl e, [], (fst tb, db))
     | (Inr _, db) \<Rightarrow>
        (let answer = carrier l; tb1 = run_ops others (fst tb, db)
         in case finishVoid (void_result rootRef l actor) (void_outcome_of answer) (fst tb1) (snd tb1) of
            (Inl e, db2) \<Rightarrow> (Inl e, [l], (fst tb1, db2))
          | (Inr _, db2) \<Rightarrow> (Inr (answer = VoidOk), [l], (fst tb1, db2)))))"

end
