(* ===== verification/Label_Effects.thy ===== *)
theory Label_Effects
  imports Ship_Props Label_Service
begin

section \<open>What operations do to labels and their log\<close>

text \<open>
  Every operation leaves labels and log alone, appends a new label, or changes one label and logs it. From this
  follow the invariant of the labels over all runs, and that the counters of a label are those of its log.
\<close>

subsection \<open>Frames\<close>

lemma insert_job_labels [simp]: "sd_labels (snd (insert_job rnd now s db)) = sd_labels db"
  "sd_accesses (snd (insert_job rnd now s db)) = sd_accesses db"
  by (simp_all add: insert_job_def Let_def)

lemma insert_jobs_labels [simp]: "sd_labels (snd (insert_jobs rnd now ss db)) = sd_labels db"
  "sd_accesses (snd (insert_jobs rnd now ss db)) = sd_accesses db"
  by (induction ss arbitrary: db) (simp_all add: Let_def case_prod_unfold)

lemma append_events_labels: "sd_labels (snd (append_events es db)) = sd_labels db
    \<and> sd_accesses (snd (append_events es db)) = sd_accesses db"
proof (induction es arbitrary: db)
  case (Cons e es)
  have "sd_labels (snd (appendTrackingEvent e db)) = sd_labels db
      \<and> sd_accesses (snd (appendTrackingEvent e db)) = sd_accesses db"
    by (auto simp: appendTrackingEvent_def Let_def split: sum.splits option.splits)
  then show ?case using Cons.IH by (auto split: sum.splits prod.splits)
qed simp

lemma update_shipments_accesses [simp]: "sd_accesses (update_shipments P f db) = sd_accesses db"
  by (simp add: update_shipments_def)

lemma create_labels: "sd_labels (snd (createShipmentWithPackages i now db)) = sd_labels db
    \<and> sd_accesses (snd (createShipmentWithPackages i now db)) = sd_accesses db"
proof (rule createShipment_cases [of i now db])
  fix s db' owner conn
  assume "insert_packages (sh_id s) 1 (si_packages i)
      (db\<lparr>sd_next_id := sd_next_id db + 1, sd_shipments := sd_shipments db @ [s]\<rparr>) = (Inr (), db')"
    and "createShipmentWithPackages i now db = (Inr (sh_shipment_ref s, map pi_packageRef (si_packages i)), db')"
  then show ?thesis
    using insert_packages_frame [of "sh_id s" 1 "si_packages i"
      "db\<lparr>sd_next_id := sd_next_id db + 1, sd_shipments := sd_shipments db @ [s]\<rparr>"] by simp
qed simp

text \<open>The operations that touch labels.\<close>

fun label_op :: "ship_op \<Rightarrow> bool" where
  "label_op (SaveLabel i) = True"
| "label_op (LabelFound i) = True"
| "label_op (Registry (SaveManaged i)) = True"
| "label_op (Registry (RecordAccess i p t)) = True"
| "label_op (Registry (RequestVoid i)) = True"
| "label_op (Registry (FinishVoid i out)) = True"
| "label_op _ = False"

lemma schedule_labels: "sd_labels (snd (scheduleDueJobs lock rnd now db)) = sd_labels db
    \<and> sd_accesses (snd (scheduleDueJobs lock rnd now db)) = sd_accesses db"
  by (simp add: scheduleDueJobs_def Let_def case_prod_unfold)

lemma unknown_labels: "sd_labels (snd (markLabelOutcomeUnknown rnd i now db)) = sd_labels db
    \<and> sd_accesses (snd (markLabelOutcomeUnknown rnd i now db)) = sd_accesses db"
proof -
  have "sd_labels y = sd_labels db \<and> sd_accesses y = sd_accesses db"
    if "insert_job rnd now s (update_shipments P f db) = (x, y)" for s P f x y
    using insert_job_labels [of rnd now s "update_shipments P f db"] that by simp
  then show ?thesis
    by (auto simp: markLabelOutcomeUnknown_def Let_def split: sum.splits option.splits prod.splits)
qed

lemma registry_labels:
  assumes "\<not> label_op (Registry r)"
  shows "sd_labels (apply_registry r now db) = sd_labels db \<and> sd_accesses (apply_registry r now db) = sd_accesses db"
  using assms create_labels
  by (cases r; simp add: upsertMerchant_def createGuestSession_def upsertCarrierConnection_def saveRateQuote_def Let_def
      split: sum.splits option.splits)

lemma labels_frame:
  assumes "\<not> label_op op"
  shows "sd_labels (apply_op op now db) = sd_labels db \<and> sd_accesses (apply_op op now db) = sd_accesses db"
proof (cases op)
  case (ReplayJob r t)
  then show ?thesis by (auto intro: replay_cases [of r t db])
next
  case (TrackingSynced i)
  then show ?thesis using append_events_labels [of "ts_events i" db]
    by (auto simp: recordTrackingSync_def split: sum.splits prod.splits)
next
  case (Registry r)
  then show ?thesis using registry_labels assms by simp
qed (use assms in \<open>auto simp: schedule_labels unknown_labels claimJobs_def completeJob_def failJob_def audit_dead_letter_def
    count_connection_failure_def count_shipment_failure_def markLabelReconciling_def recordLabelNotFound_def
    recordCarrierReconciliation_def recordUpsTokenRefresh_def selectRateQuote_def claimWebhookDeliveries_def
    finishWebhookDelivery_def replayWebhookDeadLetter_def enqueueWebhookDelivery_def Let_def
    split: sum.splits option.splits prod.splits\<close>)

subsection \<open>Effects\<close>

inductive log_kind :: "bool \<Rightarrow> int \<Rightarrow> label_status list \<Rightarrow> (label_row \<Rightarrow> label_row) \<Rightarrow> access_action \<Rightarrow> bool" where
  download: "log_kind False now [ActiveLabel] (downloaded_label p now) (purpose_action p)"
| requested: "log_kind False now [ActiveLabel, VoidFailed] (void_requested now) VoidRequested"
| finished: "log_kind True now [VoidPending] (void_finished f now) (if f = None then VoidSucceeded else VoidFailedEvent)"

inductive_cases log_kindE: "log_kind fin now st upd act"

definition fresh_label :: "ship_db \<Rightarrow> label_row \<Rightarrow> bool" where
  "fresh_label db l \<longleftrightarrow> lb_id l = sd_next_id db \<and> \<not> list_ex (\<lambda>x. lb_label_ref x = lb_label_ref l) (sd_labels db)
     \<and> lb_status l = ActiveLabel \<and> lb_download_count l = 0 \<and> lb_print_count l = 0 \<and> lb_reprint_count l = 0
     \<and> lb_voided_at l = None \<and> lb_void_requested_at l = None \<and> lb_void_failure_code l = None"

inductive label_effect :: "(string \<Rightarrow> bool) \<Rightarrow> int \<Rightarrow> ship_db \<Rightarrow> ship_db \<Rightarrow> bool" where
  same: "sd_labels db' = sd_labels db \<Longrightarrow> sd_accesses db' = sd_accesses db \<Longrightarrow> sd_next_id db \<le> sd_next_id db'
    \<Longrightarrow> label_effect F now db db'"
| added: "fresh_label db l \<Longrightarrow> sd_labels db' = sd_labels db @ [l] \<Longrightarrow> sd_accesses db' = sd_accesses db
    \<Longrightarrow> sd_next_id db < sd_next_id db' \<Longrightarrow> label_effect F now db db'"
| logged: "log_kind fin now st upd act \<Longrightarrow> (fin \<Longrightarrow> F (lb_label_ref l)) \<Longrightarrow> l \<in> set (sd_labels db) \<Longrightarrow> lb_status l \<in> set st
    \<Longrightarrow> sd_labels db' = sql_update (\<lambda>x. lb_id x = lb_id l) upd (sd_labels db)
    \<Longrightarrow> sd_accesses db' = sd_accesses db @ [row] \<Longrightarrow> ae_label_id row = lb_id l \<Longrightarrow> ae_action row = act
    \<Longrightarrow> sd_next_id db \<le> sd_next_id db' \<Longrightarrow> label_effect F now db db'"

text \<open>A log statement that succeeds, and one that does not.\<close>

lemma access_target_Some: "access_target r m st db = Some (mr, l)
    \<Longrightarrow> l \<in> set (sd_labels db) \<and> lb_status l \<in> set st \<and> lb_label_ref l = r \<and> owned_label r mr db l \<and> merchant_named db m = Some mr"
  by (auto simp: access_target_def owned_label_def split: option.splits dest!: first_row_filter)

lemma log_access_Inr:
  assumes "log_access i st upd rf act ttl fl ms now db = (Inr (), db')"
  obtains r m e actor mr l where "access_args i = Inr (r, m, e, actor)" and "access_target r m st db = Some (mr, l)"
    and "\<not> rf db l" and "db' = db\<lparr>sd_next_id := sd_next_id db + 1,
      sd_labels := sql_update (\<lambda>x. lb_id x = lb_id l) upd (sd_labels db),
      sd_accesses := sd_accesses db @ [\<lparr>ae_event_ref = e, ae_merchant_id = mr_id mr, ae_label_id = lb_id l,
        ae_actor_ref = actor, ae_action = act, ae_ttl_seconds = ttl, ae_failure_code = fl, ae_occurred_at = now\<rparr>]\<rparr>"
  using assms by (auto simp: log_access_def Let_def split: sum.splits option.splits prod.splits if_splits)

lemma log_access_Inl:
  "log_access i st upd rf act ttl fl ms now db = (Inl e, db')
    \<Longrightarrow> sd_labels db' = sd_labels db \<and> sd_accesses db' = sd_accesses db \<and> sd_next_id db \<le> sd_next_id db'"
  by (auto simp: log_access_def Let_def split: sum.splits option.splits prod.splits if_splits)

lemma log_effect:
  assumes "log_kind fin now st upd act" and "\<And>r. fin \<Longrightarrow> safeRef (ac_labelRef i) ''labelRef'' 100 = Inr r \<Longrightarrow> F r"
  shows "label_effect F now db (snd (log_access i st upd rf act ttl fl ms now db))"
proof (cases "log_access i st upd rf act ttl fl ms now db")
  case (Pair x db')
  show ?thesis
  proof (cases x)
    case (Inl e)
    then show ?thesis using log_access_Inl Pair by (auto intro: label_effect.same)
  next
    case (Inr u)
    with Pair have "log_access i st upd rf act ttl fl ms now db = (Inr (), db')" by simp
    then show ?thesis
    proof (rule log_access_Inr)
      fix r m e actor mr l
      assume args: "access_args i = Inr (r, m, e, actor)" and "access_target r m st db = Some (mr, l)" and db': "db' = db\<lparr>sd_next_id := sd_next_id db + 1,
        sd_labels := sql_update (\<lambda>x. lb_id x = lb_id l) upd (sd_labels db),
        sd_accesses := sd_accesses db @ [\<lparr>ae_event_ref = e, ae_merchant_id = mr_id mr, ae_label_id = lb_id l,
          ae_actor_ref = actor, ae_action = act, ae_ttl_seconds = ttl, ae_failure_code = fl, ae_occurred_at = now\<rparr>]\<rparr>"
      then show ?thesis
        using label_effect.logged [OF assms(1), of F l db db'] assms(2) [of r] access_target_Some [of r m st db mr l] Pair
        by (auto simp: access_args_def sbind_Inr_iff)
    qed
  qed
qed

lemma fresh_new_label:
  assumes "\<not> list_ex (\<lambda>x. lb_label_ref x = la_labelRef a) (sd_labels db)"
  shows "fresh_label db (new_label i a (sd_next_id db) sid pid now)"
  using assms by (simp add: fresh_label_def new_label_def)

lemma fresh_managed_label:
  assumes "\<not> list_ex (\<lambda>x. lb_label_ref x = ma_labelRef a) (sd_labels db)"
  shows "fresh_label db (managed_label i a (sd_next_id db) sid pid now)"
  using assms by (simp add: fresh_label_def managed_label_def)

lemma same_next: "label_effect F now db (db\<lparr>sd_next_id := sd_next_id db + 1\<rparr>)"
  by (rule label_effect.same) simp_all

lemma added_next: "fresh_label db l \<Longrightarrow>
    label_effect F now db (db\<lparr>sd_next_id := sd_next_id db + 1, sd_labels := sd_labels db @ [l]\<rparr>)"
  by (rule label_effect.added) simp_all

lemma insert_label_effect:
  assumes "insert_label i a now db = (Inr (), db1)"
  shows "label_effect F now db db1"
proof -
  have none: "\<not> list_ex (\<lambda>x. lb_label_ref x = la_labelRef a) (sd_labels db)"
    if "first_row (filter (\<lambda>l. lb_label_ref l = la_labelRef a) (sd_labels db)) = None"
    using that by (simp add: first_row_None filter_empty_conv list_ex_iff)
  show ?thesis
    using assms none
    by (auto simp: insert_label_def Let_def split: option.splits if_splits
        intro!: same_next added_next fresh_new_label)
qed

lemma save_label_effect: "label_effect F now db (snd (saveLabel i now db))"
proof (cases "saveLabel i now db")
  case (Pair x db')
  show ?thesis
  proof (cases x)
    case (Inr u)
    with Pair obtain a db1 where a: "insert_label i a now db = (Inr (), db1)"
      and db': "db' = update_shipments (\<lambda>s. sh_shipment_ref s = li_shipmentRef i) (labelled_row i now) db1"
      by (auto simp: saveLabel_def Let_def split: sum.splits prod.splits if_splits)
    from insert_label_effect [OF a] show ?thesis unfolding Pair db'
      by (cases rule: label_effect.cases) (auto intro: label_effect.intros)
  qed (use Pair in \<open>auto simp: saveLabel_def Let_def split: sum.splits prod.splits if_splits intro: label_effect.same\<close>)
qed

lemma label_effect_refl: "label_effect F now db db"
  by (rule label_effect.same) simp_all

lemma label_effect_shipments: "label_effect F now db db1 \<Longrightarrow> label_effect F now db (update_shipments P f db1)"
  by (cases rule: label_effect.cases) (auto intro: label_effect.intros)

lemma save_managed_effect: "label_effect F now db (snd (saveManagedLabel i now db))"
  by (auto simp: saveManagedLabel_def Let_def split: sum.splits option.splits prod.splits
      intro!: same_next label_effect_refl label_effect_shipments added_next fresh_managed_label)

lemma found_effect: "label_effect F now db (snd (recordLabelFound i now db))"
  using save_label_effect [of F now db i]
  by (auto simp: recordLabelFound_def split: sum.splits prod.splits elim!: label_effect.cases intro: label_effect.intros)

text \<open>An operation that ends the void of a label.\<close>

fun finishes_void :: "string \<Rightarrow> ship_op \<Rightarrow> bool" where
  "finishes_void r (Registry (FinishVoid i out)) = (safeRef (ac_labelRef i) ''labelRef'' 100 = Inr r)"
| "finishes_void r op = False"

lemma finish_effect: "label_effect (\<lambda>r. finishes_void r (Registry (FinishVoid i out))) now db (snd (finishVoid i out now db))"
  unfolding finishVoid_def Let_def by (rule log_effect [OF log_kind.finished]) simp

lemma apply_label_effect: "label_effect (\<lambda>r. finishes_void r op) now db (apply_op op now db)"
proof (cases "label_op op")
  case True
  then show ?thesis
    by (cases op rule: label_op.cases)
      (auto simp: save_label_effect found_effect save_managed_effect recordAccess_def requestVoid_def
        simp del: finishes_void.simps intro!: finish_effect log_effect log_kind.download log_kind.requested)
next
  case False
  then show ?thesis using labels_frame [OF False, of now db] effect_next_id [OF apply_op_effect, of db op now]
    by (auto intro: label_effect.same)
qed

end
