(* ===== verification/Label_Log.thy ===== *)
theory Label_Log
  imports Label_Effects
begin

section \<open>The labels and their log\<close>

text \<open>
  The invariant of the label table over all runs: references and numbers are unique, the counters of a label are
  those of its log, and its state agrees with the times and the failure code it carries. The table's constraints on
  counters and life cycle therefore never refuse a statement, and the statements do not ask them.
\<close>

subsection \<open>The invariant\<close>

definition accesses_of :: "access_action list \<Rightarrow> ship_db \<Rightarrow> int \<Rightarrow> int" where
  "accesses_of acts db l = int (length (filter (\<lambda>a. ae_label_id a = l \<and> ae_action a \<in> set acts) (sd_accesses db)))"

definition counted :: "ship_db \<Rightarrow> label_row \<Rightarrow> bool" where
  "counted db l \<longleftrightarrow> lb_download_count l = accesses_of [UrlIssued, PrintLabel, ReprintLabel] db (lb_id l)
     \<and> lb_print_count l = accesses_of [PrintLabel, ReprintLabel] db (lb_id l)
     \<and> lb_reprint_count l = accesses_of [ReprintLabel] db (lb_id l)"

definition lifecycle_ok :: "label_row \<Rightarrow> bool" where
  "lifecycle_ok l \<longleftrightarrow> (lb_status l = Voided \<longleftrightarrow> lb_voided_at l \<noteq> None)
     \<and> (lb_status l \<in> {VoidPending, Voided, VoidFailed} \<longrightarrow> lb_void_requested_at l \<noteq> None)
     \<and> (lb_status l = VoidFailed \<longleftrightarrow> lb_void_failure_code l \<noteq> None)"

definition labels_ok :: "ship_db \<Rightarrow> bool" where
  "labels_ok db \<longleftrightarrow> distinct (map lb_id (sd_labels db)) \<and> distinct (map lb_label_ref (sd_labels db))
     \<and> list_all (\<lambda>l. lb_id l < sd_next_id db \<and> counted db l \<and> lifecycle_ok l) (sd_labels db)
     \<and> list_all (\<lambda>a. ae_label_id a < sd_next_id db) (sd_accesses db)"

lemma labels_okI:
  assumes "distinct (map lb_id (sd_labels db))" and "distinct (map lb_label_ref (sd_labels db))"
    and "\<And>l. l \<in> set (sd_labels db) \<Longrightarrow> lb_id l < sd_next_id db \<and> counted db l \<and> lifecycle_ok l"
    and "\<And>a. a \<in> set (sd_accesses db) \<Longrightarrow> ae_label_id a < sd_next_id db"
  shows "labels_ok db"
  using assms by (simp add: labels_ok_def list_all_iff)

lemma labels_okD:
  assumes "labels_ok db"
  shows "distinct (map lb_id (sd_labels db))" "distinct (map lb_label_ref (sd_labels db))"
    "l \<in> set (sd_labels db) \<Longrightarrow> lb_id l < sd_next_id db" "l \<in> set (sd_labels db) \<Longrightarrow> counted db l"
    "l \<in> set (sd_labels db) \<Longrightarrow> lifecycle_ok l" "a \<in> set (sd_accesses db) \<Longrightarrow> ae_label_id a < sd_next_id db"
  using assms by (simp_all add: labels_ok_def list_all_iff)

lemma same_id: "distinct (map lb_id ls) \<Longrightarrow> x \<in> set ls \<Longrightarrow> y \<in> set ls \<Longrightarrow> lb_id x = lb_id y \<Longrightarrow> x = y"
  by (metis distinct_map inj_onD)

lemma counted_cong: "sd_accesses db' = sd_accesses db \<Longrightarrow> counted db' l = counted db l"
  by (simp add: counted_def accesses_of_def)

subsection \<open>Its preservation\<close>

lemma added_labels_ok:
  assumes ok: "labels_ok db" and fresh: "fresh_label db l"
    and labels: "sd_labels db' = sd_labels db @ [l]" and log: "sd_accesses db' = sd_accesses db" and n: "sd_next_id db < sd_next_id db'"
  shows "labels_ok db'"
proof (rule labels_okI)
  have old: "lb_id x < lb_id l \<and> lb_label_ref x \<noteq> lb_label_ref l" if "x \<in> set (sd_labels db)" for x
    using labels_okD(3) [OF ok that] fresh that by (simp add: fresh_label_def list_ex_iff)
  show "distinct (map lb_id (sd_labels db'))" "distinct (map lb_label_ref (sd_labels db'))"
    using labels_okD(1,2) [OF ok] by (auto simp: labels dest!: old)
  have "accesses_of acts db' (sd_next_id db) = 0" for acts
    using labels_okD(6) [OF ok] by (fastforce simp: log accesses_of_def filter_empty_conv)
  then have count: "counted db' l" using fresh by (simp add: counted_def fresh_label_def)
  have life: "lifecycle_ok l" using fresh by (simp add: fresh_label_def lifecycle_ok_def)
  show "lb_id x < sd_next_id db' \<and> counted db' x \<and> lifecycle_ok x" if "x \<in> set (sd_labels db')" for x
  proof (cases "x = l")
    case True
    then show ?thesis using fresh life n count by (simp add: fresh_label_def)
  next
    case False
    with that labels have "x \<in> set (sd_labels db)" by simp
    then show ?thesis using labels_okD(3,4,5) [OF ok, of x] n by (simp add: counted_cong [OF log])
  qed
  show "ae_label_id a < sd_next_id db'" if "a \<in> set (sd_accesses db')" for a
    using labels_okD(6) [OF ok, of a] that n log by simp
qed

lemma log_kind_keeps:
  "log_kind fin now st upd act \<Longrightarrow> lb_id (upd l) = lb_id l \<and> lb_label_ref (upd l) = lb_label_ref l"
  by (erule log_kindE) (simp_all add: downloaded_label_def void_requested_def void_finished_def)

lemma log_kind_life:
  assumes "log_kind fin now st upd act" and "lb_status l \<in> set st" and "lifecycle_ok l"
  shows "lifecycle_ok (upd l)"
  using assms by (elim log_kindE)
    (auto simp: lifecycle_ok_def downloaded_label_def void_requested_def void_finished_def)

lemma log_kind_counts:
  assumes "log_kind fin now st upd act"
  shows "lb_download_count (upd l) = lb_download_count l + (if act \<in> {UrlIssued, PrintLabel, ReprintLabel} then 1 else 0)"
    "lb_print_count (upd l) = lb_print_count l + (if act \<in> {PrintLabel, ReprintLabel} then 1 else 0)"
    "lb_reprint_count (upd l) = lb_reprint_count l + (if act = ReprintLabel then 1 else 0)"
proof -
  have "lb_download_count (upd l) = lb_download_count l + (if act \<in> {UrlIssued, PrintLabel, ReprintLabel} then 1 else 0)
    \<and> lb_print_count (upd l) = lb_print_count l + (if act \<in> {PrintLabel, ReprintLabel} then 1 else 0)
    \<and> lb_reprint_count (upd l) = lb_reprint_count l + (if act = ReprintLabel then 1 else 0)"
    using assms
  proof (cases rule: log_kind.cases)
    case (download p)
    then show ?thesis by (cases p) (simp_all add: downloaded_label_def)
  qed (simp_all add: void_requested_def void_finished_def)
  then show "lb_download_count (upd l) = lb_download_count l + (if act \<in> {UrlIssued, PrintLabel, ReprintLabel} then 1 else 0)"
    "lb_print_count (upd l) = lb_print_count l + (if act \<in> {PrintLabel, ReprintLabel} then 1 else 0)"
    "lb_reprint_count (upd l) = lb_reprint_count l + (if act = ReprintLabel then 1 else 0)"
    by simp_all
qed

lemma accesses_of_snoc:
  assumes "sd_accesses db' = sd_accesses db @ [row]"
  shows "accesses_of acts db' i = accesses_of acts db i + (if ae_label_id row = i \<and> ae_action row \<in> set acts then 1 else 0)"
  using assms by (simp add: accesses_of_def)

lemma counted_logged:
  assumes "counted db l" and "log_kind fin now st upd act" and "sd_accesses db' = sd_accesses db @ [row]"
    and "ae_label_id row = lb_id l" and "ae_action row = act"
  shows "counted db' (upd l)"
  using assms(1) log_kind_counts [OF assms(2), of l] log_kind_keeps [OF assms(2), of l] assms(4,5)
  unfolding counted_def accesses_of_snoc [OF assms(3)] by simp

lemma counted_other:
  assumes "counted db x" and "sd_accesses db' = sd_accesses db @ [row]" and "ae_label_id row \<noteq> lb_id x"
  shows "counted db' x"
  using assms(1,3) unfolding counted_def accesses_of_snoc [OF assms(2)] by simp

lemma logged_labels_ok:
  assumes ok: "labels_ok db" and kind: "log_kind fin now st upd act" and l: "l \<in> set (sd_labels db)" "lb_status l \<in> set st"
    and labels: "sd_labels db' = sql_update (\<lambda>x. lb_id x = lb_id l) upd (sd_labels db)"
    and log: "sd_accesses db' = sd_accesses db @ [row]" and row: "ae_label_id row = lb_id l" "ae_action row = act"
    and n: "sd_next_id db \<le> sd_next_id db'"
  shows "labels_ok db'"
proof (rule labels_okI)
  note keeps = log_kind_keeps [OF kind]
  have "map lb_id (sd_labels db') = map lb_id (sd_labels db)" "map lb_label_ref (sd_labels db') = map lb_label_ref (sd_labels db)"
    unfolding labels by (simp_all add: sql_update_def keeps)
  then show "distinct (map lb_id (sd_labels db'))" "distinct (map lb_label_ref (sd_labels db'))"
    using labels_okD(1,2) [OF ok] by simp_all
  show "lb_id x < sd_next_id db' \<and> counted db' x \<and> lifecycle_ok x" if "x \<in> set (sd_labels db')" for x
  proof -
    from that obtain y where y: "y \<in> set (sd_labels db)" "x = (if lb_id y = lb_id l then upd y else y)"
      unfolding labels by (auto simp: sql_update_def)
    note good = labels_okD(3,4,5) [OF ok y(1)]
    show ?thesis
    proof (cases "lb_id y = lb_id l")
      case True
      then have "y = l" using same_id [OF labels_okD(1) [OF ok] y(1) l(1)] by simp
      with y(2) have x: "x = upd l" by simp
      have "lifecycle_ok (upd l)" using log_kind_life [OF kind l(2)] good(3) \<open>y = l\<close> by simp
      moreover have "counted db' (upd l)" using counted_logged [OF _ kind log row] good(2) \<open>y = l\<close> by simp
      ultimately show ?thesis using good(1) n keeps [of l] \<open>y = l\<close> by (simp add: x)
    next
      case False
      then have "counted db' y" using counted_other [OF good(2) log] row by simp
      then show ?thesis using good n False y(2) by simp
    qed
  qed
  show "ae_label_id a < sd_next_id db'" if "a \<in> set (sd_accesses db')" for a
    using labels_okD(6) [OF ok, of a] labels_okD(3) [OF ok l(1)] that n row by (auto simp: log)
qed

lemma same_labels_ok:
  assumes ok: "labels_ok db" and "sd_labels db' = sd_labels db" and log: "sd_accesses db' = sd_accesses db" and "sd_next_id db \<le> sd_next_id db'"
  shows "labels_ok db'"
proof (rule labels_okI)
  show "lb_id l < sd_next_id db' \<and> counted db' l \<and> lifecycle_ok l" if "l \<in> set (sd_labels db')" for l
    using labels_okD(3,4,5) [OF ok, of l] that assms(2,4) by (simp add: counted_cong [OF log])
  show "ae_label_id a < sd_next_id db'" if "a \<in> set (sd_accesses db')" for a
    using labels_okD(6) [OF ok, of a] that log assms(4) by simp
qed (simp_all add: assms(2) labels_okD(1,2) [OF ok])

lemma effect_labels_ok: "label_effect F now db db' \<Longrightarrow> labels_ok db \<Longrightarrow> labels_ok db'"
proof (induction rule: label_effect.induct)
  case same
  then show ?case by (rule same_labels_ok [rotated])
next
  case added
  then show ?case by (rule added_labels_ok [rotated])
next
  case logged
  show ?case by (rule logged_labels_ok) (use logged in \<open>auto\<close>)
qed

lemma apply_labels_ok: "labels_ok db \<Longrightarrow> labels_ok (apply_op op now db)"
  using effect_labels_ok [OF apply_label_effect] by blast

lemma run_ops_labels_ok: "labels_ok (snd s) \<Longrightarrow> labels_ok (snd (run_ops ops s))"
  by (erule run_ops_invariant) (rule apply_labels_ok)

subsection \<open>A void that is pending\<close>

definition void_pending :: "string \<Rightarrow> ship_db \<Rightarrow> bool" where
  "void_pending r db \<longleftrightarrow> list_ex (\<lambda>l. lb_label_ref l = r \<and> lb_status l = VoidPending) (sd_labels db)"

lemma void_pendingE:
  assumes "void_pending r db"
  obtains l where "l \<in> set (sd_labels db)" and "lb_label_ref l = r" and "lb_status l = VoidPending"
  using assms by (auto simp: void_pending_def list_ex_iff)

lemma effect_void_pending:
  assumes "label_effect F now db db'" and "labels_ok db" and "\<not> F r" and "void_pending r db"
  shows "void_pending r db'"
  using assms(1)
proof cases
  case (logged fin st upd act l row)
  from assms(4) obtain x where x: "x \<in> set (sd_labels db)" "lb_label_ref x = r" "lb_status x = VoidPending"
    by (rule void_pendingE)
  have "lb_id x \<noteq> lb_id l"
  proof
    assume "lb_id x = lb_id l"
    then have "x = l" using same_id [OF labels_okD(1) [OF assms(2)] x(1)] logged by blast
    then show False using logged(1,2,4) assms(3) x by (auto elim!: log_kindE)
  qed
  then have "x \<in> set (sd_labels db')" using x(1) by (force simp: logged sql_update_def)
  with x show ?thesis by (auto simp: void_pending_def list_ex_iff)
qed (use assms(4) in \<open>simp_all add: void_pending_def\<close>)

lemma run_void_pending:
  assumes "labels_ok (snd s)" and "void_pending r (snd s)" and "\<not> list_ex (finishes_void r) ops"
  shows "void_pending r (snd (run_ops ops s))"
proof -
  have "labels_ok (snd (run_ops ops s)) \<and> void_pending r (snd (run_ops ops s))"
  proof (rule run_ops_keeps [where ok = "\<lambda>op. \<not> finishes_void r op"])
    show "labels_ok (apply_op op now db) \<and> void_pending r (apply_op op now db)"
      if "\<not> finishes_void r op" "labels_ok db \<and> void_pending r db" for op now db
      using that apply_labels_ok effect_void_pending [OF apply_label_effect] by blast
  qed (use assms in \<open>simp_all add: list_all_iff list_ex_iff\<close>)
  then show ?thesis by simp
qed

lemma pending_not_targeted:
  assumes "labels_ok db" and "void_pending r db" and "VoidPending \<notin> set st"
  shows "access_target r m st db = None"
proof (rule ccontr)
  assume "access_target r m st db \<noteq> None"
  then obtain mr l where "access_target r m st db = Some (mr, l)" by auto
  then have l: "l \<in> set (sd_labels db)" "lb_status l \<in> set st" "lb_label_ref l = r" using access_target_Some by blast+
  from assms(2) obtain x where x: "x \<in> set (sd_labels db)" "lb_label_ref x = r" "lb_status x = VoidPending"
    by (rule void_pendingE)
  have "x = l" using labels_okD(2) [OF assms(1)] x l by (metis distinct_map inj_onD)
  with x l assms(3) show False by simp
qed

end
