(* ===== verification/Label_Service_Props.thy ===== *)
theory Label_Service_Props
  imports Label_Log Ship_Samples
begin

section \<open>What the label management promises\<close>

subsection \<open>Counters, log and life cycle\<close>

lemma no_labels_ok: "sd_labels db = [] \<Longrightarrow> sd_accesses db = [] \<Longrightarrow> labels_ok db"
  by (simp add: labels_ok_def)

lemma length_filter_mono: "(\<And>x. P x \<Longrightarrow> Q x) \<Longrightarrow> length (filter P xs) \<le> length (filter Q xs)"
  by (induction xs) auto

lemma accesses_of_mono: "set as \<subseteq> set bs \<Longrightarrow> accesses_of as db l \<le> accesses_of bs db l"
  unfolding accesses_of_def by (intro iffD2 [OF of_nat_le_iff] length_filter_mono) auto

text \<open>C13. Over every run of the operations of all callers, the counters of a label are the numbers of its log rows
  of that kind, a reprint counts as a print and a print as a download, and the state of a label agrees with its
  times and its failure code: the table's constraints on counters and life cycle never refuse a statement.\<close>

theorem access_counts_agree:
  assumes "sd_labels db0 = []" and "sd_accesses db0 = []" and "snd (run_ops ops (t0, db0)) = db"
  shows "list_all (\<lambda>l. counted db l \<and> lifecycle_ok l \<and> 0 \<le> lb_reprint_count l \<and> lb_reprint_count l \<le> lb_print_count l
    \<and> lb_print_count l \<le> lb_download_count l) (sd_labels db)"
proof -
  have "labels_ok db" using run_ops_labels_ok [of "(t0, db0)" ops] no_labels_ok [OF assms(1,2)] assms(3) by simp
  note ok = labels_okD [OF this]
  have "lb_reprint_count l \<le> lb_print_count l \<and> lb_print_count l \<le> lb_download_count l \<and> 0 \<le> lb_reprint_count l"
    if "l \<in> set (sd_labels db)" for l
    using ok(4) [OF that] accesses_of_mono [of "[ReprintLabel]" "[PrintLabel, ReprintLabel]" db "lb_id l"]
      accesses_of_mono [of "[PrintLabel, ReprintLabel]" "[UrlIssued, PrintLabel, ReprintLabel]" db "lb_id l"]
    by (simp add: counted_def) (simp add: accesses_of_def)
  then show ?thesis using ok(4,5) by (simp add: list_all_iff)
qed

subsection \<open>Downloads\<close>


subsection \<open>Voids\<close>

lemma requested_pending:
  assumes "requestVoid i now db = (Inr (), db1)"
  shows "void_pending (js_trim (ac_labelRef i)) db1"
  using assms unfolding requestVoid_def
proof (rule log_access_Inr)
  fix r m e actor mr l
  assume args: "access_args i = Inr (r, m, e, actor)" and target: "access_target r m [ActiveLabel, VoidFailed] db = Some (mr, l)"
    and db1: "db1 = db\<lparr>sd_next_id := sd_next_id db + 1,
        sd_labels := sql_update (\<lambda>x. lb_id x = lb_id l) (void_requested now) (sd_labels db),
        sd_accesses := sd_accesses db @ [\<lparr>ae_event_ref = e, ae_merchant_id = mr_id mr, ae_label_id = lb_id l, ae_actor_ref = actor,
          ae_action = VoidRequested, ae_ttl_seconds = None, ae_failure_code = None, ae_occurred_at = now\<rparr>]\<rparr>"
  have "r = js_trim (ac_labelRef i)" using args by (auto simp: access_args_def sbind_Inr_iff safeRef_Inr)
  moreover have "l \<in> set (sd_labels db)" "lb_label_ref l = r" using access_target_Some [OF target] by simp_all
  then have "void_requested now l \<in> set (sd_labels db1)" by (force simp: db1 sql_update_def)
  moreover have "lb_label_ref (void_requested now l) = r" "lb_status (void_requested now l) = VoidPending"
    using \<open>lb_label_ref l = r\<close> by (simp_all add: void_requested_def)
  ultimately show ?thesis by (auto simp: void_pending_def list_ex_iff)
qed

lemma pending_void_refused:
  assumes "labels_ok (snd tb)" and "void_pending (js_trim labelRef) (snd tb)"
  shows "\<exists>e. voidLabel carrier rootRef actor labelRef others tb = (Inl e, [], tb)"
proof (cases "safeRef labelRef ''labelRef'' 100")
  case (Inr l)
  then have "js_trim l = js_trim labelRef" by (simp add: safeRef_Inr)
  then have "access_target (js_trim l) m [ActiveLabel, VoidFailed] (snd tb) = None" for m
    using pending_not_targeted [OF assms] by simp
  then have "\<exists>e. requestVoid (void_request rootRef l actor) (fst tb) (snd tb) = (Inl e, snd tb)"
    by (auto simp: requestVoid_def log_access_def void_request_def access_event_def access_args_def safeRef_Inr sbind_Inr_iff
        split: sum.splits)
  then show ?thesis using Inr by (auto simp: voidLabel_def)
qed (simp add: voidLabel_def)

lemma pending_download_refused:
  assumes "labels_ok (snd tb)" and "void_pending (js_trim (dw_labelRef i)) (snd tb)"
  shows "\<exists>e. createDownload env uuid i clk others tb = (Inl e, [], tb)"
proof -
  have "ld_status d = VoidPending" if d: "getDownloadDescriptor l m (snd tb) = Inr d" and l: "safeRef (dw_labelRef i) ''labelRef'' 100 = Inr l" for l m d
  proof -
    from d obtain r mr y where y: "first_row (filter (owned_label r mr (snd tb)) (sd_labels (snd tb))) = Some y"
      and r: "r = js_trim (dw_labelRef i)" and st: "ld_status d = lb_status y"
      using l by (auto simp: getDownloadDescriptor_def label_refs_def sbind_Inr_iff safeRef_Inr split: option.splits)
    have "y \<in> set (sd_labels (snd tb))" "lb_label_ref y = js_trim (dw_labelRef i)"
      using first_row_filter [OF y] r by (simp_all add: owned_label_def)
    moreover obtain x where "x \<in> set (sd_labels (snd tb))" "lb_label_ref x = js_trim (dw_labelRef i)" "lb_status x = VoidPending"
      using assms(2) by (rule void_pendingE)
    ultimately have "x = y" using labels_okD(2) [OF assms(1)] by (metis distinct_map inj_onD)
    with \<open>lb_status x = VoidPending\<close> st show ?thesis by simp
  qed
  then show ?thesis
    by (auto simp: createDownload_def Let_def label_refs_def sbind_Inr_iff sbind_def split: sum.splits)
qed


subsection \<open>Stored labels\<close>

lemma storeLabel_cases:
  assumes "storeLabel env uuid i others tb = (Inr sm, objs, tb')"
  obtains refs obj version m db where "store_refs i = Inr refs" and "obj = label_object env uuid i" and "objs = [obj]"
    and "le_put env obj = Inr version" and "managed_of env obj version i refs = Inr m"
    and "saveManagedLabel m (fst (run_ops others tb)) (snd (run_ops others tb)) = (Inr (), db)"
    and "snd tb' = db" and "lm_labelRef sm = fst refs"
  using assms by (auto simp: storeLabel_def Let_def split: sum.splits prod.splits)

lemma saved_rows:
  assumes "saveManagedLabel m now db = (Inr (), db')"
  obtains a sid pid where "managed_arguments m = Inr a"
    and "sd_labels db' = sd_labels db @ [managed_label m a (sd_next_id db) sid pid now]"
proof (cases "managed_arguments m")
  case (Inr a)
  show ?thesis
  proof (cases "managed_target a db")
    case (Some t)
    then obtain s pid where t: "managed_target a db = Some (s, pid)" by (cases t) auto
    show ?thesis
      by (rule that [OF Inr, of "sh_id s" pid]) (use assms Inr t in \<open>auto simp: saveManagedLabel_def Let_def split: if_splits\<close>)
  qed (use assms Inr in \<open>simp add: saveManagedLabel_def Let_def\<close>)
qed (use assms in \<open>simp add: saveManagedLabel_def\<close>)

text \<open>C28. A label that is reported as stored has its object and its row: the object holds the bytes given, and the row is
  active, under the reference reported, and carries the object's key, the digest of the bytes and their number.\<close>

theorem stored_label_matches_object:
  assumes "storeLabel env uuid i others tb = (Inr sm, objs, tb')"
  shows "\<exists>obj l. objs = [obj] \<and> so_body obj = sl_bytes i \<and> so_contentType obj = contentType (sl_format i)
    \<and> l \<in> set (sd_labels (snd tb')) \<and> lb_label_ref l = lm_labelRef sm \<and> lb_status l = ActiveLabel
    \<and> lb_artifact_key l = js_trim (so_objectKey obj) \<and> lb_artifact_sha256 l = le_sha256 env (sl_bytes i)
    \<and> lb_artifact_size l = Some (int (length (sl_bytes i))) \<and> lb_format l = sl_format i \<and> sl_format i \<in> {Pdf, Zpl}"
  using assms
proof (rule storeLabel_cases)
  fix refs obj version m db
  assume refs: "store_refs i = Inr refs" and obj: "obj = label_object env uuid i" "objs = [obj]"
    and m: "managed_of env obj version i refs = Inr m"
    and save: "saveManagedLabel m (fst (run_ops others tb)) (snd (run_ops others tb)) = (Inr (), db)"
    and db: "snd tb' = db" and sm: "lm_labelRef sm = fst refs"
  from save obtain a sid pid where a: "managed_arguments m = Inr a"
    and rows: "sd_labels db = sd_labels (snd (run_ops others tb))
      @ [managed_label m a (sd_next_id (snd (run_ops others tb))) sid pid (fst (run_ops others tb))]" (is "_ = _ @ [?l]")
    by (rule saved_rows)
  have ma: "ma_labelRef a = js_trim (ml_labelRef m)" "ma_objectKey a = js_trim (ml_objectKey m)"
    using a by (auto simp: managed_arguments_def sbind_Inr_iff safeRef_Inr required_Inr)
  have ml: "ml_labelRef m = fst refs" "ml_objectKey m = so_objectKey obj" "ml_artifactSha256 m = so_sha256 obj"
    "ml_artifactSizeBytes m = int (length (so_body obj))" "ml_format m = sl_format i"
    using m by (auto simp: managed_of_def sbind_Inr_iff split: prod.splits)
  have "js_trim (fst refs) = fst refs" "sl_format i \<in> {Pdf, Zpl}"
    using refs by (auto simp: store_refs_def sbind_Inr_iff safeRef_Inr split: if_splits)
  then show ?thesis
    using rows by (intro exI [of _ obj] exI [of _ ?l]) (simp add: obj ma ml sm db managed_label_def label_object_def)
qed

text \<open>The object is written before the tracking number, the merchant's reference and the retention time are looked at:
  a call that fails for them leaves an object of the customer's data to which no row refers.\<close>

theorem refused_label_leaves_object:
  assumes "store_refs i = Inr refs" and "le_put env (label_object env uuid i) = Inr version" and "js_trim (sl_trackingNumber i) = []"
  shows "\<exists>e. storeLabel env uuid i others tb = (Inl e, [label_object env uuid i], run_ops others tb)"
proof -
  have "managed_of env (label_object env uuid i) version i refs \<noteq> Inr m" for m
    using assms(3) by (auto simp: managed_of_def sbind_Inr_iff required_Inr split: prod.splits)
  then show ?thesis using assms(1,2) by (auto simp: storeLabel_def Let_def split: sum.splits)
qed

subsection \<open>Samples\<close>

definition label_bucket :: label_env where
  "label_bucket = \<lparr>le_provider = AwsS3, le_put = (\<lambda>_. Inr None), le_sign = (\<lambda>r. Inr (''https://bucket/'' @ sr_objectKey r)),
     le_sha256 = (\<lambda>_. replicate 64 (CHR ''a'')), le_signedUrlSeconds = None\<rparr>"

definition shop :: label_actor where "shop = \<lparr>la_merchantRef = ''m'', la_actorRef = ''clerk''\<rparr>"

definition pdf_label :: "string \<Rightarrow> store_label_input" where
  "pdf_label t = \<lparr>sl_actor = shop, sl_labelRef = ''l1'', sl_shipmentRef = ''s7'', sl_packageRef = None, sl_carrier = ''ups'',
     sl_trackingNumber = t, sl_format = Pdf, sl_bytes = ''bytes'', sl_retentionUntil = None\<rparr>"

definition with_label :: ship_db where "with_label = snd (snd (snd (storeLabel label_bucket ''u'' (pdf_label ''1Z'') [] (1000, ship0))))"

lemma storing: "storeLabel label_bucket ''u'' (pdf_label ''1Z'') [] (1000, ship0)
    = (Inr \<lparr>lm_labelRef = ''l1'', lm_shipmentRef = ''s7'', lm_packageRef = None, lm_format = Pdf\<rparr>,
       [label_object label_bucket ''u'' (pdf_label ''1Z'')], (1000, with_label))"
  unfolding with_label_def by code_simp

theorem stored_label_matches_object_witness:
  "\<exists>l. l \<in> set (sd_labels with_label) \<and> lb_label_ref l = ''l1'' \<and> lb_artifact_size l = Some 5"
  using stored_label_matches_object [OF storing] by (auto simp: pdf_label_def)

theorem refused_label_leaves_object_witness:
  "\<exists>e. storeLabel label_bucket ''u'' (pdf_label '' '') [] (1000, ship0)
    = (Inl e, [label_object label_bucket ''u'' (pdf_label '' '')], run_ops [] (1000, ship0))"
proof (rule refused_label_leaves_object)
  show "store_refs (pdf_label '' '') = Inr (''l1'', ''s7'', None)" by code_simp
  show "le_put label_bucket (label_object label_bucket ''u'' (pdf_label '' '')) = Inr None" by (simp add: label_bucket_def)
  show "js_trim (sl_trackingNumber (pdf_label '' '')) = []" by code_simp
qed

definition ask_label :: download_input where
  "ask_label = \<lparr>dw_actor = shop, dw_labelRef = ''l1'', dw_purpose = Some ReprintPurpose, dw_expiresInSeconds = Some 900\<rparr>"

definition downloaded :: ship_db where
  "downloaded = snd (snd (snd (createDownload label_bucket ''w'' ask_label 2000 [] (2000, with_label))))"

lemma downloading: "createDownload label_bucket ''w'' ask_label 2000 [] (2000, with_label)
    = (Inr \<lparr>sg_labelRef = ''l1'', sg_format = Pdf, sg_purpose = ReprintPurpose,
         sg_downloadUrl = ''https://bucket/restricted-labels/u.pdf'', sg_expiresAt = 302000\<rparr>,
       [sign_of label_bucket \<lparr>ld_objectKey = ''restricted-labels/u.pdf'', ld_objectVersionRef = None, ld_format = Pdf, ld_status = ActiveLabel\<rparr> (Some 900)],
       (2000, downloaded))"
  unfolding downloaded_def by code_simp


definition store_input :: managed_input where
  "store_input = \<lparr>ml_labelRef = ''l1'', ml_shipmentRef = ''s7'', ml_packageRef = None, ml_merchantRef = ''m'', ml_carrier = ''ups'',
     ml_trackingNumber = ''1Z'', ml_format = Pdf, ml_objectStoreProvider = AwsS3, ml_objectKey = ''k'', ml_objectVersionRef = None,
     ml_artifactSha256 = replicate 64 (CHR ''a''), ml_artifactSizeBytes = 5, ml_retentionUntil = None\<rparr>"

definition label_life :: "ship_op list" where
  "label_life = [Registry (SaveManaged store_input), Registry (RecordAccess (access_event ''e1'' ''l1'' shop) DownloadUrlIssued 60),
     Registry (RecordAccess (access_event ''e2'' ''l1'' shop) ReprintPurpose 60)]"

definition used :: ship_db where "used = snd (run_ops label_life (1000, ship0))"

lemma using_label: "run_ops label_life (1000, ship0) = (1000, used)"
  unfolding used_def by (simp add: label_life_def exec_def)

lemma used_counts: "map (\<lambda>l. (lb_download_count l, lb_print_count l, lb_reprint_count l)) (sd_labels used) = [(2, 1, 1)]"
  unfolding used_def by code_simp

theorem access_counts_agree_witness: "list_all (\<lambda>l. counted used l \<and> lifecycle_ok l) (sd_labels used)
    \<and> map (\<lambda>l. (lb_download_count l, lb_print_count l, lb_reprint_count l)) (sd_labels used) = [(2, 1, 1)]"
proof -
  have "sd_labels ship0 = []" "sd_accesses ship0 = []" "snd (run_ops label_life (1000, ship0)) = used"
    by (simp_all add: ship0_def used_def)
  from access_counts_agree [OF this] used_counts show ?thesis by (simp add: list_all_iff)
qed

definition void_requesting :: access_input where "void_requesting = void_request ''r'' ''l1'' shop"

definition voiding :: ship_db where "voiding = snd (requestVoid void_requesting 1000 used)"

lemma requesting: "requestVoid void_requesting 1000 used = (Inr (), voiding)"
  unfolding voiding_def used_def by code_simp


end
