(* ===== verification/Secret_Vault.thy ===== *)
theory Secret_Vault
  imports Secret_Refs
begin

section \<open>The vaults of the cloud providers\<close>

text \<open>
  \<open>MultiCloudCarrierSecretVault\<close> of \<open>src/src/server/shipping/multiCloudCarrierSecretVault.ts\<close>: a carrier's credential is
  written under a name made of the connection's reference, or as a new version of the secret that is named. The
  clients of the providers are parameters; the commands they are sent are part of the result, without the descriptions
  and tags that are the same for all. An error is its name.
\<close>

datatype vault_command =
    AwsPut string string
  | AwsCreate string string
  | GcpCreate string string
  | GcpAdd string string
  | AzureSet string string

record vault_options =
  vo_awsNamePrefix :: "string option"
  vo_gcpProject :: "string option"
  vo_gcpNamePrefix :: "string option"
  vo_azureVaultUrl :: "string option"
  vo_azureNamePrefix :: "string option"

record vault_clients =
  vc_aws :: "vault_command \<Rightarrow> string + (string option \<times> string option)"
  vc_gcpCreate :: "vault_command \<Rightarrow> string + string option"
  vc_gcpAdd :: "vault_command \<Rightarrow> string + string option"
  vc_azure :: "vault_command \<Rightarrow> string + string option"

record write_request =
  wr_provider :: secret_provider
  wr_connectionRef :: string
  wr_currentSecretRef :: "string option"
  wr_secretValue :: string

definition nonempty_ref :: "string option \<Rightarrow> string option" where
  "nonempty_ref v = (if v = Some [] then None else v)"

subsection \<open>Names\<close>

definition dashed :: "(char \<Rightarrow> bool) \<Rightarrow> string \<Rightarrow> string" where
  "dashed ok s = map (\<lambda>c. if ok c then c else CHR ''-'') s"

definition connectionSecretName :: "string \<Rightarrow> string + string" where
  "connectionSecretName connectionRef = (let normalized = take 100 (dashed id_char (js_trim connectionRef))
     in if normalized = [] then Inl ''TypeError'' else Inr normalized)"

definition returned :: "string option \<Rightarrow> string + string" where
  "returned value = (case value of None \<Rightarrow> Inl ''Error'' | Some t \<Rightarrow> if js_trim t = [] then Inl ''Error'' else Inr (js_trim t))"

text \<open>The group of a pattern: what comes before the rest that the tail of the pattern takes up whole.\<close>

definition gcp_version_tail :: re where
  "gcp_version_tail = opt (seq [exact ''/versions/'', at_least 1 path_char])"

definition gcpSecretParent :: "string \<Rightarrow> string + string" where
  "gcpSecretParent r = (case filter (\<lambda>(_, rest). re_full gcp_version_tail rest) (re_match gcp_secret (None, r)) of
     [] \<Rightarrow> Inl ''TypeError'' | (_, rest) # _ \<Rightarrow> Inr (take (length r - length rest) r))"

definition azureSecretName :: "string \<Rightarrow> string + string" where
  "azureSecretName r = (case filter (\<lambda>(_, rest). rest \<noteq> [] \<and> path_char (hd rest)) (re_match azure_host (None, r)) of
     [] \<Rightarrow> Inl ''TypeError'' | (_, rest) # _ \<Rightarrow> Inr (takeWhile path_char rest))"

definition given_or :: "string option \<Rightarrow> string \<Rightarrow> string" where
  "given_or v d = (case v of None \<Rightarrow> d | Some t \<Rightarrow> if t = [] then d else t)"

definition without_slash :: "string \<Rightarrow> string" where
  "without_slash s = (if s \<noteq> [] \<and> last s = CHR ''/'' then butlast s else s)"

definition aws_name :: "vault_options \<Rightarrow> string \<Rightarrow> string" where
  "aws_name opts name = without_slash (given_or (vo_awsNamePrefix opts) ''veygrit-ship/carriers'') @ ''/'' @ name"

definition gcp_secret_id :: "vault_options \<Rightarrow> string \<Rightarrow> string" where
  "gcp_secret_id opts name = take 255 (dashed id_char (given_or (vo_gcpNamePrefix opts) ''veygrit-ship'') @ ''-'' @ name)"

definition azure_char :: "char \<Rightarrow> bool" where
  "azure_char c \<longleftrightarrow> id_char c \<and> c \<noteq> CHR ''_''"

definition azure_name :: "vault_options \<Rightarrow> string \<Rightarrow> string" where
  "azure_name opts name = take 127 (dashed azure_char (given_or (vo_azureNamePrefix opts) ''veygrit-ship'') @ ''-''
     @ dashed (\<lambda>c. c \<noteq> CHR ''_'') name)"

subsection \<open>Writing a secret\<close>

text \<open>Each writer gives the reference and the version, or the name of the error, and the commands it sent. The value in
  an Azure vault is the base64 text of the bytes, which is a parameter.\<close>

definition writeAws :: "vault_options \<Rightarrow> vault_clients \<Rightarrow> write_request \<Rightarrow> (string + string \<times> string) \<times> vault_command list" where
  "writeAws opts cl i =
     (let sent = (\<lambda>c. (sbind (vc_aws cl c) (\<lambda>(arn, v). sbind (returned arn) (\<lambda>a. sbind (returned v) (\<lambda>x. Inr (a, x)))), [c]))
      in case nonempty_ref (wr_currentSecretRef i) of
        Some r \<Rightarrow> sent (AwsPut r (wr_secretValue i))
      | None \<Rightarrow> (case connectionSecretName (wr_connectionRef i) of
          Inl e \<Rightarrow> (Inl e, [])
        | Inr n \<Rightarrow> sent (AwsCreate (aws_name opts n) (wr_secretValue i))))"

definition gcp_parent :: "vault_options \<Rightarrow> vault_clients \<Rightarrow> write_request \<Rightarrow> (string + string) \<times> vault_command list" where
  "gcp_parent opts cl i = (case nonempty_ref (wr_currentSecretRef i) of
     Some r \<Rightarrow> (gcpSecretParent r, [])
   | None \<Rightarrow> (case map_option js_trim (vo_gcpProject opts) of
       Some (p # ps) \<Rightarrow> (case connectionSecretName (wr_connectionRef i) of
           Inl e \<Rightarrow> (Inl e, [])
         | Inr n \<Rightarrow> (let c = GcpCreate (''projects/'' @ p # ps) (gcp_secret_id opts n)
             in (sbind (vc_gcpCreate cl c) returned, [c])))
     | _ \<Rightarrow> (Inl ''Error'', [])))"

definition writeGcp :: "vault_options \<Rightarrow> vault_clients \<Rightarrow> write_request \<Rightarrow> (string + string \<times> string) \<times> vault_command list" where
  "writeGcp opts cl i = (case gcp_parent opts cl i of
     (Inl e, cs) \<Rightarrow> (Inl e, cs)
   | (Inr parent, cs) \<Rightarrow> (let c = GcpAdd parent (wr_secretValue i)
       in (sbind (vc_gcpAdd cl c) (\<lambda>v. sbind (returned v) (\<lambda>x. Inr (x, x))), cs @ [c])))"

definition writeAzure ::
  "(string \<Rightarrow> string) \<Rightarrow> vault_options \<Rightarrow> vault_clients \<Rightarrow> write_request \<Rightarrow> (string + string \<times> string) \<times> vault_command list" where
  "writeAzure base64 opts cl i = (case map_option js_trim (vo_azureVaultUrl opts) of
     Some (_ # _) \<Rightarrow>
      (case (case nonempty_ref (wr_currentSecretRef i) of
          Some r \<Rightarrow> azureSecretName r
        | None \<Rightarrow> sbind (connectionSecretName (wr_connectionRef i)) (\<lambda>n. Inr (azure_name opts n))) of
         Inl e \<Rightarrow> (Inl e, [])
       | Inr name \<Rightarrow> (let c = AzureSet name (base64 (wr_secretValue i))
           in (sbind (vc_azure cl c) (\<lambda>v. sbind (returned v) (\<lambda>x. Inr (x, x))), [c])))
   | _ \<Rightarrow> (Inl ''Error'', []))"

definition writeSecret ::
  "(string \<Rightarrow> string) \<Rightarrow> vault_options \<Rightarrow> vault_clients \<Rightarrow> write_request \<Rightarrow> (string + string \<times> string) \<times> vault_command list" where
  "writeSecret base64 opts cl i = (case wr_provider i of
     AwsSecretsManager \<Rightarrow> writeAws opts cl i
   | GcpSecretManager \<Rightarrow> writeGcp opts cl i
   | AzureKeyVault \<Rightarrow> writeAzure base64 opts cl i
   | ExternalVault \<Rightarrow> (Inl ''Error'', []))"

end
