(* ===== verification/Carrier_Secrets.thy ===== *)
theory Carrier_Secrets
  imports Secret_Vault Ship_Steps
begin

section \<open>The carrier credentials of a merchant\<close>

text \<open>
  \<open>CarrierSecretManagementService\<close> of \<open>src/src/server/shipping/carrierSecretManagement.ts\<close>: an administrator who has just
  passed a second factor writes a carrier's credential to the vault; the tables keep references, versions and the last
  four characters. The vault is a parameter, the requests it gets are part of the result, and others work on the
  tables while it is awaited and between the two records of a failure.
\<close>

subsection \<open>The administrator\<close>

record admin_context =
  ad_actorRef :: string
  ad_merchantRef :: string
  ad_sessionRef :: string
  ad_roles :: "string list"
  ad_methods :: "string list"
  ad_mfaVerifiedAt :: "int option"

datatype secret_error = Invalid js_error | NotAuthorized string | OperationFailed string

definition checked :: "'a result \<Rightarrow> secret_error + 'a" where
  "checked r = (case r of Inl e \<Rightarrow> Inl (Invalid e) | Inr x \<Rightarrow> Inr x)"

definition secretLast4 :: "string \<Rightarrow> string result" where
  "secretLast4 value =
     (if length value < 4 then Inl (JsTypeError ''Carrier credential must contain at least four bytes.'')
      else let last4 = drop (length value - 4) value
        in if list_all id_char last4 then Inr last4
           else Inl (JsTypeError ''The final four credential characters must be safe display characters.''))"

definition mfaMethod :: "string list \<Rightarrow> mfa_method option" where
  "mfaMethod methods = (let has = (\<lambda>m. list_ex (\<lambda>v. js_lower v = m) methods)
     in if has ''webauthn'' then Some Webauthn
        else if has ''passkey'' then Some Passkey
        else if has ''security_key'' \<or> has ''hwk'' then Some SecurityKey
        else if has ''totp'' \<or> has ''otp'' then Some Totp
        else if has ''mfa'' then Some OtherMfa
        else None)"

definition requireFreshAdminMfa :: "(string \<Rightarrow> string) \<Rightarrow> admin_context \<Rightarrow> int \<Rightarrow> int \<Rightarrow> secret_error + mfa_method \<times> string" where
  "requireFreshAdminMfa sha context now maximumAgeMs =
     sbind (checked (required (ad_actorRef context) ''actorRef'' 200)) (\<lambda>_.
     sbind (checked (required (ad_merchantRef context) ''merchantRef'' 100)) (\<lambda>_.
     sbind (checked (required (ad_sessionRef context) ''sessionRef'' 500)) (\<lambda>sessionRef.
     if \<not> list_ex (\<lambda>role. role = ''admin'' \<or> role = ''security_admin'') (ad_roles context)
     then Inl (NotAuthorized ''admin_role_required'')
     else case mfaMethod (ad_methods context) of
       None \<Rightarrow> Inl (NotAuthorized ''mfa_required'')
     | Some mfa \<Rightarrow> sbind (checked (iso_date (ad_mfaVerifiedAt context) ''mfaVerifiedAt'')) (\<lambda>verifiedAt.
         if now + 60000 < verifiedAt \<or> maximumAgeMs < now - verifiedAt then Inl (NotAuthorized ''fresh_mfa_required'')
         else Inr (mfa, sha sessionRef)))))"

text \<open>The code of a failure is made of the name of what was thrown.\<close>

definition failureCode :: "string \<Rightarrow> string" where
  "failureCode name = ''vault_'' @ js_lower (take 70 (map (\<lambda>c. if id_char c then c else CHR ''_'') name))"

fun error_name :: "js_error \<Rightarrow> string" where
  "error_name (JsError m) = ''Error''"
| "error_name (JsTypeError m) = ''TypeError''"

subsection \<open>Writing a credential\<close>

record credential_input =
  ki_admin :: admin_context
  ki_connectionRef :: string
  ki_provider :: secret_provider
  ki_secretValue :: string
  ki_currentSecretRef :: "string option"
  ki_rotationDays :: "int option"

record secret_env =
  se_vault :: "write_request \<Rightarrow> string + string \<times> string"
  se_sha256 :: "string \<Rightarrow> string"
  se_defaultRotationDays :: "int option"

record masked_credential =
  mc_connectionRef :: string
  mc_provider :: secret_provider
  mc_displayLast4 :: string
  mc_rotatedAt :: int
  mc_nextRotationAt :: int

definition current_ref :: "credential_input \<Rightarrow> string option result" where
  "current_ref i = (case ki_currentSecretRef i of None \<Rightarrow> Inr None
     | Some t \<Rightarrow> if t = [] then Inr None
         else sbind (validateProviderSecretReference (ki_provider i) t) (\<lambda>r. Inr (Some r)))"

text \<open>What is decided before the vault is asked: the request for it, and how the write will be recorded.\<close>

definition prepared :: "secret_env \<Rightarrow> string \<Rightarrow> credential_operation \<Rightarrow> credential_input \<Rightarrow> int \<Rightarrow>
    secret_error + write_request \<times> rotation_input \<times> string" where
  "prepared env uuid operation i clk =
     sbind (requireFreshAdminMfa (se_sha256 env) (ki_admin i) clk (10 * 60000)) (\<lambda>(mfa, sessionHash).
     sbind (checked (required (ki_connectionRef i) ''connectionRef'' 100)) (\<lambda>connectionRef.
     sbind (checked (current_ref i)) (\<lambda>current.
     if operation = RotateCredential \<and> current = None
     then Inl (Invalid (JsTypeError ''currentSecretRef is required for rotation.''))
     else sbind (checked (secretLast4 (ki_secretValue i))) (\<lambda>last4.
       Inr (\<lparr>wr_provider = ki_provider i, wr_connectionRef = connectionRef, wr_currentSecretRef = current,
             wr_secretValue = ki_secretValue i\<rparr>,
           \<lparr>ri_rotationRef = ''rotation_'' @ uuid, ri_merchantRef = ad_merchantRef (ki_admin i), ri_connectionRef = connectionRef,
             ri_provider = ki_provider i, ri_operation = operation, ri_actorRef = ad_actorRef (ki_admin i),
             ri_mfaMethod = mfa, ri_mfaSessionRefHash = sessionHash, ri_requestedAt = clk\<rparr>, last4)))))"

definition rotation_days :: "secret_env \<Rightarrow> credential_input \<Rightarrow> int" where
  "rotation_days env i = max 1 (min 365 (case ki_rotationDays i of Some d \<Rightarrow> d
     | None \<Rightarrow> (case se_defaultRotationDays env of Some d \<Rightarrow> d | None \<Rightarrow> 90)))"

text \<open>The vault's answer, validated and recorded; what goes wrong is the name of the error.\<close>

definition recorded :: "secret_env \<Rightarrow> credential_input \<Rightarrow> rotation_input \<Rightarrow> string \<Rightarrow> string + string \<times> string \<Rightarrow> int \<times> ship_db \<Rightarrow>
    (string + credential_record) \<times> ship_db" where
  "recorded env i ri last4 answer tb = (case answer of
     Inl name \<Rightarrow> (Inl name, snd tb)
   | Inr (secretRef, versionRef) \<Rightarrow>
      (case sbind (validateProviderSecretReference (ki_provider i) secretRef) (\<lambda>s.
          sbind (validateProviderVersionReference (ki_provider i) versionRef) (\<lambda>v. Inr (s, v))) of
         Inl e \<Rightarrow> (Inl (error_name e), snd tb)
       | Inr (s, v) \<Rightarrow> (case recordSuccess ri \<lparr>sp_secretRef = s, sp_versionRef = v, sp_displayLast4 = last4,
             sp_nextRotationAt = ri_requestedAt ri + rotation_days env i * 86400000\<rparr> (fst tb) (snd tb) of
           (Inl e, db) \<Rightarrow> (Inl (error_name e), db)
         | (Inr r, db) \<Rightarrow> (Inr r, db))))"

definition write_credential ::
  "secret_env \<Rightarrow> string \<Rightarrow> credential_operation \<Rightarrow> credential_input \<Rightarrow> int \<Rightarrow> ship_op list \<Rightarrow> ship_op list \<Rightarrow> int \<times> ship_db \<Rightarrow>
   (secret_error + masked_credential) \<times> write_request list \<times> (int \<times> ship_db)" where
  "write_credential env uuid operation i clk others later tb = (case prepared env uuid operation i clk of
     Inl e \<Rightarrow> (Inl e, [], tb)
   | Inr (req, ri, last4) \<Rightarrow>
      (let answer = se_vault env req; tb1 = run_ops others tb
       in case recorded env i ri last4 answer tb1 of
          (Inr r, db) \<Rightarrow> (Inr \<lparr>mc_connectionRef = cr_connectionRef r, mc_provider = cr_provider r,
              mc_displayLast4 = cr_displayLast4 r, mc_rotatedAt = cr_rotatedAt r, mc_nextRotationAt = cr_nextRotationAt r\<rparr>,
            [req], (fst tb1, db))
        | (Inl name, db) \<Rightarrow>
           (let tb2 = run_ops later (fst tb1, db)
            in (Inl (OperationFailed (failureCode name)), [req],
                (fst tb2, snd (recordFailure ri (failureCode name) (fst tb2) (snd tb2)))))))"

definition saveCredentials ::
  "secret_env \<Rightarrow> string \<Rightarrow> credential_input \<Rightarrow> int \<Rightarrow> ship_op list \<Rightarrow> ship_op list \<Rightarrow> int \<times> ship_db \<Rightarrow>
   (secret_error + masked_credential) \<times> write_request list \<times> (int \<times> ship_db)" where
  "saveCredentials env uuid = write_credential env uuid StoreCredential"

definition rotateCredentials ::
  "secret_env \<Rightarrow> string \<Rightarrow> credential_input \<Rightarrow> int \<Rightarrow> ship_op list \<Rightarrow> ship_op list \<Rightarrow> int \<times> ship_db \<Rightarrow>
   (secret_error + masked_credential) \<times> write_request list \<times> (int \<times> ship_db)" where
  "rotateCredentials env uuid = write_credential env uuid RotateCredential"

end
