(* ===== verification/Carrier_Secret_Props.thy ===== *)
theory Carrier_Secret_Props
  imports Carrier_Secrets Ship_Samples
begin

section \<open>What the management of credentials promises\<close>

subsection \<open>Who may write\<close>

lemma checked_Inr: "checked r = Inr x \<longleftrightarrow> r = Inr x"
  by (cases r) (simp_all add: checked_def)

lemma fresh_admin:
  assumes "requireFreshAdminMfa sha ctx now age = Inr (mfa, h)"
  shows "list_ex (\<lambda>role. role = ''admin'' \<or> role = ''security_admin'') (ad_roles ctx) \<and> mfaMethod (ad_methods ctx) = Some mfa
    \<and> (\<exists>t. ad_mfaVerifiedAt ctx = Some t \<and> now - age \<le> t \<and> t \<le> now + 60000)"
  using assms by (auto simp: requireFreshAdminMfa_def sbind_Inr_iff checked_Inr iso_date_def split: if_splits option.splits)

lemma prepared_cases:
  assumes "prepared env uuid operation i clk = Inr (req, ri, last4)"
  obtains mfa h where "requireFreshAdminMfa (se_sha256 env) (ki_admin i) clk 600000 = Inr (mfa, h)"
    and "wr_provider req = ki_provider i" and "wr_connectionRef req = js_trim (ki_connectionRef i)"
    and "wr_secretValue req = ki_secretValue i" and "current_ref i = Inr (wr_currentSecretRef req)"
    and "operation = RotateCredential \<Longrightarrow> wr_currentSecretRef req \<noteq> None"
    and "ri_merchantRef ri = ad_merchantRef (ki_admin i)" and "ri_connectionRef ri = js_trim (ki_connectionRef i)"
    and "ri_requestedAt ri = clk" and "ri_operation ri = operation" and "ri_provider ri = ki_provider i"
    and "last4 = drop (length (ki_secretValue i) - 4) (ki_secretValue i)" and "length last4 = 4"
  using assms
  by (auto simp: prepared_def sbind_Inr_iff checked_Inr required_Inr secretLast4_def Let_def split: if_splits prod.splits)

lemma id_char_no_ws: "id_char c \<Longrightarrow> \<not> js_ws c"
  by (auto simp: id_char_def word_char_def js_ws_def is_upper_char_def is_lower_char_def is_digit_char_def char_in_range_def)

lemma prepared_last4:
  assumes "prepared env uuid operation i clk = Inr (req, ri, last4)"
  shows "js_trim last4 = last4"
proof -
  have "list_all id_char last4"
    using assms by (auto simp: prepared_def sbind_Inr_iff checked_Inr secretLast4_def Let_def split: if_splits prod.splits)
  then show ?thesis by (intro js_trim_id) (auto simp: list_all_iff id_char_no_ws)
qed

text \<open>C12. The vault is asked at most once in a call, and only for an administrator who passed a second factor within the
  last ten minutes; a rotation names the secret it replaces, and every secret that is named is one of the provider's form.\<close>

theorem vault_needs_fresh_admin:
  assumes "write_credential env uuid operation i clk others later tb = (r, reqs, tb')" and "reqs \<noteq> []"
  shows "list_ex (\<lambda>role. role = ''admin'' \<or> role = ''security_admin'') (ad_roles (ki_admin i))
    \<and> mfaMethod (ad_methods (ki_admin i)) \<noteq> None
    \<and> (\<exists>t. ad_mfaVerifiedAt (ki_admin i) = Some t \<and> clk - 600000 \<le> t \<and> t \<le> clk + 60000)
    \<and> (\<exists>req. reqs = [req] \<and> wr_provider req = ki_provider i \<and> wr_secretValue req = ki_secretValue i
        \<and> \<not> (operation = RotateCredential \<and> wr_currentSecretRef req = None)
        \<and> (case wr_currentSecretRef req of None \<Rightarrow> True | Some s \<Rightarrow> re_full (secret_pattern (ki_provider i)) s))"
proof (cases "prepared env uuid operation i clk")
  case (Inr p)
  obtain req ri last4 where p: "prepared env uuid operation i clk = Inr (req, ri, last4)" using Inr by (cases p) auto
  have reqs: "reqs = [req]" using assms p by (auto simp: write_credential_def Let_def split: prod.splits sum.splits)
  from p show ?thesis
  proof (rule prepared_cases)
    fix mfa h
    assume fresh: "requireFreshAdminMfa (se_sha256 env) (ki_admin i) clk 600000 = Inr (mfa, h)"
      and req: "wr_provider req = ki_provider i" "wr_secretValue req = ki_secretValue i" "current_ref i = Inr (wr_currentSecretRef req)"
        "operation = RotateCredential \<Longrightarrow> wr_currentSecretRef req \<noteq> None"
    have "case wr_currentSecretRef req of None \<Rightarrow> True | Some s \<Rightarrow> re_full (secret_pattern (ki_provider i)) s"
      using req(3) by (auto simp: current_ref_def validateProviderSecretReference_def sbind_Inr_iff split: option.splits if_splits)
    then show ?thesis using fresh_admin [OF fresh] req reqs by auto
  qed
qed (use assms in \<open>simp add: write_credential_def\<close>)

subsection \<open>What is recorded\<close>

lemma recordSuccess_cases:
  assumes "recordSuccess ri p now db = (Inr m, db')"
  obtains a c where "success_arguments ri p = Inr a" and "usable_connection (su_merchantRef a) (su_connectionRef a) db = Some c"
    and "\<not> rotation_refused (success_row ri a c now) (sd_rotations db)"
    and "m = \<lparr>cr_connectionRef = cn_connection_ref c, cr_provider = ri_provider ri, cr_displayLast4 = su_displayLast4 a,
        cr_rotatedAt = ri_requestedAt ri, cr_nextRotationAt = sp_nextRotationAt p\<rparr>"
    and "db' = db\<lparr>sd_connections := sql_update (\<lambda>x. cn_id x = cn_id c) (rotated_connection ri p a) (sd_connections db),
        sd_rotations := sd_rotations db @ [success_row ri a c now]\<rparr>"
  using assms by (auto simp: recordSuccess_def Let_def split: sum.splits option.splits if_splits)

lemma usable_Some:
  assumes "usable_connection m r db = Some c"
  obtains mr where "mr \<in> set (db_merchants (sd_access db))" and "active_merchant m mr" and "c \<in> set (sd_connections db)"
    and "cn_connection_ref c = r" and "cn_merchant_id c = mr_id mr" and "cn_status c \<noteq> DisabledConnection"
  using assms by (auto simp: usable_connection_def split: option.splits dest!: first_row_filter)


subsection \<open>What is lost\<close>

lemma run_ops_later: "fst s \<le> fst (run_ops ops s)"
  using job_queue.run_clock [of s ops] by (simp add: job_run)

lemma record_too_early:
  assumes "now < ri_requestedAt ri"
  shows "\<exists>e. recordSuccess ri p now db = (Inl e, db)" "snd (recordFailure ri code now db) = db"
  using assms
  by (auto simp: recordSuccess_def recordFailure_def rotation_refused_def success_row_def failure_row_def Let_def
      split: sum.splits option.splits)

text \<open>When the clock of the database is behind that of the service, the ledger's constraint on its times refuses both
  records: the credential in the vault has been replaced, the call fails, and no table shows that anything was done.\<close>

theorem skewed_clock_loses_record:
  assumes "prepared env uuid operation i clk = Inr (req, ri, last4)" and "fst (run_ops later (run_ops others tb)) < clk"
  shows "\<exists>e. write_credential env uuid operation i clk others later tb
    = (Inl (OperationFailed e), [req], run_ops later (run_ops others tb))"
proof -
  have at: "ri_requestedAt ri = clk" using assms(1) by (rule prepared_cases)
  have early: "fst (run_ops others tb) < clk" using run_ops_later [of "run_ops others tb" later] assms(2) by simp
  obtain name where rec: "recorded env i ri last4 (se_vault env req) (run_ops others tb) = (Inl name, snd (run_ops others tb))"
  proof (cases "recorded env i ri last4 (se_vault env req) (run_ops others tb)")
    case (Pair x db)
    then show thesis
      using that record_too_early(1) [of "fst (run_ops others tb)" ri] early at
      by (auto simp: recorded_def split: sum.splits prod.splits) (metis Pair_inject sum.distinct(1))+
  qed
  show ?thesis using assms rec at record_too_early(2) [of "fst (run_ops later (run_ops others tb))" ri]
    by (simp add: write_credential_def Let_def)
qed

subsection \<open>Names in the vaults\<close>

lemma connectionSecretName_plain:
  assumes "list_all id_char r" and "r \<noteq> []" and "length r \<le> 100"
  shows "connectionSecretName r = Inr r"
proof -
  have "js_trim r = r" using assms(1) by (intro js_trim_id) (auto simp: list_all_iff id_char_no_ws)
  moreover have "dashed id_char r = r" using assms(1) by (auto simp: dashed_def list_all_iff map_idI)
  ultimately show ?thesis using assms(2,3) by (simp add: connectionSecretName_def)
qed

text \<open>Two connections with different plain references have different names in the vault of AWS; in that of Azure they have
  the same name when they differ in underscores and hyphens only, so that one's credential becomes a version of the
  other's secret.\<close>

theorem vault_names:
  assumes "list_all id_char r" and "r \<noteq> []" and "length r \<le> 100"
    and "list_all id_char r'" and "r' \<noteq> []" and "length r' \<le> 100"
  shows "(map_sum id (aws_name opts) (connectionSecretName r) = map_sum id (aws_name opts) (connectionSecretName r')) = (r = r')
    \<and> (map (\<lambda>c. if c = CHR ''_'' then CHR ''-'' else c) r = map (\<lambda>c. if c = CHR ''_'' then CHR ''-'' else c) r'
      \<longrightarrow> map_sum id (azure_name opts) (connectionSecretName r) = map_sum id (azure_name opts) (connectionSecretName r'))"
proof -
  have dash: "dashed (\<lambda>c. c \<noteq> CHR ''_'') s = map (\<lambda>c. if c = CHR ''_'' then CHR ''-'' else c) s" for s
    by (auto simp: dashed_def)
  show ?thesis
    unfolding connectionSecretName_plain [OF assms(1-3)] connectionSecretName_plain [OF assms(4-6)]
    by (simp add: aws_name_def azure_name_def dash)
qed

subsection \<open>Samples\<close>

definition shop_admin :: admin_context where
  "shop_admin = \<lparr>ad_actorRef = ''ann'', ad_merchantRef = ''m'', ad_sessionRef = ''sess'', ad_roles = [''admin''],
     ad_methods = [''pwd'', ''TOTP''], ad_mfaVerifiedAt = Some 900000\<rparr>"

definition new_credential :: "string option \<Rightarrow> credential_input" where
  "new_credential current = \<lparr>ki_admin = shop_admin, ki_connectionRef = ''c1'', ki_provider = AwsSecretsManager,
     ki_secretValue = ''s3cr3t-key9'', ki_currentSecretRef = current, ki_rotationDays = None\<rparr>"

abbreviation own_arn :: string where "own_arn \<equiv> ''arn:aws:secretsmanager:x:own''"
abbreviation foreign_arn :: string where "foreign_arn \<equiv> ''arn:aws:secretsmanager:x:foreign''"

definition aws_clients :: vault_clients where
  "aws_clients = \<lparr>vc_aws = (\<lambda>c. case c of AwsPut r v \<Rightarrow> Inr (Some r, Some ''version02'') | _ \<Rightarrow> Inr (Some own_arn, Some ''version01'')),
     vc_gcpCreate = (\<lambda>_. Inl ''Error''), vc_gcpAdd = (\<lambda>_. Inl ''Error''), vc_azure = (\<lambda>_. Inl ''Error'')\<rparr>"

definition aws_options :: vault_options where
  "aws_options = \<lparr>vo_awsNamePrefix = None, vo_gcpProject = None, vo_gcpNamePrefix = None, vo_azureVaultUrl = None, vo_azureNamePrefix = None\<rparr>"

definition aws_env :: secret_env where
  "aws_env = \<lparr>se_vault = (\<lambda>r. fst (writeSecret id aws_options aws_clients r)), se_sha256 = (\<lambda>_. replicate 64 (CHR ''a'')),
     se_defaultRotationDays = None\<rparr>"

definition shop_connection :: "int \<Rightarrow> string \<Rightarrow> int \<Rightarrow> string \<Rightarrow> connection_row" where
  "shop_connection k r m s = \<lparr>cn_id = k, cn_connection_ref = r, cn_merchant_id = m, cn_carrier = ''ups'', cn_status = ActiveConnection,
     cn_token_expires_at = None, cn_next_token_refresh_at = None, cn_failure_count = 0, cn_last_verified_at = None,
     cn_account_alias = ''default'', cn_account_number_last4 = None, cn_credential_secret_ref = s, cn_oauth_scopes = [],
     cn_credential_provider = AwsSecretsManager, cn_credential_version_ref = None, cn_credential_display_last4 = None,
     cn_credential_rotated_at = None, cn_credential_next_rotation_at = None\<rparr>"

definition two_connections :: ship_db where
  "two_connections = ship0\<lparr>sd_connections := [shop_connection 3 ''c1'' 1 own_arn, shop_connection 4 ''c2'' 2 foreign_arn]\<rparr>"

definition after_store :: ship_db where
  "after_store = snd (snd (snd (saveCredentials aws_env ''u'' (new_credential None) 1000000 [] [] (1000000, two_connections))))"

definition store_request :: write_request where
  "store_request = \<lparr>wr_provider = AwsSecretsManager, wr_connectionRef = ''c1'', wr_currentSecretRef = None, wr_secretValue = ''s3cr3t-key9''\<rparr>"

lemma storing_credential: "write_credential aws_env ''u'' StoreCredential (new_credential None) 1000000 [] [] (1000000, two_connections)
    = (Inr \<lparr>mc_connectionRef = ''c1'', mc_provider = AwsSecretsManager, mc_displayLast4 = ''key9'', mc_rotatedAt = 1000000,
         mc_nextRotationAt = 7777000000\<rparr>, [store_request], (1000000, after_store))"
  unfolding after_store_def by code_simp

theorem vault_needs_fresh_admin_witness: "mfaMethod (ad_methods shop_admin) \<noteq> None \<and> ad_mfaVerifiedAt shop_admin = Some 900000"
  using vault_needs_fresh_admin [OF storing_credential] by (auto simp: new_credential_def shop_admin_def)


lemma preparing: "prepared aws_env ''u'' StoreCredential (new_credential None) 1000000
    = Inr (store_request, \<lparr>ri_rotationRef = ''rotation_u'', ri_merchantRef = ''m'', ri_connectionRef = ''c1'', ri_provider = AwsSecretsManager,
        ri_operation = StoreCredential, ri_actorRef = ''ann'', ri_mfaMethod = Totp, ri_mfaSessionRefHash = replicate 64 (CHR ''a''),
        ri_requestedAt = 1000000\<rparr>, ''key9'')"
  by code_simp

theorem skewed_clock_loses_record_witness:
  "\<exists>e. write_credential aws_env ''u'' StoreCredential (new_credential None) 1000000 [] [] (999999, two_connections)
    = (Inl (OperationFailed e), [store_request], run_ops [] (run_ops [] (999999, two_connections)))"
  by (rule skewed_clock_loses_record [OF preparing]) (simp add: run_ops_def)

theorem vault_names_witness:
  "map_sum id (azure_name aws_options) (connectionSecretName ''a_b'') = map_sum id (azure_name aws_options) (connectionSecretName ''a-b'')
    \<and> map_sum id (aws_name aws_options) (connectionSecretName ''a_b'') \<noteq> map_sum id (aws_name aws_options) (connectionSecretName ''a-b'')"
proof -
  have "list_all id_char ''a_b''" "list_all id_char ''a-b''" by code_simp+
  then show ?thesis using vault_names [of "''a_b''" "''a-b''" aws_options] by simp
qed


end
